(* ===== verification/Prelude.thy ===== *)
theory Prelude
  imports Main "HOL-Library.Char_ord" "HOL-Library.List_Lexorder" "HOL-Library.Sublist"
begin

text \<open>
  Shared vocabulary of the development.

  A Go string and a Go byte slice are both sequences of bytes; a \<^typ>\<open>char\<close> of HOL is one of
  256 values, so both are modelled as \<^typ>\<open>string\<close> (\<open>bytes\<close> is the same type under another name).
  The order on strings that \<open>sort.Strings\<close> uses is the bytewise lexicographic order, which is
  the order of \<open>List_Lexorder\<close> over \<open>Char_ord\<close>.

  A Go \<open>error\<close> is kept as the value the code builds: a sentinel of the source, or the format and
  the arguments of the \<open>fmt.Errorf\<close> (\<open>errors.New\<close>) call that made it.  An argument printed with
  \<open>%w\<close> is wrapped in \<open>W\<close>; \<open>errors.Is\<close> walks exactly those, and not an error printed with \<open>%v\<close>, which is in \<open>V\<close>.  A fallible function returns a sum with
  the error on the left.  A Go map that is iterated is an association list with distinct keys.
\<close>

named_theorems res_simps \<open>equations that turn a successful run into the conditions it met\<close>
named_theorems wf_intros \<open>introduction rules of the well-formedness predicates\<close>

type_synonym bytes = "char list"

section \<open>Errors\<close>

datatype sentinel =
    ErrDuplicateProvider | ErrProviderNotFound | ErrStagingNotSupported
  | ErrDiscoveryFamilyNotFound | ErrInvalidTarget | ErrInvalidTargetOption
  | ErrInvalidSecretInput | ErrInvalidDiscoveryFamily
  | ErrInvalidPolicy | ErrInvalidCatalog | ErrSelectionCanceled
  | ContextCanceled | ContextDeadlineExceeded
  | OsErrNotExist | OsErrPermission | UnixENOEXEC | IoEOF

datatype go_error = Sentinel sentinel | Errorf string "fmt_arg list"
  and fmt_arg = W go_error | V go_error | S string | D int

fun errors_is :: "go_error \<Rightarrow> sentinel \<Rightarrow> bool"
  and args_is :: "fmt_arg list \<Rightarrow> sentinel \<Rightarrow> bool" where
  "errors_is (Sentinel x) s = (x = s)"
| "errors_is (Errorf f as) s = args_is as s"
| "args_is [] s = False"
| "args_is (W e # as) s = (errors_is e s \<or> args_is as s)"
| "args_is (V e # as) s = args_is as s"
| "args_is (S x # as) s = args_is as s"
| "args_is (D n # as) s = args_is as s"

text \<open>The strings an error message can show: the arguments of its formats, wrapped errors included.\<close>

fun error_strings :: "go_error \<Rightarrow> string set"
  and args_strings :: "fmt_arg list \<Rightarrow> string set" where
  "error_strings (Sentinel x) = {}"
| "error_strings (Errorf f as) = args_strings as"
| "args_strings [] = {}"
| "args_strings (W e # as) = error_strings e \<union> args_strings as"
| "args_strings (V e # as) = error_strings e \<union> args_strings as"
| "args_strings (S x # as) = insert x (args_strings as)"
| "args_strings (D n # as) = args_strings as"

abbreviation errors_New :: "string \<Rightarrow> go_error" where
  "errors_New msg \<equiv> Errorf msg []"

section \<open>Fallible results\<close>

type_synonym 'a result = "go_error + 'a"

text \<open>
  \<open>x, err := m; if err != nil { return err }; k x\<close>, and the same with the error wrapped first.
\<close>

definition and_then :: "'e + 'a \<Rightarrow> ('a \<Rightarrow> 'e + 'b) \<Rightarrow> 'e + 'b" where
  "and_then m k = (case m of Inl e \<Rightarrow> Inl e | Inr x \<Rightarrow> k x)"

definition map_err :: "('e \<Rightarrow> 'f) \<Rightarrow> 'e + 'a \<Rightarrow> 'f + 'a" where
  "map_err f m = (case m of Inl e \<Rightarrow> Inl (f e) | Inr x \<Rightarrow> Inr x)"

text \<open>A nil interface or function field means the default.\<close>

definition or_default :: "'a option \<Rightarrow> 'a \<Rightarrow> 'a" where
  "or_default o' d = (case o' of None \<Rightarrow> d | Some x \<Rightarrow> x)"

text \<open>\<open>for _, x := range xs { if err := f(x); err != nil { return err } }\<close>\<close>

fun for_each :: "('a \<Rightarrow> 'e + unit) \<Rightarrow> 'a list \<Rightarrow> 'e + unit" where
  "for_each f [] = Inr ()"
| "for_each f (x # xs) = and_then (f x) (\<lambda>_. for_each f xs)"

lemma or_default_simps [simp]: "or_default (Some x) d = x" "or_default None d = d"
  by (simp_all add: or_default_def)

lemma and_then_simps [simp]:
  "and_then (Inl e) k = Inl e"
  "and_then (Inr x) k = k x"
  by (simp_all add: and_then_def)

lemma and_then_eq_Inr [simp, res_simps]:
  "(and_then m k = Inr y) \<longleftrightarrow> (\<exists>x. m = Inr x \<and> k x = Inr y)"
  by (cases m) simp_all

lemma and_then_eq_Inl [res_simps]:
  "(and_then m k = Inl e) \<longleftrightarrow> (m = Inl e \<or> (\<exists>x. m = Inr x \<and> k x = Inl e))"
  by (cases m) simp_all

lemma and_then_assoc:
  "and_then (and_then m f) g = and_then m (\<lambda>x. and_then (f x) g)"
  by (cases m) simp_all

lemma map_err_simps [simp]:
  "map_err f (Inl e) = Inl (f e)"
  "map_err f (Inr x) = Inr x"
  by (simp_all add: map_err_def)

lemma map_err_eq_Inr [simp, res_simps]: "(map_err f m = Inr x) \<longleftrightarrow> m = Inr x"
  by (cases m) simp_all

lemma map_err_eq_Inl [res_simps]: "(map_err f m = Inl e) \<longleftrightarrow> (\<exists>d. m = Inl d \<and> e = f d)"
  by (cases m) auto

lemma if_Inl_eq_Inr [simp, res_simps]:
  "((if b then Inl e else m) = Inr x) \<longleftrightarrow> \<not> b \<and> m = Inr x"
  "((if b then m else Inl e) = Inr x) \<longleftrightarrow> b \<and> m = Inr x"
  by simp_all

lemma if_Inr_eq_Inr [res_simps]:
  "((if b then Inr y else m) = Inr x) \<longleftrightarrow> (b \<and> x = y \<or> \<not> b \<and> m = Inr x)"
  by auto

lemma for_each_eq_Inr [simp, res_simps]:
  "(for_each f xs = Inr ()) \<longleftrightarrow> (\<forall>x \<in> set xs. f x = Inr ())"
  by (induction xs) auto

lemma for_each_append:
  "for_each f (xs @ ys) = and_then (for_each f xs) (\<lambda>_. for_each f ys)"
  by (induction xs) (simp_all add: and_then_assoc)

text \<open>The first failing element decides the error of a checking loop.\<close>

lemma for_each_eq_Inl:
  "(for_each f xs = Inl e) \<longleftrightarrow>
     (\<exists>ys x zs. xs = ys @ x # zs \<and> (\<forall>y \<in> set ys. f y = Inr ()) \<and> f x = Inl e)"
proof (induction xs)
  case Nil
  then show ?case by simp
next
  case (Cons a xs)
  show ?case
  proof (cases "f a")
    case (Inl d)
    have "\<exists>ys x zs. a # xs = ys @ x # zs \<and> (\<forall>y \<in> set ys. f y = Inr ()) \<and> f x = Inl d"
      using Inl by (intro exI [of _ "[]"] exI [of _ a] exI [of _ xs]) simp
    with Inl show ?thesis by (auto simp: Cons_eq_append_conv)
  next
    case (Inr u)
    have "(\<exists>ys x zs. a # xs = ys @ x # zs \<and> (\<forall>y \<in> set ys. f y = Inr ()) \<and> f x = Inl e)
        \<longleftrightarrow> (\<exists>ys x zs. xs = ys @ x # zs \<and> (\<forall>y \<in> set ys. f y = Inr ()) \<and> f x = Inl e)"
      (is "?l \<longleftrightarrow> ?r")
    proof
      assume ?l
      with Inr show ?r by (auto simp: Cons_eq_append_conv; blast)
    next
      assume ?r
      then obtain ys x zs where "xs = ys @ x # zs" "\<forall>y \<in> set ys. f y = Inr ()" "f x = Inl e"
        by blast
      with Inr show ?l by (intro exI [of _ "a # ys"] exI [of _ x] exI [of _ zs]) simp
    qed
    with Inr Cons show ?thesis by simp
  qed
qed

lemma result_unit_cases: "m = Inr () \<or> (\<exists>e. m = Inl e)" for m :: "'e + unit"
  by (cases m) auto

section \<open>Go maps that are iterated: association lists\<close>

text \<open>\<open>m[k] = v\<close> overwrites in place; \<open>delete(m, k)\<close> removes.\<close>

fun map_put :: "'k \<Rightarrow> 'v \<Rightarrow> ('k \<times> 'v) list \<Rightarrow> ('k \<times> 'v) list" where
  "map_put k v [] = [(k, v)]"
| "map_put k v ((k', v') # m) = (if k = k' then (k, v) # m else (k', v') # map_put k v m)"

text \<open>A state threaded through fallible steps.\<close>

fun try_fold :: "('s \<Rightarrow> 'a \<Rightarrow> 's result) \<Rightarrow> 's \<Rightarrow> 'a list \<Rightarrow> 's result" where
  "try_fold f s [] = Inr s"
| "try_fold f s (x # xs) = and_then (f s x) (\<lambda>s'. try_fold f s' xs)"

definition map_del :: "'k \<Rightarrow> ('k \<times> 'v) list \<Rightarrow> ('k \<times> 'v) list" where
  "map_del k m = filter (\<lambda>(k', _). k' \<noteq> k) m"

lemma map_of_map_put [simp]: "map_of (map_put k v m) = (map_of m)(k \<mapsto> v)"
  by (induction k v m rule: map_put.induct) auto

lemma set_keys_map_put [simp]: "fst ` set (map_put k v m) = insert k (fst ` set m)"
  by (induction k v m rule: map_put.induct) auto

lemma distinct_keys_map_put: "distinct (map fst m) \<Longrightarrow> distinct (map fst (map_put k v m))"
proof (induction k v m rule: map_put.induct)
  case (2 k v k' v' m)
  then show ?case using set_keys_map_put [of k v m] by (auto simp: image_iff)
qed simp

lemma map_of_map_del [simp]: "map_of (map_del k m) = (map_of m)(k := None)"
  unfolding map_del_def by (induction m) (auto simp: fun_eq_iff)

lemma map_of_eq_None_keys: "map_of m k = None \<longleftrightarrow> k \<notin> set (map fst m)"
  by (simp add: map_of_eq_None_iff)

lemma find_eq_SomeD: "find P xs = Some x \<Longrightarrow> x \<in> set xs \<and> P x"
  by (induction xs) (auto split: if_splits)

lemma prefix_drop_less: "r \<noteq> [] \<Longrightarrow> prefix r s \<Longrightarrow> length (drop (length r) s) < length s"
  by (auto simp: prefix_def)

lemma sorted_key_list_unique:
  fixes xs ys :: "'a::linorder list"
  assumes "sorted xs" "sorted ys" "distinct xs" "distinct ys" "set xs = set ys"
  shows "xs = ys"
  using assms by (simp add: sorted_distinct_set_unique)

lemma list_all2_set2: "list_all2 P xs ys \<Longrightarrow> y \<in> set ys \<Longrightarrow> \<exists>x \<in> set xs. P x y"
  by (induction rule: list_all2_induct) auto

end
