(* ===== verification/GoStrings.thy ===== *)
theory GoStrings
  imports Prelude
begin

text \<open>
  The part of Go's standard library that works on strings, as the program uses it: \<open>strings\<close>,
  \<open>unicode\<close>, \<open>encoding/hex\<close>, \<open>strconv.Atoi\<close>, \<open>path\<close> and \<open>path/filepath\<close> (on Unix), and
  \<open>time.Parse\<close> with the layout \<open>time.DateOnly\<close>.

  Unicode.  Go decodes UTF-8 on the fly.  A byte that starts a multi-byte sequence is never a
  continuation byte, so a decoder always stops at it: the encoding of a rune occurs in a string
  exactly where it occurs as a sequence of bytes.  \<open>TrimSpace\<close>, \<open>Fields\<close> and the two character
  tests below therefore work on the byte encodings of the runes in question, and give the same
  result as Go on every string, well-formed UTF-8 or not.
\<close>

section \<open>White space and control characters\<close>

text \<open>\<open>unicode.IsSpace\<close>: the encodings of the runes with the property White\_Space.\<close>

definition space_runes :: "string list" where
  "space_runes =
     [[CHR 0x09], [CHR 0x0A], [CHR 0x0B], [CHR 0x0C], [CHR 0x0D], [CHR 0x20],
      [CHR 0xC2, CHR 0x85], [CHR 0xC2, CHR 0xA0], [CHR 0xE1, CHR 0x9A, CHR 0x80],
      [CHR 0xE2, CHR 0x80, CHR 0x80], [CHR 0xE2, CHR 0x80, CHR 0x81],
      [CHR 0xE2, CHR 0x80, CHR 0x82], [CHR 0xE2, CHR 0x80, CHR 0x83],
      [CHR 0xE2, CHR 0x80, CHR 0x84], [CHR 0xE2, CHR 0x80, CHR 0x85],
      [CHR 0xE2, CHR 0x80, CHR 0x86], [CHR 0xE2, CHR 0x80, CHR 0x87],
      [CHR 0xE2, CHR 0x80, CHR 0x88], [CHR 0xE2, CHR 0x80, CHR 0x89],
      [CHR 0xE2, CHR 0x80, CHR 0x8A], [CHR 0xE2, CHR 0x80, CHR 0xA8],
      [CHR 0xE2, CHR 0x80, CHR 0xA9], [CHR 0xE2, CHR 0x80, CHR 0xAF],
      [CHR 0xE2, CHR 0x81, CHR 0x9F], [CHR 0xE3, CHR 0x80, CHR 0x80]]"

text \<open>\<open>unicode.IsControl\<close>: U+0000 to U+001F, U+007F, and U+0080 to U+009F (\<open>C2 80\<close> to \<open>C2 9F\<close>).\<close>

definition is_ascii_control :: "char \<Rightarrow> bool" where
  "is_ascii_control c \<longleftrightarrow> of_char c < (0x20::nat) \<or> of_char c = (0x7F::nat)"

fun containsControl :: "string \<Rightarrow> bool" where
  "containsControl [] = False"
| "containsControl (a # s) =
     (is_ascii_control a \<or>
      (a = CHR 0xC2 \<and> (case s of [] \<Rightarrow> False
                        | b # _ \<Rightarrow> (0x80::nat) \<le> of_char b \<and> of_char b \<le> (0x9F::nat))) \<or>
      containsControl s)"

fun containsSpace :: "string \<Rightarrow> bool" where
  "containsSpace [] = False"
| "containsSpace (a # s) = (list_ex (\<lambda>r. prefix r (a # s)) space_runes \<or> containsSpace s)"

section \<open>Trimming\<close>

text \<open>Remove from the front of \<open>s\<close>, as long as possible, any of the byte sequences \<open>rs\<close>.\<close>

function strip :: "string list \<Rightarrow> string \<Rightarrow> string" where
  "strip rs s =
     (case find (\<lambda>r. r \<noteq> [] \<and> prefix r s) rs of
        None \<Rightarrow> s
      | Some r \<Rightarrow> strip rs (drop (length r) s))"
  by pat_completeness auto
termination
proof (relation "measure (\<lambda>(rs, s). length s)", simp)
  fix rs :: "string list" and s r
  assume "find (\<lambda>r. r \<noteq> [] \<and> prefix r s) rs = Some r"
  then have "r \<noteq> []" "prefix r s" by (auto dest: find_eq_SomeD)
  then show "((rs, drop (length r) s), (rs, s)) \<in> measure (\<lambda>(rs, s). length s)"
    using prefix_drop_less [of r s] by simp
qed

declare strip.simps [simp del]

definition TrimSpace :: "string \<Rightarrow> string" where
  "TrimSpace s = rev (strip (map rev space_runes) (rev (strip space_runes s)))"

definition TrimLeft :: "string \<Rightarrow> char \<Rightarrow> string" where
  "TrimLeft s c = dropWhile (\<lambda>x. x = c) s"

definition TrimRight :: "string \<Rightarrow> char \<Rightarrow> string" where
  "TrimRight s c = rev (dropWhile (\<lambda>x. x = c) (rev s))"

definition TrimPrefix :: "string \<Rightarrow> string \<Rightarrow> string" where
  "TrimPrefix s p = (if prefix p s then drop (length p) s else s)"

definition TrimSuffix :: "string \<Rightarrow> string \<Rightarrow> string" where
  "TrimSuffix s p = (if suffix p s then take (length s - length p) s else s)"

section \<open>Searching, splitting, replacing\<close>

fun Index :: "string \<Rightarrow> string \<Rightarrow> nat option" where
  "Index [] sub = (if sub = [] then Some 0 else None)"
| "Index (a # s) sub = (if prefix sub (a # s) then Some 0 else map_option Suc (Index s sub))"

definition Contains :: "string \<Rightarrow> string \<Rightarrow> bool" where
  "Contains s sub \<longleftrightarrow> Index s sub \<noteq> None"

definition Cut :: "string \<Rightarrow> string \<Rightarrow> (string \<times> string) option" where
  "Cut s sep = map_option (\<lambda>i. (take i s, drop (i + length sep) s)) (Index s sep)"

fun Split :: "string \<Rightarrow> char \<Rightarrow> string list" where
  "Split [] c = [[]]"
| "Split (a # s) c =
     (if a = c then [] # Split s c
      else (case Split s c of [] \<Rightarrow> [[a]] | w # ws \<Rightarrow> (a # w) # ws))"

fun Join :: "string list \<Rightarrow> string \<Rightarrow> string" where
  "Join [] sep = []"
| "Join [w] sep = w"
| "Join (w # v # ws) sep = w @ sep @ Join (v # ws) sep"

text \<open>
  \<open>strings.Fields\<close>: the maximal runs of bytes that are not part of a white-space rune.  \<open>acc\<close> is
  the field being collected, reversed.
\<close>

function fields_from :: "string \<Rightarrow> string \<Rightarrow> string list" where
  "fields_from acc s =
     (case find (\<lambda>r. r \<noteq> [] \<and> prefix r s) space_runes of
        Some r \<Rightarrow> (if acc = [] then [] else [rev acc]) @ fields_from [] (drop (length r) s)
      | None \<Rightarrow> (case s of [] \<Rightarrow> (if acc = [] then [] else [rev acc])
                  | a # t \<Rightarrow> fields_from (a # acc) t))"
  by pat_completeness auto
termination
proof (relation "measure (\<lambda>(acc, s). length s)", simp)
  fix acc s r :: string
  assume "find (\<lambda>r. r \<noteq> [] \<and> prefix r s) space_runes = Some r"
  then have "r \<noteq> []" "prefix r s" by (auto dest: find_eq_SomeD)
  then show "(([], drop (length r) s), (acc, s)) \<in> measure (\<lambda>(acc, s). length s)"
    using prefix_drop_less [of r s] by simp
qed simp

declare fields_from.simps [simp del]

definition Fields :: "string \<Rightarrow> string list" where
  "Fields s = fields_from [] s"

text \<open>
  \<open>strings.ReplaceAll\<close> and \<open>strings.Count\<close> for a non-empty \<open>old\<close>, scanning left to right without
  overlap.  No caller in the program passes an empty pattern; the text is then returned unchanged.
\<close>

function ReplaceAll :: "string \<Rightarrow> string \<Rightarrow> string \<Rightarrow> string" where
  "ReplaceAll s old new =
     (if old = [] then s
      else if prefix old s then new @ ReplaceAll (drop (length old) s) old new
      else (case s of [] \<Rightarrow> [] | a # t \<Rightarrow> a # ReplaceAll t old new))"
  by pat_completeness auto
termination
  by (relation "measure (\<lambda>(s, old, new). length s)")
     (auto simp: prefix_def)

declare ReplaceAll.simps [simp del]

function Count :: "string \<Rightarrow> string \<Rightarrow> nat" where
  "Count s old =
     (if old = [] then 0
      else if prefix old s then Suc (Count (drop (length old) s) old)
      else (case s of [] \<Rightarrow> 0 | a # t \<Rightarrow> Count t old))"
  by pat_completeness auto
termination
  by (relation "measure (\<lambda>(s, old). length s)")
     (auto simp: prefix_def)

declare Count.simps [simp del]

section \<open>Letter case\<close>

text \<open>
  \<open>strings.ToLower\<close> and \<open>strings.EqualFold\<close> as far as the program can observe them.  Every result
  is compared with an ASCII literal or must consist of hexadecimal digits.  The only runes outside
  ASCII with an ASCII lower case are U+212A (to \<open>k\<close>) and U+0130 (to \<open>i\<close>); the only other rune that
  folds to an ASCII letter is U+017F (to \<open>s\<close>).  Other bytes above 0x7F stay as they are.
\<close>

definition lower_char :: "char \<Rightarrow> char" where
  "lower_char c =
     (if (0x41::nat) \<le> of_char c \<and> of_char c \<le> (0x5A::nat) then char_of (of_char c + (32::nat)) else c)"

fun ToLower :: "string \<Rightarrow> string" where
  "ToLower [] = []"
| "ToLower (a # s) =
     (if a = CHR 0xE2 \<and> prefix [CHR 0x84, CHR 0xAA] s then CHR ''k'' # ToLower (drop 2 s)
      else if a = CHR 0xC4 \<and> prefix [CHR 0xB0] s then CHR ''i'' # ToLower (drop 1 s)
      else lower_char a # ToLower s)"

fun fold_case :: "string \<Rightarrow> string" where
  "fold_case [] = []"
| "fold_case (a # s) =
     (if a = CHR 0xE2 \<and> prefix [CHR 0x84, CHR 0xAA] s then CHR ''k'' # fold_case (drop 2 s)
      else if a = CHR 0xC5 \<and> prefix [CHR 0xBF] s then CHR ''s'' # fold_case (drop 1 s)
      else lower_char a # fold_case s)"

definition EqualFold :: "string \<Rightarrow> string \<Rightarrow> bool" where
  "EqualFold s t \<longleftrightarrow> fold_case s = fold_case t"

section \<open>Hexadecimal and decimal\<close>

definition hex_value :: "char \<Rightarrow> nat option" where
  "hex_value c =
     (let n = of_char c in
      if 0x30 \<le> n \<and> n \<le> 0x39 then Some (n - 0x30)
      else if 0x61 \<le> n \<and> n \<le> 0x66 then Some (n - 0x61 + 10)
      else if 0x41 \<le> n \<and> n \<le> 0x46 then Some (n - 0x41 + 10)
      else None)"

fun hex_DecodeString :: "string \<Rightarrow> bytes option" where
  "hex_DecodeString [] = Some []"
| "hex_DecodeString [a] = None"
| "hex_DecodeString (a # b # s) =
     (case (hex_value a, hex_value b, hex_DecodeString s) of
        (Some h, Some l, Some r) \<Rightarrow> Some (char_of (16 * h + l) # r)
      | _ \<Rightarrow> None)"

definition hex_digit :: "nat \<Rightarrow> char" where
  "hex_digit n = char_of (if n < 10 then 0x30 + n else 0x61 + (n - 10))"

fun hex_EncodeToString :: "bytes \<Rightarrow> string" where
  "hex_EncodeToString [] = []"
| "hex_EncodeToString (b # bs) =
     hex_digit (of_char b div 16) # hex_digit (of_char b mod 16) # hex_EncodeToString bs"

definition is_digit :: "char \<Rightarrow> bool" where
  "is_digit c \<longleftrightarrow> (0x30::nat) \<le> of_char c \<and> of_char c \<le> (0x39::nat)"

definition digits_value :: "string \<Rightarrow> nat" where
  "digits_value s = fold (\<lambda>c n. 10 * n + (of_char c - 0x30)) s 0"

text \<open>\<open>strconv.Atoi\<close> on a 64-bit platform: an optional sign, at least one digit, no overflow.\<close>

definition Atoi :: "string \<Rightarrow> int option" where
  "Atoi s =
     (let (neg, ds) = (case s of [] \<Rightarrow> (False, [])
                        | a # t \<Rightarrow> if a = CHR ''-'' then (True, t)
                                    else if a = CHR ''+'' then (False, t) else (False, s));
          n = int (digits_value ds);
          v = (if neg then - n else n)
      in if ds \<noteq> [] \<and> list_all is_digit ds \<and> - (2 ^ 63) \<le> v \<and> v < 2 ^ 63 then Some v else None)"

text \<open>\<open>strconv.Itoa\<close> of a number that is not negative.\<close>

fun itoa :: "nat \<Rightarrow> string" where
  "itoa n = (if n < 10 then [char_of (0x30 + n)] else itoa (n div 10) @ [char_of (0x30 + n mod 10)])"

declare itoa.simps [simp del]

section \<open>Paths\<close>

text \<open>
  \<open>path.Clean\<close> (and \<open>filepath.Clean\<close> on Unix) works through the slash-separated elements from left
  to right: empty elements and \<open>.\<close> are dropped, \<open>..\<close> removes the element before it when there is
  one that can be removed, is dropped at the root, and is kept otherwise.  The accumulator holds
  the elements so far, last first.
\<close>

fun clean_step :: "bool \<Rightarrow> string list \<Rightarrow> string \<Rightarrow> string list" where
  "clean_step rooted acc e =
     (if e = [] \<or> e = ''.'' then acc
      else if e = ''..'' then
        (case acc of
           [] \<Rightarrow> (if rooted then [] else [''..''])
         | x # xs \<Rightarrow> (if x = ''..'' then ''..'' # acc else xs))
      else e # acc)"

definition path_Clean :: "string \<Rightarrow> string" where
  "path_Clean p =
     (if p = [] then ''.''
      else let rooted = prefix ''/'' p;
               es = rev (fold (\<lambda>e acc. clean_step rooted acc e) (Split p CHR ''/'') [])
           in if rooted then CHR ''/'' # Join es ''/''
              else if es = [] then ''.'' else Join es ''/'')"

definition path_Base :: "string \<Rightarrow> string" where
  "path_Base p =
     (if p = [] then ''.''
      else let q = TrimRight p CHR ''/'' in
           if q = [] then ''/'' else last (Split q CHR ''/''))"

definition filepath_IsAbs :: "string \<Rightarrow> bool" where
  "filepath_IsAbs p \<longleftrightarrow> prefix ''/'' p"

definition filepath_Join :: "string list \<Rightarrow> string" where
  "filepath_Join es =
     (case dropWhile (\<lambda>e. e = []) es of [] \<Rightarrow> [] | fs \<Rightarrow> path_Clean (Join fs ''/''))"

definition filepath_Dir :: "string \<Rightarrow> string" where
  "filepath_Dir p = path_Clean (rev (dropWhile (\<lambda>c. c \<noteq> CHR ''/'') (rev p)))"

section \<open>Dates\<close>

definition leap_year :: "nat \<Rightarrow> bool" where
  "leap_year y \<longleftrightarrow> y mod 4 = 0 \<and> (y mod 100 \<noteq> 0 \<or> y mod 400 = 0)"

definition days_in :: "nat \<Rightarrow> nat \<Rightarrow> nat" where
  "days_in m y =
     (if m = 2 then (if leap_year y then 29 else 28)
      else if m \<in> {4, 6, 9, 11} then 30 else 31)"

text \<open>\<open>time.Parse(time.DateOnly, s)\<close>: \<open>YYYY-MM-DD\<close> with a month and a day that exist.\<close>

definition parse_DateOnly :: "string \<Rightarrow> (nat \<times> nat \<times> nat) option" where
  "parse_DateOnly s =
     (if length s = 10 \<and> s ! 4 = CHR ''-'' \<and> s ! 7 = CHR ''-'' \<and>
         list_all is_digit (take 4 s @ take 2 (drop 5 s) @ drop 8 s)
      then let y = digits_value (take 4 s);
               m = digits_value (take 2 (drop 5 s));
               d = digits_value (drop 8 s)
           in if 1 \<le> m \<and> m \<le> 12 \<and> 1 \<le> d \<and> d \<le> days_in m y then Some (y, m, d) else None
      else None)"

end
