(* ===== verification/GoStringFacts.thy ===== *)
theory GoStringFacts
  imports GoStrings
begin

text \<open>
  Facts about the string library that the component proofs share: what trimming leaves, what a
  successful search says, the round trips of \<open>Split\<close>/\<open>Join\<close> and of the hexadecimal codec, and what
  a cleaned path looks like.
\<close>

section \<open>Trimming\<close>

lemma strip_fixed: "find (\<lambda>r. r \<noteq> [] \<and> prefix r s) rs = None \<Longrightarrow> strip rs s = s"
  by (subst strip.simps) simp

lemma strip_suffix: "suffix (strip rs s) s"
proof (induction rs s rule: strip.induct)
  case (1 rs s)
  show ?case
  proof (cases "find (\<lambda>r. r \<noteq> [] \<and> prefix r s) rs")
    case None
    then show ?thesis by (simp add: strip_fixed)
  next
    case (Some r)
    have "suffix (strip rs (drop (length r) s)) s"
      using "1.IH" [OF Some] suffix_drop suffix_order.trans by blast
    with Some show ?thesis by (subst strip.simps) simp
  qed
qed

lemma strip_stuck: "find (\<lambda>r. r \<noteq> [] \<and> prefix r (strip rs s)) rs = None"
proof (induction rs s rule: strip.induct)
  case (1 rs s)
  show ?case
  proof (cases "find (\<lambda>r. r \<noteq> [] \<and> prefix r s) rs")
    case None
    then show ?thesis by (simp add: strip_fixed)
  next
    case (Some r)
    with "1.IH" [OF Some] show ?thesis by (simp add: strip.simps [of rs s])
  qed
qed

definition trimmed :: "string \<Rightarrow> bool" where
  "trimmed s \<longleftrightarrow> (\<forall>r \<in> set space_runes. \<not> prefix r s \<and> \<not> suffix r s)"

lemma space_runes_nonempty: "r \<in> set space_runes \<Longrightarrow> r \<noteq> []"
  unfolding space_runes_def by auto

lemma no_space_prefix_iff:
  "find (\<lambda>r. r \<noteq> [] \<and> prefix r s) space_runes = None \<longleftrightarrow> (\<forall>r \<in> set space_runes. \<not> prefix r s)"
  using space_runes_nonempty by (auto simp: find_None_iff)

lemma no_space_suffix_iff:
  "find (\<lambda>r. r \<noteq> [] \<and> prefix r (rev s)) (map rev space_runes) = None \<longleftrightarrow>
     (\<forall>r \<in> set space_runes. \<not> suffix r s)"
  using space_runes_nonempty by (auto simp: find_None_iff suffix_to_prefix)

lemma trimmed_TrimSpace: "trimmed (TrimSpace s)"
proof -
  let ?u = "strip space_runes s"
  have suf: "\<forall>r \<in> set space_runes. \<not> suffix r (TrimSpace s)"
    using strip_stuck [of "map rev space_runes" "rev ?u"] no_space_suffix_iff [of "TrimSpace s"]
    by (simp add: TrimSpace_def find_None_iff)
  have pre: "\<forall>r \<in> set space_runes. \<not> prefix r ?u"
    using strip_stuck [of space_runes s] by (simp add: no_space_prefix_iff)
  have "prefix (TrimSpace s) ?u"
    using strip_suffix [of "map rev space_runes" "rev ?u"]
    by (simp add: TrimSpace_def suffix_to_prefix)
  with pre suf show ?thesis
    unfolding trimmed_def using prefix_order.trans by blast
qed

lemma TrimSpace_trimmed: "trimmed s \<Longrightarrow> TrimSpace s = s"
proof -
  assume t: "trimmed s"
  then have "strip space_runes s = s"
    by (intro strip_fixed) (simp add: no_space_prefix_iff trimmed_def)
  moreover have "strip (map rev space_runes) (rev s) = rev s"
    using t by (intro strip_fixed) (simp add: no_space_suffix_iff trimmed_def)
  ultimately show "TrimSpace s = s" by (simp add: TrimSpace_def)
qed

lemma TrimSpace_eq_self_iff: "TrimSpace s = s \<longleftrightarrow> trimmed s"
  using TrimSpace_trimmed trimmed_TrimSpace [of s] by auto

lemma TrimSpace_idem [simp]: "TrimSpace (TrimSpace s) = TrimSpace s"
  by (simp add: TrimSpace_trimmed trimmed_TrimSpace)

lemma trimmed_Nil [simp]: "trimmed []"
  unfolding trimmed_def using space_runes_nonempty by auto

lemma TrimSpace_Nil [simp]: "TrimSpace [] = []"
  by (simp add: TrimSpace_trimmed)

lemma containsSpace_iff: "containsSpace s \<longleftrightarrow> (\<exists>r \<in> set space_runes. sublist r s)"
proof (induction s)
  case Nil
  then show ?case using space_runes_nonempty by (auto simp: sublist_Nil_right)
next
  case (Cons a s)
  then show ?case by (auto simp: list_ex_iff sublist_Cons_right)
qed

lemma no_space_trimmed: "\<not> containsSpace s \<Longrightarrow> trimmed s"
  unfolding trimmed_def containsSpace_iff by auto

lemma containsControl_Cons_ascii:
  "is_ascii_control c \<Longrightarrow> c \<in> set s \<Longrightarrow> containsControl s"
  by (induction s) auto

lemma TrimRight_no_suffix: "TrimRight s c = t @ [c] \<Longrightarrow> False"
proof -
  assume "TrimRight s c = t @ [c]"
  then have "dropWhile (\<lambda>x. x = c) (rev s) = c # rev t"
    by (metis TrimRight_def rev_append rev_rev_ident rev_singleton_conv append_Cons append_Nil)
  then show False
    by (metis (mono_tags, lifting) dropWhile_eq_Cons_conv)
qed

lemma TrimRight_idem [simp]: "TrimRight (TrimRight s c) c = TrimRight s c"
  by (simp add: TrimRight_def dropWhile_idem)

lemma TrimRight_Nil [simp]: "TrimRight [] c = []"
  by (simp add: TrimRight_def)

section \<open>Searching\<close>

lemma Index_SomeD: "Index s sub = Some i \<Longrightarrow> s = take i s @ sub @ drop (i + length sub) s \<and> i \<le> length s"
proof (induction s sub arbitrary: i rule: Index.induct)
  case (2 a s sub)
  show ?case
  proof (cases "prefix sub (a # s)")
    case True
    then show ?thesis using "2.prems" by (auto simp: prefix_def)
  next
    case False
    with "2.prems" obtain j where j: "Index s sub = Some j" "i = Suc j" by auto
    with "2.IH" [OF False j(1)] show ?thesis by simp
  qed
qed (auto split: if_splits)

lemma Index_None_iff: "Index s sub = None \<longleftrightarrow> \<not> sublist sub s"
  by (induction s) (auto simp: sublist_Cons_right)

lemma Contains_iff: "Contains s sub \<longleftrightarrow> sublist sub s"
  by (simp add: Contains_def Index_None_iff)

lemma Cut_SomeD: "Cut s sep = Some (a, b) \<Longrightarrow> s = a @ sep @ b"
  using Index_SomeD by (auto simp: Cut_def)

section \<open>Split and Join\<close>

lemma Split_nonempty [simp]: "Split s c \<noteq> []"
  by (induction s) (auto split: list.split)

lemma Split_no_sep: "w \<in> set (Split s c) \<Longrightarrow> c \<notin> set w"
proof (induction s arbitrary: w)
  case (Cons a s)
  then show ?case
    by (cases "Split s c") (auto split: if_splits)
qed simp

lemma Join_Cons: "ws \<noteq> [] \<Longrightarrow> Join (w # ws) sep = w @ sep @ Join ws sep"
  by (cases ws) simp_all

lemma Join_Split: "Join (Split s c) [c] = s"
proof (induction s)
  case (Cons a s)
  show ?case
  proof (cases "a = c")
    case True
    with Cons show ?thesis by (simp add: Join_Cons)
  next
    case False
    obtain w ws where w: "Split s c = w # ws" by (cases "Split s c") auto
    with False Cons show ?thesis by (cases ws) (simp_all add: Join_Cons)
  qed
qed simp

lemma Split_append_sep: "c \<notin> set w \<Longrightarrow> Split (w @ c # s) c = w # Split s c"
  by (induction w) auto

lemma Split_single: "c \<notin> set w \<Longrightarrow> Split w c = [w]"
  by (induction w) auto

lemma Split_Join: "ws \<noteq> [] \<Longrightarrow> \<forall>w \<in> set ws. c \<notin> set w \<Longrightarrow> Split (Join ws [c]) c = ws"
proof (induction ws)
  case (Cons w ws)
  then show ?case by (cases ws) (simp_all add: Split_single Split_append_sep)
qed simp

lemma Split_append: "Split (s @ c # t) c = Split s c @ Split t c"
  by (induction s) (auto split: list.split)

section \<open>Hexadecimal\<close>

lemma of_char_eqD: "of_char a = (of_char b :: nat) \<Longrightarrow> a = b"
  by simp

lemma hex_value_less: "hex_value c = Some n \<Longrightarrow> n < 16"
  by (auto simp: hex_value_def Let_def split: if_splits)

lemma hex_value_digit: "n < 16 \<Longrightarrow> hex_value (hex_digit n) = Some n"
  by (auto simp: hex_value_def hex_digit_def Let_def)

lemma lower_char_hex: "hex_value c = Some n \<Longrightarrow> lower_char c = hex_digit n"
  by (rule of_char_eqD) (auto simp: hex_value_def hex_digit_def lower_char_def Let_def split: if_splits)

lemma hex_value_ascii: "hex_value c = Some n \<Longrightarrow> c \<noteq> CHR 0xE2 \<and> c \<noteq> CHR 0xC4"
  by (auto simp: hex_value_def Let_def split: if_splits)

lemma hex_Decode_Encode: "hex_DecodeString (hex_EncodeToString bs) = Some bs"
proof (induction bs)
  case (Cons b bs)
  have "of_char b < (256::nat)" using range_nat_of_char by (metis atLeastLessThan_iff rangeI)
  then have "of_char b div 16 < (16::nat)" by linarith
  with Cons show ?case by (simp add: hex_value_digit)
qed simp

lemma hex_Decode_length: "hex_DecodeString s = Some d \<Longrightarrow> length s = 2 * length d"
  by (induction s arbitrary: d rule: hex_DecodeString.induct) (auto split: option.splits)

lemma hex_Decode_ToLower:
  "hex_DecodeString s = Some d \<Longrightarrow> ToLower s = hex_EncodeToString d"
proof (induction s arbitrary: d rule: hex_DecodeString.induct)
  case (3 a b s)
  then obtain h l r where v: "hex_value a = Some h" "hex_value b = Some l" "hex_DecodeString s = Some r"
    and d: "d = char_of (16 * h + l) # r"
    by (auto split: option.splits)
  have "16 * h + l < 256" using hex_value_less [OF v(1)] hex_value_less [OF v(2)] by simp
  moreover have "(16 * h + l) div 16 = h" "(16 * h + l) mod 16 = l"
    using hex_value_less [OF v(2)] by auto
  ultimately show ?case
    using v d "3.IH" [OF v(3)] hex_value_ascii [OF v(1)] hex_value_ascii [OF v(2)]
    by (simp add: lower_char_hex)
qed auto

lemma hex_Encode_length [simp]: "length (hex_EncodeToString bs) = 2 * length bs"
  by (induction bs) auto

lemma ToLower_hex_Encode [simp]: "ToLower (hex_EncodeToString bs) = hex_EncodeToString bs"
  by (rule hex_Decode_ToLower) (rule hex_Decode_Encode)

lemma hex_Encode_inj: "hex_EncodeToString a = hex_EncodeToString b \<Longrightarrow> a = b"
  by (metis hex_Decode_Encode option.inject)

section \<open>Paths\<close>

text \<open>
  The elements of a cleaned path.  A path is \<^emph>\<open>plain\<close> when none of its slash-separated elements is
  empty, \<open>.\<close> or \<open>..\<close>: no step of it leaves the directory it is resolved in.
\<close>

definition plain_elem :: "string \<Rightarrow> bool" where
  "plain_elem e \<longleftrightarrow> e \<noteq> [] \<and> e \<noteq> ''.'' \<and> e \<noteq> ''..'' \<and> CHR ''/'' \<notin> set e"

lemma plain_elem_simps [simp]: "\<not> plain_elem []" "\<not> plain_elem ''.''" "\<not> plain_elem ''..''"
  by (simp_all add: plain_elem_def)

lemma plain_elem_no_slash: "plain_elem e \<Longrightarrow> CHR ''/'' \<notin> set e"
  by (simp add: plain_elem_def)

lemma clean_step_simps:
  "clean_step r acc [] = acc"
  "clean_step r acc ''.'' = acc"
  "clean_step r [] ''..'' = (if r then [] else [''..''])"
  "clean_step r (x # xs) ''..'' = (if x = ''..'' then ''..'' # x # xs else xs)"
  "plain_elem e \<Longrightarrow> clean_step r acc e = e # acc"
  by (auto simp: plain_elem_def)

declare clean_step.simps [simp del] clean_step_simps [simp]

lemma elem_cases:
  assumes "CHR ''/'' \<notin> set e"
  obtains "e = []" | "e = ''.''" | "e = ''..''" | "plain_elem e"
  using assms by (auto simp: plain_elem_def)

definition plain_path :: "string \<Rightarrow> bool" where
  "plain_path p \<longleftrightarrow> (\<forall>e \<in> set (Split p CHR ''/''). plain_elem e)"

definition path_elems :: "string \<Rightarrow> string list" where
  "path_elems p =
     rev (fold (\<lambda>e acc. clean_step (prefix ''/'' p) acc e) (Split p CHR ''/'') [])"

lemma path_Clean_elems:
  "path_Clean p =
     (if p = [] then ''.''
      else if prefix ''/'' p then CHR ''/'' # Join (path_elems p) ''/''
      else if path_elems p = [] then ''.'' else Join (path_elems p) ''/'')"
  by (simp add: path_Clean_def path_elems_def Let_def)

lemma fold_clean_plain:
  "\<forall>e \<in> set es. plain_elem e \<Longrightarrow> fold (\<lambda>e acc. clean_step r acc e) es acc = rev es @ acc"
  by (induction es arbitrary: acc) simp_all

lemma clean_step_shape:
  assumes "\<forall>e \<in> set ns. plain_elem e" and "CHR ''/'' \<notin> set e"
  shows "\<exists>ms j. clean_step r (ns @ replicate k ''..'') e = ms @ replicate j ''..'' \<and>
           (\<forall>e \<in> set ms. plain_elem e)"
proof (rule elem_cases [OF assms(2)])
  assume "e = ''..''"
  show ?thesis
  proof (cases ns)
    case Nil
    have "clean_step r (replicate k ''..'') e \<in> {[] @ replicate 0 ''..'', [] @ replicate (Suc k) ''..''}"
      using \<open>e = ''..''\<close> by (cases k) auto
    then obtain j where "clean_step r (replicate k ''..'') e = [] @ replicate j ''..''" by blast
    moreover have "\<forall>x \<in> set []. plain_elem x" by simp
    ultimately show ?thesis using Nil by (metis append_Nil)
  next
    case (Cons x xs)
    then have "x \<noteq> ''..''" using assms(1) by auto
    with Cons have "clean_step r (ns @ replicate k ''..'') e = xs @ replicate k ''..''"
      using \<open>e = ''..''\<close> by simp
    with Cons assms(1) show ?thesis by (metis list.set_intros(2))
  qed
next
  assume "plain_elem e"
  then have "clean_step r (ns @ replicate k ''..'') e = (e # ns) @ replicate k ''..''" by simp
  with \<open>plain_elem e\<close> assms(1) show ?thesis by (metis set_ConsD)
qed (use assms(1) in \<open>auto\<close>)

lemma fold_clean_shape:
  "\<forall>e \<in> set es. CHR ''/'' \<notin> set e \<Longrightarrow> \<forall>e \<in> set ns. plain_elem e \<Longrightarrow>
     \<exists>ms j. fold (\<lambda>e acc. clean_step r acc e) es (ns @ replicate k ''..'') = ms @ replicate j ''..'' \<and>
       (\<forall>e \<in> set ms. plain_elem e)"
proof (induction es arbitrary: ns k)
  case (Cons e es)
  obtain ms j where "clean_step r (ns @ replicate k ''..'') e = ms @ replicate j ''..''"
      "\<forall>e \<in> set ms. plain_elem e"
    using clean_step_shape [OF Cons.prems(2), of e r k] Cons.prems(1) by auto
  with Cons.IH [of ms j] Cons.prems(1) show ?case by simp
qed auto

lemma path_elems_shape:
  "\<exists>k ns. path_elems p = replicate k ''..'' @ ns \<and> (\<forall>e \<in> set ns. plain_elem e)"
proof -
  have "\<forall>e \<in> set (Split p CHR ''/''). CHR ''/'' \<notin> set e" using Split_no_sep by blast
  from fold_clean_shape [OF this, of "[]" "prefix ''/'' p" 0] obtain ms j where
    m: "fold (\<lambda>e acc. clean_step (prefix ''/'' p) acc e) (Split p CHR ''/'') [] = ms @ replicate j ''..''"
      "\<forall>e \<in> set ms. plain_elem e"
    by auto
  then have "path_elems p = replicate j ''..'' @ rev ms" by (simp add: path_elems_def)
  with m(2) show ?thesis by (metis set_rev)
qed

lemma path_elems_no_slash: "e \<in> set (path_elems p) \<Longrightarrow> CHR ''/'' \<notin> set e"
proof -
  assume e: "e \<in> set (path_elems p)"
  obtain k ns where "path_elems p = replicate k ''..'' @ ns" "\<forall>e \<in> set ns. plain_elem e"
    using path_elems_shape by blast
  with e have "e = ''..'' \<or> plain_elem e" by auto
  then show ?thesis using plain_elem_no_slash by auto
qed

lemma plain_path_elems: "plain_path p \<Longrightarrow> path_elems p = Split p CHR ''/''"
  by (simp add: path_elems_def plain_path_def fold_clean_plain)

lemma plain_path_nonempty: "plain_path p \<Longrightarrow> p \<noteq> []"
  by (auto simp: plain_path_def)

lemma plain_path_relative: "plain_path p \<Longrightarrow> \<not> prefix ''/'' p"
  by (cases p) (auto simp: plain_path_def)

lemma path_Clean_plain: "plain_path p \<Longrightarrow> path_Clean p = p"
  using plain_path_nonempty plain_path_relative
  by (simp add: path_Clean_elems plain_path_elems Join_Split)

text \<open>
  A relative path that \<open>path.Clean\<close> leaves unchanged, other than \<open>.\<close>, and that does not start with
  \<open>..\<close> is plain, and conversely.
\<close>

lemma clean_relative_iff_plain:
  "(path_Clean p = p \<and> p \<noteq> ''.'' \<and> p \<noteq> ''..'' \<and> \<not> prefix ''../'' p \<and> \<not> prefix ''/'' p) \<longleftrightarrow> plain_path p"
  (is "?l \<longleftrightarrow> ?r")
proof
  assume l: ?l
  obtain k ns where es: "path_elems p = replicate k ''..'' @ ns" and ns: "\<forall>e \<in> set ns. plain_elem e"
    using path_elems_shape by blast
  from l have ne: "path_elems p \<noteq> []" and j: "p = Join (path_elems p) ''/''"
    by (auto simp: path_Clean_elems split: if_splits)
  have split: "Split p CHR ''/'' = path_elems p"
    using Split_Join [OF ne, of "CHR ''/''"] path_elems_no_slash j by fastforce
  have "k = 0"
  proof (rule ccontr)
    assume "k \<noteq> 0"
    then obtain m where "k = Suc m" by (cases k) auto
    with es j have "p = Join (''..'' # replicate m ''..'' @ ns) ''/''" by simp
    then show False using l by (cases "replicate m ''..'' @ ns") (auto simp: Join_Cons)
  qed
  with es ns split show ?r by (simp add: plain_path_def)
next
  assume r: ?r
  have "\<not> prefix ''../'' p"
  proof
    assume "prefix ''../'' p"
    then obtain q where "p = ''..'' @ CHR ''/'' # q" by (auto simp: prefix_def)
    then have "''..'' \<in> set (Split p CHR ''/'')" by (simp add: Split_append_sep)
    with r show False by (auto simp: plain_path_def)
  qed
  moreover have "p \<noteq> ''.''" "p \<noteq> ''..''"
    using r by (auto simp: plain_path_def)
  ultimately show ?l using r path_Clean_plain plain_path_relative by simp
qed

text \<open>
  Joining a directory with one plain element: the result has the directory's elements and then the
  name, so it lies directly below the directory.
\<close>

lemma path_elems_join:
  assumes "d \<noteq> []" and "plain_elem n"
  shows "path_elems (d @ CHR ''/'' # n) = path_elems d @ [n]"
proof -
  have "Split (d @ CHR ''/'' # n) CHR ''/'' = Split d CHR ''/'' @ [n]"
    using assms(2) by (simp add: Split_append Split_single plain_elem_no_slash)
  moreover have "prefix ''/'' (d @ CHR ''/'' # n) = prefix ''/'' d"
    using assms(1) by (cases d) auto
  ultimately show ?thesis
    using assms(2) by (simp add: path_elems_def)
qed

lemma path_elems_Clean: "p \<noteq> [] \<Longrightarrow> path_elems (path_Clean p) = path_elems p"
proof -
  assume p: "p \<noteq> []"
  obtain k ns where es: "path_elems p = replicate k ''..'' @ ns" and ns: "\<forall>e \<in> set ns. plain_elem e"
    using path_elems_shape by blast
  have dots: "fold (\<lambda>e acc. clean_step False acc e) (replicate k ''..'') (replicate j ''..'')
      = replicate (k + j) ''..''" for k j
  proof (induction k arbitrary: j)
    case (Suc k)
    have "clean_step False (replicate j ''..'') ''..'' = replicate (Suc j) ''..''"
      by (cases j) auto
    with Suc [of "Suc j"] show ?case by simp
  qed simp
  show ?thesis
  proof (cases "prefix ''/'' p")
    case True
    have k0: "k = 0"
    proof -
      have "''..'' \<notin> set (fold (\<lambda>e acc. clean_step True acc e) xs acc)"
        if "''..'' \<notin> set acc" for xs acc
        using that
      proof (induction xs arbitrary: acc)
        case (Cons x xs)
        have "''..'' \<notin> set (clean_step True acc x)"
          using Cons.prems by (cases acc) (auto simp: clean_step.simps)
        with Cons.IH show ?case by simp
      qed simp
      from this [of "[]" "Split p CHR ''/''"] have "''..'' \<notin> set (path_elems p)"
        using True by (simp add: path_elems_def)
      with es show "k = 0" by (cases k) auto
    qed
    have "Split (CHR ''/'' # Join ns ''/'') CHR ''/'' = [] # (if ns = [] then [[]] else ns)"
      using ns Split_Join [of ns "CHR ''/''"] plain_elem_no_slash by auto
    with True es ns k0 p show ?thesis
      by (auto simp: path_Clean_elems path_elems_def fold_clean_plain)
  next
    case False
    show ?thesis
    proof (cases "path_elems p = []")
      case True
      with False p show ?thesis by (simp add: path_Clean_elems) (simp add: path_elems_def)
    next
      case ne: False
      have c: "path_Clean p = Join (path_elems p) ''/''"
        using False p ne by (simp add: path_Clean_elems)
      have sp: "Split (path_Clean p) CHR ''/'' = path_elems p"
        using Split_Join [OF ne, of "CHR ''/''"] path_elems_no_slash c by fastforce
      have "\<not> prefix ''/'' (path_Clean p)"
      proof
        assume "prefix ''/'' (path_Clean p)"
        then have "[] \<in> set (Split (path_Clean p) CHR ''/'')" by (cases "path_Clean p") auto
        with sp es ns show False by auto
      qed
      with sp es ns dots [of k 0] show ?thesis
        by (simp add: path_elems_def [of "path_Clean p"] fold_clean_plain)
    qed
  qed
qed

lemma filepath_Join_below:
  assumes "d \<noteq> []" and "plain_elem n"
  shows "path_elems (filepath_Join [d, n]) = path_elems d @ [n]"
proof -
  have "filepath_Join [d, n] = path_Clean (d @ CHR ''/'' # n)"
    using assms by (cases n) (simp_all add: filepath_Join_def)
  then show ?thesis using assms by (simp add: path_elems_Clean path_elems_join)
qed

section \<open>Decimal numbers\<close>

lemma itoa_digits: "list_all is_digit (itoa n) \<and> itoa n \<noteq> []"
proof (induction n rule: itoa.induct)
  case (1 n)
  have "is_digit (char_of (0x30 + k))" if "k < 10" for k :: nat
    using that by (simp add: is_digit_def)
  with 1 show ?case by (subst itoa.simps, subst (2) itoa.simps) auto
qed

lemma itoa_no_slash: "CHR ''/'' \<notin> set (itoa n)"
  using itoa_digits [of n] by (auto simp: list_all_iff is_digit_def)

text \<open>
  A name made of a fixed prefix and a number, in any directory, is not a path whose last element
  starts otherwise.
\<close>

definition last_elem_free :: "string \<Rightarrow> string \<Rightarrow> bool" where
  "last_elem_free pre p \<longleftrightarrow> path_elems p = [] \<or> \<not> prefix pre (last (path_elems p))"

lemma numbered_name_distinct:
  assumes "last_elem_free pre p" and "p \<noteq> []" and "d \<noteq> []"
    and "2 < length pre" and "CHR ''/'' \<notin> set pre"
  shows "path_Clean (filepath_Join [d, pre @ itoa n]) \<noteq> path_Clean p"
proof
  assume eq: "path_Clean (filepath_Join [d, pre @ itoa n]) = path_Clean p"
  have plain: "plain_elem (pre @ itoa n)"
    using assms(4,5) itoa_no_slash [of n] by (auto simp: plain_elem_def append_eq_Cons_conv)
  have elems: "path_elems (filepath_Join [d, pre @ itoa n]) = path_elems d @ [pre @ itoa n]"
    by (rule filepath_Join_below [OF assms(3) plain])
  then have "filepath_Join [d, pre @ itoa n] \<noteq> []" by (auto simp: path_elems_def)
  with eq assms(2) elems have "path_elems p = path_elems d @ [pre @ itoa n]"
    by (metis path_elems_Clean)
  with assms(1) show False by (simp add: last_elem_free_def)
qed

lemma path_elems_nonempty: "[] \<notin> set (path_elems p)"
proof -
  obtain k ns where "path_elems p = replicate k ''..'' @ ns" "\<forall>e \<in> set ns. plain_elem e"
    using path_elems_shape by blast
  then show ?thesis by auto
qed

lemma Join_nonempty: "ws \<noteq> [] \<Longrightarrow> [] \<notin> set ws \<Longrightarrow> Join ws sep \<noteq> []"
  by (cases "(ws, sep)" rule: Join.cases) auto

lemma path_Clean_nonempty [simp]: "path_Clean p \<noteq> []"
  using Join_nonempty [OF _ path_elems_nonempty] by (auto simp: path_Clean_elems)

lemma filepath_Dir_nonempty [simp]: "filepath_Dir p \<noteq> []"
  by (simp add: filepath_Dir_def)

end
