(* ===== verification/GoFlag.thy ===== *)
theory GoFlag
  imports GoStringFacts
begin

text \<open>
  Command-line parsing as the two programs use it: \<open>flag.FlagSet\<close> with \<open>ContinueOnError\<close>, and the values \<open>strconv.ParseBool\<close>
  and \<open>strconv.ParseInt(s, 0, 64)\<close> accept.  A flag set maps names to whether the flag is boolean and how its value is stored;
  usage text goes to standard error and is left out.
\<close>

section \<open>Values\<close>

definition ParseBool :: "string \<Rightarrow> bool option" where
  "ParseBool s =
     (if s \<in> {''1'', ''t'', ''T'', ''TRUE'', ''true'', ''True''} then Some True
      else if s \<in> {''0'', ''f'', ''F'', ''FALSE'', ''false'', ''False''} then Some False
      else None)"

definition errParse :: go_error where "errParse = errors_New ''parse error''"
definition errRange :: go_error where "errRange = errors_New ''value out of range''"

definition between :: "char \<Rightarrow> char \<Rightarrow> char \<Rightarrow> bool" where
  "between a b c \<longleftrightarrow> (of_char a :: nat) \<le> of_char c \<and> of_char c \<le> (of_char b :: nat)"

definition digit_of :: "char \<Rightarrow> nat option" where
  "digit_of c =
     (if is_digit c then Some (of_char c - 0x30)
      else if between (CHR ''a'') (CHR ''z'') c then Some (of_char c - 0x61 + 10)
      else if between (CHR ''A'') (CHR ''Z'') c then Some (of_char c - 0x41 + 10)
      else None)"

fun uint_digits :: "nat \<Rightarrow> nat \<Rightarrow> string \<Rightarrow> nat result" where
  "uint_digits base n [] = Inr n"
| "uint_digits base n (c # cs) =
     (if c = CHR ''_'' then uint_digits base n cs
      else case digit_of c of
          None \<Rightarrow> Inl errParse
        | Some d \<Rightarrow>
            if base \<le> d then Inl errParse
            else if n * base + d > 2 ^ 64 - 1 then Inl errRange
            else uint_digits base (n * base + d) cs)"

definition base_prefix :: "string \<Rightarrow> nat option" where
  "base_prefix s =
     (if length s < 2 \<or> s ! 0 \<noteq> CHR ''0'' then None
      else if s ! 1 \<in> {CHR ''b'', CHR ''B''} then Some 2
      else if s ! 1 \<in> {CHR ''o'', CHR ''O''} then Some 8
      else if s ! 1 \<in> {CHR ''x'', CHR ''X''} then Some 16
      else None)"

text \<open>Underscores separate digits, the base prefix counting as one.  \<open>saw\<close> is the last character class.\<close>

fun underscores_between :: "bool \<Rightarrow> char \<Rightarrow> string \<Rightarrow> bool" where
  "underscores_between hex saw [] \<longleftrightarrow> saw \<noteq> CHR ''_''"
| "underscores_between hex saw (c # cs) \<longleftrightarrow>
     (if is_digit c \<or> hex \<and> (between (CHR ''a'') (CHR ''f'') c \<or> between (CHR ''A'') (CHR ''F'') c) then
        underscores_between hex (CHR ''0'') cs
      else if c = CHR ''_'' then saw = CHR ''0'' \<and> underscores_between hex (CHR ''_'') cs
      else saw \<noteq> CHR ''_'' \<and> underscores_between hex (CHR ''!'') cs)"

definition underscoreOK :: "string \<Rightarrow> bool" where
  "underscoreOK s = (case base_prefix s of
       Some b \<Rightarrow> underscores_between (b = 16) (CHR ''0'') (drop 2 s)
     | None \<Rightarrow> underscores_between False (CHR ''^'') s)"

definition ParseUint0 :: "string \<Rightarrow> nat result" where
  "ParseUint0 s =
     (if s = [] then Inl errParse
      else let (base, ds) = (if s ! 0 \<noteq> CHR ''0'' then (10, s)
                             else if length s \<ge> 3 \<and> base_prefix s \<noteq> None then (the (base_prefix s), drop 2 s)
                             else (8, tl s)) in
      and_then (uint_digits base 0 ds) (\<lambda>n.
      if CHR ''_'' \<in> set ds \<and> \<not> underscoreOK s then Inl errParse else Inr n))"

definition ParseInt0 :: "string \<Rightarrow> int result" where
  "ParseInt0 s =
     (let neg = prefix ''-'' s; t = (if neg \<or> prefix ''+'' s then tl s else s) in
      and_then (ParseUint0 t) (\<lambda>n.
      if \<not> neg \<and> n \<ge> 2 ^ 63 \<or> neg \<and> n > 2 ^ 63 then Inl errRange
      else Inr (if neg then - int n else int n)))"

section \<open>Flag sets\<close>

record 's Flag =
  IsBoolFlag :: bool
  Set :: "string \<Rightarrow> 's \<Rightarrow> 's result"

type_synonym 's FlagSet = "(string \<times> 's Flag) list"

definition StringVar :: "(string \<Rightarrow> 's \<Rightarrow> 's) \<Rightarrow> 's Flag" where
  "StringVar put = \<lparr>IsBoolFlag = False, Set = (\<lambda>v s. Inr (put v s))\<rparr>"

definition BoolVar :: "(bool \<Rightarrow> 's \<Rightarrow> 's) \<Rightarrow> 's Flag" where
  "BoolVar put = \<lparr>IsBoolFlag = True, Set = (\<lambda>v s. case ParseBool v of None \<Rightarrow> Inl errParse | Some b \<Rightarrow> Inr (put b s))\<rparr>"

definition Int64Var :: "(int \<Rightarrow> 's \<Rightarrow> 's) \<Rightarrow> 's Flag" where
  "Int64Var put = \<lparr>IsBoolFlag = False, Set = (\<lambda>v s. and_then (ParseInt0 v) (\<lambda>n. Inr (put n s)))\<rparr>"

datatype 's parsed = Done "string list" | Failed go_error | Seen 's "string list"

definition failed_or :: "(go_error \<Rightarrow> go_error) \<Rightarrow> 's result \<Rightarrow> string list \<Rightarrow> 's parsed" where
  "failed_or f r rest = (case r of Inl e \<Rightarrow> Failed (f e) | Inr s \<Rightarrow> Seen s rest)"

text \<open>The name and, after an equals sign, the value.\<close>

definition name_value :: "string \<Rightarrow> string \<times> string option" where
  "name_value name = (case Cut name ''='' of None \<Rightarrow> (name, None) | Some (n, v) \<Rightarrow> (n, Some v))"

definition set_flag :: "'s Flag \<Rightarrow> string \<Rightarrow> string option \<Rightarrow> string list \<Rightarrow> 's \<Rightarrow> 's parsed" where
  "set_flag flag name hasValue rest s =
     (if IsBoolFlag flag then
        (case hasValue of
           Some v \<Rightarrow> failed_or (\<lambda>e. Errorf ''invalid boolean value %q for -%s: %v'' [S v, S name, V e]) (Set flag v s) rest
         | None \<Rightarrow> failed_or (\<lambda>e. Errorf ''invalid boolean flag %s: %v'' [S name, V e]) (Set flag ''true'' s) rest)
      else
        (case (hasValue, rest) of
           (Some v, _) \<Rightarrow> failed_or (\<lambda>e. Errorf ''invalid value %q for flag -%s: %v'' [S v, S name, V e]) (Set flag v s) rest
         | (None, v # rest') \<Rightarrow> failed_or (\<lambda>e. Errorf ''invalid value %q for flag -%s: %v'' [S v, S name, V e]) (Set flag v s) rest'
         | (None, []) \<Rightarrow> Failed (Errorf ''flag needs an argument: -%s'' [S name])))"

definition parseOne :: "'s FlagSet \<Rightarrow> string list \<Rightarrow> 's \<Rightarrow> 's parsed" where
  "parseOne F args s = (case args of [] \<Rightarrow> Done [] | a # rest \<Rightarrow>
     if length a < 2 \<or> hd a \<noteq> CHR ''-'' then Done args
     else if a = ''--'' then Done rest
     else let name0 = (if a ! 1 = CHR ''-'' then drop 2 a else drop 1 a) in
     if name0 = [] \<or> hd name0 = CHR ''-'' \<or> hd name0 = CHR ''='' then Failed (Errorf ''bad flag syntax: %s'' [S a])
     else let (name, hasValue) = name_value name0 in
     (case map_of F name of
        None \<Rightarrow> Failed (if name = ''help'' \<or> name = ''h'' then errors_New ''flag: help requested''
                        else Errorf ''flag provided but not defined: -%s'' [S name])
      | Some flag \<Rightarrow> set_flag flag name hasValue rest s))"

lemma failed_or_Seen [simp]: "failed_or f r rest = Seen s' rest' \<longleftrightarrow> r = Inr s' \<and> rest' = rest"
  by (auto simp: failed_or_def split: sum.splits)

lemma parseOne_shorter: "parseOne F args s = Seen s' rest \<Longrightarrow> length rest < length args"
  by (auto simp: parseOne_def set_flag_def Let_def split: list.splits if_splits option.splits prod.splits)

function flag_Parse :: "'s FlagSet \<Rightarrow> string list \<Rightarrow> 's \<Rightarrow> ('s \<times> string list) result" where
  "flag_Parse F args s = (case parseOne F args s of
     Done rest \<Rightarrow> Inr (s, rest) | Failed e \<Rightarrow> Inl e | Seen s' rest \<Rightarrow> flag_Parse F rest s')"
  by pat_completeness auto
termination by (relation "measure (\<lambda>(F, args, s). length args)") (auto dest: parseOne_shorter)

declare flag_Parse.simps [simp del]

section \<open>Settings in order\<close>

text \<open>A name that can be written on the command line.\<close>

definition flag_name :: "string \<Rightarrow> bool" where
  "flag_name n \<longleftrightarrow> n \<noteq> [] \<and> hd n \<noteq> CHR ''-'' \<and> CHR ''='' \<notin> set n"

definition setting :: "string \<times> string \<Rightarrow> string" where
  "setting nv = (case nv of (n, v) \<Rightarrow> ''--'' @ n @ ''='' @ v)"

definition apply_setting :: "'s FlagSet \<Rightarrow> 's \<Rightarrow> string \<times> string \<Rightarrow> 's result" where
  "apply_setting F s nv = (case nv of (n, v) \<Rightarrow> (case map_of F n of
       None \<Rightarrow> Inl (Errorf ''flag provided but not defined: -%s'' [S n])
     | Some flag \<Rightarrow> map_err (\<lambda>e. Errorf (if IsBoolFlag flag then ''invalid boolean value %q for -%s: %v'' else ''invalid value %q for flag -%s: %v'')
         [S v, S n, V e]) (Set flag v s)))"

lemma Cut_at: "CHR ''='' \<notin> set n \<Longrightarrow> Cut (n @ ''='' @ v) ''='' = Some (n, v)"
proof (induction n)
  case (Cons c n)
  then have "Cut (n @ ''='' @ v) ''='' = Some (n, v)" "c \<noteq> CHR ''=''" by auto
  then show ?case by (auto simp: Cut_def)
qed (simp add: Cut_def)

lemma parseOne_setting:
  assumes "flag_name n" and "n \<notin> {''help'', ''h''} \<or> map_of F n \<noteq> None"
  shows "parseOne F (setting (n, v) # rest) s = failed_or (\<lambda>e. e) (apply_setting F s (n, v)) rest"
proof -
  have "name_value (n @ ''='' @ v) = (n, Some v)" using assms(1) Cut_at [of n v] by (simp add: name_value_def flag_name_def)
  moreover have "n @ ''='' @ v \<noteq> []" "hd (n @ ''='' @ v) \<noteq> CHR ''-''" "hd (n @ ''='' @ v) \<noteq> CHR ''=''"
    using assms(1) by (cases n; auto simp: flag_name_def)+
  ultimately show ?thesis
    using assms(2)
    by (auto simp: parseOne_def setting_def set_flag_def apply_setting_def failed_or_def Let_def map_err_def
        split: option.splits sum.splits)
qed

lemma flag_Parse_settings:
  assumes "\<And>n v. (n, v) \<in> set kvs \<Longrightarrow> flag_name n \<and> (n \<notin> {''help'', ''h''} \<or> map_of F n \<noteq> None)"
  shows "flag_Parse F (map setting kvs) s = and_then (try_fold (apply_setting F) s kvs) (\<lambda>s'. Inr (s', []))"
  using assms
proof (induction kvs arbitrary: s)
  case Nil
  then show ?case by (simp add: flag_Parse.simps parseOne_def)
next
  case (Cons kv kvs)
  obtain n v where kv: "kv = (n, v)" by (cases kv)
  with Cons.prems have "parseOne F (setting (n, v) # map setting kvs) s = failed_or (\<lambda>e. e) (apply_setting F s (n, v)) (map setting kvs)"
    by (intro parseOne_setting) auto
  moreover have "flag_Parse F (map setting kvs) t = and_then (try_fold (apply_setting F) t kvs) (\<lambda>s'. Inr (s', []))" for t
    by (rule Cons.IH) (use Cons.prems in auto)
  ultimately show ?case unfolding kv
    by (cases "apply_setting F s (n, v)") (simp_all add: flag_Parse.simps [of F "setting (n, v) # map setting kvs"] failed_or_def)
qed

end
