(* ===== verification/GoNet.thy ===== *)
theory GoNet
  imports GoStringFacts
begin

text \<open>
  The part of \<open>net/url\<close>, \<open>net/netip\<close> and \<open>net\<close> that the program relies on (Go 1.26): which URLs
  \<open>url.Parse\<close> accepts and the scheme, host and path it finds, and which texts are IP addresses and
  CIDR prefixes.  The code reads only these fields of a parsed URL, so the user information,
  the query and the fragment are checked but not kept.
\<close>

section \<open>IP addresses\<close>

text \<open>One decimal field of a dotted quad: 0 to 255 without a leading zero.\<close>

definition valid_octet :: "string \<Rightarrow> bool" where
  "valid_octet s \<longleftrightarrow>
     s \<noteq> [] \<and> list_all is_digit s \<and> digits_value s \<le> 255 \<and> (length s = 1 \<or> hd s \<noteq> CHR ''0'')"

definition valid_ipv4 :: "string \<Rightarrow> bool" where
  "valid_ipv4 s \<longleftrightarrow> (let fs = Split s CHR ''.'' in length fs = 4 \<and> list_all valid_octet fs)"

text \<open>
  The fields of an IPv6 address after an optional leading \<open>::\<close>.  \<open>left\<close> is the number of 16-bit
  fields still free, \<open>ell\<close> says that a \<open>::\<close> has been seen.
\<close>

fun ipv6_fields :: "nat \<Rightarrow> bool \<Rightarrow> string \<Rightarrow> bool" where
  "ipv6_fields 0 ell s = False"
| "ipv6_fields (Suc left) ell s =
     (let h = takeWhile (\<lambda>c. hex_value c \<noteq> None) s;
          t = drop (length h) s in
      if h = [] \<or> 4 < length h then False
      else case t of
        [] \<Rightarrow> (if left = 0 then \<not> ell else ell)
      | a # u \<Rightarrow>
          if a = CHR ''.'' then
            (if left = 1 then \<not> ell else ell \<and> 2 \<le> left) \<and> valid_ipv4 s
          else if a \<noteq> CHR '':'' then False
          else (case u of
                  [] \<Rightarrow> False
                | b # v \<Rightarrow>
                    if b = CHR '':'' then
                      (if ell \<or> left = 0 then False
                       else if v = [] then True else ipv6_fields left True v)
                    else ipv6_fields left ell u))"

definition valid_ipv6 :: "string \<Rightarrow> bool" where
  "valid_ipv6 s \<longleftrightarrow>
     (if prefix ''::'' s then s = ''::'' \<or> ipv6_fields 8 True (drop 2 s)
      else ipv6_fields 8 False s)"

text \<open>\<open>netip.ParseAddr\<close> restricted to IPv6, with an optional zone.\<close>

definition valid_ipv6_zone :: "string \<Rightarrow> bool" where
  "valid_ipv6_zone s \<longleftrightarrow>
     (case Cut s ''%'' of None \<Rightarrow> valid_ipv6 s | Some (a, z) \<Rightarrow> z \<noteq> [] \<and> valid_ipv6 a)"

definition net_ParseIP :: "string \<Rightarrow> bool" where
  "net_ParseIP s \<longleftrightarrow> valid_ipv4 s \<or> valid_ipv6 s"

definition net_ParseCIDR :: "string \<Rightarrow> bool" where
  "net_ParseCIDR s \<longleftrightarrow>
     (case Cut s ''/'' of
        None \<Rightarrow> False
      | Some (a, m) \<Rightarrow>
          m \<noteq> [] \<and> list_all is_digit m \<and>
          (valid_ipv4 a \<and> digits_value m \<le> 32 \<or> valid_ipv6 a \<and> digits_value m \<le> 128))"

section \<open>URLs\<close>

record url =
  url_Scheme :: string
  url_Opaque :: string
  url_Host :: string
  url_Path :: string

definition is_alpha :: "char \<Rightarrow> bool" where
  "is_alpha c \<longleftrightarrow> (0x41::nat) \<le> of_char c \<and> of_char c \<le> (0x5A::nat)
              \<or> (0x61::nat) \<le> of_char c \<and> of_char c \<le> (0x7A::nat)"

datatype escape_mode = EncodePath | EncodeHost | EncodeZone

text \<open>The characters a host may contain unescaped (\<open>shouldEscape\<close> is its complement).\<close>

definition host_char :: "char \<Rightarrow> bool" where
  "host_char c \<longleftrightarrow> is_alpha c \<or> is_digit c \<or> c \<in> set ''-_.~!$&'' \<or> c = CHR 0x27 \<or>
     c \<in> set ''()*+,;=:[]<>'' \<or> c = CHR 0x22"

definition non_ascii :: "char \<Rightarrow> bool" where
  "non_ascii c \<longleftrightarrow> (0x80::nat) \<le> of_char c"

fun unescape :: "escape_mode \<Rightarrow> string \<Rightarrow> string option" where
  "unescape m [] = Some []"
| "unescape m (a # s) =
     (if a = CHR ''%'' then
        (case s of
           x # y # t \<Rightarrow>
             (case (hex_value x, hex_value y) of
                (Some h, Some l) \<Rightarrow>
                  (let v = char_of (16 * h + l) in
                   if m = EncodeHost \<and> h < 8 \<and> \<not> (x = CHR ''2'' \<and> y = CHR ''5'') then None
                   else if m = EncodeZone \<and> \<not> (x = CHR ''2'' \<and> y = CHR ''5'') \<and>
                           v \<noteq> CHR '' '' \<and> \<not> host_char v then None
                   else map_option (\<lambda>r. v # r) (unescape m t))
              | _ \<Rightarrow> None)
         | _ \<Rightarrow> None)
      else if m \<noteq> EncodePath \<and> \<not> non_ascii a \<and> \<not> host_char a then None
      else map_option (\<lambda>r. a # r) (unescape m s))"

fun get_scheme :: "string \<Rightarrow> string \<Rightarrow> (string \<times> string) option option" where
  \<comment> \<open>\<open>acc\<close>: the characters so far, reversed.  \<open>None\<close>: an error; \<open>Some None\<close>: no scheme.\<close>
  "get_scheme acc [] = Some None"
| "get_scheme acc (c # s) =
     (if is_alpha c then get_scheme (c # acc) s
      else if is_digit c \<or> c = CHR ''+'' \<or> c = CHR ''-'' \<or> c = CHR ''.'' then
        (if acc = [] then Some None else get_scheme (c # acc) s)
      else if c = CHR '':'' then (if acc = [] then None else Some (Some (rev acc, s)))
      else Some None)"

definition valid_optional_port :: "string \<Rightarrow> bool" where
  "valid_optional_port p \<longleftrightarrow>
     (case p of [] \<Rightarrow> True | a # t \<Rightarrow> a = CHR '':'' \<and> list_all is_digit t)"

definition last_index :: "char \<Rightarrow> string \<Rightarrow> nat option" where
  "last_index c s =
     (if c \<in> set s then Some (length s - 1 - length (takeWhile (\<lambda>x. x \<noteq> c) (rev s))) else None)"

definition parse_host :: "string \<Rightarrow> string option" where
  "parse_host h =
     (if prefix ''['' h then
        (case last_index CHR '']'' h of
           None \<Rightarrow> None
         | Some i \<Rightarrow>
             if \<not> valid_optional_port (drop (i + 1) h) then None
             else let name = take (i - 1) (drop 1 h);
                      un = (case Index name ''%25'' of
                              None \<Rightarrow> unescape EncodeHost name
                            | Some z \<Rightarrow>
                                (case (unescape EncodeHost (take z name), unescape EncodeZone (drop z name)) of
                                   (Some a, Some b) \<Rightarrow> Some (a @ b) | _ \<Rightarrow> None))
                  in (case un of
                        None \<Rightarrow> None
                      | Some u \<Rightarrow>
                          if valid_ipv6_zone u then Some (''['' @ u @ '']'' @ drop (i + 1) h) else None))
      else if CHR ''['' \<in> set h then None
      else (case Index h '':'' of
              None \<Rightarrow> unescape EncodeHost h
            | Some i \<Rightarrow> if valid_optional_port (drop i h) then unescape EncodeHost h else None))"

definition valid_userinfo :: "string \<Rightarrow> bool" where
  "valid_userinfo s \<longleftrightarrow>
     list_all (\<lambda>c. is_alpha c \<or> is_digit c \<or> c \<in> set ''-._:~!$&()*+,;=%@'' \<or> c = CHR 0x27) s"

definition parse_authority :: "string \<Rightarrow> string option" where
  "parse_authority a =
     (case last_index CHR ''@'' a of
        None \<Rightarrow> parse_host a
      | Some i \<Rightarrow>
          (case parse_host (drop (i + 1) a) of
             None \<Rightarrow> None
           | Some h \<Rightarrow>
               if valid_userinfo (take i a) \<and> unescape EncodePath (take i a) \<noteq> None then Some h
               else None))"

definition has_ctl_byte :: "string \<Rightarrow> bool" where
  "has_ctl_byte s \<longleftrightarrow> list_ex is_ascii_control s"

definition parse_rest :: "string \<Rightarrow> string \<Rightarrow> url option" where
  "parse_rest sch rest0 =
     (let rest = takeWhile (\<lambda>c. c \<noteq> CHR ''?'') rest0 in
      if \<not> prefix ''/'' rest \<and> sch \<noteq> [] then
        Some \<lparr>url_Scheme = sch, url_Opaque = rest, url_Host = [], url_Path = []\<rparr>
      else if \<not> prefix ''/'' rest \<and> CHR '':'' \<in> set (takeWhile (\<lambda>c. c \<noteq> CHR ''/'') rest) then None
      else if (sch \<noteq> [] \<or> \<not> prefix ''///'' rest) \<and> prefix ''//'' rest then
        (let auth = takeWhile (\<lambda>c. c \<noteq> CHR ''/'') (drop 2 rest);
             p = drop (2 + length auth) rest
         in case (parse_authority auth, unescape EncodePath p) of
              (Some h, Some q) \<Rightarrow> Some \<lparr>url_Scheme = sch, url_Opaque = [], url_Host = h, url_Path = q\<rparr>
            | _ \<Rightarrow> None)
      else (case unescape EncodePath rest of
              None \<Rightarrow> None
            | Some q \<Rightarrow> Some \<lparr>url_Scheme = sch, url_Opaque = [], url_Host = [], url_Path = q\<rparr>))"

definition url_Parse :: "string \<Rightarrow> url option" where
  "url_Parse raw =
     (let u = takeWhile (\<lambda>c. c \<noteq> CHR ''#'') raw;
          frag = drop (length u + 1) raw in
      if has_ctl_byte u \<or> unescape EncodePath frag = None then None
      else if u = ''*'' then
        Some \<lparr>url_Scheme = [], url_Opaque = [], url_Host = [], url_Path = ''*''\<rparr>
      else (case get_scheme [] u of
              None \<Rightarrow> None
            | Some None \<Rightarrow> parse_rest [] u
            | Some (Some (sch, rest)) \<Rightarrow> parse_rest (ToLower sch) rest))"

definition url_IsAbs :: "url \<Rightarrow> bool" where
  "url_IsAbs u \<longleftrightarrow> url_Scheme u \<noteq> []"

text \<open>An absolute \<open>http\<close> or \<open>https\<close> URL with a host, as several components require it.\<close>

definition http_url :: "string \<Rightarrow> bool" where
  "http_url s \<longleftrightarrow>
     (case url_Parse s of
        None \<Rightarrow> False
      | Some u \<Rightarrow> (url_Scheme u = ''http'' \<or> url_Scheme u = ''https'') \<and> url_Host u \<noteq> [])"

definition https_scheme :: "string \<Rightarrow> bool" where
  "https_scheme s \<longleftrightarrow> (case url_Parse s of None \<Rightarrow> False | Some u \<Rightarrow> url_Scheme u = ''https'')"

lemma http_url_SomeI:
  "url_Parse s = Some u \<Longrightarrow> url_Scheme u = ''http'' \<or> url_Scheme u = ''https'' \<Longrightarrow> url_Host u \<noteq> [] \<Longrightarrow> http_url s"
  by (simp add: http_url_def)

end
