(* ===== verification/World.thy ===== *)
theory World
  imports GoNet
begin

text \<open>
  The world the program acts on, for the components that read and write files or talk HTTP.

  The file system is a map from cleaned paths to nodes.  Every system call takes the next number;
  \<open>Faults\<close> decides whether the kernel refuses that call, with what error, and how many bytes of a
  write reached the disk before it failed, so that a theorem over all worlds covers full disks,
  missing parents, permissions and short writes.  \<open>Net\<close> answers the n-th HTTP request in whatever way
  a server, a proxy or a broken link may answer it; redirects and timeouts are inside that answer.
  Symbolic links are not followed: a path names at most one node.

  An operation with effects is a function from the world to a result and the next world.
\<close>

section \<open>State\<close>

datatype node = File bytes nat | Dir nat | Irregular

datatype http_reply = NetError go_error | Reply int "bytes result"

record world =
  Fs :: "string \<Rightarrow> node option"
  Faults :: "nat \<Rightarrow> (nat option \<times> go_error) option"
  Calls :: nat
  TempName :: "nat \<Rightarrow> nat"
  Net :: "nat \<Rightarrow> string \<Rightarrow> string \<Rightarrow> http_reply"
  Requests :: "(string \<times> string) list"
  Console :: "string list"

type_synonym 'a io = "world \<Rightarrow> 'a result \<times> world"

section \<open>Sequencing\<close>

definition io_return :: "'a \<Rightarrow> 'a io" where
  "io_return x w = (Inr x, w)"

definition io_fail :: "go_error \<Rightarrow> 'a io" where
  "io_fail e w = (Inl e, w)"

definition io_of :: "'a result \<Rightarrow> 'a io" where
  "io_of r w = (r, w)"

definition io_bind :: "'a io \<Rightarrow> ('a \<Rightarrow> 'b io) \<Rightarrow> 'b io" where
  "io_bind m k w = (case m w of (Inl e, w') \<Rightarrow> (Inl e, w') | (Inr x, w') \<Rightarrow> k x w')"

text \<open>\<open>if err != nil { return f(err) }\<close>\<close>

definition io_wrap :: "(go_error \<Rightarrow> go_error) \<Rightarrow> 'a io \<Rightarrow> 'a io" where
  "io_wrap f m w = (case m w of (r, w') \<Rightarrow> (map_err f r, w'))"

text \<open>The continuation sees the error as a value, as code that inspects \<open>err\<close> does.\<close>

definition io_try :: "'a io \<Rightarrow> ('a result \<Rightarrow> 'b io) \<Rightarrow> 'b io" where
  "io_try m k w = (case m w of (r, w') \<Rightarrow> k r w')"

text \<open>Run \<open>m\<close>; on failure run the cleanup, whose own error is dropped, then return the wrapped error.\<close>

definition io_or_cleanup :: "'a io \<Rightarrow> unit io \<Rightarrow> (go_error \<Rightarrow> go_error) \<Rightarrow> 'a io" where
  "io_or_cleanup m cleanup f = io_try m (\<lambda>r. case r of
       Inr x \<Rightarrow> io_return x
     | Inl e \<Rightarrow> io_try cleanup (\<lambda>_. io_fail (f e)))"

text \<open>\<open>defer func() { _ = cleanup() }()\<close>\<close>

definition io_finally :: "'a io \<Rightarrow> unit io \<Rightarrow> 'a io" where
  "io_finally m cleanup = io_try m (\<lambda>r. io_try cleanup (\<lambda>_. io_of r))"

fun io_each :: "('a \<Rightarrow> unit io) \<Rightarrow> 'a list \<Rightarrow> unit io" where
  "io_each f [] = io_return ()"
| "io_each f (x # xs) = io_bind (f x) (\<lambda>_. io_each f xs)"

fun io_map :: "('a \<Rightarrow> 'b io) \<Rightarrow> 'a list \<Rightarrow> 'b list io" where
  "io_map f [] = io_return []"
| "io_map f (x # xs) = io_bind (f x) (\<lambda>y. io_bind (io_map f xs) (\<lambda>ys. io_return (y # ys)))"

section \<open>System calls\<close>

definition os_call :: "(nat option \<times> go_error \<Rightarrow> 'a io) \<Rightarrow> 'a io \<Rightarrow> 'a io" where
  "os_call on_fault body w =
     (let w' = w\<lparr>Calls := Suc (Calls w)\<rparr> in
      case Faults w (Calls w) of None \<Rightarrow> body w' | Some f \<Rightarrow> on_fault f w')"

definition refused :: "nat option \<times> go_error \<Rightarrow> 'a io" where
  "refused f = io_fail (snd f)"

definition set_node :: "string \<Rightarrow> node option \<Rightarrow> unit io" where
  "set_node p n w = (Inr (), w\<lparr>Fs := (Fs w)(path_Clean p := n)\<rparr>)"

definition os_Stat :: "string \<Rightarrow> node io" where
  "os_Stat p = os_call refused (\<lambda>w. case Fs w (path_Clean p) of
       None \<Rightarrow> (Inl (Sentinel OsErrNotExist), w)
     | Some n \<Rightarrow> (Inr n, w))"

definition os_ReadFile :: "string \<Rightarrow> bytes io" where
  "os_ReadFile p = os_call refused (\<lambda>w. case Fs w (path_Clean p) of
       None \<Rightarrow> (Inl (Sentinel OsErrNotExist), w)
     | Some (File d m) \<Rightarrow> (Inr d, w)
     | Some _ \<Rightarrow> (Inl (errors_New ''is a directory''), w))"

text \<open>\<open>os.Open\<close> for reading, and \<open>io.ReadAll\<close> of the open file.\<close>

definition os_Open :: "string \<Rightarrow> unit io" where
  "os_Open p = os_call refused (\<lambda>w. case Fs w (path_Clean p) of
       None \<Rightarrow> (Inl (Sentinel OsErrNotExist), w)
     | Some _ \<Rightarrow> (Inr (), w))"

definition file_ReadAll :: "string \<Rightarrow> bytes io" where
  "file_ReadAll p = os_ReadFile p"

text \<open>
  Opening with \<open>O_CREATE|O_TRUNC\<close> and writing: the permission bits of an existing file stay.  A
  refused call leaves the file alone, or truncated with the first \<open>k\<close> bytes of the data.
\<close>

definition file_mode :: "node option \<Rightarrow> nat \<Rightarrow> nat" where
  "file_mode n mode = (case n of Some (File _ m) \<Rightarrow> m | _ \<Rightarrow> mode)"

definition os_WriteFile :: "string \<Rightarrow> bytes \<Rightarrow> nat \<Rightarrow> unit io" where
  "os_WriteFile p d mode = os_call
     (\<lambda>(k, e). case k of
        None \<Rightarrow> io_fail e
      | Some n \<Rightarrow> (\<lambda>w. io_bind (set_node p (Some (File (take n d) (file_mode (Fs w (path_Clean p)) mode))))
                          (\<lambda>_. io_fail e) w))
     (\<lambda>w. case Fs w (path_Clean p) of
        Some (Dir _) \<Rightarrow> (Inl (errors_New ''is a directory''), w)
      | n \<Rightarrow> set_node p (Some (File d (file_mode n mode))) w)"

definition ancestor_or_self :: "string \<Rightarrow> string \<Rightarrow> bool" where
  "ancestor_or_self q p \<longleftrightarrow> q = p \<or> (q \<noteq> [] \<and> prefix (q @ ''/'') p) \<or> (q = ''/'' \<and> prefix ''/'' p)"

definition os_MkdirAll :: "string \<Rightarrow> nat \<Rightarrow> unit io" where
  "os_MkdirAll p mode = os_call refused (\<lambda>w.
     let c = path_Clean p in
     if list_ex (\<lambda>n. ancestor_or_self (take n c) c \<and>
                     (case Fs w (take n c) of None \<Rightarrow> False | Some (Dir _) \<Rightarrow> False | Some _ \<Rightarrow> True))
                [0..<Suc (length c)]
     then (Inl (errors_New ''not a directory''), w)
     else (Inr (), w\<lparr>Fs := (\<lambda>q. if Fs w q = None \<and> ancestor_or_self q c then Some (Dir mode) else Fs w q)\<rparr>))"

text \<open>
  \<open>os.CreateTemp(dir, prefix + "*")\<close>: \<open>TempName\<close> gives the random number that was settled on; the open
  is exclusive, so a path that exists is refused.
\<close>

definition os_CreateTemp :: "string \<Rightarrow> string \<Rightarrow> string io" where
  "os_CreateTemp dir pre w0 = os_call refused (\<lambda>w.
     let p = filepath_Join [dir, pre @ itoa (TempName w0 (Calls w0))] in
     if Fs w (path_Clean p) \<noteq> None then (Inl (errors_New ''file exists''), w)
     else io_bind (set_node p (Some (File [] 384))) (\<lambda>_. io_return p) w) w0"

definition os_MkdirTemp :: "string \<Rightarrow> string \<Rightarrow> string io" where
  "os_MkdirTemp dir pre w0 = os_call refused (\<lambda>w.
     let p = filepath_Join [dir, pre @ itoa (TempName w0 (Calls w0))] in
     if Fs w (path_Clean p) \<noteq> None then (Inl (errors_New ''file exists''), w)
     else io_bind (set_node p (Some (Dir 448))) (\<lambda>_. io_return p) w) w0"

text \<open>A write to the open file at \<open>p\<close> appends; \<open>Close\<close> may report a deferred error.\<close>

definition file_Write :: "string \<Rightarrow> bytes \<Rightarrow> unit io" where
  "file_Write p d = os_call
     (\<lambda>(k, e) w. case (k, Fs w (path_Clean p)) of
        (Some n, Some (File old m)) \<Rightarrow> io_bind (set_node p (Some (File (old @ take n d) m))) (\<lambda>_. io_fail e) w
      | _ \<Rightarrow> io_fail e w)
     (\<lambda>w. case Fs w (path_Clean p) of
        Some (File old m) \<Rightarrow> set_node p (Some (File (old @ d) m)) w
      | _ \<Rightarrow> (Inl (errors_New ''bad file descriptor''), w))"

definition file_Close :: "unit io" where
  "file_Close = os_call refused (io_return ())"

definition os_Chmod :: "string \<Rightarrow> nat \<Rightarrow> unit io" where
  "os_Chmod p mode = os_call refused (\<lambda>w. case Fs w (path_Clean p) of
       None \<Rightarrow> (Inl (Sentinel OsErrNotExist), w)
     | Some (File d _) \<Rightarrow> set_node p (Some (File d mode)) w
     | Some (Dir _) \<Rightarrow> set_node p (Some (Dir mode)) w
     | Some Irregular \<Rightarrow> (Inr (), w))"

definition os_Rename :: "string \<Rightarrow> string \<Rightarrow> unit io" where
  "os_Rename a b = os_call refused (\<lambda>w. case Fs w (path_Clean a) of
       None \<Rightarrow> (Inl (Sentinel OsErrNotExist), w)
     | Some n \<Rightarrow> (case Fs w (path_Clean b) of
          Some (Dir _) \<Rightarrow> (Inl (errors_New ''file exists''), w)
        | _ \<Rightarrow> (Inr (), w\<lparr>Fs := ((Fs w)(path_Clean a := None))(path_Clean b := Some n)\<rparr>)))"

definition os_Remove :: "string \<Rightarrow> unit io" where
  "os_Remove p = os_call refused (\<lambda>w. case Fs w (path_Clean p) of
       None \<Rightarrow> (Inl (Sentinel OsErrNotExist), w)
     | Some _ \<Rightarrow> set_node p None w)"

text \<open>\<open>ctx.Err()\<close>: the context may be cancelled before any step.\<close>

definition ctx_Err :: "unit io" where
  "ctx_Err = os_call refused (io_return ())"

section \<open>HTTP\<close>

definition http_do :: "string \<Rightarrow> string \<Rightarrow> http_reply io" where
  "http_do meth u w =
     (Inr (Net w (length (Requests w)) meth u), w\<lparr>Requests := Requests w @ [(meth, u)]\<rparr>)"

section \<open>A quiet world\<close>

text \<open>No files, no failing calls and the given network: where the examples run.\<close>

definition quiet_world :: "(nat \<Rightarrow> string \<Rightarrow> string \<Rightarrow> http_reply) \<Rightarrow> world" where
  "quiet_world net = \<lparr>Fs = (\<lambda>_. None), Faults = (\<lambda>_. None), Calls = 0, TempName = (\<lambda>n. n), Net = net,
     Requests = [], Console = []\<rparr>"

section \<open>Running effects\<close>

lemma io_simps [simp]:
  "io_return x w = (Inr x, w)" "io_fail e w = (Inl e, w)" "io_of r w = (r, w)"
  by (simp_all add: io_return_def io_fail_def io_of_def)

lemma io_bind_Inr [simp, res_simps]:
  "io_bind m k w = (Inr y, w2) \<longleftrightarrow> (\<exists>x w1. m w = (Inr x, w1) \<and> k x w1 = (Inr y, w2))"
  by (auto simp: io_bind_def split: prod.splits sum.splits)

lemma io_bind_Inl [res_simps]:
  "io_bind m k w = (Inl e, w2) \<longleftrightarrow>
     (m w = (Inl e, w2) \<or> (\<exists>x w1. m w = (Inr x, w1) \<and> k x w1 = (Inl e, w2)))"
  by (auto simp: io_bind_def split: prod.splits sum.splits)

lemma io_wrap_Inr [simp, res_simps]: "io_wrap f m w = (Inr y, w2) \<longleftrightarrow> m w = (Inr y, w2)"
  by (auto simp: io_wrap_def split: prod.splits)

lemma io_wrap_Inl [res_simps]: "io_wrap f m w = (Inl e, w2) \<longleftrightarrow> (\<exists>d. m w = (Inl d, w2) \<and> e = f d)"
  by (auto simp: io_wrap_def map_err_eq_Inl split: prod.splits)

lemma io_or_cleanup_Inr [simp, res_simps]:
  "io_or_cleanup m c f w = (Inr y, w2) \<longleftrightarrow> m w = (Inr y, w2)"
  by (auto simp: io_or_cleanup_def io_try_def split: prod.splits sum.splits)

lemma io_or_cleanup_Inl:
  "io_or_cleanup m c f w = (Inl e, w2) \<longleftrightarrow> (\<exists>d w1. m w = (Inl d, w1) \<and> snd (c w1) = w2 \<and> e = f d)"
  by (auto simp: io_or_cleanup_def io_try_def split: prod.splits sum.splits)

lemma io_try_iff [res_simps]:
  "io_try m k w = (r, w2) \<longleftrightarrow> (\<exists>r1 w1. m w = (r1, w1) \<and> k r1 w1 = (r, w2))"
  by (auto simp: io_try_def split: prod.splits)

lemma io_finally_iff [simp, res_simps]:
  "io_finally m c w = (r, w2) \<longleftrightarrow> (\<exists>w1. m w = (r, w1) \<and> snd (c w1) = w2)"
  by (auto simp: io_finally_def io_try_def split: prod.splits)

lemma io_each_Inr_Cons [simp]:
  "io_each f (x # xs) w = (Inr (), w2) \<longleftrightarrow> (\<exists>w1. f x w = (Inr (), w1) \<and> io_each f xs w1 = (Inr (), w2))"
  by auto

lemma io_bind_assoc: "io_bind (io_bind m k) l = io_bind m (\<lambda>x. io_bind (k x) l)"
  by (rule ext) (simp add: io_bind_def split: prod.splits sum.splits)

lemma io_bind_return [simp]: "io_bind (io_return x) k = k x"
  by (rule ext) (simp add: io_bind_def)

text \<open>A run that did not fail, for the examples.\<close>

lemma run_ok: "\<not> isl (fst r) \<Longrightarrow> (\<And>x w. r = (Inr x, w) \<Longrightarrow> thesis) \<Longrightarrow> thesis"
  by (cases r; cases "fst r") auto

lemma set_node_simps [simp]:
  "set_node p n w = (r, w') \<longleftrightarrow> r = Inr () \<and> w' = w\<lparr>Fs := (Fs w)(path_Clean p := n)\<rparr>"
  by (auto simp: set_node_def)

lemma os_call_Inr:
  "os_call refused body w = (Inr x, w') \<longleftrightarrow>
     Faults w (Calls w) = None \<and> body (w\<lparr>Calls := Suc (Calls w)\<rparr>) = (Inr x, w')"
  by (auto simp: os_call_def refused_def Let_def split: option.splits)

section \<open>What succeeded calls did\<close>

text \<open>Only \<open>Fs\<close>, \<open>Calls\<close>, \<open>Requests\<close> and \<open>Console\<close> ever change; the oracles are fixed.\<close>

definition same_oracles :: "world \<Rightarrow> world \<Rightarrow> bool" where
  "same_oracles w w' \<longleftrightarrow> Faults w' = Faults w \<and> TempName w' = TempName w \<and> Net w' = Net w"

lemma os_ReadFile_Inr:
  assumes "os_ReadFile p w = (Inr d, w')"
  shows "(\<exists>m. Fs w (path_Clean p) = Some (File d m)) \<and> Fs w' = Fs w \<and> Requests w' = Requests w"
  using assms by (auto simp: os_ReadFile_def os_call_Inr split: option.splits node.splits)

lemma os_Open_Inr:
  assumes "os_Open p w = (Inr (), w')"
  shows "Fs w (path_Clean p) \<noteq> None \<and> Fs w' = Fs w \<and> Requests w' = Requests w"
  using assms by (auto simp: os_Open_def os_call_Inr split: option.splits)

lemmas file_ReadAll_Inr = os_ReadFile_Inr [folded file_ReadAll_def]

lemma os_Stat_Inr:
  assumes "os_Stat p w = (Inr n, w')"
  shows "Fs w (path_Clean p) = Some n \<and> Fs w' = Fs w \<and> Requests w' = Requests w"
  using assms by (auto simp: os_Stat_def os_call_Inr split: option.splits)

lemma os_WriteFile_Inr:
  assumes "os_WriteFile p d mode w = (Inr (), w')"
  shows "Fs w' = (Fs w)(path_Clean p := Some (File d (file_mode (Fs w (path_Clean p)) mode))) \<and>
         Requests w' = Requests w"
  using assms
  by (auto simp: os_WriteFile_def os_call_def Let_def split: option.splits node.splits)

text \<open>Failed or not, a write touches no path but its own.\<close>

lemma os_WriteFile_frame:
  assumes "os_WriteFile p d mode w = (r, w')" and "q \<noteq> path_Clean p"
  shows "Fs w' q = Fs w q"
  using assms
  by (auto simp: os_WriteFile_def os_call_def Let_def io_bind_def set_node_def
      split: option.splits node.splits)

lemma os_Rename_Inr:
  assumes "os_Rename a b w = (Inr (), w')"
  shows "Fs w (path_Clean a) \<noteq> None \<and>
         Fs w' = ((Fs w)(path_Clean a := None))(path_Clean b := Fs w (path_Clean a)) \<and> Requests w' = Requests w"
  using assms by (auto simp: os_Rename_def os_call_Inr split: option.splits node.splits)

lemma os_Chmod_Inr:
  assumes "os_Chmod p mode w = (Inr (), w')" and "Fs w (path_Clean p) = Some (File d m)"
  shows "Fs w' = (Fs w)(path_Clean p := Some (File d mode))"
  using assms by (auto simp: os_Chmod_def os_call_Inr)

lemma file_Write_Inr:
  assumes "file_Write p d w = (Inr (), w')"
  shows "\<exists>old m. Fs w (path_Clean p) = Some (File old m) \<and>
           Fs w' = (Fs w)(path_Clean p := Some (File (old @ d) m))"
  using assms by (auto simp: file_Write_def os_call_def Let_def split: option.splits node.splits)

lemma file_Close_Inr: "file_Close w = (Inr (), w') \<Longrightarrow> Fs w' = Fs w"
  by (auto simp: file_Close_def os_call_Inr)

lemma os_CreateTemp_Inr:
  assumes "os_CreateTemp dir pre w = (Inr p, w')"
  shows "p = filepath_Join [dir, pre @ itoa (TempName w (Calls w))] \<and> Fs w (path_Clean p) = None \<and>
         Fs w' = (Fs w)(path_Clean p := Some (File [] 384))"
  using assms by (auto simp: os_CreateTemp_def os_call_Inr Let_def split: if_splits)

lemma os_MkdirAll_Inr:
  assumes "os_MkdirAll p mode w = (Inr (), w')"
  shows "Fs w q \<noteq> None \<Longrightarrow> Fs w' q = Fs w q"
    and "Fs w' q \<noteq> Fs w q \<Longrightarrow> Fs w' q = Some (Dir mode) \<and> ancestor_or_self q (path_Clean p)"
    and "\<exists>m. Fs w' (path_Clean p) = Some (Dir m)"
proof -
  let ?c = "path_Clean p"
  have fs: "Fs w' = (\<lambda>q. if Fs w q = None \<and> ancestor_or_self q ?c then Some (Dir mode) else Fs w q)"
    and no: "\<not> list_ex (\<lambda>n. ancestor_or_self (take n ?c) ?c \<and>
                 (case Fs w (take n ?c) of None \<Rightarrow> False | Some (Dir _) \<Rightarrow> False | Some _ \<Rightarrow> True)) [0..<Suc (length ?c)]"
    using assms by (auto simp: os_MkdirAll_def os_call_Inr Let_def split: if_splits)
  show "Fs w q \<noteq> None \<Longrightarrow> Fs w' q = Fs w q" by (simp add: fs)
  show "Fs w' q \<noteq> Fs w q \<Longrightarrow> Fs w' q = Some (Dir mode) \<and> ancestor_or_self q ?c"
    by (auto simp: fs split: if_splits)
  from no have "case Fs w ?c of None \<Rightarrow> True | Some (Dir _) \<Rightarrow> True | Some _ \<Rightarrow> False"
    by (auto simp: list_ex_iff ancestor_or_self_def split: option.splits node.splits)
  then show "\<exists>m. Fs w' ?c = Some (Dir m)"
    by (auto simp: fs ancestor_or_self_def split: option.splits node.splits)
qed

section \<open>Actions that leave the files alone\<close>

definition fs_pure :: "'a io \<Rightarrow> bool" where
  "fs_pure m \<longleftrightarrow> (\<forall>w r w'. m w = (r, w') \<longrightarrow> Fs w' = Fs w)"

named_theorems fs_pure_intros \<open>closure properties of file-preserving actions\<close>

lemma fs_pureD: "fs_pure m \<Longrightarrow> m w = (r, w') \<Longrightarrow> Fs w' = Fs w"
  by (simp add: fs_pure_def)

lemma fs_pure_basic [fs_pure_intros]:
  "fs_pure (io_return x)" "fs_pure (io_fail e)" "fs_pure (io_of r)" "fs_pure (http_do mt u)"
  by (auto simp: fs_pure_def http_do_def)

lemma fs_pure_os_call:
  "fs_pure body \<Longrightarrow> fs_pure (os_call refused body)"
  by (fastforce simp: fs_pure_def os_call_def refused_def Let_def split: option.splits)

lemma fs_pure_reads [fs_pure_intros]:
  "fs_pure (os_ReadFile p)" "fs_pure (file_ReadAll p)" "fs_pure (os_Stat p)" "fs_pure (os_Open p)" "fs_pure file_Close"
  unfolding file_ReadAll_def os_ReadFile_def os_Stat_def os_Open_def file_Close_def
  by (rule fs_pure_os_call; auto simp: fs_pure_def split: option.splits node.splits)+

lemma fs_pure_bind [fs_pure_intros]:
  "fs_pure m \<Longrightarrow> (\<And>x. fs_pure (k x)) \<Longrightarrow> fs_pure (io_bind m k)"
  unfolding fs_pure_def io_bind_def by (auto split: prod.splits sum.splits)

lemma fs_pure_wrap [fs_pure_intros]: "fs_pure m \<Longrightarrow> fs_pure (io_wrap f m)"
  unfolding fs_pure_def io_wrap_def by (auto split: prod.splits)

lemma fs_pure_try [fs_pure_intros]:
  "fs_pure m \<Longrightarrow> (\<And>x. fs_pure (k x)) \<Longrightarrow> fs_pure (io_try m k)"
  unfolding fs_pure_def io_try_def by (auto split: prod.splits)

lemma fs_pure_if [fs_pure_intros]: "fs_pure a \<Longrightarrow> fs_pure b \<Longrightarrow> fs_pure (if c then a else b)"
  by simp

lemma fs_pure_each [fs_pure_intros]: "(\<And>x. fs_pure (f x)) \<Longrightarrow> fs_pure (io_each f xs)"
  by (induction xs) (auto intro: fs_pure_intros)

lemma fs_pure_map [fs_pure_intros]: "(\<And>x. fs_pure (f x)) \<Longrightarrow> fs_pure (io_map f xs)"
  by (induction xs) (auto intro!: fs_pure_intros)

lemma fs_pure_option [fs_pure_intros]:
  "fs_pure a \<Longrightarrow> (\<And>x. fs_pure (b x)) \<Longrightarrow> fs_pure (case o' of None \<Rightarrow> a | Some x \<Rightarrow> b x)"
  by (cases o') auto

lemma fs_pure_sum [fs_pure_intros]:
  "(\<And>x. fs_pure (a x)) \<Longrightarrow> (\<And>x. fs_pure (b x)) \<Longrightarrow> fs_pure (case o' of Inl x \<Rightarrow> a x | Inr x \<Rightarrow> b x)"
  by (cases o') auto

lemma fs_pure_prod [fs_pure_intros]:
  "(\<And>x y. fs_pure (a x y)) \<Longrightarrow> fs_pure (case o' of (x, y) \<Rightarrow> a x y)"
  by (cases o') auto

section \<open>Replacing a file through a temporary file\<close>

text \<open>
  Several components write a file by creating a temporary file beside it, writing, closing, optionally
  setting the mode, and renaming it over the target, removing the temporary file when a step fails.
  \<open>msg\<close> gives the error of the step that failed, from the name of the temporary file and the cause.  In the second form the removal is deferred, so it
  also runs after a success.
\<close>

text \<open>\<open>io.Copy\<close> into the open file at \<open>p\<close> of a reader that gives \<open>data\<close> and then ends, or fails.\<close>

definition io_Copy :: "string \<Rightarrow> bytes \<times> go_error option \<Rightarrow> unit io" where
  "io_Copy p src =
     io_bind (file_Write p (fst src)) (\<lambda>_. case snd src of None \<Rightarrow> io_return () | Some e \<Rightarrow> io_fail e)"

definition replace_file_from ::
  "(string \<Rightarrow> string \<Rightarrow> go_error \<Rightarrow> go_error) \<Rightarrow> string \<Rightarrow> string \<Rightarrow> bytes \<times> go_error option \<Rightarrow> nat option \<Rightarrow> string \<Rightarrow> unit io" where
  "replace_file_from msg dir pre src mode target =
     io_bind (io_wrap (msg ''create'' []) (os_CreateTemp dir pre)) (\<lambda>tmp.
     io_bind (io_or_cleanup (io_Copy tmp src) (io_try file_Close (\<lambda>_. os_Remove tmp)) (msg ''write'' tmp)) (\<lambda>_.
     io_bind (io_or_cleanup file_Close (os_Remove tmp) (msg ''close'' tmp)) (\<lambda>_.
     io_bind (case mode of None \<Rightarrow> io_return ()
              | Some m \<Rightarrow> io_or_cleanup (os_Chmod tmp m) (os_Remove tmp) (msg ''chmod'' tmp)) (\<lambda>_.
     io_or_cleanup (os_Rename tmp target) (os_Remove tmp) (msg ''rename'' tmp)))))"

definition replace_file ::
  "(string \<Rightarrow> go_error \<Rightarrow> go_error) \<Rightarrow> string \<Rightarrow> string \<Rightarrow> bytes \<Rightarrow> nat option \<Rightarrow> string \<Rightarrow> unit io" where
  "replace_file msg dir pre data mode target =
     replace_file_from (\<lambda>step _. msg step) dir pre (data, None) mode target"

definition replace_file_deferred ::
  "(string \<Rightarrow> go_error \<Rightarrow> go_error) \<Rightarrow> string \<Rightarrow> string \<Rightarrow> bytes \<Rightarrow> nat \<Rightarrow> string \<Rightarrow> unit io" where
  "replace_file_deferred msg dir pre data mode target =
     io_bind (io_wrap (msg ''create'') (os_CreateTemp dir pre)) (\<lambda>tmp.
     io_finally
       (io_bind (io_or_cleanup (file_Write tmp data) file_Close (msg ''write'')) (\<lambda>_.
        io_bind (io_or_cleanup (os_Chmod tmp mode) file_Close (msg ''chmod'')) (\<lambda>_.
        io_bind (io_wrap (msg ''close'') file_Close) (\<lambda>_.
        io_wrap (msg ''rename'') (os_Rename tmp target)))))
       (os_Remove tmp))"

text \<open>Actions that touch at most one path.\<close>

definition touches_only :: "string \<Rightarrow> 'a io \<Rightarrow> bool" where
  "touches_only p m \<longleftrightarrow> (\<forall>w r w' q. m w = (r, w') \<longrightarrow> q \<noteq> p \<longrightarrow> Fs w' q = Fs w q)"

named_theorems touches_intros \<open>closure properties of actions that touch one path\<close>

lemma touches_onlyD: "touches_only p m \<Longrightarrow> m w = (r, w') \<Longrightarrow> q \<noteq> p \<Longrightarrow> Fs w' q = Fs w q"
  by (simp add: touches_only_def)

lemma touches_fs_pure: "fs_pure m \<Longrightarrow> touches_only p m"
  by (auto simp: touches_only_def fs_pure_def)

lemma touches_bind [touches_intros]:
  "touches_only p m \<Longrightarrow> (\<And>x. touches_only p (k x)) \<Longrightarrow> touches_only p (io_bind m k)"
  unfolding touches_only_def io_bind_def by (auto split: prod.splits sum.splits)

lemma touches_wrap [touches_intros]: "touches_only p m \<Longrightarrow> touches_only p (io_wrap f m)"
  unfolding touches_only_def io_wrap_def by (auto split: prod.splits)

lemma touches_try [touches_intros]:
  "touches_only p m \<Longrightarrow> (\<And>x. touches_only p (k x)) \<Longrightarrow> touches_only p (io_try m k)"
  unfolding touches_only_def io_try_def by (auto split: prod.splits)

lemma touches_cleanup [touches_intros]:
  "touches_only p m \<Longrightarrow> touches_only p c \<Longrightarrow> touches_only p (io_or_cleanup m c f)"
  unfolding touches_only_def io_or_cleanup_def io_try_def
  by (auto split: prod.splits sum.splits)

lemma touches_basic [touches_intros]:
  "touches_only p (io_return x)" "touches_only p (io_fail e)" "touches_only p (io_of r)"
  "touches_only p file_Close"
  by (intro touches_fs_pure fs_pure_intros)+

lemma touches_os [touches_intros]:
  "touches_only (path_Clean p) (file_Write p d)" "touches_only (path_Clean p) (os_Remove p)"
  "touches_only (path_Clean p) (os_Chmod p m)" "touches_only (path_Clean p) (os_WriteFile p d m)"
  by (auto simp: touches_only_def file_Write_def os_Remove_def os_Chmod_def os_WriteFile_def os_call_def
      refused_def Let_def io_bind_def set_node_def split: option.splits node.splits)

lemma touches_io_Copy [touches_intros]: "touches_only (path_Clean p) (io_Copy p src)"
  unfolding io_Copy_def by (cases "snd src") (simp_all add: touches_intros)

lemma touches_option [touches_intros]:
  "touches_only p a \<Longrightarrow> (\<And>x. touches_only p (b x)) \<Longrightarrow> touches_only p (case o' of None \<Rightarrow> a | Some x \<Rightarrow> b x)"
  by (cases o') auto

lemma os_Rename_Inl: "os_Rename a b w = (Inl e, w') \<Longrightarrow> Fs w' = Fs w"
  by (auto simp: os_Rename_def os_call_def refused_def Let_def split: option.splits node.splits)

lemma os_CreateTemp_Inl: "os_CreateTemp dir pre w = (Inl e, w') \<Longrightarrow> Fs w' = Fs w"
  by (auto simp: os_CreateTemp_def os_call_def refused_def Let_def io_bind_def set_node_def
      split: option.splits if_splits)

lemma temp_file_written:
  assumes "os_CreateTemp dir pre w = (Inr tmp, w1)" and "file_Write tmp data w1 = (Inr (), w2)"
    and "file_Close w2 = (Inr (), w3)"
  shows "Fs w (path_Clean tmp) = None" and "Fs w3 = (Fs w)(path_Clean tmp \<mapsto> File data 384)"
  using os_CreateTemp_Inr [OF assms(1)] file_Write_Inr [OF assms(2)] file_Close_Inr [OF assms(3)]
  by (auto simp: fun_eq_iff)

lemma replace_file_from_Inr:
  assumes "replace_file_from msg dir pre src mode target w = (Inr (), w')"
  shows "snd src = None \<and> Fs w' = (Fs w)(path_Clean target \<mapsto> File (fst src) (case mode of None \<Rightarrow> 384 | Some m \<Rightarrow> m))"
proof -
  from assms obtain tmp w1 w2 w3 w4 where w: "os_CreateTemp dir pre w = (Inr tmp, w1)"
    "io_Copy tmp src w1 = (Inr (), w2)" "file_Close w2 = (Inr (), w3)"
    and ren: "os_Rename tmp target w4 = (Inr (), w')"
    and ch: "case mode of None \<Rightarrow> w4 = w3 | Some m \<Rightarrow> os_Chmod tmp m w3 = (Inr (), w4)"
    by (cases mode) (auto simp: replace_file_from_def)
  from w(2) have src: "snd src = None" and wr: "file_Write tmp (fst src) w1 = (Inr (), w2)"
    by (cases "snd src"; auto simp: io_Copy_def)+
  note tmp = temp_file_written [OF w(1) wr w(3)]
  have "Fs w4 = (Fs w)(path_Clean tmp \<mapsto> File (fst src) (case mode of None \<Rightarrow> 384 | Some m \<Rightarrow> m))"
    using ch tmp(2) by (cases mode) (auto dest!: os_Chmod_Inr)
  with os_Rename_Inr [OF ren] tmp(1) src show ?thesis by (auto simp: fun_eq_iff)
qed

lemma replace_file_Inr:
  assumes "replace_file msg dir pre data mode target w = (Inr (), w')"
  shows "Fs w' = (Fs w)(path_Clean target \<mapsto> File data (case mode of None \<Rightarrow> 384 | Some m \<Rightarrow> m))"
  using replace_file_from_Inr [OF assms [unfolded replace_file_def]] by simp

lemma replace_file_deferred_Inr:
  assumes "replace_file_deferred msg dir pre data mode target w = (Inr (), w')"
  shows "Fs w' = (Fs w)(path_Clean target \<mapsto> File data mode) \<or>
         path_Clean target = path_Clean (filepath_Join [dir, pre @ itoa (TempName w (Calls w))]) \<and>
         Fs w (path_Clean target) = None \<and> (\<forall>q. q \<noteq> path_Clean target \<longrightarrow> Fs w' q = Fs w q)"
proof -
  from assms(1) obtain tmp w1 w2 w3 w4 w5 x where w: "os_CreateTemp dir pre w = (Inr tmp, w1)"
    "file_Write tmp data w1 = (Inr (), w2)" "os_Chmod tmp mode w2 = (Inr (), w3)"
    "file_Close w3 = (Inr (), w4)"
    and ren: "os_Rename tmp target w4 = (Inr (), w5)" and rm: "os_Remove tmp w5 = (x, w')"
    by (auto simp: replace_file_deferred_def) (metis surjective_pairing)
  note tmp = os_CreateTemp_Inr [OF w(1)]
  have "Fs w2 = (Fs w)(path_Clean tmp \<mapsto> File data 384)"
    using tmp file_Write_Inr [OF w(2)] by (auto simp: fun_eq_iff)
  then have fs4: "Fs w4 = (Fs w)(path_Clean tmp \<mapsto> File data mode)"
    using os_Chmod_Inr [OF w(3)] file_Close_Inr [OF w(4)] by auto
  have fs5: "Fs w5 = (Fs w)(path_Clean target \<mapsto> File data mode)"
    using os_Rename_Inr [OF ren] fs4 tmp by (auto simp: fun_eq_iff)
  show ?thesis
  proof (cases "path_Clean target = path_Clean tmp")
    case True
    with touches_onlyD [OF touches_os(2) rm] fs5 tmp show ?thesis by auto
  next
    case False
    then have "Fs w' = Fs w5"
      using rm fs5 tmp by (auto simp: os_Remove_def os_call_def refused_def Let_def split: option.splits)
    with fs5 show ?thesis by simp
  qed
qed

text \<open>A failed replacement leaves every path alone except, possibly, a left-over temporary file.\<close>

definition fails_within :: "string \<Rightarrow> 'a io \<Rightarrow> bool" where
  "fails_within p m \<longleftrightarrow> (\<forall>w e w' q. m w = (Inl e, w') \<longrightarrow> q \<noteq> p \<longrightarrow> Fs w' q = Fs w q)"

lemma fails_within_bind:
  "touches_only p m \<Longrightarrow> (\<And>x. fails_within p (k x)) \<Longrightarrow> fails_within p (io_bind m k)"
  unfolding touches_only_def fails_within_def io_bind_def by (auto split: prod.splits sum.splits)

lemma fails_within_cleanup:
  "fails_within p m \<Longrightarrow> touches_only p c \<Longrightarrow> fails_within p (io_or_cleanup m c f)"
  unfolding touches_only_def fails_within_def io_or_cleanup_def io_try_def
  by (auto split: prod.splits sum.splits)

lemma fails_within_finally:
  "fails_within p m \<Longrightarrow> touches_only p c \<Longrightarrow> fails_within p (io_finally m c)"
  unfolding touches_only_def fails_within_def by (auto, metis surjective_pairing)

lemma fails_within_wrap: "fails_within p m \<Longrightarrow> fails_within p (io_wrap f m)"
  unfolding fails_within_def by (auto simp: io_wrap_Inl)

lemma fails_within_Rename: "fails_within p (os_Rename a b)"
  by (auto simp: fails_within_def dest: os_Rename_Inl)

lemmas fails_intros = fails_within_bind fails_within_cleanup fails_within_finally fails_within_wrap
  fails_within_Rename touches_intros

lemma after_CreateTemp_Inl:
  assumes run: "io_bind (io_wrap f (os_CreateTemp dir pre)) k w = (Inl e, w')"
    and k: "\<And>tmp. fails_within (path_Clean tmp) (k tmp)"
    and q: "q \<noteq> path_Clean (filepath_Join [dir, pre @ itoa (TempName w (Calls w))]) \<or> Fs w q \<noteq> None"
  shows "Fs w' q = Fs w q"
proof (cases "os_CreateTemp dir pre w")
  case (Pair r w1)
  show ?thesis
  proof (cases r)
    case (Inl d)
    with Pair run have "w' = w1" by (auto simp: io_bind_Inl io_wrap_Inl)
    with Inl Pair os_CreateTemp_Inl show ?thesis by metis
  next
    case (Inr tmp)
    with Pair run have "k tmp w1 = (Inl e, w')" by (auto simp: io_bind_Inl io_wrap_Inl)
    with k q os_CreateTemp_Inr [OF Pair [unfolded Inr]] show ?thesis by (auto simp: fails_within_def)
  qed
qed

lemma replace_file_from_Inl:
  assumes "replace_file_from msg dir pre src mode target w = (Inl e, w')"
    and "q \<noteq> path_Clean (filepath_Join [dir, pre @ itoa (TempName w (Calls w))]) \<or> Fs w q \<noteq> None"
  shows "Fs w' q = Fs w q"
  using assms(1) unfolding replace_file_from_def
  by (rule after_CreateTemp_Inl) (intro fails_intros, rule assms(2))

lemma replace_file_Inl:
  assumes "replace_file msg dir pre data mode target w = (Inl e, w')"
    and "q \<noteq> path_Clean (filepath_Join [dir, pre @ itoa (TempName w (Calls w))]) \<or> Fs w q \<noteq> None"
  shows "Fs w' q = Fs w q"
  using replace_file_from_Inl [OF assms(1) [unfolded replace_file_def] assms(2)] .

lemma replace_file_deferred_Inl:
  assumes "replace_file_deferred msg dir pre data mode target w = (Inl e, w')"
    and "q \<noteq> path_Clean (filepath_Join [dir, pre @ itoa (TempName w (Calls w))]) \<or> Fs w q \<noteq> None"
  shows "Fs w' q = Fs w q"
  using assms(1) unfolding replace_file_deferred_def
  by (rule after_CreateTemp_Inl) (intro fails_intros, rule assms(2))

end
