(* ===== verification/ProviderTypes.thy ===== *)
theory ProviderTypes
  imports World
begin

text \<open>
  The data model of \<^verbatim>\<open>internal/provider/provider.go\<close>.  Go's string enumerations stay strings
  (a catalog can carry any string in those fields and the validators reject the unknown ones), with
  a named constant for each value the source declares.  An interface is the record of its methods, and
  \<open>None\<close> of its option type is the nil interface.
\<close>

section \<open>Catalog metadata\<close>

record CatalogEntry =
  Distribution :: string
  Release :: string
  Architecture :: string
  Kind :: string

record SourceEntry =
  BaseURL :: string
  ISOName :: string
  ISOSHA256 :: string
  KernelPath :: string
  InitrdPath :: string
  KernelSHA256 :: string
  InitrdSHA256 :: string
  Cmdline :: string

definition empty_SourceEntry :: SourceEntry where
  "empty_SourceEntry = \<lparr>BaseURL = [], ISOName = [], ISOSHA256 = [], KernelPath = [], InitrdPath = [],
     KernelSHA256 = [], InitrdSHA256 = [], Cmdline = []\<rparr>"

type_synonym BootAction = string

definition BootActionLinuxKexec :: BootAction where "BootActionLinuxKexec = ''linux-kexec''"
definition BootActionLocalBoot :: BootAction where "BootActionLocalBoot = ''localboot''"
definition BootActionFreeBSDKboot :: BootAction where "BootActionFreeBSDKboot = ''freebsd-kboot''"

type_synonym LifecycleStatus = string

definition LifecycleSupported :: LifecycleStatus where "LifecycleSupported = ''supported''"
definition LifecycleObsolete :: LifecycleStatus where "LifecycleObsolete = ''obsolete''"
definition LifecycleEOL :: LifecycleStatus where "LifecycleEOL = ''eol''"
definition LifecycleUnknown :: LifecycleStatus where "LifecycleUnknown = ''unknown''"

record LifecycleEntry =
  Status :: LifecycleStatus
  LSource :: string
  Date :: string

definition empty_LifecycleEntry :: LifecycleEntry where
  "empty_LifecycleEntry = \<lparr>Status = [], LSource = [], Date = []\<rparr>"

section \<open>Options and secrets\<close>

type_synonym TargetOptionType = string

definition TargetOptionBool :: TargetOptionType where "TargetOptionBool = ''bool''"
definition TargetOptionEnum :: TargetOptionType where "TargetOptionEnum = ''enum''"
definition TargetOptionString :: TargetOptionType where "TargetOptionString = ''string''"

record TargetOptionValue =
  Value :: string
  VLabel :: string
  VFragment :: string

record TargetOption =
  OptID :: string
  OptLabel :: string
  OptType :: TargetOptionType
  Fragment :: string
  Values :: "TargetOptionValue list"
  Template :: string
  Secret :: bool

definition SecretDeliveryStagedFile :: string where "SecretDeliveryStagedFile = ''staged-file''"

record SecretInput =
  SecID :: string
  SecLabel :: string
  Purpose :: string
  Required :: bool
  Delivery :: string

record SelectedOption =
  SelID :: string
  SelValue :: string

record SecretRef =
  RefID :: string
  InputID :: string

record SecretStore =
  IDs :: "string list"
  Has :: "string \<Rightarrow> bool"
  StageFile :: "string \<Rightarrow> string \<Rightarrow> string \<Rightarrow> string io"

section \<open>Targets, plans and staging\<close>

record Target =
  TID :: string
  ProviderID :: string
  Name :: string
  Action :: BootAction
  Catalog :: CatalogEntry
  Source :: SourceEntry
  Lifecycle :: LifecycleEntry
  Options :: "TargetOption list"
  Secrets :: "SecretInput list"

record PlanInput =
  PTarget :: Target
  POptions :: "SelectedOption list"
  PSecrets :: "SecretStore option"
  PSecretRefs :: "SecretRef list"
  Offline :: bool

record Artifact =
  AName :: string
  URL :: string
  SHA256 :: string
  Path :: string

definition empty_Artifact :: Artifact where
  "empty_Artifact = \<lparr>AName = [], URL = [], SHA256 = [], Path = []\<rparr>"

record Verification =
  MetadataURL :: string
  ChecksumURL :: string
  SignatureURL :: string

definition empty_Verification :: Verification where
  "empty_Verification = \<lparr>MetadataURL = [], ChecksumURL = [], SignatureURL = []\<rparr>"

record FreeBSDKbootPlan =
  Loader :: Artifact
  LoaderHelp :: Artifact
  LoaderArchive :: Artifact
  Payload :: Artifact
  PayloadRoot :: string
  Args :: "string list"

definition empty_FreeBSDKbootPlan :: FreeBSDKbootPlan where
  "empty_FreeBSDKbootPlan = \<lparr>Loader = empty_Artifact, LoaderHelp = empty_Artifact,
     LoaderArchive = empty_Artifact, Payload = empty_Artifact, PayloadRoot = [], Args = []\<rparr>"

record BootPlan =
  BTarget :: Target
  BAction :: BootAction
  Kernel :: Artifact
  Initrd :: Artifact
  BCmdline :: string
  BVerification :: Verification
  FreeBSDKboot :: FreeBSDKbootPlan
  BSecretRefs :: "SecretRef list"

text \<open>A plan literal that names only some fields leaves the others at their zero value.\<close>

definition plan_for :: "Target \<Rightarrow> BootPlan" where
  "plan_for t = \<lparr>BTarget = t, BAction = [], Kernel = empty_Artifact, Initrd = empty_Artifact,
     BCmdline = [], BVerification = empty_Verification, FreeBSDKboot = empty_FreeBSDKbootPlan,
     BSecretRefs = []\<rparr>"

definition ResolveBootAction :: "BootAction \<Rightarrow> BootAction" where
  "ResolveBootAction action = (if action = [] then BootActionLinuxKexec else action)"

definition ResolvedAction :: "BootPlan \<Rightarrow> BootAction" where
  "ResolvedAction p = ResolveBootAction (BAction p)"

datatype StageOperation =
  StageOperationFetch | StageOperationVerify | StageOperationWrite | StageOperationExtract

datatype StageState = StageStateStarted | StageStateCompleted

record StageProgress =
  Operation :: StageOperation
  PState :: StageState
  PArtifact :: string

record DiscoveryFamily =
  FamID :: string
  FamProviderID :: string
  FamName :: string
  Description :: string

type_synonym StageProgressFunc = "StageProgress \<Rightarrow> unit io"

record StageConfig =
  CPlan :: BootPlan
  StagingDir :: string
  CSecrets :: "SecretStore option"
  CSecretRefs :: "SecretRef list"
  Progress :: "StageProgressFunc option"

definition ReportStageProgress :: "StageProgressFunc option \<Rightarrow> StageProgress \<Rightarrow> unit io" where
  "ReportStageProgress progress event =
     (case progress of None \<Rightarrow> io_return () | Some f \<Rightarrow> f event)"

text \<open>
  The interface \<open>Provider\<close>, with the optional interfaces \<open>Discoverer\<close> and \<open>Stager\<close> that the source
  asks for with a type assertion.
\<close>

record Provider =
  ProvID :: string
  ProvTargets :: "Target list io"
  ProvPlan :: "PlanInput \<Rightarrow> BootPlan io"
  ProvDiscoverer :: "(DiscoveryFamily \<times> Target list io) option"
  ProvStager :: "(StageConfig \<Rightarrow> BootPlan io) option"

lemmas action_defs = BootActionLinuxKexec_def BootActionLocalBoot_def BootActionFreeBSDKboot_def
lemmas lifecycle_defs = LifecycleSupported_def LifecycleObsolete_def LifecycleEOL_def LifecycleUnknown_def
lemmas option_type_defs = TargetOptionBool_def TargetOptionEnum_def TargetOptionString_def

lemma ResolveBootAction_idem [simp]: "ResolveBootAction (ResolveBootAction a) = ResolveBootAction a"
  by (simp add: ResolveBootAction_def BootActionLinuxKexec_def)

lemma boot_actions_distinct [simp]:
  "BootActionLinuxKexec \<noteq> BootActionLocalBoot" "BootActionLocalBoot \<noteq> BootActionLinuxKexec"
  "BootActionLinuxKexec \<noteq> BootActionFreeBSDKboot" "BootActionFreeBSDKboot \<noteq> BootActionLinuxKexec"
  "BootActionLocalBoot \<noteq> BootActionFreeBSDKboot" "BootActionFreeBSDKboot \<noteq> BootActionLocalBoot"
  "BootActionLinuxKexec \<noteq> []" "BootActionLocalBoot \<noteq> []" "BootActionFreeBSDKboot \<noteq> []"
  by (simp_all add: action_defs)

lemma option_types_distinct [simp]:
  "TargetOptionBool \<noteq> TargetOptionEnum" "TargetOptionEnum \<noteq> TargetOptionBool"
  "TargetOptionBool \<noteq> TargetOptionString" "TargetOptionString \<noteq> TargetOptionBool"
  "TargetOptionEnum \<noteq> TargetOptionString" "TargetOptionString \<noteq> TargetOptionEnum"
  "TargetOptionBool \<noteq> []" "TargetOptionEnum \<noteq> []" "TargetOptionString \<noteq> []"
  by (simp_all add: option_type_defs)

end
