(* ===== verification/ProviderValidation.thy ===== *)
theory ProviderValidation
  imports ProviderTypes
begin

text \<open>
  The validators of \<^verbatim>\<open>internal/provider/provider.go\<close>: target metadata, discovery families, option
  declarations and secret declarations.  Each returns the error the source builds on the branch the
  source takes first.
\<close>

section \<open>Identifiers and command-line text\<close>

definition option_id_first :: "char \<Rightarrow> bool" where
  "option_id_first c \<longleftrightarrow> (0x61::nat) \<le> of_char c \<and> of_char c \<le> (0x7A::nat)"

definition option_id_char :: "char \<Rightarrow> bool" where
  "option_id_char c \<longleftrightarrow> option_id_first c \<or> is_digit c \<or> c = CHR ''-'' \<or> c = CHR ''_'' \<or> c = CHR ''.''"

definition validOptionID :: "string \<Rightarrow> bool" where
  "validOptionID s = (case s of [] \<Rightarrow> True | c # cs \<Rightarrow> option_id_first c \<and> list_all option_id_char cs)"

definition containsSpaceOrControl :: "string \<Rightarrow> bool" where
  "containsSpaceOrControl s \<longleftrightarrow> containsSpace s \<or> containsControl s"

definition appendCmdline :: "string \<Rightarrow> string \<Rightarrow> string" where
  "appendCmdline base0 extra0 =
     (let base = TrimSpace base0; extra = TrimSpace extra0 in
      if base = [] then extra else if extra = [] then base else base @ '' '' @ extra)"

definition validateCmdlineFragment :: "string \<Rightarrow> string \<Rightarrow> string \<Rightarrow> bool \<Rightarrow> unit result" where
  "validateCmdlineFragment targetID optionID fragment required =
     (if fragment = [] then
        (if required then
           Inl (Errorf ''%w: target %s option %s command-line fragment is empty''
                  [W (Sentinel ErrInvalidTarget), S targetID, S optionID])
         else Inr ())
      else if TrimSpace fragment \<noteq> fragment then
        Inl (Errorf ''%w: target %s option %s command-line fragment has surrounding whitespace''
               [W (Sentinel ErrInvalidTarget), S targetID, S optionID])
      else if Contains fragment ''{value}'' then
        Inl (Errorf ''%w: target %s option %s command-line fragment contains template syntax''
               [W (Sentinel ErrInvalidTarget), S targetID, S optionID])
      else if containsControl fragment then
        Inl (Errorf ''%w: target %s option %s command-line fragment contains control characters''
               [W (Sentinel ErrInvalidTarget), S targetID, S optionID])
      else Inr ())"

definition validateCmdlineTemplate :: "string \<Rightarrow> string \<Rightarrow> string \<Rightarrow> unit result" where
  "validateCmdlineTemplate targetID optionID template =
     (if TrimSpace template = [] then
        Inl (Errorf ''%w: target %s option %s command-line template is empty''
               [W (Sentinel ErrInvalidTarget), S targetID, S optionID])
      else if TrimSpace template \<noteq> template then
        Inl (Errorf ''%w: target %s option %s command-line template has surrounding whitespace''
               [W (Sentinel ErrInvalidTarget), S targetID, S optionID])
      else if Count template ''{value}'' \<noteq> 1 then
        Inl (Errorf ''%w: target %s option %s command-line template must contain one {value}''
               [W (Sentinel ErrInvalidTarget), S targetID, S optionID])
      else if containsControl template then
        Inl (Errorf ''%w: target %s option %s command-line template contains control characters''
               [W (Sentinel ErrInvalidTarget), S targetID, S optionID])
      else Inr ())"

section \<open>Option declarations\<close>

text \<open>The loop over the values of an enum, with the set of values seen so far.\<close>

fun check_option_values :: "string \<Rightarrow> string \<Rightarrow> string list \<Rightarrow> TargetOptionValue list \<Rightarrow> unit result" where
  "check_option_values targetID optID seen [] = Inr ()"
| "check_option_values targetID optID seen (v # vs) =
     (if TrimSpace (Value v) = [] then
        Inl (Errorf ''%w: target %s enum option %s value is empty''
               [W (Sentinel ErrInvalidTarget), S targetID, S optID])
      else if TrimSpace (Value v) \<noteq> Value v \<or> containsSpaceOrControl (Value v) then
        Inl (Errorf ''%w: target %s enum option %s value %q is invalid''
               [W (Sentinel ErrInvalidTarget), S targetID, S optID, S (Value v)])
      else if Value v \<in> set seen then
        Inl (Errorf ''%w: target %s enum option %s value %q is duplicate''
               [W (Sentinel ErrInvalidTarget), S targetID, S optID, S (Value v)])
      else if TrimSpace (VLabel v) \<noteq> VLabel v then
        Inl (Errorf ''%w: target %s enum option %s value %q label has surrounding whitespace''
               [W (Sentinel ErrInvalidTarget), S targetID, S optID, S (Value v)])
      else and_then (validateCmdlineFragment targetID optID (VFragment v) False)
             (\<lambda>_. check_option_values targetID optID (Value v # seen) vs))"

definition validateOptionValues :: "string \<Rightarrow> TargetOption \<Rightarrow> unit result" where
  "validateOptionValues targetID option =
     (if Values option = [] then
        Inl (Errorf ''%w: target %s enum option %s has no values''
               [W (Sentinel ErrInvalidTarget), S targetID, S (OptID option)])
      else check_option_values targetID (OptID option) [] (Values option))"

definition validateTargetOptionBehavior :: "string \<Rightarrow> TargetOption \<Rightarrow> unit result" where
  "validateTargetOptionBehavior targetID option =
     (if OptType option = TargetOptionBool then
        (if Values option \<noteq> [] \<or> Template option \<noteq> [] then
           Inl (Errorf ''%w: target %s bool option %s has incompatible fields''
                  [W (Sentinel ErrInvalidTarget), S targetID, S (OptID option)])
         else validateCmdlineFragment targetID (OptID option) (Fragment option) True)
      else if OptType option = TargetOptionEnum then
        (if Fragment option \<noteq> [] \<or> Template option \<noteq> [] then
           Inl (Errorf ''%w: target %s enum option %s has incompatible fields''
                  [W (Sentinel ErrInvalidTarget), S targetID, S (OptID option)])
         else validateOptionValues targetID option)
      else if OptType option = TargetOptionString then
        (if Fragment option \<noteq> [] \<or> Values option \<noteq> [] then
           Inl (Errorf ''%w: target %s string option %s has incompatible fields''
                  [W (Sentinel ErrInvalidTarget), S targetID, S (OptID option)])
         else validateCmdlineTemplate targetID (OptID option) (Template option))
      else if OptType option = [] then
        Inl (Errorf ''%w: target %s option %s type is empty''
               [W (Sentinel ErrInvalidTarget), S targetID, S (OptID option)])
      else Inl (Errorf ''%w: target %s option %s type %q is invalid''
                  [W (Sentinel ErrInvalidTarget), S targetID, S (OptID option), S (OptType option)]))"

fun check_target_options :: "string \<Rightarrow> string list \<Rightarrow> TargetOption list \<Rightarrow> unit result" where
  "check_target_options targetID seen [] = Inr ()"
| "check_target_options targetID seen (opt # opts) =
     (if TrimSpace (OptID opt) = [] then
        Inl (Errorf ''%w: target %s option ID is empty'' [W (Sentinel ErrInvalidTarget), S targetID])
      else if \<not> validOptionID (OptID opt) then
        Inl (Errorf ''%w: target %s option %q ID is invalid''
               [W (Sentinel ErrInvalidTarget), S targetID, S (OptID opt)])
      else if OptID opt \<in> set seen then
        Inl (Errorf ''%w: target %s option ID %q is duplicate''
               [W (Sentinel ErrInvalidTarget), S targetID, S (OptID opt)])
      else if TrimSpace (OptLabel opt) = [] then
        Inl (Errorf ''%w: target %s option %s label is empty''
               [W (Sentinel ErrInvalidTarget), S targetID, S (OptID opt)])
      else if Secret opt then
        Inl (Errorf ''%w: target %s option %s secret target options are not supported''
               [W (Sentinel ErrInvalidTarget), S targetID, S (OptID opt)])
      else and_then (validateTargetOptionBehavior targetID opt)
             (\<lambda>_. check_target_options targetID (OptID opt # seen) opts))"

definition validateTargetOptions :: "string \<Rightarrow> TargetOption list \<Rightarrow> unit result" where
  "validateTargetOptions targetID options = check_target_options targetID [] options"

section \<open>Secret declarations\<close>

fun check_secret_inputs :: "string \<Rightarrow> string list \<Rightarrow> SecretInput list \<Rightarrow> unit result" where
  "check_secret_inputs targetID seen [] = Inr ()"
| "check_secret_inputs targetID seen (secret # secrets) =
     (if TrimSpace (SecID secret) = [] then
        Inl (Errorf ''%w: target %s secret input ID is empty'' [W (Sentinel ErrInvalidTarget), S targetID])
      else if \<not> validOptionID (SecID secret) then
        Inl (Errorf ''%w: target %s secret input %q ID is invalid''
               [W (Sentinel ErrInvalidTarget), S targetID, S (SecID secret)])
      else if SecID secret \<in> set seen then
        Inl (Errorf ''%w: target %s secret input ID %q is duplicate''
               [W (Sentinel ErrInvalidTarget), S targetID, S (SecID secret)])
      else if TrimSpace (SecLabel secret) = [] then
        Inl (Errorf ''%w: target %s secret input %s label is empty''
               [W (Sentinel ErrInvalidTarget), S targetID, S (SecID secret)])
      else if TrimSpace (Purpose secret) = [] then
        Inl (Errorf ''%w: target %s secret input %s purpose is empty''
               [W (Sentinel ErrInvalidTarget), S targetID, S (SecID secret)])
      else if Delivery secret = SecretDeliveryStagedFile then
        check_secret_inputs targetID (SecID secret # seen) secrets
      else if Delivery secret = [] then
        Inl (Errorf ''%w: target %s secret input %s delivery is empty''
               [W (Sentinel ErrInvalidTarget), S targetID, S (SecID secret)])
      else Inl (Errorf ''%w: target %s secret input %s delivery %q is invalid''
                  [W (Sentinel ErrInvalidTarget), S targetID, S (SecID secret), S (Delivery secret)]))"

definition validateSecretInputs :: "string \<Rightarrow> SecretInput list \<Rightarrow> unit result" where
  "validateSecretInputs targetID secrets = check_secret_inputs targetID [] secrets"

section \<open>Catalog, source and lifecycle metadata\<close>

definition validateBootAction :: "string \<Rightarrow> BootAction \<Rightarrow> unit result" where
  "validateBootAction targetID action =
     (let a = ResolveBootAction action in
      if a = BootActionLinuxKexec \<or> a = BootActionLocalBoot \<or> a = BootActionFreeBSDKboot then Inr ()
      else Inl (Errorf ''%w: target %s boot action %q is invalid''
                  [W (Sentinel ErrInvalidTarget), S targetID, S action]))"

definition validateCatalogEntry :: "string \<Rightarrow> CatalogEntry \<Rightarrow> unit result" where
  "validateCatalogEntry targetID c =
     (if TrimSpace (Distribution c) = [] then
        Inl (Errorf ''%w: target %s catalog distribution is empty'' [W (Sentinel ErrInvalidTarget), S targetID])
      else if TrimSpace (Release c) = [] then
        Inl (Errorf ''%w: target %s catalog release is empty'' [W (Sentinel ErrInvalidTarget), S targetID])
      else if TrimSpace (Architecture c) = [] then
        Inl (Errorf ''%w: target %s catalog architecture is empty'' [W (Sentinel ErrInvalidTarget), S targetID])
      else if TrimSpace (Kind c) = [] then
        Inl (Errorf ''%w: target %s catalog kind is empty'' [W (Sentinel ErrInvalidTarget), S targetID])
      else Inr ())"

definition validateSourceSHA256 :: "string \<Rightarrow> string \<Rightarrow> string \<Rightarrow> unit result" where
  "validateSourceSHA256 targetID nm value =
     (case hex_DecodeString value of
        Some decoded \<Rightarrow> (if length decoded \<noteq> 32 then
            Inl (Errorf ''%w: target %s source %s SHA256 must be a 64-character SHA-256 hex digest''
                   [W (Sentinel ErrInvalidTarget), S targetID, S nm])
          else Inr ())
      | None \<Rightarrow> Inl (Errorf ''%w: target %s source %s SHA256 must be a 64-character SHA-256 hex digest''
                   [W (Sentinel ErrInvalidTarget), S targetID, S nm]))"

definition validateSourcePath :: "string \<Rightarrow> string \<Rightarrow> string \<Rightarrow> unit result" where
  "validateSourcePath targetID nm value =
     (if TrimSpace value \<noteq> value then
        Inl (Errorf ''%w: target %s source %s has surrounding whitespace''
               [W (Sentinel ErrInvalidTarget), S targetID, S nm])
      else if value = [] then Inr ()
      else (case url_Parse value of
              None \<Rightarrow> Inl (Errorf ''%w: target %s source %s is invalid: %w''
                        [W (Sentinel ErrInvalidTarget), S targetID, S nm, W (errors_New ''parse URL'')])
            | Some parsed \<Rightarrow>
                if url_IsAbs parsed \<or> url_Host parsed \<noteq> [] then
                  Inl (Errorf ''%w: target %s source %s must be relative''
                         [W (Sentinel ErrInvalidTarget), S targetID, S nm])
                else if prefix ''/'' value \<or> Contains value [CHR 0x5C] then
                  Inl (Errorf ''%w: target %s source %s must be a clean relative URL path''
                         [W (Sentinel ErrInvalidTarget), S targetID, S nm])
                else (let clean = path_Clean value in
                  if clean = ''.'' \<or> clean \<noteq> value \<or> clean = ''..'' \<or> prefix ''../'' clean then
                    Inl (Errorf ''%w: target %s source %s must be a clean relative URL path''
                           [W (Sentinel ErrInvalidTarget), S targetID, S nm])
                  else Inr ())))"

definition validateSourceHashPins :: "string \<Rightarrow> SourceEntry \<Rightarrow> unit result" where
  "validateSourceHashPins targetID src =
     (if TrimSpace (KernelSHA256 src) \<noteq> KernelSHA256 src then
        Inl (Errorf ''%w: target %s source kernel SHA256 has surrounding whitespace''
               [W (Sentinel ErrInvalidTarget), S targetID])
      else if TrimSpace (InitrdSHA256 src) \<noteq> InitrdSHA256 src then
        Inl (Errorf ''%w: target %s source initrd SHA256 has surrounding whitespace''
               [W (Sentinel ErrInvalidTarget), S targetID])
      else and_then
        (if KernelSHA256 src \<noteq> [] then
           (if KernelPath src = [] then
              Inl (Errorf ''%w: target %s source kernel SHA256 requires kernel path''
                     [W (Sentinel ErrInvalidTarget), S targetID])
            else validateSourceSHA256 targetID ''kernel'' (KernelSHA256 src))
         else Inr ())
        (\<lambda>_. and_then
           (if InitrdSHA256 src \<noteq> [] then
              (if InitrdPath src = [] then
                 Inl (Errorf ''%w: target %s source initrd SHA256 requires initrd path''
                        [W (Sentinel ErrInvalidTarget), S targetID])
               else validateSourceSHA256 targetID ''initrd'' (InitrdSHA256 src))
            else Inr ())
           (\<lambda>_. if InitrdPath src \<noteq> [] \<and> (KernelSHA256 src = []) \<noteq> (InitrdSHA256 src = []) then
                   Inl (Errorf ''%w: target %s source kernel and initrd SHA256 pins must be supplied together''
                          [W (Sentinel ErrInvalidTarget), S targetID])
                 else Inr ())))"

definition validateSourceURL :: "string \<Rightarrow> SourceEntry \<Rightarrow> unit result" where
  "validateSourceURL targetID src =
     (if BaseURL src \<noteq> [] then
        (case url_Parse (BaseURL src) of
           None \<Rightarrow> Inl (Errorf ''%w: target %s source base URL is invalid: %w''
                     [W (Sentinel ErrInvalidTarget), S targetID, W (errors_New ''parse URL'')])
         | Some parsed \<Rightarrow>
             if url_Scheme parsed \<noteq> ''http'' \<and> url_Scheme parsed \<noteq> ''https'' then
               Inl (Errorf ''%w: target %s source base URL must use http or https''
                      [W (Sentinel ErrInvalidTarget), S targetID])
             else if url_Host parsed = [] then
               Inl (Errorf ''%w: target %s source base URL must include host''
                      [W (Sentinel ErrInvalidTarget), S targetID])
             else Inr ())
      else Inr ())"

definition validateSourceEntry :: "string \<Rightarrow> SourceEntry \<Rightarrow> unit result" where
  "validateSourceEntry targetID src =
     (if TrimSpace (BaseURL src) \<noteq> BaseURL src then
        Inl (Errorf ''%w: target %s source base URL has surrounding whitespace''
               [W (Sentinel ErrInvalidTarget), S targetID])
      else and_then (validateSourceURL targetID src) (\<lambda>_.
        if TrimSpace (ISOName src) \<noteq> ISOName src then
          Inl (Errorf ''%w: target %s source ISO name has surrounding whitespace''
                 [W (Sentinel ErrInvalidTarget), S targetID])
        else if ISOName src \<noteq> [] \<and>
                (CHR ''/'' \<in> set (ISOName src) \<or> CHR 0x5C \<in> set (ISOName src) \<or>
                 path_Base (ISOName src) \<noteq> ISOName src) then
          Inl (Errorf ''%w: target %s source ISO name must be a filename''
                 [W (Sentinel ErrInvalidTarget), S targetID])
        else if TrimSpace (ISOSHA256 src) \<noteq> ISOSHA256 src then
          Inl (Errorf ''%w: target %s source ISO SHA256 has surrounding whitespace''
                 [W (Sentinel ErrInvalidTarget), S targetID])
        else and_then (validateSourcePath targetID ''kernel path'' (KernelPath src)) (\<lambda>_.
          and_then (validateSourcePath targetID ''initrd path'' (InitrdPath src)) (\<lambda>_.
            and_then (validateSourceHashPins targetID src) (\<lambda>_.
              if TrimSpace (Cmdline src) \<noteq> Cmdline src then
                Inl (Errorf ''%w: target %s source cmdline has surrounding whitespace''
                       [W (Sentinel ErrInvalidTarget), S targetID])
              else Inr ())))))"

definition validateLifecycleEntry :: "string \<Rightarrow> LifecycleEntry \<Rightarrow> unit result" where
  "validateLifecycleEntry targetID lc =
     (if lc = empty_LifecycleEntry then Inr ()
      else if Status lc \<noteq> LifecycleSupported \<and> Status lc \<noteq> LifecycleObsolete \<and>
              Status lc \<noteq> LifecycleEOL \<and> Status lc \<noteq> LifecycleUnknown then
        (if Status lc = [] then
           Inl (Errorf ''%w: target %s lifecycle status is empty'' [W (Sentinel ErrInvalidTarget), S targetID])
         else Inl (Errorf ''%w: target %s lifecycle status %q is invalid''
                     [W (Sentinel ErrInvalidTarget), S targetID, S (Status lc)]))
      else if TrimSpace (LSource lc) \<noteq> LSource lc then
        Inl (Errorf ''%w: target %s lifecycle source has surrounding whitespace''
               [W (Sentinel ErrInvalidTarget), S targetID])
      else if TrimSpace (Date lc) \<noteq> Date lc then
        Inl (Errorf ''%w: target %s lifecycle date has surrounding whitespace''
               [W (Sentinel ErrInvalidTarget), S targetID])
      else if Date lc \<noteq> [] \<and> parse_DateOnly (Date lc) = None then
        Inl (Errorf ''%w: target %s lifecycle date must use YYYY-MM-DD''
               [W (Sentinel ErrInvalidTarget), S targetID])
      else Inr ())"

section \<open>Whole targets and families\<close>

definition ValidateTarget :: "string \<Rightarrow> Target \<Rightarrow> unit result" where
  "ValidateTarget providerID t =
     (if TrimSpace (TID t) = [] then
        Inl (Errorf ''%w: provider %s returned target with empty ID''
               [W (Sentinel ErrInvalidTarget), S providerID])
      else if TrimSpace (ProviderID t) = [] then
        Inl (Errorf ''%w: target %s has empty provider ID'' [W (Sentinel ErrInvalidTarget), S (TID t)])
      else if ProviderID t \<noteq> providerID then
        Inl (Errorf ''%w: target %s provider ID %q does not match %q''
               [W (Sentinel ErrInvalidTarget), S (TID t), S (ProviderID t), S providerID])
      else if TrimSpace (Name t) = [] then
        Inl (Errorf ''%w: target %s has empty name'' [W (Sentinel ErrInvalidTarget), S (TID t)])
      else and_then (validateBootAction (TID t) (Action t)) (\<lambda>_.
           and_then (validateCatalogEntry (TID t) (Catalog t)) (\<lambda>_.
           and_then (validateSourceEntry (TID t) (Source t)) (\<lambda>_.
           and_then (validateLifecycleEntry (TID t) (Lifecycle t)) (\<lambda>_.
           and_then (validateTargetOptions (TID t) (Options t)) (\<lambda>_.
           validateSecretInputs (TID t) (Secrets t)))))))"

definition ValidateDiscoveryFamily :: "string \<Rightarrow> DiscoveryFamily \<Rightarrow> unit result" where
  "ValidateDiscoveryFamily providerID f =
     (if TrimSpace (FamID f) = [] then
        Inl (Errorf ''%w: provider %s returned family with empty ID''
               [W (Sentinel ErrInvalidDiscoveryFamily), S providerID])
      else if TrimSpace (FamProviderID f) = [] then
        Inl (Errorf ''%w: family %s has empty provider ID''
               [W (Sentinel ErrInvalidDiscoveryFamily), S (FamID f)])
      else if FamProviderID f \<noteq> providerID then
        Inl (Errorf ''%w: family %s provider ID %q does not match %q''
               [W (Sentinel ErrInvalidDiscoveryFamily), S (FamID f), S (FamProviderID f), S providerID])
      else if TrimSpace (FamName f) = [] then
        Inl (Errorf ''%w: family %s has empty name'' [W (Sentinel ErrInvalidDiscoveryFamily), S (FamID f)])
      else Inr ())"

end
