(* ===== verification/ProviderFacts.thy ===== *)
theory ProviderFacts
  imports ProviderValidation
begin

text \<open>
  What the validators of \<open>ProviderValidation\<close> promise: a declarative description of a well-formed
  target, and the proof that \<open>ValidateTarget\<close> accepts exactly the targets it describes.
\<close>

section \<open>Character-level facts\<close>

lemma option_id_char_not_space: "option_id_char c \<Longrightarrow> r \<in> set space_runes \<Longrightarrow> \<not> prefix r (c # s)"
  unfolding space_runes_def
  by (auto simp: option_id_char_def option_id_first_def is_digit_def)

lemma option_id_chars_no_space: "list_all option_id_char s \<Longrightarrow> \<not> containsSpace s"
  by (induction s) (auto simp: list_ex_iff dest: option_id_char_not_space)

lemma validOptionID_chars: "validOptionID s \<Longrightarrow> list_all option_id_char s"
  by (cases s) (auto simp: validOptionID_def option_id_char_def)

lemma validOptionID_TrimSpace [simp]: "validOptionID s \<Longrightarrow> TrimSpace s = s"
  by (simp add: TrimSpace_trimmed no_space_trimmed option_id_chars_no_space validOptionID_chars)

lemma Contains_char: "Contains s [c] \<longleftrightarrow> c \<in> set s"
  by (induction s) (auto simp: Contains_def)

section \<open>Digests\<close>

definition is_sha256_hex :: "string \<Rightarrow> bool" where
  "is_sha256_hex s \<longleftrightarrow> length s = 64 \<and> list_all (\<lambda>c. hex_value c \<noteq> None) s"

lemma hex_Decode_total:
  "even (length s) \<Longrightarrow> list_all (\<lambda>c. hex_value c \<noteq> None) s \<Longrightarrow> \<exists>d. hex_DecodeString s = Some d"
  by (induction s rule: hex_DecodeString.induct) auto

lemma hex_Decode_digits: "hex_DecodeString s = Some d \<Longrightarrow> list_all (\<lambda>c. hex_value c \<noteq> None) s"
  by (induction s arbitrary: d rule: hex_DecodeString.induct) (auto split: option.splits)

lemma sha256_hex_iff: "is_sha256_hex s \<longleftrightarrow> (\<exists>d. hex_DecodeString s = Some d \<and> length d = 32)"
proof
  assume "is_sha256_hex s"
  then have "length s = 64" "list_all (\<lambda>c. hex_value c \<noteq> None) s" by (auto simp: is_sha256_hex_def)
  then obtain d where "hex_DecodeString s = Some d" using hex_Decode_total [of s] by auto
  moreover from this have "length d = 32" using hex_Decode_length \<open>length s = 64\<close> by fastforce
  ultimately show "\<exists>d. hex_DecodeString s = Some d \<and> length d = 32" by blast
next
  assume "\<exists>d. hex_DecodeString s = Some d \<and> length d = 32"
  then obtain d where "hex_DecodeString s = Some d" "length d = 32" by blast
  then show "is_sha256_hex s"
    using hex_Decode_length hex_Decode_digits by (fastforce simp: is_sha256_hex_def)
qed

lemma validateSourceSHA256_iff [simp]:
  "validateSourceSHA256 t nm v = Inr () \<longleftrightarrow> is_sha256_hex v"
  by (auto simp: validateSourceSHA256_def sha256_hex_iff split: option.splits)

section \<open>Paths, source metadata and lifecycle\<close>

text \<open>
  A source path is empty, or a relative URL path none of whose elements is empty, \<open>.\<close> or \<open>..\<close>.
\<close>

definition wf_source_path :: "string \<Rightarrow> bool" where
  "wf_source_path v \<longleftrightarrow>
     v = [] \<or>
     (trimmed v \<and> plain_path v \<and> CHR 0x5C \<notin> set v \<and>
      (case url_Parse v of None \<Rightarrow> False | Some u \<Rightarrow> url_Scheme u = [] \<and> url_Host u = []))"

lemma validateSourcePath_iff:
  "validateSourcePath t nm v = Inr () \<longleftrightarrow> wf_source_path v"
proof -
  have "(\<not> (prefix ''/'' v \<or> CHR 0x5C \<in> set v) \<and>
         \<not> (path_Clean v = ''.'' \<or> path_Clean v \<noteq> v \<or> path_Clean v = ''..'' \<or> prefix ''../'' (path_Clean v)))
        \<longleftrightarrow> plain_path v \<and> CHR 0x5C \<notin> set v"
    using clean_relative_iff_plain [of v] by auto
  then show ?thesis
    by (auto simp: validateSourcePath_def wf_source_path_def TrimSpace_eq_self_iff Contains_char
        url_IsAbs_def Let_def split: option.splits)
qed

definition wf_pins :: "SourceEntry \<Rightarrow> bool" where
  "wf_pins src \<longleftrightarrow>
     trimmed (KernelSHA256 src) \<and> trimmed (InitrdSHA256 src) \<and>
     (KernelSHA256 src \<noteq> [] \<longrightarrow> KernelPath src \<noteq> [] \<and> is_sha256_hex (KernelSHA256 src)) \<and>
     (InitrdSHA256 src \<noteq> [] \<longrightarrow> InitrdPath src \<noteq> [] \<and> is_sha256_hex (InitrdSHA256 src)) \<and>
     (InitrdPath src \<noteq> [] \<longrightarrow> (KernelSHA256 src = [] \<longleftrightarrow> InitrdSHA256 src = []))"

lemma validateSourceHashPins_iff: "validateSourceHashPins t src = Inr () \<longleftrightarrow> wf_pins src"
  unfolding validateSourceHashPins_def wf_pins_def TrimSpace_eq_self_iff
  by (cases "KernelSHA256 src = []"; cases "InitrdSHA256 src = []") auto

text \<open>A filename for the purposes of \<open>ISOName\<close>: any non-empty string without a slash of either kind.\<close>

definition wf_iso_name :: "string \<Rightarrow> bool" where
  "wf_iso_name n \<longleftrightarrow> trimmed n \<and> CHR ''/'' \<notin> set n \<and> CHR 0x5C \<notin> set n"

lemma path_Base_no_slash: "n \<noteq> [] \<Longrightarrow> CHR ''/'' \<notin> set n \<Longrightarrow> path_Base n = n"
proof -
  assume n: "n \<noteq> []" "CHR ''/'' \<notin> set n"
  obtain a m where a: "rev n = a # m" using n(1) by (cases "rev n") auto
  then have "a \<in> set n" by (metis list.set_intros(1) set_rev)
  with n(2) have "a \<noteq> CHR ''/''" by auto
  with a have "dropWhile (\<lambda>x. x = CHR ''/'') (rev n) = rev n" by simp
  then show ?thesis using n by (simp add: path_Base_def TrimRight_def Split_single)
qed

definition wf_source :: "SourceEntry \<Rightarrow> bool" where
  "wf_source src \<longleftrightarrow>
     trimmed (BaseURL src) \<and> (BaseURL src \<noteq> [] \<longrightarrow> http_url (BaseURL src)) \<and>
     wf_iso_name (ISOName src) \<and> trimmed (ISOSHA256 src) \<and>
     wf_source_path (KernelPath src) \<and> wf_source_path (InitrdPath src) \<and> wf_pins src \<and>
     trimmed (Cmdline src)"

lemma validateSourceURL_iff:
  "validateSourceURL t src = Inr () \<longleftrightarrow> (BaseURL src \<noteq> [] \<longrightarrow> http_url (BaseURL src))"
  by (auto simp: validateSourceURL_def http_url_def split: option.splits)

lemma validateSourceEntry_iff: "validateSourceEntry t src = Inr () \<longleftrightarrow> wf_source src"
  using path_Base_no_slash [of "ISOName src"]
  by (auto simp: validateSourceEntry_def wf_source_def wf_iso_name_def TrimSpace_eq_self_iff
      validateSourceURL_iff validateSourcePath_iff validateSourceHashPins_iff)

definition wf_lifecycle :: "LifecycleEntry \<Rightarrow> bool" where
  "wf_lifecycle lc \<longleftrightarrow>
     lc = empty_LifecycleEntry \<or>
     (Status lc \<in> {LifecycleSupported, LifecycleObsolete, LifecycleEOL, LifecycleUnknown} \<and>
      trimmed (LSource lc) \<and> trimmed (Date lc) \<and>
      (Date lc \<noteq> [] \<longrightarrow> parse_DateOnly (Date lc) \<noteq> None))"

lemma validateLifecycleEntry_iff: "validateLifecycleEntry t lc = Inr () \<longleftrightarrow> wf_lifecycle lc"
  unfolding validateLifecycleEntry_def wf_lifecycle_def TrimSpace_eq_self_iff
  by (cases "lc = empty_LifecycleEntry") auto

definition wf_catalog :: "CatalogEntry \<Rightarrow> bool" where
  "wf_catalog c \<longleftrightarrow>
     TrimSpace (Distribution c) \<noteq> [] \<and> TrimSpace (Release c) \<noteq> [] \<and>
     TrimSpace (Architecture c) \<noteq> [] \<and> TrimSpace (Kind c) \<noteq> []"

lemma validateCatalogEntry_iff: "validateCatalogEntry t c = Inr () \<longleftrightarrow> wf_catalog c"
  by (auto simp: validateCatalogEntry_def wf_catalog_def)

definition known_action :: "BootAction \<Rightarrow> bool" where
  "known_action a \<longleftrightarrow> a \<in> {[], BootActionLinuxKexec, BootActionLocalBoot, BootActionFreeBSDKboot}"

lemma validateBootAction_iff: "validateBootAction t a = Inr () \<longleftrightarrow> known_action a"
  by (auto simp: validateBootAction_def known_action_def ResolveBootAction_def Let_def)

section \<open>Options and secrets\<close>

definition wf_fragment :: "string \<Rightarrow> bool" where
  "wf_fragment f \<longleftrightarrow> trimmed f \<and> \<not> sublist ''{value}'' f \<and> \<not> containsControl f"

lemma validateCmdlineFragment_iff [simp]:
  "validateCmdlineFragment t i f req = Inr () \<longleftrightarrow> (f = [] \<and> \<not> req) \<or> (f \<noteq> [] \<and> wf_fragment f)"
  by (auto simp: validateCmdlineFragment_def wf_fragment_def TrimSpace_eq_self_iff Contains_iff)

definition wf_template :: "string \<Rightarrow> bool" where
  "wf_template f \<longleftrightarrow> f \<noteq> [] \<and> trimmed f \<and> Count f ''{value}'' = 1 \<and> \<not> containsControl f"

lemma validateCmdlineTemplate_iff [simp]: "validateCmdlineTemplate t i f = Inr () \<longleftrightarrow> wf_template f"
  by (auto simp: validateCmdlineTemplate_def wf_template_def TrimSpace_eq_self_iff)
     (simp_all add: TrimSpace_trimmed)

definition wf_option_value :: "TargetOptionValue \<Rightarrow> bool" where
  "wf_option_value v \<longleftrightarrow>
     Value v \<noteq> [] \<and> \<not> containsSpaceOrControl (Value v) \<and> trimmed (VLabel v) \<and>
     (VFragment v = [] \<or> wf_fragment (VFragment v))"

lemma check_option_values_iff:
  "check_option_values t i seen vs = Inr () \<longleftrightarrow>
     (\<forall>v \<in> set vs. wf_option_value v) \<and> distinct (map Value vs) \<and> set (map Value vs) \<inter> set seen = {}"
proof (induction vs arbitrary: seen)
  case (Cons v vs)
  have "trimmed (Value v)" if "\<not> containsSpaceOrControl (Value v)"
    using that by (simp add: containsSpaceOrControl_def no_space_trimmed)
  then show ?case
    by (auto simp: Cons wf_option_value_def TrimSpace_eq_self_iff TrimSpace_trimmed)
qed simp

definition wf_option :: "TargetOption \<Rightarrow> bool" where
  "wf_option opt \<longleftrightarrow>
     OptID opt \<noteq> [] \<and> validOptionID (OptID opt) \<and> TrimSpace (OptLabel opt) \<noteq> [] \<and> \<not> Secret opt \<and>
     (OptType opt = TargetOptionBool \<and> Values opt = [] \<and> Template opt = [] \<and>
        Fragment opt \<noteq> [] \<and> wf_fragment (Fragment opt) \<or>
      OptType opt = TargetOptionEnum \<and> Fragment opt = [] \<and> Template opt = [] \<and>
        Values opt \<noteq> [] \<and> (\<forall>v \<in> set (Values opt). wf_option_value v) \<and> distinct (map Value (Values opt)) \<or>
      OptType opt = TargetOptionString \<and> Fragment opt = [] \<and> Values opt = [] \<and> wf_template (Template opt))"

lemma validateOptionValues_iff:
  "validateOptionValues t opt = Inr () \<longleftrightarrow>
     Values opt \<noteq> [] \<and> (\<forall>v \<in> set (Values opt). wf_option_value v) \<and> distinct (map Value (Values opt))"
  by (simp add: validateOptionValues_def check_option_values_iff)

lemma validateTargetOptionBehavior_iff:
  "validateTargetOptionBehavior t opt = Inr () \<longleftrightarrow>
     (OptType opt = TargetOptionBool \<and> Values opt = [] \<and> Template opt = [] \<and>
        Fragment opt \<noteq> [] \<and> wf_fragment (Fragment opt) \<or>
      OptType opt = TargetOptionEnum \<and> Fragment opt = [] \<and> Template opt = [] \<and>
        Values opt \<noteq> [] \<and> (\<forall>v \<in> set (Values opt). wf_option_value v) \<and> distinct (map Value (Values opt)) \<or>
      OptType opt = TargetOptionString \<and> Fragment opt = [] \<and> Values opt = [] \<and> wf_template (Template opt))"
  by (auto simp: validateTargetOptionBehavior_def validateOptionValues_iff)

lemma check_target_options_iff:
  "check_target_options t seen opts = Inr () \<longleftrightarrow>
     (\<forall>o' \<in> set opts. wf_option o') \<and> distinct (map OptID opts) \<and> set (map OptID opts) \<inter> set seen = {}"
proof (induction opts arbitrary: seen)
  case (Cons a opts)
  then show ?case
    by (auto simp: wf_option_def validateTargetOptionBehavior_iff)
qed simp

definition wf_secret :: "SecretInput \<Rightarrow> bool" where
  "wf_secret s \<longleftrightarrow>
     SecID s \<noteq> [] \<and> validOptionID (SecID s) \<and> TrimSpace (SecLabel s) \<noteq> [] \<and>
     TrimSpace (Purpose s) \<noteq> [] \<and> Delivery s = SecretDeliveryStagedFile"

lemma check_secret_inputs_iff:
  "check_secret_inputs t seen ss = Inr () \<longleftrightarrow>
     (\<forall>s \<in> set ss. wf_secret s) \<and> distinct (map SecID ss) \<and> set (map SecID ss) \<inter> set seen = {}"
  by (induction ss arbitrary: seen) (auto simp: wf_secret_def)

section \<open>Well-formed targets\<close>

definition wf_target :: "string \<Rightarrow> Target \<Rightarrow> bool" where
  "wf_target pid t \<longleftrightarrow>
     TrimSpace (TID t) \<noteq> [] \<and> TrimSpace pid \<noteq> [] \<and> ProviderID t = pid \<and> TrimSpace (Name t) \<noteq> [] \<and>
     known_action (Action t) \<and> wf_catalog (Catalog t) \<and> wf_source (Source t) \<and>
     wf_lifecycle (Lifecycle t) \<and>
     (\<forall>opt \<in> set (Options t). wf_option opt) \<and> distinct (map OptID (Options t)) \<and>
     (\<forall>s \<in> set (Secrets t). wf_secret s) \<and> distinct (map SecID (Secrets t))"

lemmas validator_iffs = validateBootAction_iff validateCatalogEntry_iff validateSourceEntry_iff
  validateLifecycleEntry_iff check_target_options_iff check_secret_inputs_iff

lemma ValidateTarget_wf [res_simps]: "ValidateTarget pid t = Inr () \<longleftrightarrow> wf_target pid t"
  by (auto simp: ValidateTarget_def wf_target_def validateTargetOptions_def validateSecretInputs_def
      validator_iffs)

definition wf_family :: "string \<Rightarrow> DiscoveryFamily \<Rightarrow> bool" where
  "wf_family pid f \<longleftrightarrow> TrimSpace (FamID f) \<noteq> [] \<and> TrimSpace pid \<noteq> [] \<and> FamProviderID f = pid \<and>
     TrimSpace (FamName f) \<noteq> []"

lemma ValidateDiscoveryFamily_wf [res_simps]:
  "ValidateDiscoveryFamily pid f = Inr () \<longleftrightarrow> wf_family pid f"
  by (auto simp: ValidateDiscoveryFamily_def wf_family_def)

section \<open>Every rejection is an ErrInvalidTarget\<close>

lemmas validator_defs = validateBootAction_def validateCatalogEntry_def validateSourceEntry_def
  validateSourceURL_def validateSourcePath_def validateSourceHashPins_def validateSourceSHA256_def
  validateLifecycleEntry_def

lemma validateCmdlineFragment_err:
  "validateCmdlineFragment t i f req = Inl e \<Longrightarrow> errors_is e ErrInvalidTarget"
  by (auto simp: validateCmdlineFragment_def split: if_splits)

lemma check_option_values_err:
  "check_option_values t i seen vs = Inl e \<Longrightarrow> errors_is e ErrInvalidTarget"
  by (induction vs arbitrary: seen)
     (auto simp: and_then_eq_Inl split: if_splits dest: validateCmdlineFragment_err)

lemma validateTargetOptionBehavior_err:
  "validateTargetOptionBehavior t opt = Inl e \<Longrightarrow> errors_is e ErrInvalidTarget"
  by (auto simp: validateTargetOptionBehavior_def validateOptionValues_def validateCmdlineTemplate_def
      split: if_splits dest: validateCmdlineFragment_err check_option_values_err)

lemma check_target_options_err:
  "check_target_options t seen opts = Inl e \<Longrightarrow> errors_is e ErrInvalidTarget"
  by (induction opts arbitrary: seen)
     (auto simp: and_then_eq_Inl split: if_splits dest: validateTargetOptionBehavior_err)

lemma check_secret_inputs_err:
  "check_secret_inputs t seen ss = Inl e \<Longrightarrow> errors_is e ErrInvalidTarget"
  by (induction ss arbitrary: seen) (auto split: if_splits)

lemma validateSourcePath_err: "validateSourcePath t n v = Inl e \<Longrightarrow> errors_is e ErrInvalidTarget"
  by (auto simp: validateSourcePath_def Let_def split: if_splits option.splits)

lemma validateSourceHashPins_err: "validateSourceHashPins t s = Inl e \<Longrightarrow> errors_is e ErrInvalidTarget"
  by (auto simp: validateSourceHashPins_def validateSourceSHA256_def and_then_eq_Inl
      split: if_splits option.splits)

lemma validateSourceEntry_err: "validateSourceEntry t s = Inl e \<Longrightarrow> errors_is e ErrInvalidTarget"
  by (auto simp: validateSourceEntry_def validateSourceURL_def and_then_eq_Inl
      split: if_splits option.splits dest: validateSourcePath_err validateSourceHashPins_err)

lemma ValidateTarget_err: "ValidateTarget pid t = Inl e \<Longrightarrow> errors_is e ErrInvalidTarget"
  by (auto simp: ValidateTarget_def validateTargetOptions_def validateSecretInputs_def and_then_eq_Inl
      validateBootAction_def validateCatalogEntry_def validateLifecycleEntry_def Let_def
      split: if_splits
      dest: validateSourceEntry_err check_target_options_err check_secret_inputs_err)

end
