(* ===== verification/ProviderOptions.thy ===== *)
theory ProviderOptions
  imports ProviderFacts
begin

text \<open>
  Selected options and secret references (\<^verbatim>\<open>internal/provider/provider.go\<close>): validating what the
  operator or a policy selected against what the target declares, and turning it into command-line
  fragments and resolved references.
\<close>

section \<open>Selected options\<close>

definition validateExpandedCmdlineFragment :: "string \<Rightarrow> string \<Rightarrow> string \<Rightarrow> unit result" where
  "validateExpandedCmdlineFragment targetID optionID fragment =
     map_err (\<lambda>e. Errorf ''%w: %w'' [W (Sentinel ErrInvalidTargetOption), W e])
       (validateCmdlineFragment targetID optionID fragment True)"

definition selectedOptionFragment :: "string \<Rightarrow> TargetOption \<Rightarrow> SelectedOption \<Rightarrow> string result" where
  "selectedOptionFragment targetID option sel =
     (if OptType option = TargetOptionBool then
        (if SelValue sel = ''true'' then Inr (Fragment option)
         else if SelValue sel = ''false'' then Inr []
         else Inl (Errorf ''%w: target %s option %s value %q is not boolean''
                     [W (Sentinel ErrInvalidTargetOption), S targetID, S (OptID option), S (SelValue sel)]))
      else if OptType option = TargetOptionEnum then
        (case find (\<lambda>v. SelValue sel = Value v) (Values option) of
           Some v \<Rightarrow> Inr (VFragment v)
         | None \<Rightarrow> Inl (Errorf ''%w: target %s option %s value %q is not allowed''
                     [W (Sentinel ErrInvalidTargetOption), S targetID, S (OptID option), S (SelValue sel)]))
      else if OptType option = TargetOptionString then
        (if TrimSpace (SelValue sel) = [] then
           Inl (Errorf ''%w: target %s option %s value is empty''
                  [W (Sentinel ErrInvalidTargetOption), S targetID, S (OptID option)])
         else if TrimSpace (SelValue sel) \<noteq> SelValue sel \<or> containsSpaceOrControl (SelValue sel) then
           Inl (Errorf ''%w: target %s option %s value %q is invalid''
                  [W (Sentinel ErrInvalidTargetOption), S targetID, S (OptID option), S (SelValue sel)])
         else let fragment = ReplaceAll (Template option) ''{value}'' (SelValue sel) in
              and_then (validateExpandedCmdlineFragment targetID (OptID option) fragment)
                (\<lambda>_. Inr fragment))
      else Inl (Errorf ''%w: target %s option %s type %q is invalid''
                  [W (Sentinel ErrInvalidTargetOption), S targetID, S (OptID option), S (OptType option)]))"

text \<open>The first loop: \<open>selectedByID\<close>.\<close>

fun index_selected ::
  "string \<Rightarrow> (string \<times> SelectedOption) list \<Rightarrow> SelectedOption list \<Rightarrow> (string \<times> SelectedOption) list result" where
  "index_selected targetID m [] = Inr m"
| "index_selected targetID m (opt # opts) =
     (if TrimSpace (SelID opt) = [] then
        Inl (Errorf ''%w: target %s selected option ID is empty''
               [W (Sentinel ErrInvalidTargetOption), S targetID])
      else if map_of m (SelID opt) \<noteq> None then
        Inl (Errorf ''%w: target %s selected option %q is duplicate''
               [W (Sentinel ErrInvalidTargetOption), S targetID, S (SelID opt)])
      else index_selected targetID (map_put (SelID opt) opt m) opts)"

text \<open>The second loop: fragments in declaration order, consuming the selections it meets.\<close>

fun collect_fragments ::
  "string \<Rightarrow> TargetOption list \<Rightarrow> (string \<times> SelectedOption) list \<Rightarrow>
   (string list \<times> (string \<times> SelectedOption) list) result" where
  "collect_fragments targetID [] m = Inr ([], m)"
| "collect_fragments targetID (opt # opts) m =
     (case map_of m (OptID opt) of
        None \<Rightarrow> collect_fragments targetID opts m
      | Some sel \<Rightarrow>
          and_then (selectedOptionFragment targetID opt sel) (\<lambda>fragment.
            and_then (collect_fragments targetID opts (map_del (OptID opt) m)) (\<lambda>(fs, m').
              Inr (if fragment \<noteq> [] then fragment # fs else fs, m'))))"

text \<open>
  The source then ranges over what is left of the map and fails on whatever key Go's iteration
  order gives first; the model names the first one stored.
\<close>

definition selectedOptionFragments :: "Target \<Rightarrow> SelectedOption list \<Rightarrow> string list result" where
  "selectedOptionFragments t selected =
     (if selected = [] then Inr []
      else and_then (index_selected (TID t) [] selected) (\<lambda>byID.
           and_then (collect_fragments (TID t) (Options t) byID) (\<lambda>(fragments, rest).
             (case rest of
                [] \<Rightarrow> Inr fragments
              | (i, _) # _ \<Rightarrow> Inl (Errorf ''%w: target %s does not declare option %q''
                                 [W (Sentinel ErrInvalidTargetOption), S (TID t), S i])))))"

definition ValidateSelectedOptions :: "Target \<Rightarrow> SelectedOption list \<Rightarrow> unit result" where
  "ValidateSelectedOptions t selected = and_then (selectedOptionFragments t selected) (\<lambda>_. Inr ())"

definition ApplySelectedOptions :: "BootPlan \<Rightarrow> SelectedOption list \<Rightarrow> BootPlan result" where
  "ApplySelectedOptions plan selected =
     and_then (selectedOptionFragments (BTarget plan) selected) (\<lambda>fragments.
       Inr (if ResolvedAction plan = BootActionFreeBSDKboot then
              plan\<lparr>FreeBSDKboot := (FreeBSDKboot plan)\<lparr>Args := Args (FreeBSDKboot plan) @ fragments\<rparr>\<rparr>
            else plan\<lparr>BCmdline := appendCmdline (BCmdline plan) (Join fragments '' '')\<rparr>))"

section \<open>Secret references\<close>

text \<open>The loop that fills \<open>selectedByID\<close>; \<open>decls\<close> is the target's list of declarations.\<close>

fun index_secret_refs ::
  "string \<Rightarrow> SecretInput list \<Rightarrow> SecretStore option \<Rightarrow> (string \<times> SecretRef) list \<Rightarrow> SecretRef list \<Rightarrow>
   (string \<times> SecretRef) list result" where
  "index_secret_refs targetID decls store m [] = Inr m"
| "index_secret_refs targetID decls store m (ref # refs) =
     (if TrimSpace (RefID ref) = [] then
        Inl (Errorf ''%w: target %s secret ref ID is empty'' [W (Sentinel ErrInvalidSecretInput), S targetID])
      else if map_of m (RefID ref) \<noteq> None then
        Inl (Errorf ''%w: target %s secret ref %q is duplicate''
               [W (Sentinel ErrInvalidSecretInput), S targetID, S (RefID ref)])
      else if RefID ref \<notin> set (map SecID decls) then
        Inl (Errorf ''%w: target %s does not declare secret input %q''
               [W (Sentinel ErrInvalidSecretInput), S targetID, S (RefID ref)])
      else let trimmedID = TrimSpace (InputID ref);
               inputID = (if trimmedID = [] then RefID ref else trimmedID) in
        if \<not> validOptionID inputID then
          Inl (Errorf ''%w: target %s secret input ID %q is invalid''
                 [W (Sentinel ErrInvalidSecretInput), S targetID, S inputID])
        else if (case store of None \<Rightarrow> True | Some st \<Rightarrow> \<not> Has st inputID) then
          Inl (Errorf ''%w: target %s secret input %q for %s is missing''
                 [W (Sentinel ErrInvalidSecretInput), S targetID, S inputID, S (RefID ref)])
        else index_secret_refs targetID decls store
               (map_put (RefID ref) \<lparr>RefID = RefID ref, InputID = inputID\<rparr> m) refs)"

definition ResolveSecretRefs :: "Target \<Rightarrow> SecretRef list \<Rightarrow> SecretStore option \<Rightarrow> SecretRef list result" where
  "ResolveSecretRefs t selected0 store =
     (let selected = (case store of
            Some st \<Rightarrow> (if selected0 = [] then map (\<lambda>i. \<lparr>RefID = i, InputID = i\<rparr>) (IDs st) else selected0)
          | None \<Rightarrow> selected0) in
      and_then (index_secret_refs (TID t) (Secrets t) store [] selected) (\<lambda>byID.
      and_then (for_each (\<lambda>d. if Required d \<and> map_of byID (SecID d) = None then
                    Inl (Errorf ''%w: target %s required secret input %q is missing''
                           [W (Sentinel ErrInvalidSecretInput), S (TID t), S (SecID d)])
                  else Inr ()) (Secrets t)) (\<lambda>_.
      Inr (List.map_filter (\<lambda>d. map_of byID (SecID d)) (Secrets t)))))"

section \<open>Selected options: what success means\<close>

lemma ReplaceAll_absent: "\<not> sublist old s \<Longrightarrow> ReplaceAll s old new = s"
proof (induction s)
  case Nil
  then show ?case by (subst ReplaceAll.simps) auto
next
  case (Cons a s)
  then have "\<not> prefix old (a # s)" "\<not> sublist old s" by (auto simp: sublist_Cons_right)
  with Cons.IH show ?case by (subst ReplaceAll.simps) auto
qed

lemma Count_zero: "old \<noteq> [] \<Longrightarrow> Count s old = 0 \<longleftrightarrow> \<not> sublist old s"
proof (induction s)
  case Nil
  then show ?case by (subst Count.simps) auto
next
  case (Cons a s)
  then show ?case by (subst Count.simps) (auto simp: sublist_Cons_right)
qed

text \<open>A template with exactly one placeholder: the value is put at that place and nowhere else.\<close>

lemma ReplaceAll_single:
  assumes "old \<noteq> []" and "Count s old = 1"
  shows "\<exists>a b. s = a @ old @ b \<and> (\<forall>new. ReplaceAll s old new = a @ new @ b)"
  using assms
proof (induction s)
  case Nil
  then show ?case by (subst (asm) Count.simps) auto
next
  case (Cons x s)
  show ?case
  proof (cases "prefix old (x # s)")
    case True
    then obtain b where b: "x # s = old @ b" by (auto simp: prefix_def)
    have "Count (x # s) old = Suc (Count (drop (length old) (x # s)) old)"
      using Cons.prems(1) True by (subst Count.simps) simp
    with Cons.prems b have "\<not> sublist old b" by (simp add: Count_zero)
    then have "ReplaceAll (x # s) old new = new @ b" for new
      using Cons.prems(1) True b by (subst ReplaceAll.simps) (simp add: ReplaceAll_absent)
    with b show ?thesis by (metis append_Nil)
  next
    case False
    with Cons.prems have "Count s old = 1" by (subst (asm) Count.simps) simp
    with Cons obtain a b where ab: "s = a @ old @ b" "\<forall>new. ReplaceAll s old new = a @ new @ b"
      by blast
    have "ReplaceAll (x # s) old new = (x # a) @ new @ b" for new
      using False Cons.prems(1) ab(2) by (subst ReplaceAll.simps) simp
    with ab(1) show ?thesis by (metis append_Cons)
  qed
qed

lemma containsSpace_blank: "CHR '' '' \<in> set s \<Longrightarrow> containsSpace s"
proof (induction s)
  case (Cons a s)
  have "[CHR '' ''] \<in> set space_runes" by (simp add: space_runes_def)
  then have "containsSpace (CHR '' '' # s)" by (auto simp: list_ex_iff intro!: bexI [of _ "[CHR '' '']"])
  with Cons show ?case by auto
qed simp

lemma index_selected_iff:
  "index_selected t m sel = Inr m' \<longleftrightarrow>
     (\<forall>o' \<in> set sel. TrimSpace (SelID o') \<noteq> [] \<and> map_of m (SelID o') = None) \<and>
     distinct (map SelID sel) \<and> m' = m @ map (\<lambda>o'. (SelID o', o')) sel"
proof (induction sel arbitrary: m)
  case (Cons a sel)
  have put: "map_put (SelID a) a m = m @ [(SelID a, a)]" if "map_of m (SelID a) = None"
    using that by (induction m) (auto split: if_splits)
  show ?case
  proof (cases "map_of m (SelID a)")
    case None
    have "(map_of (m @ [(SelID a, a)]) (SelID x) = None) \<longleftrightarrow> map_of m (SelID x) = None \<and> SelID x \<noteq> SelID a" for x
      by (auto simp: map_add_def split: option.splits)
    with None put Cons have "index_selected t m (a # sel) = Inr m' \<longleftrightarrow>
        TrimSpace (SelID a) \<noteq> [] \<and>
        (\<forall>x \<in> set sel. TrimSpace (SelID x) \<noteq> [] \<and> map_of m (SelID x) = None \<and> SelID x \<noteq> SelID a) \<and>
        distinct (map SelID sel) \<and> m' = m @ map (\<lambda>o'. (SelID o', o')) (a # sel)"
      by (simp only: index_selected.simps put) (auto simp: map_add_def)
    with None show ?thesis by (auto simp: image_iff)
  qed auto
qed auto

lemma map_of_selected:
  "distinct (map SelID sel) \<Longrightarrow> o' \<in> set sel \<Longrightarrow> map_of (map (\<lambda>o'. (SelID o', o')) sel) (SelID o') = Some o'"
  by (induction sel) (auto simp: image_iff)

text \<open>
  The second loop on a map with distinct keys and on declarations with distinct IDs: it visits the
  declared options in order, and what remains are the selections no declaration mentions.
\<close>

lemma collect_fragments_rest:
  "collect_fragments t opts m = Inr (fs, m') \<Longrightarrow> m' = filter (\<lambda>(i, _). i \<notin> set (map OptID opts)) m"
proof (induction opts arbitrary: m fs)
  case (Cons a opts)
  show ?case
  proof (cases "map_of m (OptID a)")
    case None
    then have "OptID a \<notin> fst ` set m" by (simp add: map_of_eq_None_iff)
    then have "filter (\<lambda>(i, _). i \<notin> set (map OptID opts)) m =
        filter (\<lambda>(i, _). i \<notin> set (map OptID (a # opts))) m"
      by (intro filter_cong) (auto simp: image_iff)
    with None Cons show ?thesis by fastforce
  next
    case (Some s)
    with Cons.prems obtain gs where "collect_fragments t opts (map_del (OptID a) m) = Inr (gs, m')"
      by auto
    from Cons.IH [OF this] show ?thesis
      by (auto simp: map_del_def intro: filter_cong)
  qed
qed simp

lemma collect_fragments_frags:
  "distinct (map OptID opts) \<Longrightarrow>
   collect_fragments t opts m = Inr (fs, m') \<Longrightarrow>
     fs = filter (\<lambda>f. f \<noteq> []) (List.map_filter (\<lambda>opt. case map_of m (OptID opt) of None \<Rightarrow> None
            | Some s \<Rightarrow> (case selectedOptionFragment t opt s of Inr f \<Rightarrow> Some f | Inl _ \<Rightarrow> None)) opts) \<and>
     (\<forall>opt \<in> set opts. \<forall>s. map_of m (OptID opt) = Some s \<longrightarrow> (\<exists>f. selectedOptionFragment t opt s = Inr f))"
proof (induction opts arbitrary: m fs m')
  case Nil
  then show ?case by (simp add: map_filter_simps)
next
  case (Cons a opts)
  show ?case
  proof (cases "map_of m (OptID a)")
    case None
    with Cons show ?thesis by (fastforce simp: map_filter_simps)
  next
    case (Some s)
    with Cons.prems obtain f gs where f: "selectedOptionFragment t a s = Inr f"
      and gs: "collect_fragments t opts (map_del (OptID a) m) = Inr (gs, m')"
      and fs: "fs = (if f \<noteq> [] then f # gs else gs)" by auto
    have same: "map_of (map_del (OptID a) m) (OptID opt) = map_of m (OptID opt)" if "opt \<in> set opts" for opt
      using that Cons.prems(1) by (auto simp: image_iff)
    have "List.map_filter (\<lambda>opt. case map_of (map_del (OptID a) m) (OptID opt) of None \<Rightarrow> None
            | Some s \<Rightarrow> (case selectedOptionFragment t opt s of Inr f \<Rightarrow> Some f | Inl _ \<Rightarrow> None)) opts =
          List.map_filter (\<lambda>opt. case map_of m (OptID opt) of None \<Rightarrow> None
            | Some s \<Rightarrow> (case selectedOptionFragment t opt s of Inr f \<Rightarrow> Some f | Inl _ \<Rightarrow> None)) opts"
      using same by (simp add: List.map_filter_def cong: map_cong filter_cong)
    with Cons.IH [OF _ gs] Cons.prems(1) f fs Some same show ?thesis
      by (auto simp: map_filter_simps)
  qed
qed


lemma collect_fragments_complete:
  "distinct (map OptID opts) \<Longrightarrow>
   (\<forall>opt \<in> set opts. \<forall>s. map_of m (OptID opt) = Some s \<longrightarrow> (\<exists>f. selectedOptionFragment t opt s = Inr f)) \<Longrightarrow>
   \<exists>fs m'. collect_fragments t opts m = Inr (fs, m')"
proof (induction opts arbitrary: m)
  case (Cons a opts)
  then have "\<exists>fs m'. collect_fragments t opts (if map_of m (OptID a) = None then m else map_del (OptID a) m) = Inr (fs, m')"
    by (intro Cons.IH) (auto simp: image_iff split: if_splits)
  with Cons.prems(2) show ?case by (cases "map_of m (OptID a)") (auto, metis)
qed simp

text \<open>
  The fragment each declared option contributes to a selection, and the list of them in the order of
  the declarations.
\<close>

definition selection_of :: "SelectedOption list \<Rightarrow> TargetOption \<Rightarrow> SelectedOption option" where
  "selection_of sel opt = find (\<lambda>s. SelID s = OptID opt) sel"

definition selection_ok :: "Target \<Rightarrow> SelectedOption list \<Rightarrow> bool" where
  "selection_ok t sel \<longleftrightarrow>
     distinct (map SelID sel) \<and>
     (\<forall>s \<in> set sel. TrimSpace (SelID s) \<noteq> [] \<and>
        (\<exists>opt \<in> set (Options t). OptID opt = SelID s \<and> (\<exists>f. selectedOptionFragment (TID t) opt s = Inr f)))"

definition selection_fragments :: "Target \<Rightarrow> SelectedOption list \<Rightarrow> string list" where
  "selection_fragments t sel =
     filter (\<lambda>f. f \<noteq> []) (List.map_filter (\<lambda>opt. case selection_of sel opt of None \<Rightarrow> None
       | Some s \<Rightarrow> (case selectedOptionFragment (TID t) opt s of Inr f \<Rightarrow> Some f | Inl _ \<Rightarrow> None)) (Options t))"

lemma map_of_selection:
  "map_of (map (\<lambda>o'. (SelID o', o')) sel) (OptID opt) = selection_of sel opt"
  by (induction sel) (auto simp: selection_of_def)

lemma selection_of_distinct:
  "distinct (map SelID sel) \<Longrightarrow> s \<in> set sel \<Longrightarrow> SelID s = OptID opt \<Longrightarrow> selection_of sel opt = Some s"
  using map_of_selected [of sel s] by (metis map_of_selection)

lemma selection_of_SomeD: "selection_of sel opt = Some s \<Longrightarrow> s \<in> set sel \<and> SelID s = OptID opt"
  unfolding selection_of_def by (rule find_eq_SomeD)

lemma distinct_OptID_eq:
  "distinct (map OptID opts) \<Longrightarrow> a \<in> set opts \<Longrightarrow> b \<in> set opts \<Longrightarrow> OptID a = OptID b \<Longrightarrow> a = b"
  by (metis distinct_map inj_onD)

lemma no_rest_iff:
  "(case rest of [] \<Rightarrow> Inr x | (i, _) # _ \<Rightarrow> Inl (g i)) = Inr y \<longleftrightarrow> rest = [] \<and> x = y"
  by (auto split: list.splits prod.splits)

lemma selectedOptionFragments_iff:
  assumes dist: "distinct (map OptID (Options t))"
  shows "selectedOptionFragments t sel = Inr fs \<longleftrightarrow> selection_ok t sel \<and> fs = selection_fragments t sel"
proof (cases "sel = []")
  case True
  then show ?thesis
    by (auto simp: selectedOptionFragments_def selection_ok_def selection_fragments_def selection_of_def
        List.map_filter_def)
next
  case False
  let ?m = "map (\<lambda>o'. (SelID o', o')) sel"
  note frags = collect_fragments_frags [OF dist, of "TID t" ?m, unfolded map_of_selection]
  have rest: "filter (\<lambda>(i, _). i \<notin> set (map OptID (Options t))) ?m = [] \<longleftrightarrow>
      (\<forall>s \<in> set sel. SelID s \<in> OptID ` set (Options t))"
    by (auto simp: filter_empty_conv)
  show ?thesis
  proof
    assume "selectedOptionFragments t sel = Inr fs"
    with False obtain r where pre: "\<forall>s \<in> set sel. TrimSpace (SelID s) \<noteq> []" "distinct (map SelID sel)"
      and col: "collect_fragments (TID t) (Options t) ?m = Inr (fs, r)" and "r = []"
      by (auto simp: selectedOptionFragments_def index_selected_iff no_rest_iff)
    with collect_fragments_rest [OF col] rest have decl: "\<forall>s \<in> set sel. SelID s \<in> OptID ` set (Options t)"
      by simp
    have "\<exists>opt \<in> set (Options t). OptID opt = SelID s \<and> (\<exists>f. selectedOptionFragment (TID t) opt s = Inr f)"
      if "s \<in> set sel" for s
      using that decl frags [OF col] selection_of_distinct [OF pre(2) that] by fastforce
    with pre frags [OF col] show "selection_ok t sel \<and> fs = selection_fragments t sel"
      by (simp add: selection_ok_def selection_fragments_def)
  next
    assume ok: "selection_ok t sel \<and> fs = selection_fragments t sel"
    then have "\<exists>f. selectedOptionFragment (TID t) opt s = Inr f"
      if "opt \<in> set (Options t)" "selection_of sel opt = Some s" for opt s
      using that selection_of_SomeD [of sel opt s] distinct_OptID_eq [OF dist]
      unfolding selection_ok_def by metis
    then obtain gs r where col: "collect_fragments (TID t) (Options t) ?m = Inr (gs, r)"
      using collect_fragments_complete [OF dist, of ?m "TID t", unfolded map_of_selection] by blast
    moreover have "r = []"
      using collect_fragments_rest [OF col] rest ok unfolding selection_ok_def by (metis image_eqI)
    moreover have "gs = fs" using frags [OF col] ok by (simp add: selection_fragments_def)
    ultimately show "selectedOptionFragments t sel = Inr fs"
      using ok False by (simp add: selectedOptionFragments_def index_selected_iff selection_ok_def)
  qed
qed

section \<open>A selected value stays inside its template\<close>

lemma count_list_blank_free: "\<not> containsSpace v \<Longrightarrow> count_list v (CHR '' '') = 0"
  using containsSpace_blank by (auto simp: count_list_0_iff)

text \<open>What one selected option may contribute to the command line.\<close>

definition contributes :: "TargetOption \<Rightarrow> SelectedOption \<Rightarrow> string \<Rightarrow> bool" where
  "contributes opt s f \<longleftrightarrow>
     (OptType opt = TargetOptionBool \<and> SelValue s = ''true'' \<and> f = Fragment opt) \<or>
     (OptType opt = TargetOptionEnum \<and> (\<exists>v \<in> set (Values opt). Value v = SelValue s \<and> f = VFragment v)) \<or>
     (OptType opt = TargetOptionString \<and> SelValue s \<noteq> [] \<and> \<not> containsSpaceOrControl (SelValue s) \<and>
        (\<exists>a b. Template opt = a @ ''{value}'' @ b \<and> f = a @ SelValue s @ b) \<and>
        count_list f (CHR '' '') = count_list (Template opt) (CHR '' ''))"

lemma selectedOptionFragment_contributes:
  assumes wf: "wf_option opt" and sel: "selectedOptionFragment t opt s = Inr f" and "f \<noteq> []"
  shows "contributes opt s f \<and> wf_fragment f"
proof -
  consider (bool) "OptType opt = TargetOptionBool" | (enum) "OptType opt = TargetOptionEnum"
    | (string) "OptType opt = TargetOptionString"
    using wf by (auto simp: wf_option_def)
  then show ?thesis
  proof cases
    case bool
    with assms show ?thesis
      by (auto simp: selectedOptionFragment_def contributes_def wf_option_def
          split: if_splits)
  next
    case enum
    with sel obtain v where v: "find (\<lambda>v. SelValue s = Value v) (Values opt) = Some v" "f = VFragment v"
      by (auto simp: selectedOptionFragment_def split: option.splits)
    then have "v \<in> set (Values opt)" "Value v = SelValue s" by (auto dest: find_eq_SomeD)
    with enum v(2) wf \<open>f \<noteq> []\<close> show ?thesis
      by (auto simp: contributes_def wf_option_def wf_option_value_def)
  next
    case string
    with sel have f: "f = ReplaceAll (Template opt) ''{value}'' (SelValue s)" "wf_fragment f"
      and v: "SelValue s \<noteq> []" "\<not> containsSpaceOrControl (SelValue s)"
      by (auto simp: selectedOptionFragment_def Let_def validateExpandedCmdlineFragment_def
          TrimSpace_eq_self_iff TrimSpace_trimmed)
    from string wf have "Count (Template opt) ''{value}'' = 1"
      by (auto simp: wf_option_def wf_template_def)
    from ReplaceAll_single [OF _ this] obtain a b
      where ab: "Template opt = a @ ''{value}'' @ b" "f = a @ SelValue s @ b" using f(1) by auto
    moreover have "count_list f (CHR '' '') = count_list (Template opt) (CHR '' '')"
      using v(2) by (simp add: ab count_list_append count_list_blank_free containsSpaceOrControl_def)
    ultimately show ?thesis using string v f(2) by (auto simp: contributes_def)
  qed
qed

section \<open>Secret references: what success means\<close>

text \<open>The reference the loop stores, and the selection it works on.\<close>

definition normal_ref :: "SecretRef \<Rightarrow> SecretRef" where
  "normal_ref r = \<lparr>RefID = RefID r,
     InputID = (if TrimSpace (InputID r) = [] then RefID r else TrimSpace (InputID r))\<rparr>"

definition effective_refs :: "SecretRef list \<Rightarrow> SecretStore option \<Rightarrow> SecretRef list" where
  "effective_refs sel store = (case store of
       Some st \<Rightarrow> (if sel = [] then map (\<lambda>i. \<lparr>RefID = i, InputID = i\<rparr>) (IDs st) else sel)
     | None \<Rightarrow> sel)"

definition ref_ok :: "SecretInput list \<Rightarrow> SecretStore option \<Rightarrow> SecretRef \<Rightarrow> bool" where
  "ref_ok decls store r \<longleftrightarrow>
     TrimSpace (RefID r) \<noteq> [] \<and> RefID r \<in> SecID ` set decls \<and> validOptionID (InputID (normal_ref r)) \<and>
     (\<exists>st. store = Some st \<and> Has st (InputID (normal_ref r)))"

lemma map_put_fresh: "map_of m k = None \<Longrightarrow> map_put k v m = m @ [(k, v)]"
  by (induction m) (auto split: if_splits)

lemma RefID_normal [simp]: "RefID (normal_ref r) = RefID r"
  by (simp add: normal_ref_def)

lemma index_secret_refs_iff:
  "index_secret_refs t decls store m refs = Inr m' \<longleftrightarrow>
     (\<forall>r \<in> set refs. ref_ok decls store r \<and> map_of m (RefID r) = None) \<and>
     distinct (map RefID refs) \<and> m' = m @ map (\<lambda>r. (RefID r, normal_ref r)) refs"
proof (induction refs arbitrary: m)
  case (Cons a refs)
  have norm: "\<lparr>RefID = RefID a, InputID = (if TrimSpace (InputID a) = [] then RefID a else TrimSpace (InputID a))\<rparr>
      = normal_ref a" by (simp add: normal_ref_def)
  have ok: "ref_ok decls store a \<longleftrightarrow> TrimSpace (RefID a) \<noteq> [] \<and> RefID a \<in> SecID ` set decls \<and>
      validOptionID (if TrimSpace (InputID a) = [] then RefID a else TrimSpace (InputID a)) \<and>
      \<not> (case store of None \<Rightarrow> True
         | Some st \<Rightarrow> \<not> Has st (if TrimSpace (InputID a) = [] then RefID a else TrimSpace (InputID a)))"
    by (cases store) (auto simp: ref_ok_def normal_ref_def)
  show ?case
  proof (cases "map_of m (RefID a)")
    case None
    have step: "index_secret_refs t decls store m (a # refs) = Inr m' \<longleftrightarrow>
        ref_ok decls store a \<and> index_secret_refs t decls store (m @ [(RefID a, normal_ref a)]) refs = Inr m'"
      using None by (simp add: ok Let_def norm map_put_fresh del: index_secret_refs.simps(1))
    have fresh: "map_of (m @ [(RefID a, normal_ref a)]) (RefID r) = None \<longleftrightarrow>
        map_of m (RefID r) = None \<and> RefID r \<noteq> RefID a" for r
      by (auto simp: map_add_def split: option.splits)
    have "index_secret_refs t decls store m (a # refs) = Inr m' \<longleftrightarrow>
        ref_ok decls store a \<and>
        (\<forall>r \<in> set refs. ref_ok decls store r \<and> map_of m (RefID r) = None \<and> RefID r \<noteq> RefID a) \<and>
        distinct (map RefID refs) \<and> m' = m @ map (\<lambda>r. (RefID r, normal_ref r)) (a # refs)"
      by (simp only: step fresh Cons.IH append_assoc append_Cons append_Nil list.map)
    then show ?thesis using None by (simp only: list.set list.map distinct.simps) (auto simp: image_iff)
  qed auto
qed auto

lemma ResolveSecretRefs_iff:
  "ResolveSecretRefs t sel store = Inr refs \<longleftrightarrow>
     distinct (map RefID (effective_refs sel store)) \<and>
     (\<forall>r \<in> set (effective_refs sel store). ref_ok (Secrets t) store r) \<and>
     (\<forall>d \<in> set (Secrets t). Required d \<longrightarrow> SecID d \<in> RefID ` set (effective_refs sel store)) \<and>
     refs = List.map_filter (\<lambda>d. map_option normal_ref (find (\<lambda>r. RefID r = SecID d) (effective_refs sel store)))
              (Secrets t)"
proof -
  have look: "map_of (map (\<lambda>r. (RefID r, normal_ref r)) rs) i = map_option normal_ref (find (\<lambda>r. RefID r = i) rs)"
    for rs i by (induction rs) auto
  have found: "(\<exists>z. find (\<lambda>r. RefID r = i) rs = Some z) \<longleftrightarrow> i \<in> RefID ` set rs" for i rs
    by (induction rs) auto
  have eff: "(case store of
            Some st \<Rightarrow> (if sel = [] then map (\<lambda>i. \<lparr>RefID = i, InputID = i\<rparr>) (IDs st) else sel)
          | None \<Rightarrow> sel) = effective_refs sel store" by (simp add: effective_refs_def)
  show ?thesis
    unfolding ResolveSecretRefs_def eff Let_def
    by (auto simp: index_secret_refs_iff look found)
qed

lemma map_filter_subseq:
  "(\<And>d y. f d = Some y \<Longrightarrow> g y = h d) \<Longrightarrow> subseq (map g (List.map_filter f ds)) (map h ds)"
  by (induction ds) (auto simp: map_filter_simps split: option.splits)

lemma in_set_map_filter: "y \<in> set (List.map_filter f ds) \<longleftrightarrow> (\<exists>d \<in> set ds. f d = Some y)"
  by (induction ds) (auto simp: map_filter_simps split: option.splits)

lemma ResolveSecretRefs_sound:
  assumes "ResolveSecretRefs t sel store = Inr refs"
  shows "\<forall>d \<in> set (Secrets t). Required d \<longrightarrow> SecID d \<in> RefID ` set refs"
    and "\<forall>ref \<in> set refs. RefID ref \<in> SecID ` set (Secrets t) \<and> validOptionID (InputID ref) \<and>
           (\<exists>st. store = Some st \<and> Has st (InputID ref))"
    and "subseq (map RefID refs) (map SecID (Secrets t))"
proof -
  let ?E = "effective_refs sel store"
  let ?f = "\<lambda>d. map_option normal_ref (find (\<lambda>r. RefID r = SecID d) ?E)"
  from assms have ok: "\<forall>r \<in> set ?E. ref_ok (Secrets t) store r"
    and req: "\<forall>d \<in> set (Secrets t). Required d \<longrightarrow> SecID d \<in> RefID ` set ?E"
    and refs: "refs = List.map_filter ?f (Secrets t)"
    by (simp_all add: ResolveSecretRefs_iff)
  have f: "\<exists>r \<in> set ?E. ref = normal_ref r \<and> RefID r = SecID d" if "?f d = Some ref" for d ref
    using that by (auto dest: find_eq_SomeD)
  show "\<forall>d \<in> set (Secrets t). Required d \<longrightarrow> SecID d \<in> RefID ` set refs"
  proof (intro ballI impI)
    fix d assume d: "d \<in> set (Secrets t)" "Required d"
    with req have "\<exists>r \<in> set ?E. RefID r = SecID d" by force
    then have "?f d \<noteq> None" by (auto simp: find_None_iff)
    then obtain ref where ref: "?f d = Some ref" by blast
    with f [OF ref] d show "SecID d \<in> RefID ` set refs" by (force simp: refs in_set_map_filter)
  qed
  show "\<forall>ref \<in> set refs. RefID ref \<in> SecID ` set (Secrets t) \<and> validOptionID (InputID ref) \<and>
           (\<exists>st. store = Some st \<and> Has st (InputID ref))"
  proof
    fix ref assume "ref \<in> set refs"
    then obtain d where d: "?f d = Some ref" "d \<in> set (Secrets t)" by (auto simp: refs in_set_map_filter)
    from f [OF d(1)] d(2) ok show "RefID ref \<in> SecID ` set (Secrets t) \<and> validOptionID (InputID ref) \<and>
           (\<exists>st. store = Some st \<and> Has st (InputID ref))"
      by (auto simp: ref_ok_def)
  qed
  show "subseq (map RefID refs) (map SecID (Secrets t))"
    unfolding refs by (rule map_filter_subseq) (auto dest: find_eq_SomeD)
qed

end
