(* ===== verification/Registry.thy ===== *)
theory Registry
  imports ProviderOptions
begin

text \<open>
  The registry of compiled-in providers (\<^verbatim>\<open>internal/provider/provider.go\<close>, \<open>Registry\<close>): a Go map from
  provider ID to provider, listed in sorted order of the IDs, with every target validated on the way
  out and every plan and staging request checked on the way in.
\<close>

section \<open>Operations\<close>

type_synonym Registry = "(string \<times> Provider) list"

definition NewRegistry :: Registry where
  "NewRegistry = []"

definition Register :: "Registry \<Rightarrow> Provider \<Rightarrow> Registry result" where
  "Register r p =
     (if map_of r (ProvID p) \<noteq> None
      then Inl (Errorf ''%w: %s'' [W (Sentinel ErrDuplicateProvider), S (ProvID p)])
      else Inr (map_put (ProvID p) p r))"

text \<open>\<open>for id := range r.providers { ids = append(ids, id) }; sort.Strings(ids)\<close>\<close>

definition sorted_ids :: "Registry \<Rightarrow> string list" where
  "sorted_ids r = sort (map fst r)"

definition provider_at :: "Registry \<Rightarrow> string \<Rightarrow> Provider" where
  "provider_at r i = the (map_of r i)"

definition list_provider :: "Registry \<Rightarrow> string \<Rightarrow> Target list io" where
  "list_provider r i =
     io_wrap (\<lambda>e. Errorf ''list targets for %s: %w'' [S i, W e])
       (io_bind (ProvTargets (provider_at r i)) (\<lambda>ts.
          io_bind (io_of (for_each (ValidateTarget i) ts)) (\<lambda>_. io_return ts)))"

definition Registry_Targets :: "Registry \<Rightarrow> Target list io" where
  "Registry_Targets r = io_bind (io_map (list_provider r) (sorted_ids r)) (\<lambda>tss. io_return (concat tss))"

fun discovery_families :: "Registry \<Rightarrow> string list \<Rightarrow> DiscoveryFamily list result" where
  "discovery_families r [] = Inr []"
| "discovery_families r (i # ids) =
     (case ProvDiscoverer (provider_at r i) of
        None \<Rightarrow> discovery_families r ids
      | Some (family, _) \<Rightarrow>
          and_then (map_err (\<lambda>e. Errorf ''list discovery family for %s: %w'' [S i, W e])
                      (ValidateDiscoveryFamily i family)) (\<lambda>_.
          and_then (discovery_families r ids) (\<lambda>fs. Inr (family # fs))))"

definition DiscoveryFamilies :: "Registry \<Rightarrow> DiscoveryFamily list result" where
  "DiscoveryFamilies r = discovery_families r (sorted_ids r)"

fun discover_from :: "Registry \<Rightarrow> string \<Rightarrow> string list \<Rightarrow> Target list io" where
  "discover_from r familyID [] =
     io_fail (Errorf ''%w: %s'' [W (Sentinel ErrDiscoveryFamilyNotFound), S familyID])"
| "discover_from r familyID (i # ids) =
     (case ProvDiscoverer (provider_at r i) of
        None \<Rightarrow> discover_from r familyID ids
      | Some (family, discover) \<Rightarrow>
          io_bind (io_of (map_err (\<lambda>e. Errorf ''discover targets for %s: %w'' [S i, W e])
                            (ValidateDiscoveryFamily i family))) (\<lambda>_.
            if FamID family \<noteq> familyID then discover_from r familyID ids
            else io_wrap (\<lambda>e. Errorf ''discover targets for %s: %w'' [S familyID, W e])
                   (io_bind discover (\<lambda>ts.
                      io_bind (io_of (for_each (ValidateTarget i) ts)) (\<lambda>_. io_return ts)))))"

definition Registry_DiscoverTargets :: "Registry \<Rightarrow> string \<Rightarrow> Target list io" where
  "Registry_DiscoverTargets r familyID = discover_from r familyID (sorted_ids r)"

definition Registry_Plan :: "Registry \<Rightarrow> PlanInput \<Rightarrow> BootPlan io" where
  "Registry_Plan r input =
     io_bind (io_of (ValidateSelectedOptions (PTarget input) (POptions input))) (\<lambda>_.
     io_bind (io_of (ResolveSecretRefs (PTarget input) (PSecretRefs input) (PSecrets input))) (\<lambda>secretRefs.
     (case map_of r (ProviderID (PTarget input)) of
        None \<Rightarrow> io_fail (Errorf ''%w: %s'' [W (Sentinel ErrProviderNotFound), S (ProviderID (PTarget input))])
      | Some p \<Rightarrow>
          io_bind (io_wrap (\<lambda>e. Errorf ''plan target %s: %w'' [S (TID (PTarget input)), W e])
                     (ProvPlan p (input\<lparr>PSecretRefs := secretRefs\<rparr>))) (\<lambda>plan.
          io_return (if secretRefs \<noteq> [] then plan\<lparr>BSecretRefs := secretRefs\<rparr> else plan)))))"

definition Registry_Stage :: "Registry \<Rightarrow> StageConfig \<Rightarrow> BootPlan io" where
  "Registry_Stage r config =
     (let secretRefs = (if CSecretRefs config = [] then BSecretRefs (CPlan config) else CSecretRefs config);
          target = BTarget (CPlan config) in
      io_bind (io_of (ResolveSecretRefs target secretRefs (CSecrets config))) (\<lambda>resolved.
      (case map_of r (ProviderID target) of
         None \<Rightarrow> io_fail (Errorf ''%w: %s'' [W (Sentinel ErrProviderNotFound), S (ProviderID target)])
       | Some p \<Rightarrow>
           (case ProvStager p of
              None \<Rightarrow> io_fail (Errorf ''%w: %s'' [W (Sentinel ErrStagingNotSupported), S (ProvID p)])
            | Some stage \<Rightarrow>
                io_wrap (\<lambda>e. Errorf ''stage target %s: %w'' [S (TID target), W e])
                  (stage (config\<lparr>CSecretRefs := resolved\<rparr>))))))"

section \<open>The registry invariant\<close>

text \<open>The map is keyed by the providers' own IDs and holds each ID once.\<close>

definition registry_ok :: "Registry \<Rightarrow> bool" where
  "registry_ok r \<longleftrightarrow> distinct (map fst r) \<and> (\<forall>(i, p) \<in> set r. ProvID p = i)"

lemma registry_ok_New [simp]: "registry_ok NewRegistry"
  by (simp add: registry_ok_def NewRegistry_def)

lemma registry_ok_Register:
  assumes "registry_ok r" and "Register r p = Inr r'"
  shows "registry_ok r'"
proof -
  from assms(2) have fresh: "map_of r (ProvID p) = None" and r': "r' = r @ [(ProvID p, p)]"
    by (auto simp: Register_def map_put_fresh)
  then show ?thesis using assms(1) by (auto simp: registry_ok_def map_of_eq_None_iff)
qed

text \<open>Registries as the program builds them: \<open>NewRegistry\<close> and then successful calls of \<open>Register\<close>.\<close>

inductive built :: "Registry \<Rightarrow> bool" where
  built_New: "built NewRegistry"
| built_Register: "built r \<Longrightarrow> Register r p = Inr r' \<Longrightarrow> built r'"

lemma built_ok: "built r \<Longrightarrow> registry_ok r"
  by (induction rule: built.induct) (auto intro: registry_ok_Register)

lemma set_sorted_ids [simp]: "set (sorted_ids r) = fst ` set r"
  by (simp add: sorted_ids_def)

lemma sorted_ids_strict: "registry_ok r \<Longrightarrow> sorted (sorted_ids r) \<and> distinct (sorted_ids r)"
  by (simp add: sorted_ids_def registry_ok_def)

lemma provider_at_ID:
  assumes "registry_ok r" and "i \<in> set (sorted_ids r)"
  shows "ProvID (provider_at r i) = i"
proof -
  from assms obtain p where "(i, p) \<in> set r" by auto
  with assms(1) have "map_of r i = Some p" "ProvID p = i" by (auto simp: registry_ok_def)
  then show ?thesis by (simp add: provider_at_def)
qed

section \<open>Listing\<close>

lemma list_provider_Inr:
  "list_provider r i w = (Inr ts, w') \<longleftrightarrow>
     ProvTargets (provider_at r i) w = (Inr ts, w') \<and> (\<forall>t \<in> set ts. wf_target i t)"
  by (auto simp: list_provider_def ValidateTarget_wf)

lemma io_map_list_wf:
  "io_map (list_provider r) ids w = (Inr tss, w') \<Longrightarrow>
     list_all2 (\<lambda>i ts. \<forall>t \<in> set ts. wf_target i t) ids tss"
  by (induction ids arbitrary: w tss) (auto simp: list_provider_Inr)

lemma concat_providers:
  assumes "list_all2 (\<lambda>i ts. \<forall>t \<in> set ts. ProviderID t = i) ids tss" and "sorted ids"
  shows "sorted (map ProviderID (concat tss))"
  using assms
proof (induction ids tss rule: list_all2_induct)
  case (Cons i ids ts tss)
  have "ProviderID t \<in> set ids" if "t \<in> set (concat tss)" for t
  proof -
    from that obtain us where us: "us \<in> set tss" "t \<in> set us" by auto
    from list_all2_set2 [OF Cons.hyps(2) us(1)] us show ?thesis by auto
  qed
  then have "\<forall>x \<in> set (map ProviderID (concat tss)). i \<le> x" using Cons.prems by auto
  moreover have "map ProviderID ts = replicate (length ts) i"
    using Cons.hyps(1) by (induction ts) auto
  ultimately show ?case using Cons by (simp add: sorted_append)
qed simp

text \<open>Every target that \<open>Registry.Targets\<close> returns is well-formed for the provider that listed it,
  that provider is registered, and the list is ordered by provider ID.\<close>

theorem Registry_Targets_sound:
  assumes "built r" and "Registry_Targets r w = (Inr ts, w')"
  shows "(\<forall>t \<in> set ts. wf_target (ProviderID t) t \<and> ProviderID t \<in> fst ` set r) \<and>
         sorted (map ProviderID ts)"
proof -
  from assms(2) obtain tss where ts: "ts = concat tss"
    and all2: "list_all2 (\<lambda>i ts. \<forall>t \<in> set ts. wf_target i t) (sorted_ids r) tss"
    by (auto simp: Registry_Targets_def dest: io_map_list_wf)
  from all2 have same: "list_all2 (\<lambda>i ts. \<forall>t \<in> set ts. ProviderID t = i) (sorted_ids r) tss"
    by (rule list_all2_mono) (auto simp: wf_target_def)
  have "wf_target (ProviderID t) t \<and> ProviderID t \<in> fst ` set r" if "t \<in> set ts" for t
  proof -
    from that ts obtain us where us: "us \<in> set tss" "t \<in> set us" by auto
    from list_all2_set2 [OF all2 us(1)] us obtain i where "wf_target i t" "i \<in> fst ` set r" by auto
    then show ?thesis by (simp add: wf_target_def)
  qed
  then show ?thesis
    using concat_providers [OF same] sorted_ids_strict [OF built_ok [OF assms(1)]] ts by blast
qed

section \<open>Discovery\<close>

lemma discovery_families_Inr:
  "discovery_families r ids = Inr fs \<Longrightarrow>
     (\<forall>f \<in> set fs. wf_family (FamProviderID f) f \<and> FamProviderID f \<in> set ids) \<and>
     (sorted ids \<longrightarrow> sorted (map FamProviderID fs)) \<and> (distinct ids \<longrightarrow> distinct (map FamProviderID fs))"
proof (induction ids arbitrary: fs)
  case (Cons i ids)
  show ?case
  proof (cases "ProvDiscoverer (provider_at r i)")
    case None
    with Cons show ?thesis by auto
  next
    case (Some fd)
    with Cons.prems obtain gs where gs: "discovery_families r ids = Inr gs" and fs: "fs = fst fd # gs"
      and "wf_family i (fst fd)"
      by (auto simp: ValidateDiscoveryFamily_wf split: prod.splits)
    then have "FamProviderID (fst fd) = i" "wf_family i (fst fd)" by (auto simp: wf_family_def)
    with Cons.IH [OF gs] fs show ?thesis by auto
  qed
qed simp

lemma discover_from_Inr:
  "discover_from r fam ids w = (Inr ts, w') \<Longrightarrow>
     \<exists>i family discover. i \<in> set ids \<and> ProvDiscoverer (provider_at r i) = Some (family, discover) \<and>
       FamID family = fam \<and> wf_family i family \<and> discover w = (Inr ts, w') \<and> (\<forall>t \<in> set ts. wf_target i t)"
proof (induction ids)
  case (Cons i ids)
  show ?case
  proof (cases "ProvDiscoverer (provider_at r i)")
    case None
    with Cons show ?thesis by auto
  next
    case (Some fd)
    obtain family discover where fd: "fd = (family, discover)" by (cases fd)
    show ?thesis
    proof (cases "FamID family = fam")
      case True
      with Cons.prems Some fd show ?thesis
        by (auto simp: ValidateDiscoveryFamily_wf ValidateTarget_wf)
    next
      case False
      with Cons Some fd show ?thesis by auto
    qed
  qed
qed simp

text \<open>Runtime discovery for a family asks one registered provider that declares that family, and
  returns its targets only when each of them is well-formed for that provider.\<close>

theorem Registry_DiscoverTargets_sound:
  assumes "built r" and "Registry_DiscoverTargets r fam w = (Inr ts, w')"
  shows "\<exists>p family discover. p \<in> snd ` set r \<and> ProvDiscoverer p = Some (family, discover) \<and>
           FamID family = fam \<and> FamProviderID family = ProvID p \<and>
           discover w = (Inr ts, w') \<and> (\<forall>t \<in> set ts. wf_target (ProvID p) t)"
proof -
  from discover_from_Inr assms(2) obtain i family discover
    where i: "i \<in> set (sorted_ids r)" "ProvDiscoverer (provider_at r i) = Some (family, discover)"
      "FamID family = fam" "wf_family i family" "discover w = (Inr ts, w')" "\<forall>t \<in> set ts. wf_target i t"
    unfolding Registry_DiscoverTargets_def by blast
  have ok: "registry_ok r" by (rule built_ok [OF assms(1)])
  from i(1) obtain p where p: "(i, p) \<in> set r" by auto
  with ok have "map_of r i = Some p" "ProvID p = i" by (auto simp: registry_ok_def)
  then have "provider_at r i = p" "ProvID p = i" by (auto simp: provider_at_def)
  with i p show ?thesis by (intro exI [of _ p]) (force simp: wf_family_def image_iff)
qed

text \<open>A provider ID is registered at most once: a second registration is refused with
  \<open>ErrDuplicateProvider\<close>, and a first one adds exactly that provider and keeps every other.\<close>

theorem Register_spec:
  "(case Register r p of
      Inl e \<Rightarrow> errors_is e ErrDuplicateProvider \<and> ProvID p \<in> fst ` set r
    | Inr r' \<Rightarrow> ProvID p \<notin> fst ` set r \<and> map_of r' = (map_of r)(ProvID p \<mapsto> p) \<and>
        set (sorted_ids r') = insert (ProvID p) (set (sorted_ids r)))"
proof (cases "map_of r (ProvID p)")
  case None
  then have "ProvID p \<notin> fst ` set r" by (simp add: map_of_eq_None_iff)
  with None show ?thesis by (simp add: Register_def)
next
  case (Some q)
  then have "ProvID p \<in> fst ` set r" by (metis domI dom_map_of_conv_image_fst)
  with Some show ?thesis by (simp add: Register_def)
qed

section \<open>Planning and staging\<close>

text \<open>A plan is only asked of the provider that owns the target, only for a selection of options that
  the target declares, and with the resolved secret references; the plan that comes back carries those
  references whenever there are any.\<close>

theorem Registry_Plan_sound:
  assumes "Registry_Plan r input w = (Inr plan, w')"
  shows "\<exists>p refs q. map_of r (ProviderID (PTarget input)) = Some p \<and>
           ValidateSelectedOptions (PTarget input) (POptions input) = Inr () \<and>
           ResolveSecretRefs (PTarget input) (PSecretRefs input) (PSecrets input) = Inr refs \<and>
           ProvPlan p (input\<lparr>PSecretRefs := refs\<rparr>) w = (Inr q, w') \<and>
           plan = (if refs \<noteq> [] then q\<lparr>BSecretRefs := refs\<rparr> else q)"
  using assms by (auto simp: Registry_Plan_def split: option.splits simp del: if_split) metis

text \<open>Staging reaches a provider only when every required secret of the target is referenced, every
  reference is declared by the target and present in the store, and the provider can stage; what the
  provider sees is the plan unchanged.\<close>

theorem Registry_Stage_sound:
  assumes "Registry_Stage r config w = (Inr staged, w')"
  shows "\<exists>p stage refs. map_of r (ProviderID (BTarget (CPlan config))) = Some p \<and>
           ProvStager p = Some stage \<and> stage (config\<lparr>CSecretRefs := refs\<rparr>) w = (Inr staged, w') \<and>
           (\<forall>d \<in> set (Secrets (BTarget (CPlan config))). Required d \<longrightarrow> SecID d \<in> RefID ` set refs) \<and>
           (\<forall>ref \<in> set refs. RefID ref \<in> SecID ` set (Secrets (BTarget (CPlan config))) \<and>
              (\<exists>store. CSecrets config = Some store \<and> Has store (InputID ref)))"
proof -
  let ?sel = "if CSecretRefs config = [] then BSecretRefs (CPlan config) else CSecretRefs config"
  from assms obtain refs where refs: "ResolveSecretRefs (BTarget (CPlan config)) ?sel (CSecrets config) = Inr refs"
    by (auto simp: Registry_Stage_def Let_def)
  with assms obtain p stage where "map_of r (ProviderID (BTarget (CPlan config))) = Some p"
    "ProvStager p = Some stage" "stage (config\<lparr>CSecretRefs := refs\<rparr>) w = (Inr staged, w')"
    by (auto simp: Registry_Stage_def Let_def split: option.splits)
  with ResolveSecretRefs_sound [OF refs] show ?thesis by auto
qed

end
