(* ===== verification/Secrets.thy ===== *)
theory Secrets
  imports Registry
begin

text \<open>
  The secret store (\<^verbatim>\<open>internal/secrets/store.go\<close>): reading operator secrets from private files, and
  staging private copies of them.  Planning and staging see a store only through the interface
  \<open>SecretStore\<close>; the locale \<open>secret_store\<close> states what they rely on.
\<close>

section \<open>The interface\<close>

locale secret_store =
  fixes st :: SecretStore
  assumes IDs_sorted: "sorted (IDs st)"
    and IDs_distinct: "distinct (IDs st)"
    and Has_iff: "Has st i \<longleftrightarrow> i \<in> set (IDs st)"
    and StageFile_stored: "StageFile st i dir name w = (Inr p, w') \<Longrightarrow>
          Has st i \<and> (\<exists>data. Fs w' (path_Clean p) = Some (File data 384))"
begin

text \<open>
  With no explicit selection a target takes the whole store: resolution succeeds exactly when every
  stored secret is declared under a valid name and every required one is stored, and then maps each
  declared secret that is stored to itself, in declaration order.
\<close>

lemma resolve_implicit:
  assumes valid: "\<forall>d \<in> set (Secrets t). wf_secret d"
  shows "ResolveSecretRefs t [] (Some st) = Inr refs \<longleftrightarrow>
     set (IDs st) \<subseteq> SecID ` set (Secrets t) \<and>
     (\<forall>d \<in> set (Secrets t). Required d \<longrightarrow> Has st (SecID d)) \<and>
     refs = map (\<lambda>d. \<lparr>RefID = SecID d, InputID = SecID d\<rparr>) (filter (\<lambda>d. Has st (SecID d)) (Secrets t))"
proof -
  let ?E = "map (\<lambda>i. \<lparr>RefID = i, InputID = i\<rparr>) (IDs st)"
  have E: "effective_refs [] (Some st) = ?E" by (simp add: effective_refs_def)
  have valid_id: "i \<noteq> [] \<and> validOptionID i \<and> TrimSpace i = i" if "i \<in> SecID ` set (Secrets t)" for i
    using that valid by (auto simp: wf_secret_def)
  have norm: "normal_ref \<lparr>RefID = i, InputID = i\<rparr> = \<lparr>RefID = i, InputID = i\<rparr>"
    if "i \<in> SecID ` set (Secrets t)" for i
    using valid_id [OF that] by (simp add: normal_ref_def)
  have ok: "ref_ok (Secrets t) (Some st) \<lparr>RefID = i, InputID = i\<rparr> \<longleftrightarrow> i \<in> SecID ` set (Secrets t)"
    if "i \<in> set (IDs st)" for i
    using that valid_id [of i] norm [of i] by (auto simp: ref_ok_def Has_iff)
  have found: "map_option normal_ref (find (\<lambda>r. RefID r = SecID d) ?E) =
      (if Has st (SecID d) then Some \<lparr>RefID = SecID d, InputID = SecID d\<rparr> else None)"
    if "d \<in> set (Secrets t)" for d
  proof -
    have "find (\<lambda>r. RefID r = i) (map (\<lambda>i. \<lparr>RefID = i, InputID = i\<rparr>) xs) =
        (if i \<in> set xs then Some \<lparr>RefID = i, InputID = i\<rparr> else None)" for xs i
      by (induction xs) auto
    with that norm [of "SecID d"] show ?thesis by (auto simp: Has_iff)
  qed
  have all: "List.map_filter (\<lambda>d. map_option normal_ref (find (\<lambda>r. RefID r = SecID d) ?E)) ds =
      map (\<lambda>d. \<lparr>RefID = SecID d, InputID = SecID d\<rparr>) (filter (\<lambda>d. Has st (SecID d)) ds)"
    if "set ds \<subseteq> set (Secrets t)" for ds
    using that by (induction ds) (auto simp: map_filter_simps found)
  have dist: "distinct (map RefID ?E)" using IDs_distinct by (simp add: comp_def)
  show ?thesis
    unfolding ResolveSecretRefs_iff E
    using dist ok all [of "Secrets t"] by (auto simp: Has_iff image_iff)
qed

lemma IDs_unique: "set (IDs st) = set ids \<Longrightarrow> sorted ids \<Longrightarrow> distinct ids \<Longrightarrow> IDs st = ids"
  using IDs_sorted IDs_distinct by (simp add: sorted_distinct_set_unique)

end

section \<open>Operations of the file-backed store\<close>

type_synonym entries = "(string \<times> bytes) list"

record Selection =
  SelectionID :: string
  SelectionPath :: string

definition secretFileErrorReason :: "go_error \<Rightarrow> string" where
  "secretFileErrorReason e =
     (if errors_is e OsErrNotExist then ''file does not exist''
      else if errors_is e OsErrPermission then ''permission denied''
      else ''filesystem error'')"

definition defaultMaxBytes :: int where "defaultMaxBytes = 1048576"

definition readSecretFile :: "string \<Rightarrow> string \<Rightarrow> int \<Rightarrow> bytes io" where
  "readSecretFile i p maxBytes =
     io_bind (io_wrap (\<lambda>e. Errorf ''%w: read secret input %s: %s''
                [W (Sentinel ErrInvalidSecretInput), S i, S (secretFileErrorReason e)]) (os_Stat p)) (\<lambda>info.
     (case info of
        File content mode \<Rightarrow>
          if mode mod 64 \<noteq> 0 then
            io_fail (Errorf ''%w: secret input %s must not be group or other readable''
                       [W (Sentinel ErrInvalidSecretInput), S i])
          else if maxBytes < int (length content) then
            io_fail (Errorf ''%w: secret input %s exceeds maximum size %d''
                       [W (Sentinel ErrInvalidSecretInput), S i, D maxBytes])
          else io_bind (io_wrap (\<lambda>e. Errorf ''%w: read secret input %s: %s''
                  [W (Sentinel ErrInvalidSecretInput), S i, S (secretFileErrorReason e)]) (os_ReadFile p)) (\<lambda>data.
               if maxBytes < int (length data) then
                 io_fail (Errorf ''%w: secret input %s exceeds maximum size %d''
                            [W (Sentinel ErrInvalidSecretInput), S i, D maxBytes])
               else io_return data)
      | _ \<Rightarrow> io_fail (Errorf ''%w: secret input %s must be a regular file''
                        [W (Sentinel ErrInvalidSecretInput), S i])))"

text \<open>The first loop of \<open>Load\<close> checks the IDs, the second reads the files.\<close>

fun check_selection_ids :: "string list \<Rightarrow> Selection list \<Rightarrow> unit result" where
  "check_selection_ids seen [] = Inr ()"
| "check_selection_ids seen (s # ss) =
     (let i = TrimSpace (SelectionID s) in
      if i = [] then Inl (Errorf ''%w: secret input ID is required'' [W (Sentinel ErrInvalidSecretInput)])
      else if i \<in> set seen then
        Inl (Errorf ''%w: duplicate secret input %q'' [W (Sentinel ErrInvalidSecretInput), S i])
      else check_selection_ids (i # seen) ss)"

fun read_selections :: "int \<Rightarrow> entries \<Rightarrow> Selection list \<Rightarrow> entries io" where
  "read_selections maxBytes es [] = io_return es"
| "read_selections maxBytes es (s # ss) =
     (let i = TrimSpace (SelectionID s) in
      if TrimSpace (SelectionPath s) \<noteq> SelectionPath s then
        io_fail (Errorf ''%w: secret input %s path has surrounding whitespace''
                   [W (Sentinel ErrInvalidSecretInput), S i])
      else if \<not> filepath_IsAbs (SelectionPath s) then
        io_fail (Errorf ''%w: secret input %s path must be an absolute path''
                   [W (Sentinel ErrInvalidSecretInput), S i])
      else io_bind (readSecretFile i (SelectionPath s) maxBytes) (\<lambda>data.
             read_selections maxBytes (map_put i data es) ss))"

definition Load :: "Selection list \<Rightarrow> int \<Rightarrow> entries io" where
  "Load selections max_opt =
     (let maxBytes = (if max_opt \<le> 0 then defaultMaxBytes else max_opt) in
      io_bind (io_of (check_selection_ids [] selections)) (\<lambda>_.
        read_selections maxBytes [] selections))"

text \<open>Ranging over the map visits every key once.\<close>

definition Store_IDs :: "entries \<Rightarrow> string list" where
  "Store_IDs es = sort (remdups (map fst es))"

definition Store_Has :: "entries \<Rightarrow> string \<Rightarrow> bool" where
  "Store_Has es i = (map_of es i \<noteq> None)"

definition secret_stage_error :: "string \<Rightarrow> go_error \<Rightarrow> go_error" where
  "secret_stage_error step e =
     Errorf (if step = ''create'' then ''create secret temp file: %s''
             else if step = ''write'' then ''write secret temp file: %s''
             else if step = ''close'' then ''close secret temp file: %s''
             else if step = ''chmod'' then ''chmod secret temp file: %s''
             else ''stage secret file: %s'') [S (secretFileErrorReason e)]"

definition Store_StageFile :: "entries \<Rightarrow> string \<Rightarrow> string \<Rightarrow> string \<Rightarrow> string io" where
  "Store_StageFile es i dir name0 =
     (case map_of es i of
        None \<Rightarrow> io_fail (Errorf ''%w: secret input %s is missing'' [W (Sentinel ErrInvalidSecretInput), S i])
      | Some data \<Rightarrow>
          let trimmed_name = TrimSpace name0; name = (if trimmed_name = [] then i else trimmed_name) in
          if path_Base name \<noteq> name \<or> CHR ''/'' \<in> set name \<or> CHR 0x5C \<in> set name then
            io_fail (Errorf ''%w: secret stage name %q must be a filename''
                       [W (Sentinel ErrInvalidSecretInput), S name])
          else if TrimSpace dir = [] then io_fail (errors_New ''secret staging dir is required'')
          else io_bind (io_wrap (\<lambda>e. Errorf ''create secret staging dir: %s'' [S (secretFileErrorReason e)])
                          (os_MkdirAll dir 448)) (\<lambda>_.
               let targetPath = filepath_Join [dir, name] in
               io_bind (replace_file secret_stage_error dir (''.'' @ name @ ''.'') data (Some 384) targetPath)
                 (\<lambda>_. io_return targetPath)))"

definition as_SecretStore :: "entries \<Rightarrow> SecretStore" where
  "as_SecretStore es = \<lparr>IDs = Store_IDs es, Has = Store_Has es, StageFile = Store_StageFile es\<rparr>"

section \<open>The store meets the interface\<close>

lemma Store_StageFile_Inr:
  assumes "Store_StageFile es i dir name w = (Inr p, w')"
  shows "\<exists>data. map_of es i = Some data \<and> Fs w' (path_Clean p) = Some (File data 384)"
  using assms
  by (auto simp: Store_StageFile_def Let_def split: option.splits if_splits dest!: replace_file_Inr)

interpretation file_store: secret_store "as_SecretStore es" for es
proof
  show "sorted (IDs (as_SecretStore es))" "distinct (IDs (as_SecretStore es))"
    by (simp_all add: as_SecretStore_def Store_IDs_def)
  show "Has (as_SecretStore es) i \<longleftrightarrow> i \<in> set (IDs (as_SecretStore es))" for i
    by (simp add: as_SecretStore_def Store_IDs_def Store_Has_def map_of_eq_None_iff)
  show "StageFile (as_SecretStore es) i dir name w = (Inr p, w') \<Longrightarrow>
          Has (as_SecretStore es) i \<and> (\<exists>data. Fs w' (path_Clean p) = Some (File data 384))" for i dir name w p w'
    by (auto simp: as_SecretStore_def Store_Has_def dest!: Store_StageFile_Inr)
qed

section \<open>Loading\<close>

lemma check_selection_ids_iff:
  "check_selection_ids seen ss = Inr () \<longleftrightarrow>
     distinct (map (TrimSpace \<circ> SelectionID) ss) \<and> set (map (TrimSpace \<circ> SelectionID) ss) \<inter> set seen = {} \<and>
     [] \<notin> set (map (TrimSpace \<circ> SelectionID) ss)"
  by (induction ss arbitrary: seen) (auto simp: Let_def)

lemma readSecretFile_Inr:
  assumes "readSecretFile i p mx w = (Inr data, w')"
  shows "(\<exists>mode. Fs w (path_Clean p) = Some (File data mode) \<and> mode mod 64 = 0) \<and>
         int (length data) \<le> mx \<and> Fs w' = Fs w"
proof -
  from assms obtain info w1 where st: "os_Stat p w = (Inr info, w1)"
    by (auto simp: readSecretFile_def)
  with assms show ?thesis
    by (cases info) (auto simp: readSecretFile_def split: if_splits dest!: os_Stat_Inr os_ReadFile_Inr)
qed

definition private_copy :: "int \<Rightarrow> (string \<Rightarrow> node option) \<Rightarrow> entries \<Rightarrow> Selection \<Rightarrow> bool" where
  "private_copy mx fs es s \<longleftrightarrow>
     filepath_IsAbs (SelectionPath s) \<and>
     (\<exists>data mode. fs (path_Clean (SelectionPath s)) = Some (File data mode) \<and> mode mod 64 = 0 \<and>
        int (length data) \<le> mx \<and> map_of es (TrimSpace (SelectionID s)) = Some data)"

lemma read_selections_Inr:
  assumes "read_selections mx es0 ss w = (Inr es, w')" and "distinct (map (TrimSpace \<circ> SelectionID) ss)"
  shows "Fs w' = Fs w \<and> fst ` set es = fst ` set es0 \<union> (TrimSpace \<circ> SelectionID) ` set ss \<and>
         (\<forall>s \<in> set ss. private_copy mx (Fs w) es s) \<and>
         (\<forall>i. i \<notin> (TrimSpace \<circ> SelectionID) ` set ss \<longrightarrow> map_of es i = map_of es0 i)"
  using assms
proof (induction ss arbitrary: es0 w)
  case (Cons s ss)
  let ?i = "TrimSpace (SelectionID s)"
  from Cons.prems obtain data w1 where abs: "filepath_IsAbs (SelectionPath s)"
    and rd: "readSecretFile ?i (SelectionPath s) mx w = (Inr data, w1)"
    and rest: "read_selections mx (map_put ?i data es0) ss w1 = (Inr es, w')"
    by (auto simp: Let_def split: if_splits)
  note priv = readSecretFile_Inr [OF rd]
  from Cons.IH [OF rest] Cons.prems(2)
  have IH: "Fs w' = Fs w1" "fst ` set es = insert ?i (fst ` set es0) \<union> (TrimSpace \<circ> SelectionID) ` set ss"
    "\<forall>s \<in> set ss. private_copy mx (Fs w1) es s"
    "\<forall>i. i \<notin> (TrimSpace \<circ> SelectionID) ` set ss \<longrightarrow> map_of es i = (if i = ?i then Some data else map_of es0 i)"
    by auto
  have "map_of es ?i = Some data" using IH(4) Cons.prems(2) by auto
  with abs priv have "private_copy mx (Fs w) es s" by (auto simp: private_copy_def)
  with IH priv show ?case by auto
qed simp

text \<open>A loaded store holds exactly the selected secrets, each the content of a regular file at an
  absolute path that no group or other user may access and that is within the size limit; loading
  changes no file.\<close>

theorem Load_sound:
  assumes "Load ss mx w = (Inr es, w')"
  shows "Fs w' = Fs w \<and> Store_IDs es = sort (map (TrimSpace \<circ> SelectionID) ss) \<and>
         (\<forall>s \<in> set ss. private_copy (if mx \<le> 0 then defaultMaxBytes else mx) (Fs w) es s)"
proof -
  let ?m = "if mx \<le> 0 then defaultMaxBytes else mx"
  from assms have ids: "distinct (map (TrimSpace \<circ> SelectionID) ss)"
    and run: "read_selections ?m [] ss w = (Inr es, w')"
    by (auto simp: Load_def Let_def check_selection_ids_iff)
  note r = read_selections_Inr [OF run ids]
  have "Store_IDs es = sort (map (TrimSpace \<circ> SelectionID) ss)"
    unfolding Store_IDs_def using r ids
    by (intro sorted_distinct_set_unique) auto
  with r show ?thesis by auto
qed

text \<open>C37: An error of loading tells which secret failed and why in general terms: every string in it is
  a secret's ID or one of three fixed reasons, never a path or a content.\<close>

theorem Load_error_discreet:
  assumes "Load ss mx w = (Inl e, w')"
  shows "errors_is e ErrInvalidSecretInput \<and>
         error_strings e \<subseteq> (TrimSpace \<circ> SelectionID) ` set ss \<union>
           {''file does not exist'', ''permission denied'', ''filesystem error''}"
proof -
  let ?R = "{''file does not exist'', ''permission denied'', ''filesystem error''}"
  have reason: "secretFileErrorReason d \<in> ?R" for d by (simp add: secretFileErrorReason_def)
  have read: "errors_is d ErrInvalidSecretInput \<and> error_strings d \<subseteq> insert i ?R"
    if run: "readSecretFile i p m v = (Inl d, v')" for i p m v v' d
  proof (cases "os_Stat p v")
    case (Pair st v1)
    show ?thesis
    proof (cases st)
      case (Inr info)
      with run Pair reason show ?thesis
        by (cases info) (auto simp: readSecretFile_def io_bind_Inl io_wrap_Inl split: if_splits)
    qed (use run Pair reason in \<open>auto simp: readSecretFile_def io_bind_Inl io_wrap_Inl\<close>)
  qed
  have sel: "errors_is d ErrInvalidSecretInput \<and> error_strings d \<subseteq> (TrimSpace \<circ> SelectionID) ` set xs \<union> ?R"
    if "read_selections m es xs v = (Inl d, v')" for m es xs v v' d
    using that
    by (induction xs arbitrary: es v) (fastforce simp: Let_def io_bind_Inl split: if_splits dest: read)+
  have ids: "errors_is d ErrInvalidSecretInput \<and> error_strings d \<subseteq> (TrimSpace \<circ> SelectionID) ` set xs"
    if "check_selection_ids seen xs = Inl d" for seen xs d
    using that by (induction xs arbitrary: seen) (auto simp: Let_def split: if_splits)
  from assms consider "check_selection_ids [] ss = Inl e"
    | "read_selections (if mx \<le> 0 then defaultMaxBytes else mx) [] ss w = (Inl e, w')"
    by (auto simp: Load_def Let_def io_bind_Inl)
  then show ?thesis
  proof cases
    case 1
    from ids [OF this] show ?thesis by blast
  next
    case 2
    from sel [OF this] show ?thesis .
  qed
qed

definition sample_missing_secret :: "(string \<times> bytes) list result \<times> world" where
  "sample_missing_secret = Load [\<lparr>SelectionID = ''token'', SelectionPath = ''/run/secret''\<rparr>] 0 (quiet_world (\<lambda>_ _ _. Reply 404 (Inr [])))"

theorem Load_error_discreet_witness:
  "\<exists>e w'. sample_missing_secret = (Inl e, w') \<and> ''/run/secret'' \<notin> error_strings e"
proof -
  have "isl (fst sample_missing_secret)" by code_simp
  then obtain e w' where run: "sample_missing_secret = (Inl e, w')" by (metis isl_def prod.collapse)
  have "TrimSpace ''token'' = ''token''" by code_simp
  with Load_error_discreet [OF run [unfolded sample_missing_secret_def]]
  have "error_strings e \<subseteq> {''token'', ''file does not exist'', ''permission denied'', ''filesystem error''}" by auto
  with run show ?thesis by auto
qed

section \<open>Staging\<close>

text \<open>C36: Staging a secret is private and atomic.  A success leaves at the target a file with exactly the
  stored bytes and mode 0600, and no other existing path changes; a failure changes no existing path.\<close>

theorem StageFile_atomic:
  assumes "Store_StageFile es i dir name w = (r, w')"
  shows "case r of
      Inr p \<Rightarrow> (\<exists>data. map_of es i = Some data \<and> Fs w' (path_Clean p) = Some (File data 384)) \<and>
              (\<forall>q. q \<noteq> path_Clean p \<longrightarrow> Fs w q \<noteq> None \<longrightarrow> Fs w' q = Fs w q)
    | Inl e \<Rightarrow> (\<forall>q. Fs w q \<noteq> None \<longrightarrow> Fs w' q = Fs w q)"
proof (cases r)
  case (Inr p)
  with assms obtain data nm w1 where es: "map_of es i = Some data"
    and mk: "os_MkdirAll dir 448 w = (Inr (), w1)"
    and rep: "replace_file secret_stage_error dir (''.'' @ nm @ ''.'') data (Some 384) p w1 = (Inr (), w')"
    by (auto simp: Store_StageFile_def Let_def split: option.splits if_splits)
  from replace_file_Inr [OF rep] os_MkdirAll_Inr(1) [OF mk] es Inr show ?thesis by auto
next
  case (Inl e)
  have mkdir: "Fs v' q = Fs v q" if "os_MkdirAll dir 448 v = (Inl d, v')" for v v' d q
    using that by (auto simp: os_MkdirAll_def os_call_def refused_def Let_def split: option.splits if_splits)
  have "Fs w' q = Fs w q" if q: "Fs w q \<noteq> None" for q
    using assms Inl q
    by (auto simp: Store_StageFile_def Let_def io_bind_Inl io_wrap_Inl split: option.splits if_splits
        dest!: mkdir [where q = q] os_MkdirAll_Inr(1) [where q = q] replace_file_Inl [where q = q])
  with Inl show ?thesis by auto
qed

definition sample_secret_run :: "string result \<times> world" where
  "sample_secret_run = Store_StageFile [(''k'', ''v'')] ''k'' ''/s'' ''n'' (quiet_world (\<lambda>_ _ _. Reply 404 (Inr [])))"

theorem StageFile_atomic_witness:
  "\<exists>p w'. sample_secret_run = (Inr p, w') \<and> Fs w' (path_Clean p) = Some (File ''v'' 384)"
proof -
  have "\<not> isl (fst sample_secret_run)" by code_simp
  then obtain p w' where run: "sample_secret_run = (Inr p, w')" by (rule run_ok)
  from StageFile_atomic [OF run [unfolded sample_secret_run_def]] run show ?thesis by auto
qed

end
