(* ===== verification/Verify.thy ===== *)
theory Verify
  imports ProviderFacts
begin

text \<open>
  Artifact verification (\<^verbatim>\<open>verify/verify.go\<close>).

  The hash and the OpenPGP library are parameters, gathered in the record \<open>crypto\<close>: \<open>'k\<close> is the type
  of a parsed keyring and \<open>'b\<close> that of a decoded clearsigned block.  An \<open>io.Reader\<close> is what reading all
  of it gives: \<open>None\<close> is the nil reader, \<open>Some (Inl e)\<close> a reader that fails.
\<close>

record ('k, 'b) crypto =
  sha256_Sum :: "bytes \<Rightarrow> bytes"
  ReadArmoredKeyRing :: "bytes \<Rightarrow> 'k result"
  ReadBinaryKeyRing :: "bytes \<Rightarrow> 'k result"
  CheckArmoredDetachedSignature :: "'k \<Rightarrow> bytes \<Rightarrow> bytes \<Rightarrow> unit result"
  CheckDetachedSignature :: "'k \<Rightarrow> bytes \<Rightarrow> bytes \<Rightarrow> unit result"
  clearsign_Decode :: "bytes \<Rightarrow> 'b option"
  Plaintext :: "'b \<Rightarrow> bytes"
  VerifySignature :: "'b \<Rightarrow> 'k \<Rightarrow> unit result"

type_synonym reader = "bytes result option"

section \<open>Checks\<close>

definition displayName :: "string \<Rightarrow> string" where
  "displayName name = (if name = [] then ''artifact'' else name)"

record HashInput =
  HArtifact :: reader
  HExpectedSHA256 :: string
  HName :: string

definition verify_SHA256 :: "('k, 'b) crypto \<Rightarrow> HashInput \<Rightarrow> unit result" where
  "verify_SHA256 C input =
     (case HArtifact input of
        None \<Rightarrow> Inl (errors_New ''artifact is required'')
      | Some rd \<Rightarrow>
          if HExpectedSHA256 input = [] then Inl (errors_New ''expected sha256 is required'')
          else and_then (map_err (\<lambda>e. Errorf ''hash %s: %w'' [S (displayName (HName input)), W e]) rd) (\<lambda>data.
               if hex_EncodeToString (sha256_Sum C data) \<noteq> ToLower (HExpectedSHA256 input)
               then Inl (Errorf ''sha256 mismatch for %s'' [S (displayName (HName input))])
               else Inr ()))"

text \<open>
  \<open>ParseSHA256Sums\<close>: one line of the loop, with \<open>n\<close> the line number of messages, and the loop over the
  lines.  A later entry for the same name replaces an earlier one.
\<close>

definition parse_sum_line ::
  "nat \<Rightarrow> string \<Rightarrow> (string \<times> string) list \<Rightarrow> (string \<times> string) list result" where
  "parse_sum_line n line0 checksums =
     (let line = TrimSpace line0 in
      if line = [] \<or> prefix ''#'' line then Inr checksums
      else case Fields line of
        f0 # f1 # _ \<Rightarrow>
          (let sum = ToLower f0 in
           if length sum \<noteq> 64 then
             Inl (Errorf ''parse SHA256SUMS line %d: invalid sha256 length'' [D (int n)])
           else if hex_DecodeString sum = None then
             Inl (Errorf ''parse SHA256SUMS line %d: %w'' [D (int n), W (errors_New ''encoding/hex: invalid byte'')])
           else Inr (map_put (TrimPrefix (TrimPrefix f1 ''*'') ''./'') sum checksums))
      | _ \<Rightarrow> Inl (Errorf ''parse SHA256SUMS line %d: expected checksum and path'' [D (int n)]))"

fun parse_sum_lines ::
  "nat \<Rightarrow> string list \<Rightarrow> (string \<times> string) list \<Rightarrow> (string \<times> string) list result" where
  "parse_sum_lines n [] checksums = Inr checksums"
| "parse_sum_lines n (l # ls) checksums =
     and_then (parse_sum_line n l checksums) (\<lambda>c. parse_sum_lines (Suc n) ls c)"

definition ParseSHA256Sums :: "reader \<Rightarrow> (string \<times> string) list result" where
  "ParseSHA256Sums rd =
     (case rd of
        None \<Rightarrow> Inl (errors_New ''sha256 sums are required'')
      | Some r \<Rightarrow> and_then (map_err (\<lambda>e. Errorf ''read sha256 sums: %w'' [W e]) r) (\<lambda>data.
                  parse_sum_lines 1 (Split data (CHR 0x0A)) []))"

record SumFileInput =
  SArtifact :: reader
  Sums :: reader
  SName :: string

definition verify_SHA256Sums :: "('k, 'b) crypto \<Rightarrow> SumFileInput \<Rightarrow> unit result" where
  "verify_SHA256Sums C input =
     (if Sums input = None then Inl (errors_New ''sha256 sums are required'')
      else and_then (ParseSHA256Sums (Sums input)) (\<lambda>checksums.
        case map_of checksums (SName input) of
          None \<Rightarrow> Inl (Errorf ''checksum for %q not found'' [S (SName input)])
        | Some want \<Rightarrow> verify_SHA256 C
            \<lparr>HArtifact = SArtifact input, HExpectedSHA256 = want, HName = SName input\<rparr>))"

definition ReadKeyring :: "('k, 'b) crypto \<Rightarrow> reader \<Rightarrow> 'k result" where
  "ReadKeyring C rd =
     (case rd of
        None \<Rightarrow> Inl (errors_New ''keyring is required'')
      | Some r \<Rightarrow> and_then (map_err (\<lambda>e. Errorf ''read keyring: %w'' [W e]) r) (\<lambda>data.
          (case ReadArmoredKeyRing C data of
             Inr k \<Rightarrow> Inr k
           | Inl err \<Rightarrow>
               (case ReadBinaryKeyRing C data of
                  Inr k \<Rightarrow> Inr k
                | Inl binaryErr \<Rightarrow>
                    Inl (Errorf ''read OpenPGP keyring: %w'' [W (Errorf (''%w'' @ [CHR 0x0A] @ ''%w'') [W err, W binaryErr])])))))"

record SignatureInput =
  GArtifact :: reader
  GSignature :: reader
  GKeyring :: reader
  GName :: string

definition ArmoredDetachedSignature :: "('k, 'b) crypto \<Rightarrow> SignatureInput \<Rightarrow> unit result" where
  "ArmoredDetachedSignature C input =
     (case GArtifact input of
        None \<Rightarrow> Inl (errors_New ''artifact is required'')
      | Some art \<Rightarrow>
     (case GSignature input of
        None \<Rightarrow> Inl (errors_New ''signature is required'')
      | Some sig \<Rightarrow>
          and_then (ReadKeyring C (GKeyring input)) (\<lambda>keyring.
          and_then (map_err (\<lambda>e. Errorf ''read %s: %w'' [S (displayName (GName input)), W e]) art) (\<lambda>artifact.
          and_then (map_err (\<lambda>e. Errorf ''read signature for %s: %w'' [S (displayName (GName input)), W e]) sig)
            (\<lambda>signature.
          if CheckArmoredDetachedSignature C keyring artifact signature = Inr () then Inr ()
          else map_err (\<lambda>e. Errorf ''verify detached signature for %s: %w'' [S (displayName (GName input)), W e])
                 (CheckDetachedSignature C keyring artifact signature))))))"

record ClearSignedInput =
  CMessage :: bytes
  CKeyring :: reader
  CName :: string

definition ClearSigned :: "('k, 'b) crypto \<Rightarrow> ClearSignedInput \<Rightarrow> bytes result" where
  "ClearSigned C input =
     and_then (ReadKeyring C (CKeyring input)) (\<lambda>keyring.
       (case clearsign_Decode C (CMessage input) of
          None \<Rightarrow> Inl (Errorf ''decode clearsigned %s'' [S (displayName (CName input))])
        | Some block \<Rightarrow>
            and_then (map_err (\<lambda>e. Errorf ''verify clearsigned %s: %w'' [S (displayName (CName input)), W e])
                        (VerifySignature C block keyring)) (\<lambda>_. Inr (Plaintext C block))))"

record ArtifactInput =
  IArtifact :: reader
  IName :: string
  IExpectedSHA256 :: string
  ISHA256Sums :: reader
  ISignature :: reader
  IKeyring :: reader

text \<open>
  \<open>Artifact\<close>: the data is read once, the checks run in order, and \<open>checks\<close> counts those that ran.
\<close>

definition verify_Artifact :: "('k, 'b) crypto \<Rightarrow> ArtifactInput \<Rightarrow> unit result" where
  "verify_Artifact C input =
     (case IArtifact input of
        None \<Rightarrow> Inl (errors_New ''artifact is required'')
      | Some rd \<Rightarrow>
          and_then (map_err (\<lambda>e. Errorf ''read %s: %w'' [S (displayName (IName input)), W e]) rd) (\<lambda>data.
          and_then (if IExpectedSHA256 input \<noteq> [] then
                      and_then (verify_SHA256 C \<lparr>HArtifact = Some (Inr data),
                                  HExpectedSHA256 = IExpectedSHA256 input, HName = IName input\<rparr>)
                        (\<lambda>_. Inr (1::nat))
                    else Inr 0) (\<lambda>checks0.
          and_then (if ISHA256Sums input \<noteq> None then
                      and_then (verify_SHA256Sums C \<lparr>SArtifact = Some (Inr data), Sums = ISHA256Sums input,
                                  SName = IName input\<rparr>)
                        (\<lambda>_. Inr (checks0 + 1))
                    else Inr checks0) (\<lambda>checks1.
          and_then (if ISignature input \<noteq> None then
                      (if IKeyring input = None then
                         Inl (errors_New ''keyring is required for signature verification'')
                       else and_then (ArmoredDetachedSignature C \<lparr>GArtifact = Some (Inr data),
                                  GSignature = ISignature input, GKeyring = IKeyring input, GName = IName input\<rparr>)
                        (\<lambda>_. Inr (checks1 + 1)))
                    else Inr checks1) (\<lambda>checks.
          if checks = 0 then Inl (errors_New ''no verification material supplied'') else Inr ())))))"

section \<open>File variants\<close>

text \<open>
  \<open>os.Open\<close> fails, or gives a reader of the file, which may fail in turn.
\<close>

definition SHA256File :: "('k, 'b) crypto \<Rightarrow> string \<Rightarrow> string \<Rightarrow> unit io" where
  "SHA256File C p expected =
     io_bind (io_wrap (\<lambda>e. Errorf ''open %s: %w'' [S p, W e]) (os_Open p)) (\<lambda>_.
     io_try (file_ReadAll p) (\<lambda>data.
       io_of (verify_SHA256 C \<lparr>HArtifact = Some data, HExpectedSHA256 = expected, HName = p\<rparr>)))"

definition ArmoredDetachedSignatureFile ::
  "('k, 'b) crypto \<Rightarrow> string \<Rightarrow> string \<Rightarrow> string \<Rightarrow> unit io" where
  "ArmoredDetachedSignatureFile C artifactPath signaturePath keyringPath =
     io_bind (io_wrap (\<lambda>e. Errorf ''open keyring %s: %w'' [S keyringPath, W e]) (os_Open keyringPath)) (\<lambda>_.
     io_bind (io_wrap (\<lambda>e. Errorf ''open artifact %s: %w'' [S artifactPath, W e]) (os_Open artifactPath)) (\<lambda>_.
     io_bind (io_wrap (\<lambda>e. Errorf ''open signature %s: %w'' [S signaturePath, W e]) (os_Open signaturePath)) (\<lambda>_.
     io_try (file_ReadAll keyringPath) (\<lambda>k. io_try (file_ReadAll artifactPath) (\<lambda>a. io_try (file_ReadAll signaturePath) (\<lambda>s.
       io_of (ArmoredDetachedSignature C \<lparr>GArtifact = Some a, GSignature = Some s,
                GKeyring = Some k, GName = artifactPath\<rparr>)))))))"

section \<open>What the checks promise\<close>

definition sha256_hex :: "('k, 'b) crypto \<Rightarrow> bytes \<Rightarrow> string" where
  "sha256_hex C d = hex_EncodeToString (sha256_Sum C d)"

lemma verify_SHA256_iff:
  "verify_SHA256 C \<lparr>HArtifact = Some (Inr d), HExpectedSHA256 = e, HName = n\<rparr> = Inr () \<longleftrightarrow>
     e \<noteq> [] \<and> sha256_hex C d = ToLower e"
  by (auto simp: verify_SHA256_def sha256_hex_def)

text \<open>Every entry of a parsed sums file is a digest: 64 lower-case hexadecimal digits.\<close>

definition is_digest :: "string \<Rightarrow> bool" where
  "is_digest s \<longleftrightarrow> is_sha256_hex s \<and> ToLower s = s"

lemma lower_char_fixed: "(0x5A::nat) < of_char c \<Longrightarrow> lower_char c = c"
  by (simp add: lower_char_def)

lemma lower_char_high: "(0x7A::nat) < of_char (lower_char a) \<Longrightarrow> lower_char a = a"
  by (auto simp: lower_char_def split: if_splits)

lemma lower_char_idem [simp]: "lower_char (lower_char a) = lower_char a"
  by (auto simp: lower_char_def)

lemma ToLower_head:
  assumes "ToLower s = c # t" and "(0x7A::nat) < of_char c"
  shows "\<exists>u. s = c # u \<and> t = ToLower u"
proof (cases s)
  case (Cons a u)
  with assms show ?thesis
    using lower_char_high [of a] by (auto split: if_splits)
qed (use assms in simp)

lemma ToLower_idem [simp]: "ToLower (ToLower s) = ToLower s"
proof (induction s rule: ToLower.induct)
  case (2 a s)
  have k: "\<not> prefix [CHR 0x84, CHR 0xAA] (ToLower s)" if "\<not> prefix [CHR 0x84, CHR 0xAA] s"
  proof
    assume "prefix [CHR 0x84, CHR 0xAA] (ToLower s)"
    then obtain t where "ToLower s = CHR 0x84 # CHR 0xAA # t" by (auto simp: prefix_def)
    from ToLower_head [OF this] obtain u where "s = CHR 0x84 # u" "CHR 0xAA # t = ToLower u" by auto
    moreover from ToLower_head [OF this(2) [symmetric]] have "\<exists>v. u = CHR 0xAA # v" by auto
    ultimately show False using that by auto
  qed
  have i: "\<not> prefix [CHR 0xB0] (ToLower s)" if "\<not> prefix [CHR 0xB0] s"
  proof
    assume "prefix [CHR 0xB0] (ToLower s)"
    then obtain t where "ToLower s = CHR 0xB0 # t" by (auto simp: prefix_def)
    from ToLower_head [OF this] show False using that by auto
  qed
  have "lower_char a = CHR 0xE2 \<Longrightarrow> a = CHR 0xE2" "lower_char a = CHR 0xC4 \<Longrightarrow> a = CHR 0xC4"
    using lower_char_high [of a] by auto
  moreover have "lower_char (CHR ''k'') = CHR ''k''" "lower_char (CHR ''i'') = CHR ''i''"
    by (simp_all add: lower_char_def)
  ultimately show ?case using 2 k i by auto
qed simp

lemma parse_sum_line_Inr:
  "parse_sum_line n l cs = Inr cs' \<Longrightarrow> cs' = cs \<or> (\<exists>name dg. cs' = map_put name dg cs \<and> is_digest dg)"
  using hex_Decode_length
  by (fastforce simp: parse_sum_line_def Let_def is_digest_def sha256_hex_iff split: if_splits list.splits)

lemma parse_sum_line_digests:
  assumes "parse_sum_line n l cs = Inr cs'" and "\<forall>x \<in> ran (map_of cs). is_digest x"
  shows "\<forall>x \<in> ran (map_of cs'). is_digest x"
  using parse_sum_line_Inr [OF assms(1)] assms(2) by (auto simp: ran_def split: if_splits) blast

lemma parse_sum_lines_digests:
  "parse_sum_lines n ls cs = Inr cs' \<Longrightarrow> \<forall>x \<in> ran (map_of cs). is_digest x \<Longrightarrow>
   \<forall>x \<in> ran (map_of cs'). is_digest x"
  by (induction ls arbitrary: n cs) (auto dest: parse_sum_line_digests)

lemma ParseSHA256Sums_digests:
  "ParseSHA256Sums rd = Inr cs \<Longrightarrow> map_of cs name = Some dg \<Longrightarrow> is_digest dg"
  by (auto simp: ParseSHA256Sums_def ran_def split: option.splits dest!: parse_sum_lines_digests)


text \<open>The conditions under which data passes each kind of check.\<close>

definition signed_by :: "('k, 'b) crypto \<Rightarrow> bytes \<Rightarrow> bytes \<Rightarrow> bytes \<Rightarrow> bool" where
  "signed_by C keyring signature data \<longleftrightarrow>
     (\<exists>k. (ReadArmoredKeyRing C keyring = Inr k \<or>
            (\<exists>e. ReadArmoredKeyRing C keyring = Inl e) \<and> ReadBinaryKeyRing C keyring = Inr k) \<and>
          (CheckArmoredDetachedSignature C k data signature = Inr () \<or>
           CheckDetachedSignature C k data signature = Inr ()))"

definition listed_in :: "('k, 'b) crypto \<Rightarrow> bytes \<Rightarrow> string \<Rightarrow> bytes \<Rightarrow> bool" where
  "listed_in C sums name data \<longleftrightarrow>
     (\<exists>cs. ParseSHA256Sums (Some (Inr sums)) = Inr cs \<and> map_of cs name = Some (sha256_hex C data))"

lemma ReadKeyring_Inr:
  "ReadKeyring C rd = Inr k \<longleftrightarrow>
     (\<exists>d. rd = Some (Inr d) \<and>
        (ReadArmoredKeyRing C d = Inr k \<or> (\<exists>e. ReadArmoredKeyRing C d = Inl e) \<and> ReadBinaryKeyRing C d = Inr k))"
proof (cases rd)
  case (Some r)
  show ?thesis
  proof (cases r)
    case (Inr d)
    with Some show ?thesis
      by (cases "ReadArmoredKeyRing C d"; cases "ReadBinaryKeyRing C d") (simp_all add: ReadKeyring_def)
  qed (simp add: ReadKeyring_def Some)
qed (simp add: ReadKeyring_def)

lemma ArmoredDetachedSignature_Inr:
  "ArmoredDetachedSignature C \<lparr>GArtifact = Some (Inr d), GSignature = s, GKeyring = k, GName = n\<rparr> = Inr () \<longleftrightarrow>
     (\<exists>sig kd. s = Some (Inr sig) \<and> k = Some (Inr kd) \<and> signed_by C kd sig d)"
  by (cases s) (auto simp: ArmoredDetachedSignature_def ReadKeyring_Inr signed_by_def; blast)+

lemma verify_SHA256Sums_Inr:
  "verify_SHA256Sums C \<lparr>SArtifact = Some (Inr d), Sums = s, SName = n\<rparr> = Inr () \<longleftrightarrow>
     (\<exists>sums. s = Some (Inr sums) \<and> listed_in C sums n d)"
proof -
  have "want \<noteq> [] \<and> ToLower want = want" if "ParseSHA256Sums rd = Inr cs" "map_of cs n = Some want" for rd cs want
    using ParseSHA256Sums_digests [OF that] by (auto simp: is_digest_def is_sha256_hex_def)
  moreover have "\<exists>sums. s = Some (Inr sums)" if "ParseSHA256Sums s = Inr cs" for cs
    using that by (auto simp: ParseSHA256Sums_def split: option.splits)
  ultimately show ?thesis
    by (auto simp: verify_SHA256Sums_def verify_SHA256_iff listed_in_def split: option.splits; fastforce)
qed

text \<open>C4: Artifact verification fails closed.  It succeeds exactly when the artifact can be read, at least
  one kind of trust material is supplied, and every kind supplied accepts the artifact: the literal
  digest, the entry of the sums file under the artifact's name, and the detached signature under the
  keyring, which must be there.\<close>

theorem verify_Artifact_fail_closed:
  "verify_Artifact C inp = Inr () \<longleftrightarrow>
     (\<exists>d. IArtifact inp = Some (Inr d) \<and>
        \<not> (IExpectedSHA256 inp = [] \<and> ISHA256Sums inp = None \<and> ISignature inp = None) \<and>
        (IExpectedSHA256 inp = [] \<or> sha256_hex C d = ToLower (IExpectedSHA256 inp)) \<and>
        (ISHA256Sums inp = None \<or> (\<exists>s. ISHA256Sums inp = Some (Inr s) \<and> listed_in C s (IName inp) d)) \<and>
        (ISignature inp = None \<or>
           (\<exists>sig k. ISignature inp = Some (Inr sig) \<and> IKeyring inp = Some (Inr k) \<and> signed_by C k sig d)))"
proof (cases "IArtifact inp")
  case (Some rd)
  then show ?thesis
    by (cases rd; cases "IExpectedSHA256 inp = []"; cases "ISHA256Sums inp"; cases "ISignature inp")
       (auto simp: verify_Artifact_def verify_SHA256_iff verify_SHA256Sums_Inr ArmoredDetachedSignature_Inr)
qed (simp add: verify_Artifact_def)

section \<open>Sums files round trip\<close>

text \<open>
  The line \<open>sha256sum\<close> prints, and the names for which reading it back gives the same name: no white
  space, no leading comment sign, and none of the two prefixes the parser strips.
\<close>

definition print_sum_line :: "string \<times> string \<Rightarrow> string" where
  "print_sum_line e = snd e @ ''  '' @ fst e"

definition plain_sum_name :: "string \<Rightarrow> bool" where
  "plain_sum_name n \<longleftrightarrow> n \<noteq> [] \<and> \<not> containsSpace n \<and> \<not> prefix ''*'' n \<and> \<not> prefix ''./'' n"

definition print_sums :: "(string \<times> string) list \<Rightarrow> bytes" where
  "print_sums es = Join (map print_sum_line es) [CHR 0x0A]"

lemma no_space_find: "\<not> containsSpace s \<Longrightarrow> find (\<lambda>r. r \<noteq> [] \<and> prefix r s) space_runes = None"
  by (cases s) (auto simp: find_None_iff list_ex_iff)

lemma fields_from_no_space:
  "\<not> containsSpace s \<Longrightarrow> fields_from acc s = (if acc = [] \<and> s = [] then [] else [rev acc @ s])"
proof (induction s arbitrary: acc)
  case Nil
  have "find (\<lambda>r. r \<noteq> [] \<and> prefix r []) space_runes = None" by (auto simp: find_None_iff)
  then show ?case by (subst fields_from.simps) simp
next
  case (Cons a s)
  then show ?case using no_space_find [OF Cons.prems] by (subst fields_from.simps) auto
qed

lemma hex_char_not_space: "hex_value c \<noteq> None \<Longrightarrow> r \<in> set space_runes \<Longrightarrow> \<not> prefix r (c # s)"
  unfolding space_runes_def by (auto simp: hex_value_def)

lemma fields_from_hex:
  "list_all (\<lambda>c. hex_value c \<noteq> None) h \<Longrightarrow> fields_from acc (h @ s) = fields_from (rev h @ acc) s"
proof (induction h arbitrary: acc)
  case (Cons a h)
  then have "find (\<lambda>r. r \<noteq> [] \<and> prefix r ((a # h) @ s)) space_runes = None"
    using hex_char_not_space [of a] by (auto simp: find_None_iff)
  with Cons show ?case by (subst fields_from.simps) simp
qed simp

lemma fields_from_blank: "fields_from acc (CHR '' '' # s) = (if acc = [] then [] else [rev acc]) @ fields_from [] s"
proof -
  have "find (\<lambda>r. r \<noteq> [] \<and> prefix r (CHR '' '' # s)) space_runes = Some '' ''" by (simp add: space_runes_def)
  then show ?thesis by (subst fields_from.simps) simp
qed

lemma blank_rune: "r \<in> set space_runes \<Longrightarrow> CHR '' '' \<in> set r \<Longrightarrow> r = '' ''"
  by (auto simp: space_runes_def)

lemma print_sum_line_trimmed:
  assumes "is_digest d" and "n \<noteq> []" and "\<not> containsSpace n"
  shows "trimmed (print_sum_line (n, d))"
proof -
  from assms(1) have "length d = 64" "list_all (\<lambda>c. hex_value c \<noteq> None) d"
    by (auto simp: is_digest_def is_sha256_hex_def)
  then obtain c e where "d = c # e" "hex_value c \<noteq> None" by (cases d) auto
  then have pre: "\<not> prefix r (print_sum_line (n, d))" if "r \<in> set space_runes" for r
    using that hex_char_not_space [of c r] by (auto simp: print_sum_line_def)
  have suf: "\<not> suffix r (print_sum_line (n, d))" if r: "r \<in> set space_runes" for r
  proof
    assume "suffix r (print_sum_line (n, d))"
    then have "suffix r ((d @ ''  '') @ n)" by (simp add: print_sum_line_def)
    then have "suffix r n \<or> (\<exists>q. r = q @ n \<and> suffix q (d @ ''  ''))" by (simp only: suffix_append)
    then consider "suffix r n" | q where "r = q @ n" "suffix q (d @ ''  '')" "q \<noteq> []" by force
    then show False
    proof cases
      case 1
      then have "containsSpace n" using r by (auto simp: containsSpace_iff dest: suffix_imp_sublist)
      with assms(3) show False by simp
    next
      case 2
      then have "CHR '' '' \<in> set q"
        by (cases q rule: rev_cases) (auto simp: suffix_def)
      with 2(1) r have "q @ n = '' ''" using blank_rune by auto
      with assms(2) 2(3) show False by (cases q) auto
    qed
  qed
  from pre suf show ?thesis by (auto simp: trimmed_def)
qed

lemma parse_print_line:
  assumes d: "is_digest d" and n: "n \<noteq> []" "\<not> containsSpace n"
  shows "parse_sum_line k (print_sum_line (n, d)) cs = Inr (map_put (TrimPrefix (TrimPrefix n ''*'') ''./'') d cs)"
proof -
  from d have hex: "length d = 64" "list_all (\<lambda>c. hex_value c \<noteq> None) d" "ToLower d = d" "d \<noteq> []"
    by (auto simp: is_digest_def is_sha256_hex_def)
  obtain c e where "d = c # e" "hex_value c \<noteq> None" using hex by (cases d) auto
  then have "\<not> prefix ''#'' (print_sum_line (n, d))" "print_sum_line (n, d) \<noteq> []"
    by (auto simp: print_sum_line_def hex_value_def)
  moreover have "Fields (print_sum_line (n, d)) = [d, n]"
    using hex n by (simp add: Fields_def print_sum_line_def fields_from_hex fields_from_blank fields_from_no_space)
  moreover have "hex_DecodeString d \<noteq> None"
    using d by (auto simp: is_digest_def sha256_hex_iff)
  ultimately show ?thesis
    using hex by (simp add: parse_sum_line_def TrimSpace_trimmed [OF print_sum_line_trimmed [OF d n]] Let_def)
qed

lemma plain_sum_name_trimmed: "plain_sum_name n \<Longrightarrow> TrimPrefix (TrimPrefix n ''*'') ''./'' = n"
  by (simp add: TrimPrefix_def plain_sum_name_def)

lemma parse_print_lines:
  "\<forall>(n, d) \<in> set es. plain_sum_name n \<and> is_digest d \<Longrightarrow>
   parse_sum_lines k (map print_sum_line es) cs = Inr (fold (\<lambda>(n, d). map_put n d) es cs)"
proof (induction es arbitrary: k cs)
  case (Cons e es)
  then show ?case
    by (cases e) (auto simp: parse_print_line plain_sum_name_trimmed plain_sum_name_def)
qed simp

lemma no_newline_line:
  assumes "is_digest d" and "\<not> containsSpace n"
  shows "CHR 0x0A \<notin> set (print_sum_line (n, d))"
proof -
  have "CHR 0x0A \<notin> set n"
  proof
    assume "CHR 0x0A \<in> set n"
    then have "sublist [CHR 0x0A] n" by (metis sublist_def in_set_conv_decomp append_Cons append_Nil)
    then have "containsSpace n" by (auto simp: containsSpace_iff space_runes_def)
    with assms(2) show False by simp
  qed
  moreover have "CHR 0x0A \<notin> set d"
    using assms(1) by (auto simp: is_digest_def is_sha256_hex_def list_all_iff hex_value_def)
  ultimately show ?thesis by (auto simp: print_sum_line_def)
qed

text \<open>Parsing a printed sums file gives back the mapping that was printed, the last entry of a name
  winning, for every list of digests under plain names.\<close>

theorem ParseSHA256Sums_print:
  assumes "\<forall>(n, d) \<in> set es. plain_sum_name n \<and> is_digest d"
  shows "\<exists>cs. ParseSHA256Sums (Some (Inr (print_sums es))) = Inr cs \<and> map_of cs = map_of (rev es)"
proof (cases "es = []")
  case True
  then show ?thesis
    by (simp add: ParseSHA256Sums_def print_sums_def parse_sum_line_def)
next
  case False
  have "Split (print_sums es) (CHR 0x0A) = map print_sum_line es"
    unfolding print_sums_def using False assms no_newline_line by (intro Split_Join) (auto simp: plain_sum_name_def)
  then have "ParseSHA256Sums (Some (Inr (print_sums es))) = Inr (fold (\<lambda>(n, d). map_put n d) es [])"
    using parse_print_lines [OF assms] by (simp add: ParseSHA256Sums_def)
  moreover have "map_of (fold (\<lambda>(n, d). map_put n d) es cs) = map_of cs ++ map_of (rev es)" for cs
    by (induction es arbitrary: cs) (auto simp: fun_eq_iff map_add_def split: option.splits)
  ultimately show ?thesis by simp
qed

end
