(* ===== verification/ProviderHTTP.thy ===== *)
theory ProviderHTTP
  imports ProviderFacts
begin

text \<open>
  HTTP and \<open>file:\<close> access shared by the providers (\<^verbatim>\<open>internal/providerhttp/providerhttp.go\<close>).  A status
  text in an error message is represented by its code.
\<close>

section \<open>URLs of local files\<close>

text \<open>\<open>url.URL.String\<close> for a URL with only a scheme and a path: what a path may contain unescaped.\<close>

definition path_char :: "char \<Rightarrow> bool" where
  "path_char c \<longleftrightarrow> is_alpha c \<or> is_digit c \<or> c \<in> set ''-_.~$&+,/:;=@''"

definition upper_hex_digit :: "nat \<Rightarrow> char" where
  "upper_hex_digit n = ''0123456789ABCDEF'' ! n"

fun escape_path :: "string \<Rightarrow> string" where
  "escape_path [] = []"
| "escape_path (c # s) =
     (if path_char c then c # escape_path s
      else CHR ''%'' # upper_hex_digit (of_char c div 16) # upper_hex_digit (of_char c mod 16) # escape_path s)"

definition LocalFileURL :: "string \<Rightarrow> string" where
  "LocalFileURL p =
     (if p = [] then ''file:'' else ''file://'' @ (if p = ''*'' then ''*'' else escape_path p))"

definition isFileURL :: "string \<Rightarrow> bool" where
  "isFileURL rawURL = (case url_Parse rawURL of None \<Rightarrow> False | Some u \<Rightarrow> url_Scheme u = ''file'')"

section \<open>Strings\<close>

definition EnsureTrailingSlash :: "string \<Rightarrow> string" where
  "EnsureTrailingSlash v = (if suffix ''/'' v then v else v @ ''/'')"

definition PathBase :: "string \<Rightarrow> string" where
  "PathBase value0 =
     (let v = TrimRight value0 (CHR ''/'') in
      case last_index (CHR ''/'') v of Some i \<Rightarrow> drop (i + 1) v | None \<Rightarrow> v)"

section \<open>Local files\<close>

text \<open>The checks of \<open>filePath\<close> before the file system is asked: the path the URL names.\<close>

definition file_url_path :: "string \<Rightarrow> string result" where
  "file_url_path rawURL =
     (case url_Parse rawURL of
        None \<Rightarrow> Inl (Errorf ''parse file URL: %w'' [W (errors_New ''parse'')])
      | Some u \<Rightarrow>
          if url_Host u \<noteq> [] \<and> url_Host u \<noteq> ''localhost'' then
            Inl (errors_New ''file URL must reference a local path'')
          else (case unescape EncodePath (url_Path u) of
                  None \<Rightarrow> Inl (Errorf ''unescape file path: %w'' [W (errors_New ''invalid URL escape'')])
                | Some p \<Rightarrow>
                    if \<not> filepath_IsAbs p then Inl (errors_New ''file URL must reference an absolute path'')
                    else Inr p))"

definition stat_error :: "string \<Rightarrow> go_error \<Rightarrow> go_error" where
  "stat_error p e = Errorf ''stat local metadata %s: %w'' [S p, W e]"

text \<open>\<open>filePath\<close>: the path and 200, or 404 for a file that does not exist.\<close>

definition filePath :: "string \<Rightarrow> (string \<times> int) io" where
  "filePath rawURL =
     io_bind (io_of (file_url_path rawURL)) (\<lambda>p.
     io_try (os_Stat p) (\<lambda>r. case r of
       Inl e \<Rightarrow> (if errors_is e OsErrNotExist then io_return ([], 404) else io_fail (stat_error p e))
     | Inr (Dir _) \<Rightarrow>
         (let q = filepath_Join [p, ''index.html''] in
          io_try (os_Stat q) (\<lambda>r2. case r2 of
            Inl e \<Rightarrow> (if errors_is e OsErrNotExist then io_return ([], 404) else io_fail (stat_error q e))
          | Inr (File _ _) \<Rightarrow> io_return (q, 200)
          | Inr _ \<Rightarrow> io_fail (Errorf ''local metadata %s is not a regular file'' [S q])))
     | Inr (File _ _) \<Rightarrow> io_return (p, 200)
     | Inr Irregular \<Rightarrow> io_fail (Errorf ''local metadata %s is not a regular file'' [S p])))"

definition fetchFileStatus :: "string \<Rightarrow> (bytes \<times> int) io" where
  "fetchFileStatus rawURL =
     io_bind (filePath rawURL) (\<lambda>(p, status).
       if status \<noteq> 200 then io_return ([], status)
       else io_try (os_ReadFile p) (\<lambda>r. case r of
         Inl e \<Rightarrow> (if errors_is e OsErrNotExist then io_return ([], 404)
                   else io_fail (Errorf ''read local metadata %s: %w'' [S p, W e]))
       | Inr data \<Rightarrow> io_return (data, 200)))"

definition fileStatus :: "string \<Rightarrow> int io" where
  "fileStatus rawURL = io_bind (filePath rawURL) (\<lambda>(_, status). io_return status)"

section \<open>Requests\<close>

text \<open>\<open>http.NewRequestWithContext\<close> fails on a URL that does not parse; then \<open>client.Do\<close>.\<close>

definition send :: "string \<Rightarrow> string \<Rightarrow> (int \<times> bytes result) io" where
  "send meth rawURL =
     (if url_Parse rawURL = None then io_fail (Errorf ''new request: %w'' [W (errors_New ''parse'')])
      else io_bind (http_do meth rawURL) (\<lambda>reply. case reply of
             NetError e \<Rightarrow> io_fail e
           | Reply status body \<Rightarrow> io_return (status, body)))"

definition FetchStatus :: "string \<Rightarrow> (bytes \<times> int) io" where
  "FetchStatus rawURL =
     (if isFileURL rawURL then fetchFileStatus rawURL
      else io_bind (send ''GET'' rawURL) (\<lambda>(status, body).
             io_bind (io_of (map_err (\<lambda>e. Errorf ''read response: %w'' [W e]) body)) (\<lambda>data.
               io_return (data, status))))"

definition Fetch :: "string \<Rightarrow> bytes io" where
  "Fetch rawURL =
     io_bind (FetchStatus rawURL) (\<lambda>(body, status).
       if status \<noteq> 200 then io_fail (Errorf ''GET %s: %s'' [S rawURL, D status]) else io_return body)"

definition http_Status :: "string \<Rightarrow> string \<Rightarrow> int io" where
  "http_Status meth rawURL =
     (if isFileURL rawURL then fileStatus rawURL
      else io_bind (send meth rawURL) (\<lambda>(status, _). io_return status))"

definition Probe :: "string \<Rightarrow> bool io" where
  "Probe rawURL =
     io_bind (http_Status ''HEAD'' rawURL) (\<lambda>status0.
     io_bind (if status0 = 405 then http_Status ''GET'' rawURL else io_return status0) (\<lambda>status.
       if status = 404 then io_return False
       else if status \<noteq> 200 then io_fail (Errorf ''probe %s: %s'' [S rawURL, D status])
       else io_return True))"

section \<open>Requests touch no file\<close>

lemma fs_pure_send [fs_pure_intros]: "fs_pure (send m u)"
  unfolding send_def by (auto intro!: fs_pure_intros split: http_reply.splits)

lemma fs_pure_filePath [fs_pure_intros]: "fs_pure (filePath u)"
  unfolding filePath_def Let_def
  by (auto intro!: fs_pure_intros split: node.splits)

lemma fs_pure_Fetch [fs_pure_intros]:
  "fs_pure (FetchStatus u)" "fs_pure (Fetch u)" "fs_pure (http_Status m u)" "fs_pure (Probe u)"
  unfolding Fetch_def Probe_def FetchStatus_def http_Status_def fetchFileStatus_def fileStatus_def
  by (auto intro!: fs_pure_intros)

section \<open>Local file URLs round trip\<close>

lemma nat_of_char_less: "of_char c < (256::nat)"
  using range_nat_of_char by (metis atLeastLessThan_iff rangeI)

lemma hex_value_upper: "n < 16 \<Longrightarrow> hex_value (upper_hex_digit n) = Some n"
  by (auto simp: less_Suc_eq numeral_eq_Suc upper_hex_digit_def hex_value_def)

lemma unescape_escape: "unescape EncodePath (escape_path s) = Some s"
proof (induction s)
  case (Cons c s)
  have "of_char c div 16 < (16::nat)" using nat_of_char_less [of c] by linarith
  moreover have "c \<noteq> CHR ''%''" if "path_char c" using that by (auto simp: path_char_def is_alpha_def is_digit_def)
  ultimately show ?case using Cons by (auto simp: hex_value_upper Let_def)
qed simp

lemma escape_path_chars: "x \<in> set (escape_path s) \<Longrightarrow> path_char x \<or> x = CHR ''%''"
proof (induction s)
  case (Cons c s)
  have "path_char (upper_hex_digit n)" if "n < 16" for n
    using that by (auto simp: less_Suc_eq numeral_eq_Suc upper_hex_digit_def path_char_def is_alpha_def is_digit_def)
  moreover have "of_char c div 16 < (16::nat)" using nat_of_char_less [of c] by linarith
  ultimately show ?case using Cons by (auto split: if_splits)
qed simp

lemma escape_path_safe:
  "x \<in> set (escape_path s) \<Longrightarrow> x \<noteq> CHR ''#'' \<and> x \<noteq> CHR ''?'' \<and> \<not> is_ascii_control x"
  by (drule escape_path_chars) (auto simp: path_char_def is_alpha_def is_digit_def is_ascii_control_def)

lemma takeWhile_all: "\<forall>x \<in> set xs. P x \<Longrightarrow> takeWhile P xs = xs"
  by (simp add: takeWhile_eq_all_conv)

lemma url_Parse_LocalFileURL:
  assumes "prefix ''/'' p"
  shows "url_Parse (LocalFileURL p) = Some \<lparr>url_Scheme = ''file'', url_Opaque = [], url_Host = [], url_Path = p\<rparr>"
proof -
  obtain q where p: "p = CHR ''/'' # q" using assms by (auto simp: prefix_def)
  have slash: "path_char (CHR ''/'')" by (simp add: path_char_def)
  let ?e = "escape_path q"
  have raw: "LocalFileURL p = ''file:///'' @ ?e" using slash by (simp add: LocalFileURL_def p)
  have whole: "takeWhile (\<lambda>c. c \<noteq> CHR ''#'') (''file:///'' @ ?e) = ''file:///'' @ ?e"
    by (rule takeWhile_all) (auto dest: escape_path_safe)
  have noq: "takeWhile (\<lambda>c. c \<noteq> CHR ''?'') (''///'' @ ?e) = ''///'' @ ?e"
    by (rule takeWhile_all) (auto dest: escape_path_safe)
  have ctl: "\<not> has_ctl_byte (''file:///'' @ ?e)"
    by (auto simp: has_ctl_byte_def list_ex_iff is_ascii_control_def dest: escape_path_safe)
  have sch: "get_scheme [] (''file:///'' @ ?e) = Some (Some (''file'', ''///'' @ ?e))"
    by (simp add: is_alpha_def is_digit_def)
  have low: "ToLower ''file'' = ''file''" by (simp add: lower_char_def)
  have auth: "parse_authority [] = Some []" by (simp add: parse_authority_def parse_host_def last_index_def)
  have "parse_rest ''file'' (''///'' @ ?e) = Some \<lparr>url_Scheme = ''file'', url_Opaque = [], url_Host = [], url_Path = p\<rparr>"
    unfolding parse_rest_def Let_def noq using auth by (simp add: unescape_escape p)
  then show ?thesis
    unfolding raw url_Parse_def Let_def whole using ctl sch low by simp
qed

lemma unescape_no_percent: "CHR ''%'' \<notin> set p \<Longrightarrow> unescape EncodePath p = Some p"
  by (induction p) auto

text \<open>A local file URL made from an absolute path is recognised as one, and names exactly that path
  when the path has no percent sign.\<close>

theorem LocalFileURL_roundtrip:
  assumes "filepath_IsAbs p" and "CHR ''%'' \<notin> set p"
  shows "isFileURL (LocalFileURL p) \<and> file_url_path (LocalFileURL p) = Inr p"
  using assms
  by (simp add: isFileURL_def file_url_path_def url_Parse_LocalFileURL filepath_IsAbs_def unescape_no_percent)

theorem LocalFileURL_roundtrip_witness:
  "isFileURL (LocalFileURL ''/srv/my mirror/dists'') \<and>
   file_url_path (LocalFileURL ''/srv/my mirror/dists'') = Inr ''/srv/my mirror/dists''"
  by (rule LocalFileURL_roundtrip) (simp_all add: filepath_IsAbs_def)


text \<open>A probe reports a resource as present only on status 200 and absent only on 404, asks again with
  \<open>GET\<close> exactly when \<open>HEAD\<close> is not allowed, and changes no file.\<close>

theorem Probe_spec:
  assumes "\<not> isFileURL u" and "Probe u w = (Inr b, w')"
  shows "Fs w' = Fs w \<and>
    (\<exists>st body. (Net w (length (Requests w)) ''HEAD'' u = Reply st body \<and> st \<noteq> 405 \<and>
         Requests w' = Requests w @ [(''HEAD'', u)] \<or>
       (\<exists>b0. Net w (length (Requests w)) ''HEAD'' u = Reply 405 b0) \<and>
         Net w (Suc (length (Requests w))) ''GET'' u = Reply st body \<and>
         Requests w' = Requests w @ [(''HEAD'', u), (''GET'', u)]) \<and>
       st = (if b then 200 else 404))"
proof -
  have "Fs w' = Fs w" using fs_pureD [OF fs_pure_Fetch(4) assms(2)] .
  moreover have send: "send m u v = (Inr (st, body), v') \<Longrightarrow>
      Net v (length (Requests v)) m u = Reply st body \<and> v' = v\<lparr>Requests := Requests v @ [(m, u)]\<rparr>" for m v v' st body
    by (auto simp: send_def http_do_def split: if_splits http_reply.splits)
  ultimately show ?thesis using assms
    by (auto simp: Probe_def http_Status_def split: if_splits dest!: send)
qed

end
