(* ===== verification/AuthSource.thy ===== *)
theory AuthSource
  imports Secrets Verify ProviderHTTP
begin

text \<open>
  What the policy loader and the hosted-catalog loader have in common: documents that are authenticated
  before they are parsed, checked for freshness, and kept in a cache file that stands in for the source
  when the source cannot be read.  The locale \<open>cached_loader\<close> is the contract both loaders meet; the
  lemmas about whole sequences of loads are proved once, inside it.

  A point in time is its distance from the epoch in nanoseconds; a duration is Go's 64-bit one.
\<close>

definition maxDuration :: int where "maxDuration = 2 ^ 63 - 1"

text \<open>\<open>time.Time.Sub\<close> saturates.\<close>

definition time_Sub :: "int \<Rightarrow> int \<Rightarrow> int" where
  "time_Sub t u = max (- maxDuration - 1) (min maxDuration (t - u))"

text \<open>\<open>io.ReadAll(io.LimitReader(r, max + 1))\<close>: the addition wraps at 64 bits.\<close>

definition read_limited :: "int \<Rightarrow> bytes \<Rightarrow> bytes" where
  "read_limited maxBytes d = take (nat (if maxBytes = maxDuration then - maxDuration - 1 else maxBytes + 1)) d"

lemma read_limited_within:
  assumes "0 < mx" and "\<not> mx < int (length (read_limited mx d))" and "mx < maxDuration"
  shows "read_limited mx d = d"
  using assms by (auto simp: read_limited_def min_def split: if_splits)

section \<open>Writing a cache file\<close>

text \<open>
  The outcome of creating the directory of \<open>p\<close> and replacing \<open>p\<close> through a temporary file: the file is
  as it was, or holds the data completely; when there was none, a directory may have come in its place.
\<close>

lemma os_MkdirAll_Inl: "os_MkdirAll p m w = (Inl e, w') \<Longrightarrow> Fs w' = Fs w"
  by (auto simp: os_MkdirAll_def os_call_def refused_def Let_def split: option.splits if_splits)

lemma cache_write_outcome:
  assumes run: "io_bind (io_wrap f (os_MkdirAll (filepath_Dir p) m))
                  (\<lambda>_. replace_file_deferred msg (filepath_Dir p) pre data mode p) w = (r, w')"
    and name: "last_elem_free pre p" "p \<noteq> []" "2 < length pre" "CHR ''/'' \<notin> set pre"
  shows "(r = Inr () \<longrightarrow> Fs w' (path_Clean p) = Some (File data mode)) \<and>
    (Fs w' (path_Clean p) = Fs w (path_Clean p) \<or>
     Fs w (path_Clean p) = None \<and> (\<forall>d m. Fs w' (path_Clean p) \<noteq> Some (File d m)) \<or>
     Fs w' (path_Clean p) = Some (File data mode))"
proof -
  let ?c = "path_Clean p"
  have fresh: "path_Clean (filepath_Join [filepath_Dir p, pre @ itoa n]) \<noteq> ?c" for n
    by (rule numbered_name_distinct) (use name in auto)
  obtain r1 w1 where mk: "os_MkdirAll (filepath_Dir p) m w = (r1, w1)" by (cases "os_MkdirAll (filepath_Dir p) m w")
  show ?thesis
  proof (cases r1)
    case (Inl e)
    with run mk have "\<exists>e'. r = Inl e'" "w' = w1" by (auto simp: io_bind_def io_wrap_def)
    with Inl mk os_MkdirAll_Inl show ?thesis by auto
  next
    case (Inr u)
    then have mk1: "os_MkdirAll (filepath_Dir p) m w = (Inr (), w1)" using mk by simp
    have rep: "replace_file_deferred msg (filepath_Dir p) pre data mode p w1 = (r, w')"
      using run mk1 by (simp add: io_bind_def io_wrap_def)
    have dir: "Fs w1 ?c = Fs w ?c \<or> Fs w ?c = None \<and> Fs w1 ?c = Some (Dir m)"
      using os_MkdirAll_Inr(1,2) [OF mk1, of ?c] by (cases "Fs w ?c"; cases "Fs w1 ?c") auto
    show ?thesis
    proof (cases r)
      case (Inl e)
      have "Fs w' ?c = Fs w1 ?c"
        by (rule replace_file_deferred_Inl [OF rep [unfolded Inl]]) (use fresh in \<open>auto dest: sym\<close>)
      with Inl dir show ?thesis by auto
    next
      case (Inr u)
      then have "replace_file_deferred msg (filepath_Dir p) pre data mode p w1 = (Inr (), w')" using rep by simp
      from replace_file_deferred_Inr [OF this] fresh have "Fs w' ?c = Some (File data mode)" by force
      with Inr show ?thesis by simp
    qed
  qed
qed

section \<open>Sequences of loads\<close>

fun run_loads :: "('o \<Rightarrow> 'd io) \<Rightarrow> 'o list \<Rightarrow> world \<Rightarrow> world" where
  "run_loads load [] w = w"
| "run_loads load (opt # opts) w = run_loads load opts (snd (load opt w))"

text \<open>The cache file, if there is one, satisfies \<open>A\<close>.\<close>

definition cache_ok :: "(bytes \<Rightarrow> bool) \<Rightarrow> string \<Rightarrow> world \<Rightarrow> bool" where
  "cache_ok A c w \<longleftrightarrow> (\<forall>d m. Fs w c = Some (File d m) \<longrightarrow> A d)"

locale cached_loader =
  fixes load :: "'o \<Rightarrow> 'd io"
    and cache :: "'o \<Rightarrow> string"
    and trusted :: "'o \<Rightarrow> bytes \<Rightarrow> 'd result"
    and authentic :: "'o \<Rightarrow> bytes \<Rightarrow> bool"
    and sane :: "'o \<Rightarrow> bool"
  assumes load_Inr: "load opt w = (Inr x, w') \<Longrightarrow> \<exists>d. trusted opt d = Inr x"
    and load_cache: "load opt w = (r, w') \<Longrightarrow> sane opt \<Longrightarrow>
           Fs w' (cache opt) = Fs w (cache opt) \<or> Fs w (cache opt) = None \<and> (\<forall>d m. Fs w' (cache opt) \<noteq> Some (File d m)) \<or>
           (\<exists>d m x. Fs w' (cache opt) = Some (File d m) \<and> trusted opt d = Inr x)"
    and trusted_authentic: "trusted opt d = Inr x \<Longrightarrow> authentic opt d"
begin

text \<open>Whatever was loaded was authentic.\<close>

lemma load_authentic: "load opt w = (Inr x, w') \<Longrightarrow> \<exists>d. authentic opt d \<and> trusted opt d = Inr x"
  using load_Inr trusted_authentic by blast

text \<open>
  No sequence of loads, whatever the network answers and however the file system fails, leaves bytes
  in the cache that did not pass authentication, unless they were there at the start.
\<close>

lemma load_cache_ok:
  assumes "cache_ok A (cache opt) w" and "\<And>d. authentic opt d \<Longrightarrow> A d" and "load opt w = (r, w')" and "sane opt"
  shows "cache_ok A (cache opt) w'"
  using load_cache [OF assms(3,4)] assms(1,2) trusted_authentic unfolding cache_ok_def by fastforce

lemma run_loads_cache_ok:
  assumes "\<forall>opt \<in> set opts. cache opt = c \<and> authentic opt = A \<and> sane opt" and "cache_ok A c w"
  shows "cache_ok A c (run_loads load opts w)"
  using assms
proof (induction opts arbitrary: w)
  case (Cons opt opts)
  obtain r w1 where run: "load opt w = (r, w1)" by (cases "load opt w")
  have "cache_ok A (cache opt) w1"
    by (rule load_cache_ok [OF _ _ run]) (use Cons.prems in auto)
  with Cons run show ?case by auto
qed simp

end

end
