(* ===== verification/Policy.thy ===== *)
theory Policy
  imports AuthSource
begin

text \<open>
  Signed boot policies (\<^verbatim>\<open>internal/policy/policy.go\<close>).  The JSON decoder and Ed25519 are parameters: the
  decoder returns the decoded document and whether the input ends after it.  The clock reading that
  \<open>options.Now\<close> or \<open>time.Now\<close> gives is the field \<open>LNow\<close>.
\<close>

section \<open>Data\<close>

record Decision =
  SchemaVersion :: int
  DecisionID :: string
  TargetID :: string
  DOptions :: "(string \<times> string) list"
  DSecretRefs :: "(string \<times> string) list"
  PublishedAt :: "int option"
  ExpiresAt :: "int option"

record Trust =
  Ed25519Signature :: bytes
  Ed25519PublicKey :: bytes

record LoadOptions =
  LPath :: string
  LTrust :: Trust
  LMaxBytes :: int
  LNow :: int
  LMaxAge :: int
  LCachePath :: string
  LCacheFallback :: bool

record RemoteOptions =
  RURL :: string
  RTrust :: Trust
  RMaxBytes :: int
  RNow :: int
  RMaxAge :: int
  RCachePath :: string
  RCacheFallback :: bool

record PolicySelection =
  PSTarget :: Target
  PSOptions :: "SelectedOption list"
  PSSecretRefs :: "SecretRef list"

text \<open>The parameters: \<open>ed25519.Verify(public, message, signature)\<close> and the JSON decoder.\<close>

record policy_env =
  ed25519_Verify :: "bytes \<Rightarrow> bytes \<Rightarrow> bytes \<Rightarrow> bool"
  json_Decision :: "bytes \<Rightarrow> (Decision \<times> bool) result"

section \<open>Authentication, parsing, freshness\<close>

definition policy_error :: "string \<Rightarrow> fmt_arg list \<Rightarrow> go_error" where
  "policy_error f as = Errorf (''%w: '' @ f) (W (Sentinel ErrInvalidPolicy) # as)"

definition trust_configured :: "Trust \<Rightarrow> bool" where
  "trust_configured t \<longleftrightarrow> Ed25519Signature t \<noteq> [] \<or> Ed25519PublicKey t \<noteq> []"

definition verifyTrust :: "policy_env \<Rightarrow> bytes \<Rightarrow> Trust \<Rightarrow> unit result" where
  "verifyTrust env data t =
     (if \<not> trust_configured t then Inl (policy_error ''policy trust configuration is required'' [])
      else if length (Ed25519Signature t) \<noteq> 64 then
        Inl (policy_error ''policy Ed25519 signature length is %d bytes, want %d''
               [D (int (length (Ed25519Signature t))), D 64])
      else if length (Ed25519PublicKey t) \<noteq> 32 then
        Inl (policy_error ''policy Ed25519 public key length is %d bytes, want %d''
               [D (int (length (Ed25519PublicKey t))), D 32])
      else if \<not> ed25519_Verify env (Ed25519PublicKey t) data (Ed25519Signature t) then
        Inl (policy_error ''policy Ed25519 signature verification failed'' [])
      else Inr ())"

definition parseDecision :: "policy_env \<Rightarrow> bytes \<Rightarrow> Decision result" where
  "parseDecision env data =
     and_then (map_err (\<lambda>e. policy_error ''decode policy decision: %w'' [W e]) (json_Decision env data))
       (\<lambda>(decision, at_end).
         if \<not> at_end then Inl (policy_error ''decode policy decision: multiple JSON values'' [])
         else if SchemaVersion decision \<noteq> 1 then
           Inl (policy_error ''unsupported policy schema version %d'' [D (SchemaVersion decision)])
         else if DecisionID decision = [] then Inl (policy_error ''policy decision_id is required'' [])
         else if TargetID decision = [] then Inl (policy_error ''policy target_id is required'' [])
         else Inr decision)"

definition validateFreshness :: "Decision \<Rightarrow> LoadOptions \<Rightarrow> unit result" where
  "validateFreshness decision options =
     (let currentTime = LNow options in
      if ExpiresAt decision = None \<and> (LMaxAge options \<le> 0 \<or> PublishedAt decision = None) then
        Inl (policy_error ''policy freshness metadata is required'' [])
      else if (case ExpiresAt decision of None \<Rightarrow> False | Some t \<Rightarrow> \<not> currentTime < t) then
        Inl (policy_error ''policy decision expired at %s'' [D (the (ExpiresAt decision))])
      else if 0 < LMaxAge options then
        (case PublishedAt decision of
           None \<Rightarrow> Inl (policy_error ''policy published_at is required for maximum age validation'' [])
         | Some p \<Rightarrow>
             if currentTime < p then Inl (policy_error ''policy published_at is in the future'' [])
             else if LMaxAge options < time_Sub currentTime p then
               Inl (policy_error ''policy decision exceeds maximum age %s'' [D (LMaxAge options)])
             else Inr ())
      else Inr ())"

definition parseTrustedDecision :: "policy_env \<Rightarrow> bytes \<Rightarrow> LoadOptions \<Rightarrow> Decision result" where
  "parseTrustedDecision env data options =
     and_then (verifyTrust env data (LTrust options)) (\<lambda>_.
     and_then (parseDecision env data) (\<lambda>decision.
     and_then (validateFreshness decision options) (\<lambda>_. Inr decision)))"

section \<open>Reading and caching\<close>

definition readPolicyBytes :: "bytes result \<Rightarrow> int \<Rightarrow> bytes result" where
  "readPolicyBytes rd max0 =
     (let maxBytes = (if max0 \<le> 0 then 1048576 else max0) in
      and_then (map_err (\<lambda>e. policy_error ''read policy decision: %w'' [W e]) rd) (\<lambda>all.
        let data = read_limited maxBytes all in
        if maxBytes < int (length data) then Inl (policy_error ''policy decision is too large'' [])
        else Inr data))"

definition readPolicyFile :: "string \<Rightarrow> int \<Rightarrow> bytes io" where
  "readPolicyFile p maxBytes =
     (if p = [] then io_fail (policy_error ''policy file path is required'' [])
      else io_bind (io_wrap (\<lambda>e. policy_error ''read policy file: %w'' [W e]) (os_Open p)) (\<lambda>_.
           io_try (file_ReadAll p) (\<lambda>rd. io_of (readPolicyBytes rd maxBytes))))"

definition fetchPolicyURL :: "RemoteOptions \<Rightarrow> bytes io" where
  "fetchPolicyURL options =
     (case url_Parse (RURL options) of
        None \<Rightarrow> io_fail (policy_error ''parse policy URL: %w'' [W (errors_New ''parse'')])
      | Some u \<Rightarrow>
          if url_Scheme u \<noteq> ''https'' then io_fail (policy_error ''policy URL must use https'' [])
          else io_bind (http_do ''GET'' (RURL options)) (\<lambda>reply. case reply of
                 NetError e \<Rightarrow> io_fail (Errorf ''fetch policy %s: %w'' [S (RURL options), W e])
               | Reply status body \<Rightarrow>
                   if status < 200 \<or> 300 \<le> status then
                     io_fail (Errorf ''GET %s: %s'' [S (RURL options), D status])
                   else io_of (readPolicyBytes body (RMaxBytes options))))"

definition loadOptions :: "RemoteOptions \<Rightarrow> LoadOptions" where
  "loadOptions r = \<lparr>LPath = [], LTrust = RTrust r, LMaxBytes = RMaxBytes r, LNow = RNow r,
     LMaxAge = RMaxAge r, LCachePath = RCachePath r, LCacheFallback = RCacheFallback r\<rparr>"

definition loadPolicyCache :: "policy_env \<Rightarrow> LoadOptions \<Rightarrow> Decision io" where
  "loadPolicyCache env options =
     io_bind (readPolicyFile (LCachePath options) (LMaxBytes options)) (\<lambda>data.
       io_of (parseTrustedDecision env data options))"

definition policy_cache_error :: "string \<Rightarrow> go_error \<Rightarrow> go_error" where
  "policy_cache_error step e =
     policy_error (if step = ''create'' then ''create policy cache temp file: %w''
                   else if step = ''write'' then ''write policy cache temp file: %w''
                   else if step = ''chmod'' then ''chmod policy cache temp file: %w''
                   else if step = ''close'' then ''close policy cache temp file: %w''
                   else ''replace policy cache: %w'') [W e]"

definition writePolicyCache :: "string \<Rightarrow> bytes \<Rightarrow> unit io" where
  "writePolicyCache p data =
     (let dir = filepath_Dir p in
      io_bind (io_wrap (\<lambda>e. policy_error ''create policy cache directory: %w'' [W e]) (os_MkdirAll dir 493)) (\<lambda>_.
        replace_file_deferred policy_cache_error dir ''.bootup-policy-cache-'' data 420 p))"

section \<open>Loading\<close>

definition policy_LoadFile :: "policy_env \<Rightarrow> LoadOptions \<Rightarrow> Decision io" where
  "policy_LoadFile env options =
     (if \<not> trust_configured (LTrust options) then
        io_fail (policy_error ''policy trust configuration is required'' [])
      else io_try (readPolicyFile (LPath options) (LMaxBytes options)) (\<lambda>r. case r of
        Inl err \<Rightarrow>
          if LCacheFallback options \<and> LCachePath options \<noteq> [] then
            io_wrap (\<lambda>cacheErr. Errorf ''%w: load policy cache after source failure: %w'' [W err, W cacheErr])
              (loadPolicyCache env options)
          else io_fail err
      | Inr data \<Rightarrow>
          io_bind (io_of (parseTrustedDecision env data options)) (\<lambda>decision.
          io_bind (if LCachePath options \<noteq> [] then writePolicyCache (LCachePath options) data else io_return ())
            (\<lambda>_. io_return decision))))"

definition policy_LoadURL :: "policy_env \<Rightarrow> RemoteOptions \<Rightarrow> Decision io" where
  "policy_LoadURL env options =
     (if \<not> trust_configured (RTrust options) then
        io_fail (policy_error ''policy trust configuration is required'' [])
      else io_try (fetchPolicyURL options) (\<lambda>r. case r of
        Inl err \<Rightarrow>
          if RCacheFallback options \<and> RCachePath options \<noteq> [] \<and> \<not> errors_is err ErrInvalidPolicy then
            io_wrap (\<lambda>cacheErr. Errorf ''load policy cache after fetch failure: %w'' [W cacheErr])
              (loadPolicyCache env (loadOptions options))
          else io_fail err
      | Inr data \<Rightarrow>
          io_bind (io_of (parseTrustedDecision env data (loadOptions options))) (\<lambda>decision.
          io_bind (if RCachePath options \<noteq> [] then writePolicyCache (RCachePath options) data else io_return ())
            (\<lambda>_. io_return decision))))"

section \<open>Validation against the inventory\<close>

definition targetByID :: "Target list \<Rightarrow> string \<Rightarrow> Target option" where
  "targetByID targets i = find (\<lambda>t. TID t = i) targets"

text \<open>The keys of a Go map, sorted; each key once.\<close>

definition sorted_keys :: "(string \<times> 'v) list \<Rightarrow> string list" where
  "sorted_keys m = sort (remdups (map fst m))"

definition selectedOptions :: "(string \<times> string) list \<Rightarrow> SelectedOption list" where
  "selectedOptions values = map (\<lambda>i. \<lparr>SelID = i, SelValue = the (map_of values i)\<rparr>) (sorted_keys values)"

definition selectedSecretRefs :: "(string \<times> string) list \<Rightarrow> SecretRef list" where
  "selectedSecretRefs values = map (\<lambda>i. \<lparr>RefID = i, InputID = the (map_of values i)\<rparr>) (sorted_keys values)"

definition policy_Validate :: "Decision \<Rightarrow> Target list \<Rightarrow> SecretStore option \<Rightarrow> PolicySelection result" where
  "policy_Validate decision targets secrets =
     (case targetByID targets (TargetID decision) of
        None \<Rightarrow> Inl (policy_error ''policy target %q is not in the current inventory'' [S (TargetID decision)])
      | Some target \<Rightarrow>
          (let options = selectedOptions (DOptions decision) in
           and_then (map_err (\<lambda>e. policy_error ''%w'' [W e]) (ValidateSelectedOptions target options)) (\<lambda>_.
           and_then (map_err (\<lambda>e. policy_error ''%w'' [W e])
                       (ResolveSecretRefs target (selectedSecretRefs (DSecretRefs decision)) secrets)) (\<lambda>refs.
             Inr \<lparr>PSTarget = target, PSOptions = options, PSSecretRefs = refs\<rparr>))))"

section \<open>What a loaded decision satisfies\<close>

definition policy_signed :: "policy_env \<Rightarrow> Trust \<Rightarrow> bytes \<Rightarrow> bool" where
  "policy_signed env t data \<longleftrightarrow>
     length (Ed25519Signature t) = 64 \<and> length (Ed25519PublicKey t) = 32 \<and>
     ed25519_Verify env (Ed25519PublicKey t) data (Ed25519Signature t)"

lemma verifyTrust_iff: "verifyTrust env data t = Inr () \<longleftrightarrow> policy_signed env t data"
  by (auto simp: verifyTrust_def policy_signed_def trust_configured_def)

text \<open>Freshness, as a condition on the clock and the two dates.\<close>

definition policy_fresh :: "Decision \<Rightarrow> int \<Rightarrow> int \<Rightarrow> bool" where
  "policy_fresh d now maxAge \<longleftrightarrow>
     (ExpiresAt d \<noteq> None \<or> 0 < maxAge) \<and>
     (\<forall>t. ExpiresAt d = Some t \<longrightarrow> now < t) \<and>
     (0 < maxAge \<longrightarrow> (\<exists>p. PublishedAt d = Some p \<and> p \<le> now \<and> time_Sub now p \<le> maxAge))"

lemma validateFreshness_iff:
  "validateFreshness d options = Inr () \<longleftrightarrow> policy_fresh d (LNow options) (LMaxAge options)"
  by (cases "ExpiresAt d"; cases "PublishedAt d") (auto simp: validateFreshness_def policy_fresh_def Let_def)

lemma parseDecision_Inr:
  "parseDecision env data = Inr d \<longleftrightarrow>
     json_Decision env data = Inr (d, True) \<and> SchemaVersion d = 1 \<and> DecisionID d \<noteq> [] \<and> TargetID d \<noteq> []"
  by (auto simp: parseDecision_def)

lemma parseTrustedDecision_Inr:
  "parseTrustedDecision env data options = Inr d \<longleftrightarrow>
     policy_signed env (LTrust options) data \<and> json_Decision env data = Inr (d, True) \<and>
     SchemaVersion d = 1 \<and> DecisionID d \<noteq> [] \<and> TargetID d \<noteq> [] \<and>
     policy_fresh d (LNow options) (LMaxAge options)"
  by (auto simp: parseTrustedDecision_def verifyTrust_iff parseDecision_Inr validateFreshness_iff)

text \<open>C5: Freshness.  A decision is fresh exactly when it carries an expiry or a maximum age is configured,
  its expiry lies in the future, and, under a maximum age, it has a publication date that is not in the
  future and not older than that.\<close>

theorem policy_freshness:
  "validateFreshness d options = Inr () \<longleftrightarrow>
     (case ExpiresAt d of None \<Rightarrow> 0 < LMaxAge options | Some t \<Rightarrow> LNow options < t) \<and>
     (LMaxAge options \<le> 0 \<or>
       (case PublishedAt d of None \<Rightarrow> False
        | Some p \<Rightarrow> p \<le> LNow options \<and> time_Sub (LNow options) p \<le> LMaxAge options))"
  by (cases "ExpiresAt d"; cases "PublishedAt d") (auto simp: validateFreshness_iff policy_fresh_def)

section \<open>The loaders meet the contract\<close>

abbreviation policy_temp :: string where
  "policy_temp \<equiv> ''.bootup-policy-cache-''"

lemma fs_pure_readPolicyFile [fs_pure_intros]: "fs_pure (readPolicyFile p m)"
  unfolding readPolicyFile_def by (intro fs_pure_intros)

lemma fs_pure_loadPolicyCache [fs_pure_intros]: "fs_pure (loadPolicyCache env options)"
  unfolding loadPolicyCache_def by (intro fs_pure_intros)

lemma fs_pure_fetchPolicyURL [fs_pure_intros]: "fs_pure (fetchPolicyURL options)"
  unfolding fetchPolicyURL_def by (auto intro!: fs_pure_intros split: http_reply.splits)

lemma writePolicyCache_outcome:
  assumes "writePolicyCache p data w = (r, w')" and "last_elem_free policy_temp p" and "p \<noteq> []"
  shows "(r = Inr () \<longrightarrow> Fs w' (path_Clean p) = Some (File data 420)) \<and>
    (Fs w' (path_Clean p) = Fs w (path_Clean p) \<or>
     Fs w (path_Clean p) = None \<and> (\<forall>d m. Fs w' (path_Clean p) \<noteq> Some (File d m)) \<or>
     Fs w' (path_Clean p) = Some (File data 420))"
  using assms(1) unfolding writePolicyCache_def Let_def
  by (rule cache_write_outcome) (use assms(2,3) in auto)

text \<open>
  Both loaders have the same tail: what the source gave is checked, then cached, then returned.
\<close>

definition accept_and_cache :: "policy_env \<Rightarrow> LoadOptions \<Rightarrow> bytes \<Rightarrow> Decision io" where
  "accept_and_cache env options data =
     io_bind (io_of (parseTrustedDecision env data options)) (\<lambda>decision.
     io_bind (if LCachePath options \<noteq> [] then writePolicyCache (LCachePath options) data else io_return ())
       (\<lambda>_. io_return decision))"

lemma accept_and_cache_outcome:
  assumes "accept_and_cache env options data w = (r, w')" and "last_elem_free policy_temp (LCachePath options)"
  defines "c \<equiv> path_Clean (LCachePath options)"
  shows "(\<forall>x. r = Inr x \<longrightarrow> parseTrustedDecision env data options = Inr x) \<and>
    (Fs w' c = Fs w c \<or> Fs w c = None \<and> (\<forall>d m. Fs w' c \<noteq> Some (File d m)) \<or>
     (\<exists>m x. Fs w' c = Some (File data m) \<and> parseTrustedDecision env data options = Inr x))"
proof (cases "parseTrustedDecision env data options")
  case (Inl e)
  with assms show ?thesis by (auto simp: accept_and_cache_def io_bind_def)
next
  case (Inr d)
  show ?thesis
  proof (cases "LCachePath options = []")
    case True
    with assms Inr show ?thesis by (auto simp: accept_and_cache_def io_bind_def)
  next
    case False
    obtain r1 w1 where wr: "writePolicyCache (LCachePath options) data w = (r1, w1)"
      by (cases "writePolicyCache (LCachePath options) data w")
    with assms(1) Inr False have "w' = w1" "\<forall>x. r = Inr x \<longrightarrow> x = d"
      by (auto simp: accept_and_cache_def io_bind_def split: sum.splits)
    with writePolicyCache_outcome [OF wr assms(2) False] Inr show ?thesis by (auto simp: c_def)
  qed
qed

lemma loadPolicyCache_Inr:
  "loadPolicyCache env options w = (Inr x, w') \<Longrightarrow> \<exists>d. parseTrustedDecision env d options = Inr x"
  by (auto simp: loadPolicyCache_def)

lemma policy_LoadFile_cases:
  assumes "policy_LoadFile env options w = (r, w')"
  obtains "Fs w' = Fs w" "\<forall>x. r = Inr x \<longrightarrow> (\<exists>d. parseTrustedDecision env d options = Inr x)"
  | data w1 where "Fs w1 = Fs w" "accept_and_cache env options data w1 = (r, w')"
proof (cases "trust_configured (LTrust options)")
  case False
  with assms show ?thesis by (intro that(1)) (auto simp: policy_LoadFile_def)
next
  case True
  obtain r1 w1 where rd: "readPolicyFile (LPath options) (LMaxBytes options) w = (r1, w1)"
    by (cases "readPolicyFile (LPath options) (LMaxBytes options) w")
  note pure = fs_pureD [OF fs_pure_readPolicyFile rd]
  show ?thesis
  proof (cases r1)
    case (Inr data)
    with assms True rd have "accept_and_cache env options data w1 = (r, w')"
      by (simp add: policy_LoadFile_def io_try_def accept_and_cache_def)
    with pure show ?thesis by (rule that(2))
  next
    case (Inl err)
    show ?thesis
    proof (cases "LCacheFallback options \<and> LCachePath options \<noteq> []")
      case fall: True
      obtain r2 w2 where ca: "loadPolicyCache env options w1 = (r2, w2)" by (cases "loadPolicyCache env options w1")
      with assms True rd Inl fall have "w' = w2" "\<forall>x. r = Inr x \<longrightarrow> r2 = Inr x"
        by (auto simp: policy_LoadFile_def io_try_def io_wrap_def)
      with ca fs_pureD [OF fs_pure_loadPolicyCache ca] pure show ?thesis
        by (intro that(1)) (auto dest: loadPolicyCache_Inr)
    next
      case False
      with assms True rd Inl have "w' = w1" "r = Inl err" by (auto simp: policy_LoadFile_def io_try_def)
      with pure show ?thesis by (intro that(1)) auto
    qed
  qed
qed

interpretation policy_file: cached_loader "policy_LoadFile env" "\<lambda>o'. path_Clean (LCachePath o')"
  "\<lambda>o' d. parseTrustedDecision env d o'" "\<lambda>o'. policy_signed env (LTrust o')"
  "\<lambda>o'. last_elem_free policy_temp (LCachePath o')" for env
proof
  show "\<exists>d. parseTrustedDecision env d opt = Inr x" if run: "policy_LoadFile env opt w = (Inr x, w')" for opt w x w'
    using run
  proof (cases rule: policy_LoadFile_cases)
    case (2 data w1)
    then have "parseTrustedDecision env data opt = Inr x" by (auto simp: accept_and_cache_def)
    then show ?thesis by blast
  qed auto
  show "Fs w' (path_Clean (LCachePath opt)) = Fs w (path_Clean (LCachePath opt)) \<or>
     Fs w (path_Clean (LCachePath opt)) = None \<and> (\<forall>d m. Fs w' (path_Clean (LCachePath opt)) \<noteq> Some (File d m)) \<or>
     (\<exists>d m x. Fs w' (path_Clean (LCachePath opt)) = Some (File d m) \<and> parseTrustedDecision env d opt = Inr x)"
    if run: "policy_LoadFile env opt w = (r, w')" and "last_elem_free policy_temp (LCachePath opt)" for opt w r w'
    using run
  proof (cases rule: policy_LoadFile_cases)
    case (2 data w1)
    with accept_and_cache_outcome [OF 2(2) that(2)] show ?thesis by auto
  qed auto
qed (simp add: parseTrustedDecision_Inr)

lemma loadOptions_simps [simp]:
  "LCachePath (loadOptions r) = RCachePath r" "LTrust (loadOptions r) = RTrust r"
  "LNow (loadOptions r) = RNow r" "LMaxAge (loadOptions r) = RMaxAge r" "LMaxBytes (loadOptions r) = RMaxBytes r"
  by (simp_all add: loadOptions_def)

lemma policy_LoadURL_cases:
  assumes "policy_LoadURL env options w = (r, w')"
  obtains "Fs w' = Fs w" "\<forall>x. r = Inr x \<longrightarrow> (\<exists>d. parseTrustedDecision env d (loadOptions options) = Inr x)"
  | data w1 where "Fs w1 = Fs w" "accept_and_cache env (loadOptions options) data w1 = (r, w')"
proof (cases "trust_configured (RTrust options)")
  case False
  with assms show ?thesis by (intro that(1)) (auto simp: policy_LoadURL_def)
next
  case True
  let ?o = "loadOptions options"
  obtain r1 w1 where rd: "fetchPolicyURL options w = (r1, w1)" by (cases "fetchPolicyURL options w")
  note pure = fs_pureD [OF fs_pure_fetchPolicyURL rd]
  show ?thesis
  proof (cases r1)
    case (Inr data)
    with assms True rd have "accept_and_cache env ?o data w1 = (r, w')"
      by (simp add: policy_LoadURL_def io_try_def accept_and_cache_def split: if_splits)
    with pure show ?thesis by (rule that(2))
  next
    case (Inl err)
    show ?thesis
    proof (cases "RCacheFallback options \<and> RCachePath options \<noteq> [] \<and> \<not> errors_is err ErrInvalidPolicy")
      case fall: True
      obtain r2 w2 where ca: "loadPolicyCache env ?o w1 = (r2, w2)" by (cases "loadPolicyCache env ?o w1")
      with assms True rd Inl fall have "w' = w2" "\<forall>x. r = Inr x \<longrightarrow> r2 = Inr x"
        by (auto simp: policy_LoadURL_def io_try_def io_wrap_def)
      with ca fs_pureD [OF fs_pure_loadPolicyCache ca] pure show ?thesis
        by (intro that(1)) (auto dest: loadPolicyCache_Inr)
    next
      case False
      with assms True rd Inl have "w' = w1" "r = Inl err" by (auto simp: policy_LoadURL_def io_try_def)
      with pure show ?thesis by (intro that(1)) auto
    qed
  qed
qed

interpretation policy_url: cached_loader "policy_LoadURL env" "\<lambda>o'. path_Clean (RCachePath o')"
  "\<lambda>o' d. parseTrustedDecision env d (loadOptions o')" "\<lambda>o'. policy_signed env (RTrust o')"
  "\<lambda>o'. last_elem_free policy_temp (RCachePath o')" for env
proof
  show "\<exists>d. parseTrustedDecision env d (loadOptions opt) = Inr x"
    if run: "policy_LoadURL env opt w = (Inr x, w')" for opt w x w'
    using run
  proof (cases rule: policy_LoadURL_cases)
    case (2 data w1)
    then have "parseTrustedDecision env data (loadOptions opt) = Inr x" by (auto simp: accept_and_cache_def)
    then show ?thesis by blast
  qed auto
  show "Fs w' (path_Clean (RCachePath opt)) = Fs w (path_Clean (RCachePath opt)) \<or>
     Fs w (path_Clean (RCachePath opt)) = None \<and> (\<forall>d m. Fs w' (path_Clean (RCachePath opt)) \<noteq> Some (File d m)) \<or>
     (\<exists>d m x. Fs w' (path_Clean (RCachePath opt)) = Some (File d m) \<and> parseTrustedDecision env d (loadOptions opt) = Inr x)"
    if run: "policy_LoadURL env opt w = (r, w')" and name: "last_elem_free policy_temp (RCachePath opt)" for opt w r w'
    using run
  proof (cases rule: policy_LoadURL_cases)
    case (2 data w1)
    with accept_and_cache_outcome [OF 2(2)] name show ?thesis by auto
  qed auto
qed (simp add: parseTrustedDecision_Inr)

section \<open>Properties\<close>

text \<open>A decision that \<open>LoadURL\<close> returns, fetched or from the cache, was decoded from bytes that carry a
  valid signature under the configured key, is of the supported schema, and is fresh now.\<close>

theorem policy_LoadURL_authentic:
  assumes "policy_LoadURL env options w = (Inr d, w')"
  shows "\<exists>data. policy_signed env (RTrust options) data \<and> json_Decision env data = Inr (d, True) \<and>
           SchemaVersion d = 1 \<and> policy_fresh d (RNow options) (RMaxAge options)"
  using policy_url.load_Inr [OF assms] by (auto simp: parseTrustedDecision_Inr)

text \<open>C35: The policy cache cannot be poisoned.  Whatever the server answers and wherever the file system
  fails, a sequence of loads with the same trust and cache path leaves in the cache only bytes that carry
  a valid signature, if that was so at the start.\<close>

theorem policy_cache_integrity:
  assumes "\<forall>opt \<in> set opts. RCachePath opt = p \<and> RTrust opt = t" and "last_elem_free ''.bootup-policy-cache-'' p"
    and "cache_ok (policy_signed env t) (path_Clean p) w"
  shows "cache_ok (policy_signed env t) (path_Clean p) (run_loads (policy_LoadURL env) opts w)"
  using assms by (intro policy_url.run_loads_cache_ok) auto

definition sample_cache_env :: policy_env where
  "sample_cache_env = \<lparr>ed25519_Verify = (\<lambda>pub m sig. m = ''P''), json_Decision = (\<lambda>_. Inl (errors_New ''not JSON''))\<rparr>"

definition sample_remote :: RemoteOptions where
  "sample_remote = \<lparr>RURL = ''https://p.example/d'', RTrust = \<lparr>Ed25519Signature = replicate 64 (CHR ''s''), Ed25519PublicKey = replicate 32 (CHR ''k'')\<rparr>,
     RMaxBytes = 16, RNow = 0, RMaxAge = 0, RCachePath = ''/c/p'', RCacheFallback = True\<rparr>"

definition sample_cached_world :: world where
  "sample_cached_world = (quiet_world (\<lambda>_ _ _. Reply 200 (Inr ''EVIL'')))\<lparr>Fs := [''/c/p'' \<mapsto> File ''P'' 384]\<rparr>"

theorem policy_cache_integrity_witness:
  "cache_ok (policy_signed sample_cache_env (RTrust sample_remote)) (path_Clean ''/c/p'')
     (run_loads (policy_LoadURL sample_cache_env) [sample_remote, sample_remote] sample_cached_world)"
proof (rule policy_cache_integrity)
  show "\<forall>opt \<in> set [sample_remote, sample_remote]. RCachePath opt = ''/c/p'' \<and> RTrust opt = RTrust sample_remote"
    by (simp add: sample_remote_def)
  show "last_elem_free ''.bootup-policy-cache-'' ''/c/p''" unfolding last_elem_free_def by code_simp
  have "path_Clean ''/c/p'' = ''/c/p''" by code_simp
  then show "cache_ok (policy_signed sample_cache_env (RTrust sample_remote)) (path_Clean ''/c/p'') sample_cached_world"
    by (auto simp: cache_ok_def sample_cached_world_def policy_signed_def sample_remote_def sample_cache_env_def)
qed

text \<open>The cache stands in for an unreachable source.  When the request fails and the cache holds bytes
  that pass every check, \<open>LoadURL\<close> returns the cached decision.\<close>

theorem policy_LoadURL_fallback:
  assumes "trust_configured (RTrust options)" and "https_scheme (RURL options)"
    and "Net w (length (Requests w)) ''GET'' (RURL options) = NetError e" and "\<not> errors_is e ErrInvalidPolicy"
    and "RCacheFallback options" and "RCachePath options \<noteq> []"
    and "Fs w (path_Clean (RCachePath options)) = Some (File data m)" and "Faults w = (\<lambda>_. None)"
    and "0 < RMaxBytes options" and "int (length data) \<le> RMaxBytes options" and "RMaxBytes options < maxDuration"
    and "parseTrustedDecision env data (loadOptions options) = Inr d"
  shows "fst (policy_LoadURL env options w) = Inr d"
proof -
  let ?o = "loadOptions options"
  obtain u where u: "url_Parse (RURL options) = Some u" "url_Scheme u = ''https''"
    using assms(2) by (auto simp: https_scheme_def split: option.splits)
  let ?w1 = "w\<lparr>Requests := Requests w @ [(''GET'', RURL options)]\<rparr>"
  have fetch: "fetchPolicyURL options w = (Inl (Errorf ''fetch policy %s: %w'' [S (RURL options), W e]), ?w1)"
    using u assms(3) by (simp add: fetchPolicyURL_def io_bind_def http_do_def)
  have lim: "read_limited (RMaxBytes options) data = data"
    using assms(9-11) by (auto simp: read_limited_def)
  have "fst (loadPolicyCache env ?o ?w1) = Inr d"
    using assms(6-12) lim
    by (simp add: loadPolicyCache_def readPolicyFile_def io_bind_def io_wrap_def io_try_def
        os_Open_def file_ReadAll_def os_ReadFile_def os_call_def Let_def readPolicyBytes_def)
  then show ?thesis
    using assms(1,4,5,6) fetch
    by (auto simp: policy_LoadURL_def io_try_def io_wrap_def split: prod.splits)
qed

definition sample_offline_env :: policy_env where
  "sample_offline_env = \<lparr>ed25519_Verify = (\<lambda>pub m sig. m = ''P''), json_Decision = (\<lambda>_. Inr
     (\<lparr>SchemaVersion = 1, DecisionID = ''d'', TargetID = ''t'', DOptions = [], DSecretRefs = [], PublishedAt = None, ExpiresAt = Some 5\<rparr>, True))\<rparr>"

definition sample_offline :: RemoteOptions where
  "sample_offline = \<lparr>RURL = ''https://p.example/d'', RTrust = \<lparr>Ed25519Signature = replicate 64 (CHR ''s''), Ed25519PublicKey = replicate 32 (CHR ''k'')\<rparr>,
     RMaxBytes = 16, RNow = 0, RMaxAge = 0, RCachePath = ''/c/p'', RCacheFallback = True\<rparr>"

definition sample_offline_world :: world where
  "sample_offline_world = (quiet_world (\<lambda>_ _ _. NetError (errors_New ''unreachable'')))\<lparr>Fs := [''/c/p'' \<mapsto> File ''P'' 384]\<rparr>"

theorem policy_LoadURL_fallback_witness:
  "\<exists>d. fst (policy_LoadURL sample_offline_env sample_offline sample_offline_world) = Inr d \<and> TargetID d = ''t''"
proof -
  let ?d = "\<lparr>SchemaVersion = 1, DecisionID = ''d'', TargetID = ''t'', DOptions = [], DSecretRefs = [], PublishedAt = None, ExpiresAt = Some 5\<rparr>"
  have "https_scheme (RURL sample_offline)" by code_simp
  moreover have "path_Clean ''/c/p'' = ''/c/p''" by code_simp
  ultimately have "fst (policy_LoadURL sample_offline_env sample_offline sample_offline_world) = Inr ?d"
    by (intro policy_LoadURL_fallback [where e = "errors_New ''unreachable''" and data = "''P''" and m = 384])
      (simp_all add: sample_offline_def sample_offline_world_def sample_offline_env_def trust_configured_def quiet_world_def
        parseTrustedDecision_Inr loadOptions_def policy_signed_def policy_fresh_def maxDuration_def)
  then show ?thesis by simp
qed


end
