(* ===== verification/Catalog.thy ===== *)
theory Catalog
  imports Policy
begin

text \<open>
  Static target catalogs (\<^verbatim>\<open>internal/catalog\<close>): parsing, composing and generating catalog documents,
  catalogs fetched over HTTPS with their trust, freshness and cache rules, and the conformance report.
  JSON encoding and decoding are parameters, as in \<open>Policy\<close>.
\<close>

section \<open>Documents (catalog.go)\<close>

record Document =
  DocSchemaVersion :: int
  DocPublishedAt :: "int option"
  DocExpiresAt :: "int option"
  Entries :: "Target list"

definition schemaVersion :: int where "schemaVersion = 1"

definition catalog_error :: "string \<Rightarrow> fmt_arg list \<Rightarrow> go_error" where
  "catalog_error f as = Errorf (''%w: '' @ f) (W (Sentinel ErrInvalidCatalog) # as)"

text \<open>The loop over the entries of \<open>Parse\<close>; \<open>seen\<close> is the map of target IDs met so far.\<close>

fun check_entries :: "string list \<Rightarrow> string list \<Rightarrow> Target list \<Rightarrow> unit result" where
  "check_entries known seen [] = Inr ()"
| "check_entries known seen (t # ts) =
     (if ProviderID t \<notin> set known then
        Inl (catalog_error ''target %s references unknown provider %q'' [S (TID t), S (ProviderID t)])
      else if TID t \<in> set seen then Inl (catalog_error ''duplicate target ID %q'' [S (TID t)])
      else and_then (map_err (\<lambda>e. catalog_error ''%w'' [W e]) (ValidateTarget (ProviderID t) t)) (\<lambda>_.
           check_entries known (TID t # seen) ts))"

definition catalog_Parse :: "(bytes \<Rightarrow> (Document \<times> bool) result) \<Rightarrow> bytes \<Rightarrow> string list \<Rightarrow> Document result" where
  "catalog_Parse json data providerIDs =
     and_then (map_err (\<lambda>e. catalog_error ''decode catalog: %w'' [W e]) (json data)) (\<lambda>(doc, at_end).
       if \<not> at_end then Inl (catalog_error ''decode catalog: multiple JSON values'' [])
       else if DocSchemaVersion doc \<noteq> schemaVersion then
         Inl (catalog_error ''unsupported schema version %d'' [D (DocSchemaVersion doc)])
       else and_then (check_entries providerIDs [] (Entries doc)) (\<lambda>_. Inr doc))"

definition catalog_LoadFile ::
  "(bytes \<Rightarrow> (Document \<times> bool) result) \<Rightarrow> string \<Rightarrow> string list \<Rightarrow> Document io" where
  "catalog_LoadFile json p providerIDs =
     io_bind (io_wrap (\<lambda>e. Errorf ''read catalog %s: %w'' [S p, W e]) (os_ReadFile p)) (\<lambda>data.
       io_of (map_err (\<lambda>e. Errorf ''parse catalog %s: %w'' [S p, W e]) (catalog_Parse json data providerIDs)))"

fun compose_entries :: "string list \<Rightarrow> Target list \<Rightarrow> Target list \<Rightarrow> (string list \<times> Target list) result" where
  "compose_entries seen acc [] = Inr (seen, acc)"
| "compose_entries seen acc (t # ts) =
     (if TID t \<in> set seen then Inl (catalog_error ''duplicate target ID %q'' [S (TID t)])
      else compose_entries (TID t # seen) (acc @ [t]) ts)"

fun compose_documents :: "string list \<Rightarrow> Target list \<Rightarrow> Document list \<Rightarrow> Target list result" where
  "compose_documents seen acc [] = Inr acc"
| "compose_documents seen acc (doc # docs) =
     (if DocSchemaVersion doc \<noteq> schemaVersion then
        Inl (catalog_error ''unsupported schema version %d'' [D (DocSchemaVersion doc)])
      else and_then (compose_entries seen acc (Entries doc)) (\<lambda>(seen', acc'). compose_documents seen' acc' docs))"

definition Compose :: "Document list \<Rightarrow> Document result" where
  "Compose documents =
     and_then (compose_documents [] [] documents) (\<lambda>entries.
       Inr \<lparr>DocSchemaVersion = schemaVersion, DocPublishedAt = None, DocExpiresAt = None, Entries = entries\<rparr>)"

definition Document_Targets :: "Document \<Rightarrow> string \<Rightarrow> Target list" where
  "Document_Targets d providerID = filter (\<lambda>t. ProviderID t = providerID) (Entries d)"

text \<open>Catalog source documents and \<open>Generate\<close>; \<open>marshal\<close> is \<open>json.MarshalIndent\<close>.\<close>

record sourceTarget =
  STID :: string
  STName :: string
  STAction :: BootAction
  STDistribution :: string
  STRelease :: string
  STArchitecture :: string
  STKind :: string
  STSource :: SourceEntry
  STLifecycle :: LifecycleEntry
  STOptions :: "TargetOption list"
  STSecrets :: "SecretInput list"

record sourceProvider =
  SPID :: string
  SPTargets :: "sourceTarget list"

record sourceDocument =
  SDSchemaVersion :: int
  SDProviders :: "sourceProvider list"

definition distribution_of :: "sourceTarget \<Rightarrow> string \<Rightarrow> string" where
  "distribution_of t fallback = (if STDistribution t \<noteq> [] then STDistribution t else fallback)"

definition target_of_source :: "string \<Rightarrow> sourceTarget \<Rightarrow> Target" where
  "target_of_source pid s =
     \<lparr>TID = STID s, ProviderID = pid, Name = STName s, Action = STAction s,
      Catalog = \<lparr>Distribution = distribution_of s pid, Release = STRelease s,
                 Architecture = STArchitecture s, Kind = STKind s\<rparr>,
      Source = STSource s, Lifecycle = STLifecycle s, Options = STOptions s, Secrets = STSecrets s\<rparr>"

fun generate_targets :: "string \<Rightarrow> sourceTarget list \<Rightarrow> Target list result" where
  "generate_targets pid [] = Inr []"
| "generate_targets pid (s # ss) =
     and_then (map_err (\<lambda>e. catalog_error ''%w'' [W e]) (ValidateTarget pid (target_of_source pid s))) (\<lambda>_.
     and_then (generate_targets pid ss) (\<lambda>ts. Inr (target_of_source pid s # ts)))"

fun generate_providers :: "sourceProvider list \<Rightarrow> Target list result" where
  "generate_providers [] = Inr []"
| "generate_providers (p # ps) =
     and_then (generate_targets (SPID p) (SPTargets p)) (\<lambda>ts.
     and_then (generate_providers ps) (\<lambda>us. Inr (ts @ us)))"

definition Generate ::
  "(bytes \<Rightarrow> (sourceDocument \<times> bool) result) \<Rightarrow> (Document \<Rightarrow> bytes result) \<Rightarrow> bytes \<Rightarrow> bytes result" where
  "Generate json marshal data =
     and_then (map_err (\<lambda>e. catalog_error ''decode catalog source: %w'' [W e]) (json data)) (\<lambda>(source, at_end).
       if \<not> at_end then Inl (catalog_error ''decode catalog source: multiple JSON values'' [])
       else if SDSchemaVersion source \<noteq> schemaVersion then
         Inl (catalog_error ''unsupported source schema version %d'' [D (SDSchemaVersion source)])
       else and_then (generate_providers (SDProviders source)) (\<lambda>entries.
            and_then (map_err (\<lambda>e. Errorf ''encode generated catalog: %w'' [W e])
                        (marshal \<lparr>DocSchemaVersion = schemaVersion, DocPublishedAt = None, DocExpiresAt = None,
                                  Entries = entries\<rparr>)) (\<lambda>generated.
              Inr (generated @ [CHR 0x0A]))))"

section \<open>Well-formed documents\<close>

definition wf_document :: "string list \<Rightarrow> Document \<Rightarrow> bool" where
  "wf_document known d \<longleftrightarrow>
     DocSchemaVersion d = schemaVersion \<and> distinct (map TID (Entries d)) \<and>
     (\<forall>t \<in> set (Entries d). ProviderID t \<in> set known \<and> wf_target (ProviderID t) t)"

lemma check_entries_iff:
  "check_entries known seen ts = Inr () \<longleftrightarrow>
     distinct (map TID ts) \<and> set (map TID ts) \<inter> set seen = {} \<and>
     (\<forall>t \<in> set ts. ProviderID t \<in> set known \<and> wf_target (ProviderID t) t)"
  by (induction ts arbitrary: seen) (auto simp: ValidateTarget_wf)

text \<open>C7: A catalog is accepted exactly when it is one JSON value of the supported schema whose targets
  have distinct IDs, belong to known providers and are each well-formed.\<close>

theorem catalog_Parse_iff:
  "catalog_Parse json data known = Inr d \<longleftrightarrow> json data = Inr (d, True) \<and> wf_document known d"
  by (auto simp: catalog_Parse_def wf_document_def check_entries_iff)

lemma compose_entries_Inr:
  "compose_entries seen acc ts = Inr (seen', acc') \<longleftrightarrow>
     distinct (map TID ts) \<and> set (map TID ts) \<inter> set seen = {} \<and>
     seen' = rev (map TID ts) @ seen \<and> acc' = acc @ ts"
  by (induction ts arbitrary: seen acc) auto

lemma compose_documents_Inr:
  "compose_documents seen acc docs = Inr es \<longleftrightarrow>
     (\<forall>d \<in> set docs. DocSchemaVersion d = schemaVersion) \<and> es = acc @ concat (map Entries docs) \<and>
     distinct (map TID (concat (map Entries docs))) \<and>
     set (map TID (concat (map Entries docs))) \<inter> set seen = {}"
proof (induction docs arbitrary: seen acc)
  case (Cons d docs)
  define A where "A = set (map TID (Entries d))"
  define B where "B = set (map TID (concat (map Entries docs)))"
  have all: "set (map TID (concat (map Entries (d # docs)))) = A \<union> B" by (auto simp: A_def B_def)
  have dist: "distinct (map TID (concat (map Entries (d # docs)))) \<longleftrightarrow>
      distinct (map TID (Entries d)) \<and> distinct (map TID (concat (map Entries docs))) \<and> A \<inter> B = {}"
    unfolding A_def B_def by (simp only: list.map concat.simps map_append distinct_append)
  have "compose_documents seen acc (d # docs) = Inr es \<longleftrightarrow>
      DocSchemaVersion d = schemaVersion \<and> distinct (map TID (Entries d)) \<and> A \<inter> set seen = {} \<and>
      (\<forall>d \<in> set docs. DocSchemaVersion d = schemaVersion) \<and>
      es = (acc @ Entries d) @ concat (map Entries docs) \<and>
      distinct (map TID (concat (map Entries docs))) \<and> B \<inter> (A \<union> set seen) = {}"
    unfolding A_def B_def by (auto simp: compose_entries_Inr Cons)
  then show ?case unfolding all dist by auto
qed auto

text \<open>C8: Composing catalogs succeeds exactly when all of them have the supported schema and no target ID
  occurs twice among them; the result lists every entry in order and is again a well-formed document
  whenever the parts are.\<close>

theorem Compose_spec:
  "Compose docs = Inr r \<longleftrightarrow>
     list_all (\<lambda>d. DocSchemaVersion d = schemaVersion) docs \<and>
     distinct (map TID (concat (map Entries docs))) \<and>
     r = \<lparr>DocSchemaVersion = schemaVersion, DocPublishedAt = None, DocExpiresAt = None,
          Entries = concat (map Entries docs)\<rparr>"
  by (auto simp: Compose_def compose_documents_Inr list_all_iff)

lemma Compose_wf:
  assumes "\<forall>d \<in> set docs. wf_document known d" and "Compose docs = Inr r"
  shows "wf_document known r"
proof -
  from assms(2) have "distinct (map TID (concat (map Entries docs)))"
    and r: "r = \<lparr>DocSchemaVersion = schemaVersion, DocPublishedAt = None, DocExpiresAt = None,
          Entries = concat (map Entries docs)\<rparr>"
    by (auto simp: Compose_def compose_documents_Inr)
  with assms(1) show ?thesis by (auto simp: wf_document_def)
qed

lemma Document_Targets_wf:
  "wf_document known d \<Longrightarrow> t \<in> set (Document_Targets d pid) \<Longrightarrow> wf_target pid t"
  by (auto simp: Document_Targets_def wf_document_def)

lemma generate_targets_Inr:
  "generate_targets pid ss = Inr ts \<longleftrightarrow>
     ts = map (target_of_source pid) ss \<and> (\<forall>t \<in> set ts. wf_target pid t)"
  by (induction ss arbitrary: ts) (auto simp: ValidateTarget_wf)

lemma generate_providers_Inr:
  "generate_providers ps = Inr ts \<longleftrightarrow>
     ts = concat (map (\<lambda>p. map (target_of_source (SPID p)) (SPTargets p)) ps) \<and>
     (\<forall>p \<in> set ps. \<forall>s \<in> set (SPTargets p). wf_target (SPID p) (target_of_source (SPID p) s))"
  by (induction ps arbitrary: ts) (auto simp: generate_targets_Inr)

text \<open>Generation and parsing fit together.  When the marshalled bytes decode to the document they were
  made from, a catalog generated from a source whose target IDs are distinct is accepted by the parser
  for the providers of that source.\<close>

theorem Generate_Parse:
  assumes "Generate json_src marshal data = Inr out"
    and "\<And>d b. marshal d = Inr b \<Longrightarrow> json_doc (b @ [CHR 0x0A]) = Inr (d, True)"
    and "json_src data = Inr (src, True)"
    and "distinct (concat (map (\<lambda>p. map STID (SPTargets p)) (SDProviders src)))"
  shows "\<exists>doc. catalog_Parse json_doc out (map SPID (SDProviders src)) = Inr doc \<and>
           Entries doc = concat (map (\<lambda>p. map (target_of_source (SPID p)) (SPTargets p)) (SDProviders src))"
proof -
  from assms(1,3) obtain es b where gen: "generate_providers (SDProviders src) = Inr es"
    and m: "marshal \<lparr>DocSchemaVersion = schemaVersion, DocPublishedAt = None, DocExpiresAt = None, Entries = es\<rparr> = Inr b"
    and out: "out = b @ [CHR 0x0A]"
    by (auto simp: Generate_def)
  let ?d = "\<lparr>DocSchemaVersion = schemaVersion, DocPublishedAt = None, DocExpiresAt = None, Entries = es\<rparr>"
  from gen have es: "es = concat (map (\<lambda>p. map (target_of_source (SPID p)) (SPTargets p)) (SDProviders src))"
    and src_wf: "\<forall>p \<in> set (SDProviders src). \<forall>s \<in> set (SPTargets p). wf_target (SPID p) (target_of_source (SPID p) s)"
    by (auto simp: generate_providers_Inr)
  have wf: "\<forall>t \<in> set es. wf_target (ProviderID t) t"
    unfolding es using src_wf by (auto simp: wf_target_def)
  have "map TID es = concat (map (\<lambda>p. map STID (SPTargets p)) (SDProviders src))"
    unfolding es by (simp add: map_concat comp_def target_of_source_def)
  moreover have "ProviderID t \<in> set (map SPID (SDProviders src))" if "t \<in> set es" for t
    using that unfolding es by (auto simp: target_of_source_def)
  ultimately have "wf_document (map SPID (SDProviders src)) ?d"
    using wf assms(4) by (simp add: wf_document_def)
  then have "catalog_Parse json_doc out (map SPID (SDProviders src)) = Inr ?d"
    using assms(2) [OF m] out by (auto simp: catalog_Parse_def wf_document_def check_entries_iff)
  with es show ?thesis by auto
qed

definition sample_source :: sourceDocument where
  "sample_source = \<lparr>SDSchemaVersion = 1, SDProviders = [\<lparr>SPID = ''local'', SPTargets = [\<lparr>STID = ''disk'', STName = ''Disk'', STAction = BootActionLocalBoot,
     STDistribution = [], STRelease = ''1'', STArchitecture = ''amd64'', STKind = ''localboot'', STSource = empty_SourceEntry,
     STLifecycle = empty_LifecycleEntry, STOptions = [], STSecrets = []\<rparr>]\<rparr>]\<rparr>"

definition sample_generated :: Document where
  "sample_generated = \<lparr>DocSchemaVersion = 1, DocPublishedAt = None, DocExpiresAt = None,
     Entries = map (target_of_source ''local'') (SPTargets (hd (SDProviders sample_source)))\<rparr>"

theorem Generate_Parse_witness:
  "\<exists>out doc. Generate (\<lambda>_. Inr (sample_source, True)) (\<lambda>d. if d = sample_generated then Inr ''J'' else Inl (errors_New ''encode'')) [] = Inr out \<and>
     catalog_Parse (\<lambda>_. Inr (sample_generated, True)) out [''local''] = Inr doc \<and> map TID (Entries doc) = [''disk'']"
proof -
  let ?src = "\<lambda>_. Inr (sample_source, True)" and ?marshal = "\<lambda>d. if d = sample_generated then Inr ''J'' else Inl (errors_New ''encode'')"
  have "generate_providers (SDProviders sample_source) = Inr (Entries sample_generated)" by code_simp
  then have gen: "Generate ?src ?marshal [] = Inr (''J'' @ [CHR 0x0A])"
    by (simp add: Generate_def sample_generated_def sample_source_def schemaVersion_def)
  have "distinct (concat (map (\<lambda>p. map STID (SPTargets p)) (SDProviders sample_source)))" by code_simp
  from Generate_Parse [OF gen _ _ this, of "\<lambda>_. Inr (sample_generated, True)"] gen
  show ?thesis by (fastforce simp: sample_source_def target_of_source_def split: if_splits)
qed

end
