(* ===== verification/Hosted.thy ===== *)
theory Hosted
  imports Catalog
begin

text \<open>
  Catalogs fetched over HTTPS (\<^verbatim>\<open>internal/catalog/hosted.go\<close>).  Authentication comes before parsing; the
  loader meets the same contract as the policy loaders.
\<close>

record HostedTrust =
  TrustSHA256 :: string
  HEd25519Signature :: bytes
  HEd25519PublicKey :: bytes

record HostedOptions =
  HURL :: string
  HTrust :: HostedTrust
  HProviderIDs :: "string list"
  HMaxBytes :: int
  HNow :: int
  HMaxAge :: int
  HRequireFreshness :: bool
  HCachePath :: string
  HCacheFallback :: bool

record hosted_env =
  h_sha256 :: "bytes \<Rightarrow> bytes"
  h_ed25519 :: "bytes \<Rightarrow> bytes \<Rightarrow> bytes \<Rightarrow> bool"
  h_json :: "bytes \<Rightarrow> (Document \<times> bool) result"

section \<open>Trust and freshness\<close>

definition hosted_configured :: "HostedTrust \<Rightarrow> bool" where
  "hosted_configured t \<longleftrightarrow> TrustSHA256 t \<noteq> [] \<or> HEd25519Signature t \<noteq> [] \<or> HEd25519PublicKey t \<noteq> []"

definition verifySHA256 :: "hosted_env \<Rightarrow> bytes \<Rightarrow> string \<Rightarrow> unit result" where
  "verifySHA256 env data wantHex =
     (case hex_DecodeString wantHex of
        None \<Rightarrow> Inl (catalog_error ''hosted catalog SHA-256 is not valid hex: %w'' [W (errors_New ''encoding/hex'')])
      | Some want \<Rightarrow>
          if length want \<noteq> 32 then
            Inl (catalog_error ''hosted catalog SHA-256 length is %d bytes, want %d'' [D (int (length want)), D 32])
          else if h_sha256 env data \<noteq> want then Inl (catalog_error ''hosted catalog SHA-256 mismatch'' [])
          else Inr ())"

definition verifyEd25519 :: "hosted_env \<Rightarrow> bytes \<Rightarrow> bytes \<Rightarrow> bytes \<Rightarrow> unit result" where
  "verifyEd25519 env data signature publicKey =
     (if length signature \<noteq> 64 then
        Inl (catalog_error ''hosted catalog Ed25519 signature length is %d bytes, want %d''
               [D (int (length signature)), D 64])
      else if length publicKey \<noteq> 32 then
        Inl (catalog_error ''hosted catalog Ed25519 public key length is %d bytes, want %d''
               [D (int (length publicKey)), D 32])
      else if \<not> h_ed25519 env publicKey data signature then
        Inl (catalog_error ''hosted catalog Ed25519 signature verification failed'' [])
      else Inr ())"

definition VerifyHostedTrust :: "hosted_env \<Rightarrow> bytes \<Rightarrow> HostedTrust \<Rightarrow> unit result" where
  "VerifyHostedTrust env data t =
     (if \<not> hosted_configured t then Inl (catalog_error ''hosted catalog trust configuration is required'' [])
      else and_then (if TrustSHA256 t \<noteq> [] then verifySHA256 env data (TrustSHA256 t) else Inr ()) (\<lambda>_.
           if HEd25519Signature t \<noteq> [] \<or> HEd25519PublicKey t \<noteq> []
           then verifyEd25519 env data (HEd25519Signature t) (HEd25519PublicKey t) else Inr ()))"

definition validateHostedFreshness :: "Document \<Rightarrow> HostedOptions \<Rightarrow> unit result" where
  "validateHostedFreshness doc options =
     (let currentTime = HNow options in
      if HRequireFreshness options \<and> DocPublishedAt doc = None \<and> DocExpiresAt doc = None then
        Inl (catalog_error ''hosted catalog freshness metadata is required'' [])
      else if (case DocExpiresAt doc of None \<Rightarrow> False | Some t \<Rightarrow> \<not> currentTime < t) then
        Inl (catalog_error ''hosted catalog expired at %s'' [D (the (DocExpiresAt doc))])
      else if 0 < HMaxAge options then
        (case DocPublishedAt doc of
           None \<Rightarrow> Inl (catalog_error ''hosted catalog published_at is required for maximum age validation'' [])
         | Some p \<Rightarrow>
             if HMaxAge options < time_Sub currentTime p then
               Inl (catalog_error ''hosted catalog exceeds maximum age %s'' [D (HMaxAge options)])
             else Inr ())
      else Inr ())"

definition parseHostedCatalog :: "hosted_env \<Rightarrow> bytes \<Rightarrow> HostedOptions \<Rightarrow> Document result" where
  "parseHostedCatalog env data options =
     and_then (VerifyHostedTrust env data (HTrust options)) (\<lambda>_.
     and_then (map_err (\<lambda>e. Errorf ''parse hosted catalog %s: %w'' [S (HURL options), W e])
                 (catalog_Parse (h_json env) data (HProviderIDs options))) (\<lambda>doc.
     and_then (validateHostedFreshness doc options) (\<lambda>_. Inr doc)))"

section \<open>Reading and caching\<close>

definition readHostedCatalogBytes :: "bytes result \<Rightarrow> int \<Rightarrow> bytes result" where
  "readHostedCatalogBytes rd max0 =
     (let maxBytes = (if max0 \<le> 0 then 1048576 else max0) in
      and_then (map_err (\<lambda>e. Errorf ''read hosted catalog: %w'' [W e]) rd) (\<lambda>all.
        let data = read_limited maxBytes all in
        if maxBytes < int (length data) then Inl (catalog_error ''hosted catalog response is too large'' [])
        else Inr data))"

definition fetchHostedCatalog :: "HostedOptions \<Rightarrow> bytes io" where
  "fetchHostedCatalog options =
     (case url_Parse (HURL options) of
        None \<Rightarrow> io_fail (catalog_error ''parse hosted catalog URL: %w'' [W (errors_New ''parse'')])
      | Some u \<Rightarrow>
          if url_Scheme u \<noteq> ''https'' then io_fail (catalog_error ''hosted catalog URL must use https'' [])
          else io_bind (http_do ''GET'' (HURL options)) (\<lambda>reply. case reply of
                 NetError e \<Rightarrow> io_fail (Errorf ''fetch hosted catalog %s: %w'' [S (HURL options), W e])
               | Reply status body \<Rightarrow>
                   if status < 200 \<or> 300 \<le> status then
                     io_fail (Errorf ''GET %s: %s'' [S (HURL options), D status])
                   else io_of (readHostedCatalogBytes body (HMaxBytes options))))"

definition loadHostedCache :: "hosted_env \<Rightarrow> HostedOptions \<Rightarrow> Document io" where
  "loadHostedCache env options =
     io_bind (io_wrap (\<lambda>e. Errorf ''open hosted catalog cache %s: %w'' [S (HCachePath options), W e])
                (os_Open (HCachePath options))) (\<lambda>_.
     io_try (file_ReadAll (HCachePath options)) (\<lambda>rd.
     io_bind (io_of (readHostedCatalogBytes rd (HMaxBytes options))) (\<lambda>data.
       io_of (parseHostedCatalog env data options))))"

definition hosted_cache_error :: "string \<Rightarrow> string \<Rightarrow> go_error \<Rightarrow> go_error" where
  "hosted_cache_error p step e =
     (if step = ''create'' then Errorf ''create hosted catalog cache temp file: %w'' [W e]
      else if step = ''write'' then Errorf ''write hosted catalog cache temp file: %w'' [W e]
      else if step = ''chmod'' then Errorf ''chmod hosted catalog cache temp file: %w'' [W e]
      else if step = ''close'' then Errorf ''close hosted catalog cache temp file: %w'' [W e]
      else Errorf ''replace hosted catalog cache %s: %w'' [S p, W e])"

definition writeHostedCache :: "string \<Rightarrow> bytes \<Rightarrow> unit io" where
  "writeHostedCache p data =
     (let dir = filepath_Dir p in
      io_bind (io_wrap (\<lambda>e. Errorf ''create hosted catalog cache directory %s: %w'' [S dir, W e])
                 (os_MkdirAll dir 493)) (\<lambda>_.
        replace_file_deferred (hosted_cache_error p) dir ''.bootup-catalog-cache-'' data 420 p))"

definition LoadHosted :: "hosted_env \<Rightarrow> HostedOptions \<Rightarrow> Document io" where
  "LoadHosted env options =
     (if \<not> hosted_configured (HTrust options) then
        io_fail (catalog_error ''hosted catalog trust configuration is required'' [])
      else io_try (fetchHostedCatalog options) (\<lambda>r. case r of
        Inl err \<Rightarrow>
          if HCacheFallback options \<and> HCachePath options \<noteq> [] \<and> \<not> errors_is err ErrInvalidCatalog then
            io_wrap (\<lambda>cacheErr. Errorf ''load hosted catalog cache after fetch failure: %w'' [W cacheErr])
              (loadHostedCache env options)
          else io_fail err
      | Inr data \<Rightarrow>
          io_bind (io_of (parseHostedCatalog env data options)) (\<lambda>doc.
          io_bind (if HCachePath options \<noteq> [] then writeHostedCache (HCachePath options) data else io_return ())
            (\<lambda>_. io_return doc))))"

section \<open>What a hosted catalog satisfies\<close>

definition hosted_authentic :: "hosted_env \<Rightarrow> HostedTrust \<Rightarrow> bytes \<Rightarrow> bool" where
  "hosted_authentic env t data \<longleftrightarrow>
     hosted_configured t \<and>
     (TrustSHA256 t \<noteq> [] \<longrightarrow> ToLower (TrustSHA256 t) = hex_EncodeToString (h_sha256 env data)) \<and>
     (HEd25519Signature t \<noteq> [] \<or> HEd25519PublicKey t \<noteq> [] \<longrightarrow>
        length (HEd25519Signature t) = 64 \<and> length (HEd25519PublicKey t) = 32 \<and>
        h_ed25519 env (HEd25519PublicKey t) data (HEd25519Signature t))"

lemma VerifyHostedTrust_sound:
  "VerifyHostedTrust env data t = Inr () \<Longrightarrow> hosted_authentic env t data"
  by (auto simp: VerifyHostedTrust_def hosted_authentic_def verifySHA256_def verifyEd25519_def
      split: option.splits if_splits dest: hex_Decode_ToLower)

lemma parseHostedCatalog_Inr:
  "parseHostedCatalog env data options = Inr d \<Longrightarrow>
     hosted_authentic env (HTrust options) data \<and> wf_document (HProviderIDs options) d \<and>
     h_json env data = Inr (d, True) \<and> validateHostedFreshness d options = Inr ()"
  by (auto simp: parseHostedCatalog_def catalog_Parse_def wf_document_def check_entries_iff
      dest: VerifyHostedTrust_sound)

abbreviation catalog_temp :: string where
  "catalog_temp \<equiv> ''.bootup-catalog-cache-''"

lemma fs_pure_loadHostedCache [fs_pure_intros]: "fs_pure (loadHostedCache env options)"
  unfolding loadHostedCache_def by (intro fs_pure_intros)

lemma fs_pure_fetchHostedCatalog [fs_pure_intros]: "fs_pure (fetchHostedCatalog options)"
  unfolding fetchHostedCatalog_def by (auto intro!: fs_pure_intros split: http_reply.splits)

lemma loadHostedCache_Inr:
  "loadHostedCache env options w = (Inr x, w') \<Longrightarrow> \<exists>d. parseHostedCatalog env d options = Inr x"
  by (auto simp: loadHostedCache_def io_try_iff)

text \<open>The three ways a load can go: the source or the cache decided it without a write, or the data was
  accepted and then written.\<close>

lemma LoadHosted_cases:
  assumes "LoadHosted env options w = (r, w')"
  obtains "Fs w' = Fs w" "\<forall>x. r = Inr x \<longrightarrow> (\<exists>d. parseHostedCatalog env d options = Inr x)"
  | data d w1 r2 where "Fs w1 = Fs w" "parseHostedCatalog env data options = Inr d" "HCachePath options \<noteq> []"
      "writeHostedCache (HCachePath options) data w1 = (r2, w')" "\<forall>x. r = Inr x \<longrightarrow> x = d"
proof (cases "hosted_configured (HTrust options)")
  case False
  with assms show ?thesis by (intro that(1)) (auto simp: LoadHosted_def)
next
  case True
  obtain r1 w1 where rd: "fetchHostedCatalog options w = (r1, w1)" by (cases "fetchHostedCatalog options w")
  note pure = fs_pureD [OF fs_pure_fetchHostedCatalog rd]
  show ?thesis
  proof (cases r1)
    case (Inl err)
    show ?thesis
    proof (cases "HCacheFallback options \<and> HCachePath options \<noteq> [] \<and> \<not> errors_is err ErrInvalidCatalog")
      case fall: True
      obtain r2 w2 where ca: "loadHostedCache env options w1 = (r2, w2)" by (cases "loadHostedCache env options w1")
      with assms True rd Inl fall have "w' = w2" "\<forall>x. r = Inr x \<longrightarrow> r2 = Inr x"
        by (auto simp: LoadHosted_def io_try_def io_wrap_def)
      with ca fs_pureD [OF fs_pure_loadHostedCache ca] pure show ?thesis
        by (intro that(1)) (auto dest: loadHostedCache_Inr)
    next
      case False
      with assms True rd Inl have "w' = w1" "r = Inl err" by (auto simp: LoadHosted_def io_try_def)
      with pure show ?thesis by (intro that(1)) auto
    qed
  next
    case (Inr data)
    show ?thesis
    proof (cases "parseHostedCatalog env data options")
      case (Inl e)
      with assms True rd Inr have "w' = w1" "r = Inl e"
        by (auto simp: LoadHosted_def io_try_def io_bind_def)
      with pure show ?thesis by (intro that(1)) auto
    next
      case d: (Inr d)
      show ?thesis
      proof (cases "HCachePath options = []")
        case nil: True
        with assms True rd Inr d have "w' = w1" "r = Inr d"
          by (auto simp: LoadHosted_def io_try_def io_bind_def)
        with pure d show ?thesis by (intro that(1)) auto
      next
        case ne: False
        obtain r2 w2 where wr: "writeHostedCache (HCachePath options) data w1 = (r2, w2)"
          by (cases "writeHostedCache (HCachePath options) data w1")
        with assms True rd Inr d ne have "w' = w2" "\<forall>x. r = Inr x \<longrightarrow> x = d"
          by (auto simp: LoadHosted_def io_try_def io_bind_def split: sum.splits)
        with pure d ne wr show ?thesis by (intro that(2)) auto
      qed
    qed
  qed
qed

interpretation hosted: cached_loader "LoadHosted env" "\<lambda>o'. path_Clean (HCachePath o')"
  "\<lambda>o' d. parseHostedCatalog env d o'" "\<lambda>o'. hosted_authentic env (HTrust o')"
  "\<lambda>o'. last_elem_free catalog_temp (HCachePath o')" for env
proof
  show "\<exists>d. parseHostedCatalog env d opt = Inr x" if run: "LoadHosted env opt w = (Inr x, w')" for opt w x w'
    using run by (cases rule: LoadHosted_cases) auto
  show "Fs w' (path_Clean (HCachePath opt)) = Fs w (path_Clean (HCachePath opt)) \<or>
     Fs w (path_Clean (HCachePath opt)) = None \<and> (\<forall>d m. Fs w' (path_Clean (HCachePath opt)) \<noteq> Some (File d m)) \<or>
     (\<exists>d m x. Fs w' (path_Clean (HCachePath opt)) = Some (File d m) \<and> parseHostedCatalog env d opt = Inr x)"
    if run: "LoadHosted env opt w = (r, w')" and name: "last_elem_free catalog_temp (HCachePath opt)" for opt w r w'
    using run
  proof (cases rule: LoadHosted_cases)
    case (2 data d w1 r2)
    from 2(4) [unfolded writeHostedCache_def Let_def] cache_write_outcome [of _ "HCachePath opt"] name 2(3)
    have "Fs w' (path_Clean (HCachePath opt)) = Fs w1 (path_Clean (HCachePath opt)) \<or>
     Fs w1 (path_Clean (HCachePath opt)) = None \<and> (\<forall>d m. Fs w' (path_Clean (HCachePath opt)) \<noteq> Some (File d m)) \<or>
     Fs w' (path_Clean (HCachePath opt)) = Some (File data 420)"
      by fastforce
    with 2(1,2) show ?thesis by auto
  qed auto
qed (simp add: parseHostedCatalog_Inr)

section \<open>Properties\<close>

text \<open>C38: A hosted catalog that is loaded, from the network or the cache, comes from bytes that satisfy every
  configured trust check, and all its targets are well-formed, distinct and of known providers.\<close>

theorem LoadHosted_authentic:
  assumes "LoadHosted env options w = (Inr d, w')"
  shows "wf_document (HProviderIDs options) d \<and>
         (\<exists>data. hosted_authentic env (HTrust options) data \<and> h_json env data = Inr (d, True))"
  using hosted.load_Inr [OF assms] parseHostedCatalog_Inr by blast

definition sample_document :: Document where
  "sample_document = \<lparr>DocSchemaVersion = 1, DocPublishedAt = None, DocExpiresAt = None, Entries = Entries sample_generated\<rparr>"

definition sample_hosted_env :: hosted_env where
  "sample_hosted_env = \<lparr>h_sha256 = (\<lambda>d. d), h_ed25519 = (\<lambda>_ _ _. False), h_json = (\<lambda>_. Inr (sample_document, True))\<rparr>"

definition sample_hosted_run :: "Document result \<times> world" where
  "sample_hosted_run = LoadHosted sample_hosted_env \<lparr>HURL = ''https://c.example/c'', HTrust = \<lparr>TrustSHA256 = concat (replicate 32 ''44''), HEd25519Signature = [],
     HEd25519PublicKey = []\<rparr>, HProviderIDs = [''local''], HMaxBytes = 64, HNow = 0, HMaxAge = 0, HRequireFreshness = False, HCachePath = [], HCacheFallback = False\<rparr>
     (quiet_world (\<lambda>_ _ _. Reply 200 (Inr (replicate 32 (CHR ''D'')))))"

theorem LoadHosted_authentic_witness:
  "\<exists>d w'. sample_hosted_run = (Inr d, w') \<and> wf_document [''local''] d"
proof -
  have "\<not> isl (fst sample_hosted_run)" by code_simp
  then obtain d w' where run: "sample_hosted_run = (Inr d, w')" by (rule run_ok)
  from LoadHosted_authentic [OF run [unfolded sample_hosted_run_def]] have "wf_document [''local''] d" by simp
  with run show ?thesis by blast
qed

text \<open>The hosted-catalog cache cannot be poisoned, in the same sense as the policy cache.\<close>

theorem hosted_cache_integrity:
  assumes "\<forall>opt \<in> set opts. HCachePath opt = p \<and> HTrust opt = t"
    and "last_elem_free ''.bootup-catalog-cache-'' p"
    and "cache_ok (hosted_authentic env t) (path_Clean p) w"
  shows "cache_ok (hosted_authentic env t) (path_Clean p) (run_loads (LoadHosted env) opts w)"
  using assms by (intro hosted.run_loads_cache_ok) auto

end
