(* ===== verification/Conformance.thy ===== *)
theory Conformance
  imports Hosted
begin

text \<open>
  The catalog conformance report (\<^verbatim>\<open>internal/catalog/conformance.go\<close>): a dry-run plan of every target and
  a classification of how its artifacts would be trusted.
\<close>

datatype PlanStatus = PlanStatusOK | PlanStatusError

datatype ArtifactTrust =
    ArtifactTrustUnknown | ArtifactTrustHashPinned | ArtifactTrustSignedMetadata
  | ArtifactTrustReleaseMetadata | ArtifactTrustHTTPSOnly | ArtifactTrustPartialHashes
  | ArtifactTrustNotApplicable | ArtifactTrustUnverified

datatype SmokeCoverage =
    SmokeCoverageMetadataOnly | SmokeCoverageLiveStage | SmokeCoverageCatalogQEMU
  | SmokeCoverageDebianQEMU | SmokeCoverageUbuntuQEMU | SmokeCoverageMFSBSDKbootQEMU

record ConformanceEntry =
  CETarget :: Target
  CEAction :: BootAction
  CEPlanStatus :: PlanStatus
  CEPlanError :: "go_error option"
  CEArtifactTrust :: ArtifactTrust
  CESmokeCoverage :: "SmokeCoverage list"

section \<open>Classification\<close>

definition nonEmptyArtifacts :: "Artifact list \<Rightarrow> Artifact list" where
  "nonEmptyArtifacts artifacts = filter (\<lambda>a. URL a \<noteq> []) artifacts"

definition downloadableArtifacts :: "BootPlan \<Rightarrow> Artifact list" where
  "downloadableArtifacts plan =
     (if ResolvedAction plan = BootActionFreeBSDKboot
      then nonEmptyArtifacts [Payload (FreeBSDKboot plan), LoaderArchive (FreeBSDKboot plan)]
      else nonEmptyArtifacts [Kernel plan, Initrd plan])"

definition artifactsUseHTTPS :: "Artifact list \<Rightarrow> bool" where
  "artifactsUseHTTPS artifacts = list_all (\<lambda>a. https_scheme (URL a)) artifacts"

definition ClassifyArtifactTrust :: "BootPlan \<Rightarrow> ArtifactTrust" where
  "ClassifyArtifactTrust plan =
     (let artifacts = downloadableArtifacts plan in
      if artifacts = [] then ArtifactTrustNotApplicable
      else let hasPinned = length (filter (\<lambda>a. SHA256 a \<noteq> []) artifacts) in
      if hasPinned = length artifacts then ArtifactTrustHashPinned
      else if hasPinned \<noteq> 0 then ArtifactTrustPartialHashes
      else if SignatureURL (BVerification plan) \<noteq> [] then ArtifactTrustSignedMetadata
      else if MetadataURL (BVerification plan) \<noteq> [] \<and> ChecksumURL (BVerification plan) \<noteq> []
      then ArtifactTrustReleaseMetadata
      else if artifactsUseHTTPS artifacts then ArtifactTrustHTTPSOnly
      else ArtifactTrustUnverified)"

definition genericLinuxCatalogSmokeSupported :: "Target \<Rightarrow> bool" where
  "genericLinuxCatalogSmokeSupported t \<longleftrightarrow>
     ResolveBootAction (Action t) = BootActionLinuxKexec \<and> ProviderID t = ''linux'' \<and>
     BaseURL (Source t) \<noteq> [] \<and> KernelPath (Source t) \<noteq> []"

definition SmokeCoverageForTarget :: "Target \<Rightarrow> SmokeCoverage list" where
  "SmokeCoverageForTarget t =
     (let coverage =
        (if genericLinuxCatalogSmokeSupported t then [SmokeCoverageLiveStage, SmokeCoverageCatalogQEMU] else []) @
        (if ProviderID t = ''debian'' \<and> TID t = ''debian-trixie-amd64-netboot'' then [SmokeCoverageDebianQEMU]
         else if ProviderID t = ''ubuntu'' \<and> TID t = ''ubuntu-2604-amd64-netboot'' then [SmokeCoverageUbuntuQEMU]
         else if ProviderID t = ''mfsbsd'' \<and> TID t = ''mfsbsd-142-amd64'' \<and>
                 ResolveBootAction (Action t) = BootActionFreeBSDKboot then [SmokeCoverageMFSBSDKbootQEMU]
         else [])
      in if coverage = [] then [SmokeCoverageMetadataOnly] else coverage)"

definition LiveCatalogSmokeSupported :: "Target \<Rightarrow> bool" where
  "LiveCatalogSmokeSupported t \<longleftrightarrow> SmokeCoverageLiveStage \<in> set (SmokeCoverageForTarget t)"

section \<open>The report\<close>

definition dry_run_input :: "Target \<Rightarrow> PlanInput" where
  "dry_run_input t = \<lparr>PTarget = t, POptions = [], PSecrets = None, PSecretRefs = [], Offline = True\<rparr>"

definition conformance_entry :: "Registry \<Rightarrow> Target \<Rightarrow> ConformanceEntry io" where
  "conformance_entry r t =
     (let entry = \<lparr>CETarget = t, CEAction = ResolveBootAction (Action t), CEPlanStatus = PlanStatusOK,
                   CEPlanError = None, CEArtifactTrust = ArtifactTrustUnknown,
                   CESmokeCoverage = SmokeCoverageForTarget t\<rparr> in
      io_try (Registry_Plan r (dry_run_input t)) (\<lambda>res. io_return (case res of
        Inl e \<Rightarrow> entry\<lparr>CEPlanStatus := PlanStatusError, CEPlanError := Some e\<rparr>
      | Inr plan \<Rightarrow> entry\<lparr>CEAction := ResolvedAction plan, CEArtifactTrust := ClassifyArtifactTrust plan\<rparr>)))"

text \<open>A nil registry is \<open>None\<close>.\<close>

definition BuildConformanceReport :: "Registry option \<Rightarrow> ConformanceEntry list io" where
  "BuildConformanceReport registry =
     (case registry of
        None \<Rightarrow> io_fail (errors_New ''registry is required'')
      | Some r \<Rightarrow> io_bind (Registry_Targets r) (\<lambda>targets. io_map (conformance_entry r) targets))"

definition PlanErrorCount :: "ConformanceEntry list \<Rightarrow> nat" where
  "PlanErrorCount entries = length (filter (\<lambda>e. CEPlanStatus e = PlanStatusError) entries)"

section \<open>Properties\<close>

lemma length_filter_eq: "length (filter P xs) = length xs \<longleftrightarrow> (\<forall>x \<in> set xs. P x)"
proof (induction xs)
  case (Cons a xs)
  have "length (filter P xs) < Suc (length xs)" by (simp add: less_Suc_eq_le)
  with Cons show ?case by auto
qed simp


lemma conformance_entry_total: "\<exists>e w'. conformance_entry r t w = (Inr e, w') \<and> CETarget e = t"
  by (auto simp: conformance_entry_def Let_def io_try_def split: prod.splits sum.splits)

lemma io_map_conformance:
  "\<exists>es w'. io_map (conformance_entry r) ts w = (Inr es, w') \<and> map CETarget es = ts"
proof (induction ts arbitrary: w)
  case (Cons t ts)
  obtain e w1 where "conformance_entry r t w = (Inr e, w1)" "CETarget e = t"
    using conformance_entry_total by blast
  moreover obtain es w2 where "io_map (conformance_entry r) ts w1 = (Inr es, w2)" "map CETarget es = ts"
    using Cons by blast
  ultimately show ?case by (auto simp: io_bind_def)
qed simp

text \<open>The report is complete: whenever the targets can be listed it has one entry per target, in the
  listed order, however many of them fail to plan.\<close>

theorem BuildConformanceReport_complete:
  assumes "Registry_Targets r w = (Inr ts, w1)"
  shows "\<exists>entries w2. BuildConformanceReport (Some r) w = (Inr entries, w2) \<and> map CETarget entries = ts"
proof -
  obtain es w2 where "io_map (conformance_entry r) ts w1 = (Inr es, w2)" "map CETarget es = ts"
    using io_map_conformance by blast
  with assms show ?thesis by (auto simp: BuildConformanceReport_def io_bind_def)
qed

end
