(* ===== verification/Staging.thy ===== *)
theory Staging
  imports Registry Verify ProviderHTTP
begin

text \<open>
  The steps the installer providers share.  The Debian, Ubuntu and Fedora packages carry the same three
  functions \<open>reportProgress\<close>, \<open>fetch\<close> and \<open>fetchWithProgress\<close>, and find hyperlinks in index pages with
  the same regular expression; they are modelled once here.

  The locale \<open>stager\<close> is the contract between a provider's \<open>Stage\<close> and the code that hands the plan
  over: the staged plan differs from the requested one only in where its artifacts are, and the kernel
  it names is on disk and acceptable.
\<close>

section \<open>Progress and fetching\<close>

definition reportProgress ::
  "StageProgressFunc option \<Rightarrow> StageOperation \<Rightarrow> StageState \<Rightarrow> string \<Rightarrow> unit io" where
  "reportProgress progress operation state artifact =
     ReportStageProgress progress \<lparr>Operation = operation, PState = state, PArtifact = artifact\<rparr>"

text \<open>Unlike \<open>providerhttp.Fetch\<close> this one looks at the status before it reads the body.\<close>

definition http_fetch :: "string \<Rightarrow> bytes io" where
  "http_fetch rawURL =
     io_bind (send ''GET'' rawURL) (\<lambda>(status, body).
       if status \<noteq> 200 then io_fail (Errorf ''GET %s: %s'' [S rawURL, D status])
       else io_of (map_err (\<lambda>e. Errorf ''read response: %w'' [W e]) body))"

definition fetchWithProgress :: "string \<Rightarrow> string \<Rightarrow> StageProgressFunc option \<Rightarrow> bytes io" where
  "fetchWithProgress rawURL artifact progress =
     io_bind (reportProgress progress StageOperationFetch StageStateStarted artifact) (\<lambda>_.
     io_bind (http_fetch rawURL) (\<lambda>data.
     io_bind (reportProgress progress StageOperationFetch StageStateCompleted artifact) (\<lambda>_.
     io_return data)))"

text \<open>Verify between two progress events; write between two progress events.\<close>

definition verifyWithProgress :: "unit result \<Rightarrow> string \<Rightarrow> StageProgressFunc option \<Rightarrow> unit io" where
  "verifyWithProgress check artifact progress =
     io_bind (reportProgress progress StageOperationVerify StageStateStarted artifact) (\<lambda>_.
     io_bind (io_of check) (\<lambda>_.
     reportProgress progress StageOperationVerify StageStateCompleted artifact))"

definition writeWithProgress :: "string \<Rightarrow> string \<Rightarrow> bytes \<Rightarrow> StageProgressFunc option \<Rightarrow> string io" where
  "writeWithProgress dir name data progress =
     io_bind (reportProgress progress StageOperationWrite StageStateStarted name) (\<lambda>_.
     let p = filepath_Join [dir, name] in
     io_bind (io_wrap (\<lambda>e. Errorf ''stage %s: %w'' [S name, W e]) (os_WriteFile p data 420)) (\<lambda>_.
     io_bind (reportProgress progress StageOperationWrite StageStateCompleted name) (\<lambda>_.
     io_return p)))"

section \<open>Hyperlinks\<close>

text \<open>
  The regular expression \<open>(?i)href\s*=\s*["']?([^"'\s>]+)\<close>.  Its parts cannot match in two ways, so
  matching is a scan: the letters, blanks, the sign, blanks, an optional quote, and then the longest run
  of bytes of the class, which must not be empty.  Matches do not overlap.
\<close>

definition re_space :: "char \<Rightarrow> bool" where
  "re_space c \<longleftrightarrow> c \<in> {CHR 0x09, CHR 0x0A, CHR 0x0C, CHR 0x0D, CHR 0x20}"

definition is_quote :: "char \<Rightarrow> bool" where
  "is_quote c \<longleftrightarrow> c = CHR 0x22 \<or> c = CHR 0x27"

definition href_class :: "char \<Rightarrow> bool" where
  "href_class c \<longleftrightarrow> \<not> is_quote c \<and> \<not> re_space c \<and> c \<noteq> CHR ''>''"

definition href_at :: "string \<Rightarrow> (string \<times> string) option" where
  "href_at s =
     (if map lower_char (take 4 s) \<noteq> ''href'' then None
      else case dropWhile re_space (drop 4 s) of
        [] \<Rightarrow> None
      | c # t \<Rightarrow>
          if c \<noteq> CHR ''='' then None
          else let u = dropWhile re_space t;
                   v = (case u of q # u' \<Rightarrow> if is_quote q then u' else u | [] \<Rightarrow> u);
                   m = takeWhile href_class v
               in if m = [] then None else Some (m, drop (length m) v))"

lemma length_dropWhile_le': "length (dropWhile P xs) \<le> length xs"
  by (induction xs) auto

lemma href_at_shorter:
  assumes "href_at s = Some (m, r)"
  shows "length r < length s"
proof -
  obtain c t where t: "dropWhile re_space (drop 4 s) = c # t" and s: "4 \<le> length s"
    and rest: "Some (m, r) = (let u = dropWhile re_space t;
                   v = (case u of q # u' \<Rightarrow> if is_quote q then u' else u | [] \<Rightarrow> u);
                   m = takeWhile href_class v
               in if m = [] then None else Some (m, drop (length m) v))"
  proof (cases "dropWhile re_space (drop 4 s)")
    case Nil
    have "href_at s = None" unfolding href_at_def Nil by simp
    with assms show ?thesis by simp
  next
    case (Cons c t)
    have "length (map lower_char (take 4 s)) = length ''href''"
      using assms by (metis href_at_def option.distinct(1))
    then have "4 \<le> length s" by simp
    with that Cons assms show ?thesis by (auto simp: href_at_def split: if_splits)
  qed
  have "length (c # t) \<le> length (drop 4 s)" using t length_dropWhile_le' by metis
  moreover define u where "u = dropWhile re_space t"
  moreover have "length u \<le> length t" unfolding u_def by (rule length_dropWhile_le')
  moreover define v where "v = (case u of q # u' \<Rightarrow> if is_quote q then u' else u | [] \<Rightarrow> u)"
  moreover have "length v \<le> length u" unfolding v_def by (cases u) auto
  moreover have "r = drop (length m) v"
    using rest [folded u_def, unfolded Let_def, folded v_def] by (auto split: if_splits)
  ultimately show ?thesis using s by auto
qed

function href_matches :: "string \<Rightarrow> string list" where
  "href_matches s =
     (case s of
        [] \<Rightarrow> []
      | _ # t \<Rightarrow> (case href_at s of None \<Rightarrow> href_matches t | Some (m, r) \<Rightarrow> m # href_matches r))"
  by pat_completeness auto
termination
  by (relation "measure length") (auto dest: href_at_shorter)

declare href_matches.simps [simp del]

section \<open>Strings that start and end with a visible character\<close>

definition visible :: "char \<Rightarrow> bool" where
  "visible c \<longleftrightarrow> (0x21::nat) \<le> of_char c \<and> of_char c \<le> (0x7E::nat)"

lemma rune_not_visible: "r \<in> set space_runes \<Longrightarrow> r \<noteq> [] \<and> \<not> visible (hd r) \<and> \<not> visible (last r)"
  unfolding space_runes_def by (auto simp: visible_def)

lemma trimmed_visible:
  assumes "s \<noteq> []" and "visible (hd s)" and "visible (last s)"
  shows "trimmed s"
  unfolding trimmed_def
proof (intro ballI conjI notI)
  fix r assume r: "r \<in> set space_runes"
  note nv = rune_not_visible [OF r]
  { assume "prefix r s"
    then have "hd s = hd r" using nv by (auto simp: prefix_def)
    with assms nv show False by simp }
  { assume "suffix r s"
    then have "last s = last r" using nv by (auto simp: suffix_def)
    with assms nv show False by simp }
qed

lemma TrimSpace_visible: "s \<noteq> [] \<Longrightarrow> visible (hd s) \<Longrightarrow> visible (last s) \<Longrightarrow> TrimSpace s = s"
  by (simp add: TrimSpace_trimmed trimmed_visible)

section \<open>Callbacks that do not write files\<close>

definition quiet :: "StageProgressFunc option \<Rightarrow> bool" where
  "quiet progress \<longleftrightarrow> (\<forall>f. progress = Some f \<longrightarrow> (\<forall>ev. fs_pure (f ev)))"

lemma fs_pure_reportProgress [fs_pure_intros]:
  "quiet progress \<Longrightarrow> fs_pure (reportProgress progress a b c)"
  unfolding reportProgress_def ReportStageProgress_def quiet_def
  by (auto intro!: fs_pure_intros split: option.splits)

lemma fs_pure_http_fetch [fs_pure_intros]: "fs_pure (http_fetch u)"
  unfolding http_fetch_def by (auto intro!: fs_pure_intros)

lemma fs_pure_fetchWithProgress [fs_pure_intros]: "quiet progress \<Longrightarrow> fs_pure (fetchWithProgress u a progress)"
  unfolding fetchWithProgress_def by (intro fs_pure_intros)

lemma fs_pure_verifyWithProgress [fs_pure_intros]: "quiet progress \<Longrightarrow> fs_pure (verifyWithProgress r a progress)"
  unfolding verifyWithProgress_def by (intro fs_pure_intros)

lemma verifyWithProgress_Inr:
  "verifyWithProgress check a progress w = (Inr (), w') \<Longrightarrow> check = Inr ()"
  by (auto simp: verifyWithProgress_def)

lemma writeWithProgress_Inr:
  assumes "writeWithProgress dir name data progress w = (Inr p, w')" and "quiet progress"
  shows "p = filepath_Join [dir, name] \<and> (\<exists>m. Fs w' = (Fs w)(path_Clean p \<mapsto> File data m))"
proof -
  from assms(1) obtain w1 w2 where r1: "reportProgress progress StageOperationWrite StageStateStarted name w = (Inr (), w1)"
    and wr: "os_WriteFile p data 420 w1 = (Inr (), w2)"
    and r2: "reportProgress progress StageOperationWrite StageStateCompleted name w2 = (Inr (), w')"
    and p: "p = filepath_Join [dir, name]"
    by (auto simp: writeWithProgress_def Let_def)
  have "Fs w1 = Fs w" "Fs w' = Fs w2"
    using fs_pureD [OF fs_pure_reportProgress [OF assms(2)]] r1 r2 by blast+
  with os_WriteFile_Inr [OF wr] p show ?thesis by auto
qed

text \<open>Failed or not, it touches only its own file.\<close>

lemma touches_writeWithProgress [touches_intros]:
  "quiet progress \<Longrightarrow> touches_only (path_Clean (filepath_Join [dir, name])) (writeWithProgress dir name data progress)"
  unfolding writeWithProgress_def Let_def
  by (intro touches_intros touches_fs_pure [OF fs_pure_reportProgress])

section \<open>The contract of staging\<close>

text \<open>The two plans agree on everything but where the artifacts were put.\<close>

definition same_artifact :: "Artifact \<Rightarrow> Artifact \<Rightarrow> bool" where
  "same_artifact a b \<longleftrightarrow> AName a = AName b \<and> URL a = URL b \<and> SHA256 a = SHA256 b"

lemma same_artifact_path [simp]: "same_artifact (a\<lparr>Path := p\<rparr>) a" "same_artifact a a"
  by (simp_all add: same_artifact_def)

definition same_boot :: "BootPlan \<Rightarrow> BootPlan \<Rightarrow> bool" where
  "same_boot p q \<longleftrightarrow>
     BTarget p = BTarget q \<and> BAction p = BAction q \<and> BCmdline p = BCmdline q \<and>
     BVerification p = BVerification q \<and> BSecretRefs p = BSecretRefs q \<and>
     same_artifact (Kernel p) (Kernel q) \<and> same_artifact (Initrd p) (Initrd q) \<and>
     same_artifact (Payload (FreeBSDKboot p)) (Payload (FreeBSDKboot q)) \<and>
     same_artifact (LoaderArchive (FreeBSDKboot p)) (LoaderArchive (FreeBSDKboot q))"

lemma same_boot_paths [simp]:
  "same_boot (p\<lparr>Kernel := (Kernel p)\<lparr>Path := a\<rparr>\<rparr>) p"
  "same_boot (p\<lparr>Kernel := (Kernel p)\<lparr>Path := a\<rparr>, Initrd := (Initrd p)\<lparr>Path := b\<rparr>\<rparr>) p"
  "same_boot p p"
  by (simp_all add: same_boot_def)

definition file_at :: "world \<Rightarrow> string \<Rightarrow> bytes \<Rightarrow> bool" where
  "file_at w p d \<longleftrightarrow> (\<exists>m. Fs w (path_Clean p) = Some (File d m))"

locale stager =
  fixes stage :: "StageConfig \<Rightarrow> BootPlan io"
    and accepts :: "StageConfig \<Rightarrow> bytes \<Rightarrow> bytes \<Rightarrow> bool"
    and ready :: "StageConfig \<Rightarrow> bool"
  assumes stage_same: "stage cfg w = (Inr p, w') \<Longrightarrow> same_boot p (CPlan cfg)"
    and stage_files: "stage cfg w = (Inr p, w') \<Longrightarrow> quiet (Progress cfg) \<Longrightarrow> ready cfg \<Longrightarrow>
          \<exists>k i. accepts cfg k i \<and> file_at w' (Path (Kernel p)) k \<and>
                (Path (Initrd p) \<noteq> [] \<longrightarrow> URL (Initrd p) \<noteq> [] \<longrightarrow> file_at w' (Path (Initrd p)) i)"
begin

text \<open>
  Staging through the registry hands out a plan for the very target that was requested, with the
  requested command line, and a kernel file with accepted content.
\<close>

lemma registry_stage:
  assumes "map_of r (ProviderID (BTarget (CPlan cfg))) = Some prov" and "ProvStager prov = Some stage"
    and "Registry_Stage r cfg w = (Inr p, w')" and "quiet (Progress cfg)"
    and "\<And>refs. ready (cfg\<lparr>CSecretRefs := refs\<rparr>)"
  shows "same_boot p (CPlan cfg) \<and> (\<exists>refs k i. accepts (cfg\<lparr>CSecretRefs := refs\<rparr>) k i \<and> file_at w' (Path (Kernel p)) k)"
proof -
  from assms(1-3) obtain refs where run: "stage (cfg\<lparr>CSecretRefs := refs\<rparr>) w = (Inr p, w')"
    by (auto simp: Registry_Stage_def Let_def)
  from stage_same [OF run] stage_files [OF run] assms(4,5) show ?thesis by auto
qed

end

end
