(* ===== verification/UiText.thy ===== *)
theory UiText
  imports ProviderTypes
begin

text \<open>
  The serial console interface (\<^verbatim>\<open>internal/ui/text.go\<close>): the combined menu of targets and discovery families,
  its rendering line by line, and the selection of an entry by number or ID.

  \<open>fmt.Fprint\<close> to the operator's terminal is a call that may fail; what was written is appended to the
  console of the world.  Slicing beyond the end of a string panics; \<open>truncate\<close> returns that as an error.
\<close>

section \<open>Writing\<close>

definition fmt_Fprint :: "string \<Rightarrow> unit io" where
  "fmt_Fprint s = os_call refused (\<lambda>w. (Inr (), w\<lparr>Console := Console w @ [s]\<rparr>))"

definition fmt_Fprintln :: "string \<Rightarrow> unit io" where
  "fmt_Fprintln s = fmt_Fprint (s @ [CHR 0x0A])"

section \<open>Menu entries\<close>

definition defaultWidth :: int where "defaultWidth = 80"

datatype BootOptionKind = BootOptionTarget | BootOptionDiscoveryFamily

text \<open>An entry carries the field its kind selects; the other has its zero value and is never read.\<close>

datatype BootOption = TargetOptionEntry Target | FamilyOptionEntry DiscoveryFamily

definition BKind :: "BootOption \<Rightarrow> BootOptionKind" where
  "BKind o' = (case o' of TargetOptionEntry _ \<Rightarrow> BootOptionTarget | FamilyOptionEntry _ \<Rightarrow> BootOptionDiscoveryFamily)"

definition BootOptions :: "Target list \<Rightarrow> DiscoveryFamily list \<Rightarrow> BootOption list" where
  "BootOptions targets families = map TargetOptionEntry targets @ map FamilyOptionEntry families"

section \<open>Labels\<close>

definition panic_slice :: go_error where
  "panic_slice = errors_New ''panic: slice bounds out of range''"

text \<open>\<open>s[:n]\<close>\<close>

definition slice_to :: "string \<Rightarrow> int \<Rightarrow> string result" where
  "slice_to s n = (if 0 \<le> n \<and> n \<le> int (length s) then Inr (take (nat n) s) else Inl panic_slice)"

definition truncate_to :: "string \<Rightarrow> int \<Rightarrow> string result" where
  "truncate_to s width =
     (if int (length s) \<le> width then Inr s
      else if width \<le> 1 then slice_to s width
      else and_then (slice_to s (width - 1)) (\<lambda>t. Inr (TrimRight t (CHR '' '') @ ''>'')))"

definition optionID :: "BootOption \<Rightarrow> string" where
  "optionID o' = (case o' of TargetOptionEntry t \<Rightarrow> TID t | FamilyOptionEntry f \<Rightarrow> FamID f)"

definition optionName :: "BootOption \<Rightarrow> string" where
  "optionName o' = (case o' of TargetOptionEntry t \<Rightarrow> Name t | FamilyOptionEntry f \<Rightarrow> FamName f)"

definition catalogLabel :: "Target \<Rightarrow> string" where
  "catalogLabel t =
     (let c = Catalog t;
          parts = filter (\<lambda>s. s \<noteq> []) [Distribution c, Release c, Architecture c, Kind c]
      in if parts = [] then Architecture c else Join parts ''/'')"

definition optionLabel :: "BootOption \<Rightarrow> string" where
  "optionLabel o' = (case o' of
       TargetOptionEntry t \<Rightarrow> catalogLabel t
     | FamilyOptionEntry f \<Rightarrow> if FamProviderID f \<noteq> [] then ''discovery/'' @ FamProviderID f else ''discovery'')"

definition targetLifecycleDetail :: "LifecycleEntry \<Rightarrow> string" where
  "targetLifecycleDetail l =
     (if l = empty_LifecycleEntry then []
      else Join ([Status l] @ filter (\<lambda>s. s \<noteq> []) [Date l, LSource l]) '' '')"

definition lifecycleLabel :: "LifecycleEntry \<Rightarrow> string" where
  "lifecycleLabel l =
     (if l = empty_LifecycleEntry then []
      else ''('' @ Join ([Status l] @ filter (\<lambda>s. s \<noteq> []) [Date l, LSource l]) '' '' @ '')'')"

definition optionValuesLabel :: "TargetOptionValue list \<Rightarrow> string" where
  "optionValuesLabel vs =
     Join (map (\<lambda>v. if VFragment v \<noteq> [] then Value v @ '':'' @ VFragment v else Value v) vs) '',''"

section \<open>Rendering\<close>

record TextMenu =
  Width :: int

definition tm_width :: "TextMenu \<Rightarrow> int" where
  "tm_width m = (if Width m \<le> 0 then defaultWidth else Width m)"

definition writeLine :: "TextMenu \<Rightarrow> string \<Rightarrow> unit io" where
  "writeLine m line = io_bind (io_of (truncate_to line (tm_width m))) fmt_Fprintln"

definition renderTargetOption :: "TextMenu \<Rightarrow> nat \<Rightarrow> Target \<Rightarrow> unit io" where
  "renderTargetOption m index t =
     (let decoration = lifecycleLabel (Lifecycle t);
          name = (if decoration \<noteq> [] then Name t @ ''  '' @ decoration else Name t);
          c = Catalog t in
      io_bind (io_wrap (\<lambda>e. Errorf ''write boot option %s: %w'' [S (TID t), W e])
        (writeLine m (itoa index @ ''  '' @ catalogLabel t @ ''  '' @ TID t @ ''  '' @ name))) (\<lambda>_.
      io_wrap (\<lambda>e. Errorf ''write boot option metadata %s: %w'' [S (TID t), W e])
        (writeLine m (''   distribution='' @ Distribution c @ '' release='' @ Release c @ '' architecture='' @ Architecture c @
           '' kind='' @ Kind c @ '' provider='' @ ProviderID t @ '' action='' @ ResolveBootAction (Action t)))))"

fun render_options :: "TextMenu \<Rightarrow> nat \<Rightarrow> BootOption list \<Rightarrow> unit io" where
  "render_options m index [] = io_return ()"
| "render_options m index (o' # os) =
     io_bind (case o' of
         TargetOptionEntry t \<Rightarrow> renderTargetOption m (index + 1) t
       | FamilyOptionEntry f \<Rightarrow>
           io_wrap (\<lambda>e. Errorf ''write boot option %s: %w'' [S (optionID o'), W e])
             (writeLine m (itoa (index + 1) @ ''  '' @ optionLabel o' @ ''  '' @ optionID o' @ ''  '' @ optionName o')))
       (\<lambda>_. render_options m (index + 1) os)"

definition RenderBootOptions :: "TextMenu \<Rightarrow> BootOption list \<Rightarrow> unit io" where
  "RenderBootOptions m os =
     io_bind (io_wrap (\<lambda>e. Errorf ''write header: %w'' [W e]) (fmt_Fprintln ''bootup targets'')) (\<lambda>_.
     render_options m 0 os)"

definition RenderTargets :: "TextMenu \<Rightarrow> Target list \<Rightarrow> unit io" where
  "RenderTargets m targets = RenderBootOptions m (BootOptions targets [])"

definition renderSourceDetails :: "TextMenu \<Rightarrow> SourceEntry \<Rightarrow> unit io" where
  "renderSourceDetails m s =
     (if s = empty_SourceEntry then io_return ()
      else io_bind (io_wrap (\<lambda>e. Errorf ''write source header: %w'' [W e]) (writeLine m ''source:'')) (\<lambda>_.
      io_each (\<lambda>line. if suffix '': '' line then io_return ()
                 else io_wrap (\<lambda>e. Errorf ''write source detail: %w'' [W e]) (writeLine m line))
        [''  base_url: '' @ BaseURL s, ''  iso_name: '' @ ISOName s, ''  iso_sha256: '' @ ISOSHA256 s,
         ''  kernel_path: '' @ KernelPath s, ''  initrd_path: '' @ InitrdPath s, ''  cmdline: '' @ Cmdline s]))"

definition option_detail_line :: "TargetOption \<Rightarrow> string" where
  "option_detail_line o' =
     (let line = ''  - '' @ OptID o' @ '' '' @ OptType o' @ '' '' @ OptLabel o' in
      if OptType o' = TargetOptionBool then line @ '' fragment='' @ Fragment o'
      else if OptType o' = TargetOptionString then line @ '' template='' @ Template o'
      else if OptType o' = TargetOptionEnum then line @ '' values='' @ optionValuesLabel (Values o')
      else line)"

definition renderOptionDetails :: "TextMenu \<Rightarrow> TargetOption list \<Rightarrow> unit io" where
  "renderOptionDetails m os =
     (if os = [] then io_return ()
      else io_bind (io_wrap (\<lambda>e. Errorf ''write options header: %w'' [W e]) (writeLine m ''options:'')) (\<lambda>_.
      io_each (\<lambda>o'. io_wrap (\<lambda>e. Errorf ''write option detail %s: %w'' [S (OptID o'), W e])
                      (writeLine m (option_detail_line o'))) os))"

definition renderSecretDetails :: "TextMenu \<Rightarrow> SecretInput list \<Rightarrow> unit io" where
  "renderSecretDetails m ss =
     (if ss = [] then io_return ()
      else io_bind (io_wrap (\<lambda>e. Errorf ''write secrets header: %w'' [W e]) (writeLine m ''secrets:'')) (\<lambda>_.
      io_each (\<lambda>s. io_wrap (\<lambda>e. Errorf ''write secret detail %s: %w'' [S (SecID s), W e])
        (writeLine m (''  - '' @ SecID s @ '' '' @ (if Required s then ''required'' else ''optional'') @ '' '' @
           Delivery s @ '' '' @ SecLabel s @ '' purpose='' @ Purpose s))) ss))"

definition RenderTargetDetails :: "TextMenu \<Rightarrow> Target \<Rightarrow> unit io" where
  "RenderTargetDetails m t =
     io_bind (io_wrap (\<lambda>e. Errorf ''write target header: %w'' [W e]) (writeLine m ''bootup target'')) (\<lambda>_.
     io_bind (io_each (\<lambda>line. io_wrap (\<lambda>e. Errorf ''write target detail: %w'' [W e]) (writeLine m line))
       [''id: '' @ TID t, ''name: '' @ Name t, ''provider: '' @ ProviderID t, ''action: '' @ ResolveBootAction (Action t),
        ''distribution: '' @ Distribution (Catalog t), ''release: '' @ Release (Catalog t),
        ''architecture: '' @ Architecture (Catalog t), ''kind: '' @ Kind (Catalog t)]) (\<lambda>_.
     let lifecycle = targetLifecycleDetail (Lifecycle t) in
     io_bind (if lifecycle \<noteq> [] then
                io_wrap (\<lambda>e. Errorf ''write target lifecycle: %w'' [W e]) (writeLine m (''lifecycle: '' @ lifecycle))
              else io_return ()) (\<lambda>_.
     io_bind (renderSourceDetails m (Source t)) (\<lambda>_.
     io_bind (renderOptionDetails m (Options t)) (\<lambda>_.
     renderSecretDetails m (Secrets t))))))"

definition tm_RenderStatus :: "TextMenu \<Rightarrow> string \<Rightarrow> string \<Rightarrow> unit io" where
  "tm_RenderStatus m phase message =
     io_wrap (\<lambda>e. Errorf ''write status: %w'' [W e]) (writeLine m (''['' @ phase @ ''] '' @ message))"

definition tm_RenderProgress :: "TextMenu \<Rightarrow> string \<Rightarrow> unit io" where
  "tm_RenderProgress m message = tm_RenderStatus m ''progress'' message"

definition tm_RenderFatal :: "TextMenu \<Rightarrow> string \<Rightarrow> unit io" where
  "tm_RenderFatal m message =
     io_bind (io_wrap (\<lambda>e. Errorf ''write fatal header: %w'' [W e]) (fmt_Fprintln ''bootup failure'')) (\<lambda>_.
     io_wrap (\<lambda>e. Errorf ''write fatal error: %w'' [W e]) (writeLine m (''reason: '' @ message)))"

definition RenderPrompt :: "TextMenu \<Rightarrow> string \<Rightarrow> unit io" where
  "RenderPrompt m prompt =
     io_wrap (\<lambda>e. Errorf ''write prompt: %w'' [W e]) (io_bind (io_of (truncate_to prompt (tm_width m))) fmt_Fprint)"

section \<open>Selection\<close>

definition SelectTargetByID :: "Target list \<Rightarrow> string \<Rightarrow> Target result" where
  "SelectTargetByID targets i =
     (case find (\<lambda>t. TID t = i) targets of
        Some t \<Rightarrow> Inr t
      | None \<Rightarrow> Inl (Errorf ''target %q not found'' [S i]))"

definition SelectTargetByInput :: "Target list \<Rightarrow> string \<Rightarrow> Target result" where
  "SelectTargetByInput targets raw =
     (let inp = TrimSpace raw in
      case Atoi inp of
        Some index \<Rightarrow>
          if 1 \<le> index \<and> index \<le> int (length targets) then Inr (targets ! nat (index - 1))
          else Inl (Errorf ''target index %d out of range'' [D index])
      | None \<Rightarrow> SelectTargetByID targets inp)"

definition SelectBootOptionByInput :: "BootOption list \<Rightarrow> string \<Rightarrow> BootOption result" where
  "SelectBootOptionByInput os raw =
     (let inp = TrimSpace raw in
      case Atoi inp of
        Some index \<Rightarrow>
          if 1 \<le> index \<and> index \<le> int (length os) then Inr (os ! nat (index - 1))
          else Inl (Errorf ''boot option index %d out of range'' [D index])
      | None \<Rightarrow>
          (case find (\<lambda>o'. optionID o' = inp) os of
             Some o' \<Rightarrow> Inr o'
           | None \<Rightarrow> Inl (Errorf ''boot option %q not found'' [S inp])))"

section \<open>Facts\<close>

lemma length_TrimRight: "length (TrimRight t c) \<le> length t"
  using length_dropWhile_le [of "\<lambda>x. x = c" "rev t"] by (simp add: TrimRight_def)

lemma truncate_to_fits:
  assumes "0 < width"
  shows "\<exists>t. truncate_to s width = Inr t \<and> int (length t) \<le> width \<and>
    (if int (length s) \<le> width then t = s else last t = CHR ''>'' \<or> width = 1)"
proof (cases "int (length s) \<le> width \<or> width = 1")
  case True
  then show ?thesis by (auto simp: truncate_to_def slice_to_def)
next
  case False
  let ?t = "TrimRight (take (nat (width - 1)) s) (CHR '' '')"
  have "truncate_to s width = Inr (?t @ ''>'')" using False assms by (auto simp: truncate_to_def slice_to_def)
  moreover have "int (length ?t) \<le> width - 1"
    using length_TrimRight [of "take (nat (width - 1)) s" "CHR '' ''"] assms by (simp add: nat_le_iff [symmetric] le_nat_iff)
  ultimately show ?thesis using False by auto
qed

lemma tm_width_pos [simp]: "0 < tm_width m"
  by (simp add: tm_width_def defaultWidth_def)

lemma fs_pure_fmt [fs_pure_intros]: "fs_pure (fmt_Fprint s)" "fs_pure (fmt_Fprintln s)"
  unfolding fmt_Fprintln_def fmt_Fprint_def by (rule fs_pure_os_call, simp add: fs_pure_def)+

lemma fs_pure_writeLine [fs_pure_intros]: "fs_pure (writeLine m line)"
  unfolding writeLine_def by (intro fs_pure_intros)

lemma fs_pure_tm [fs_pure_intros]:
  "fs_pure (tm_RenderStatus m a b)" "fs_pure (tm_RenderFatal m a)" "fs_pure (RenderPrompt m a)"
  unfolding tm_RenderStatus_def tm_RenderFatal_def RenderPrompt_def by (intro fs_pure_intros)+

lemma fs_pure_render_options [fs_pure_intros]: "fs_pure (render_options m i os)"
proof (induction os arbitrary: i)
  case (Cons o' os)
  then show ?case
    unfolding render_options.simps renderTargetOption_def Let_def
    by (cases o') (auto intro!: fs_pure_intros)
qed (simp add: fs_pure_intros)

lemma fs_pure_RenderBootOptions [fs_pure_intros]: "fs_pure (RenderBootOptions m os)" "fs_pure (RenderTargets m ts)"
  unfolding RenderTargets_def RenderBootOptions_def by (intro fs_pure_intros)+

section \<open>Selecting what the menu shows\<close>

lemma digits_value_snoc: "digits_value (s @ [c]) = 10 * digits_value s + (of_char c - 0x30)"
  by (simp add: digits_value_def)

lemma of_char_digit: "n < 10 \<Longrightarrow> of_char (char_of (0x30 + n)) = 0x30 + n" for n :: nat
  by simp

lemma digits_value_itoa: "digits_value (itoa n) = n"
proof (induction n rule: itoa.induct)
  case (1 n)
  show ?case
  proof (cases "n < 10")
    case True
    then show ?thesis by (subst itoa.simps) (simp add: digits_value_def)
  next
    case False
    have "digits_value (itoa n) = 10 * digits_value (itoa (n div 10)) + n mod 10"
      using False by (subst itoa.simps) (simp add: digits_value_snoc)
    with 1 False show ?thesis by simp
  qed
qed

lemma itoa_no_sign: "itoa n = c # t \<Longrightarrow> c \<noteq> CHR ''-'' \<and> c \<noteq> CHR ''+''"
  using itoa_digits [of n] by (auto simp: is_digit_def)

lemma Atoi_itoa: "n < 9223372036854775808 \<Longrightarrow> Atoi (itoa n) = Some (int n)"
proof -
  assume n: "n < 9223372036854775808"
  obtain c t where ct: "itoa n = c # t" using itoa_digits [of n] by (cases "itoa n") auto
  have "int n < 2 ^ 63" using n by simp
  moreover have "- (2 ^ 63) \<le> int n" by (rule order_trans [OF _ of_nat_0_le_iff]) simp
  ultimately show ?thesis
    using itoa_no_sign [OF ct] itoa_digits [of n] digits_value_itoa [of n] unfolding ct by (simp add: Atoi_def)
qed

lemma digit_not_rune: "is_digit c \<Longrightarrow> r \<in> set space_runes \<Longrightarrow> c \<noteq> hd r \<and> c \<noteq> last r"
  by (auto simp: space_runes_def is_digit_def)

lemma itoa_trimmed: "trimmed (itoa n)"
  unfolding trimmed_def
proof (intro ballI conjI notI)
  fix r assume r: "r \<in> set space_runes"
  note ne = space_runes_nonempty [OF r]
  have hd: "is_digit (hd (itoa n))" and la: "is_digit (last (itoa n))"
    using itoa_digits [of n] by (auto simp: list_all_iff)
  { assume "prefix r (itoa n)"
    with ne have "hd (itoa n) = hd r" by (auto simp: prefix_def)
    with hd digit_not_rune r show False by metis }
  { assume "suffix r (itoa n)"
    with ne have "last (itoa n) = last r" by (auto simp: suffix_def)
    with la digit_not_rune r show False by metis }
qed

lemma TrimSpace_newline:
  assumes "trimmed s" and "s \<noteq> []"
  shows "TrimSpace (s @ [CHR 0x0A]) = s"
proof -
  have "\<not> prefix r (s @ [CHR 0x0A])" if r: "r \<in> set space_runes" for r
  proof
    assume "prefix r (s @ [CHR 0x0A])"
    then have "prefix r s \<or> r = s @ [CHR 0x0A]" by (auto simp: prefix_append prefix_Cons)
    with assms(1) r have "r = s @ [CHR 0x0A]" by (auto simp: trimmed_def)
    with r assms(2) show False by (auto simp: space_runes_def append_eq_Cons_conv Cons_eq_append_conv)
  qed
  then have front: "strip space_runes (s @ [CHR 0x0A]) = s @ [CHR 0x0A]"
    by (intro strip_fixed) (auto simp: find_None_iff)
  have "strip (map rev space_runes) (CHR 0x0A # rev s) = strip (map rev space_runes) (rev s)"
    by (subst strip.simps) (simp add: space_runes_def)
  also have "\<dots> = rev s"
    using assms(1) by (intro strip_fixed) (auto simp: find_None_iff trimmed_def suffix_to_prefix)
  finally show ?thesis by (simp add: TrimSpace_def front)
qed

lemma select_number:
  assumes "i < length os" and "length os < 9223372036854775808"
  shows "SelectBootOptionByInput os (itoa (i + 1) @ [CHR 0x0A]) = Inr (os ! i)"
proof -
  have "TrimSpace (itoa (i + 1) @ [CHR 0x0A]) = itoa (i + 1)"
    using TrimSpace_newline [OF itoa_trimmed] itoa_digits by blast
  moreover have "Atoi (itoa (i + 1)) = Some (int (i + 1))" using assms by (intro Atoi_itoa) simp
  ultimately show ?thesis using assms(1) by (simp add: SelectBootOptionByInput_def)
qed


definition sample_family :: "string \<Rightarrow> BootOption" where
  "sample_family i = FamilyOptionEntry \<lparr>FamID = i, FamProviderID = i, FamName = i, Description = []\<rparr>"


text \<open>A selection by number or ID gives an entry of the menu, and an ID that is no number selects the first
  entry that has it.\<close>

theorem select_sound:
  "(case SelectBootOptionByInput os raw of
      Inr o' \<Rightarrow> o' \<in> set os \<and> (case Atoi (TrimSpace raw) of
         Some n \<Rightarrow> 1 \<le> n \<and> o' = os ! nat (n - 1)
       | None \<Rightarrow> find (\<lambda>x. optionID x = TrimSpace raw) os = Some o')
    | Inl e \<Rightarrow> (case Atoi (TrimSpace raw) of
         Some n \<Rightarrow> \<not> (1 \<le> n \<and> n \<le> int (length os))
       | None \<Rightarrow> TrimSpace raw \<notin> optionID ` set os))"
  by (auto simp: SelectBootOptionByInput_def Let_def find_None_iff nth_mem split: option.splits dest: find_eq_SomeD)

text \<open>C20: A rendered line never exceeds the width of the terminal and never slices out of range, and a line that
  fits is printed unchanged.\<close>

theorem truncate_bounds:
  "(case truncate_to s (tm_width m) of
      Inl e \<Rightarrow> False
    | Inr t \<Rightarrow> int (length t) \<le> tm_width m \<and> (if int (length s) \<le> tm_width m then t = s else last t = CHR ''>'' \<or> tm_width m = 1))"
  using truncate_to_fits [OF tm_width_pos, of s m] by auto

end
