(* ===== verification/Picker.thy ===== *)
theory Picker
  imports UiText
begin

text \<open>
  The rich terminal interface (\<^verbatim>\<open>internal/ui/rich.go\<close>): the target picker as a state machine over terminal
  messages, its view, and the status and failure panels.

  Colours, the progress bar and the spinner come from the charm.land libraries; they are the parameters
  of \<open>theme\<close>: how a text is painted in a style, how a bar of a width shows a percentage, and what a
  spinner shows and does on a tick.  \<open>strings.ToUpper\<close> is a parameter for the same reason \<open>ToLower\<close> is
  elsewhere.  The event loop of \<open>tea.Program\<close> feeds messages to \<open>Update\<close> until it returns \<open>tea.Quit\<close>; when
  the context ends first, the loop returns its error.
\<close>

record 's theme =
  paint :: "string \<Rightarrow> string \<Rightarrow> string"
  progress_ViewAs :: "nat \<Rightarrow> nat \<Rightarrow> string"
  spinner_View :: "'s \<Rightarrow> string"
  spinner_Update :: "'s \<Rightarrow> 's"
  spinner_New :: 's
  strings_ToUpper :: "string \<Rightarrow> string"

section \<open>The picker\<close>

record 's TargetPicker =
  options :: "BootOption list"
  cursor :: int
  selected :: int
  canceled :: bool
  pwidth :: int
  spinner :: 's

datatype Msg = WindowSizeMsg int | TickMsg | KeyPressMsg string | OtherMsg

datatype Cmd = NoCmd | SpinnerCmd | QuitCmd

definition NewBootOptionPicker :: "'s theme \<Rightarrow> BootOption list \<Rightarrow> 's TargetPicker" where
  "NewBootOptionPicker T os =
     \<lparr>options = os, cursor = 0, selected = -1, canceled = False, pwidth = defaultWidth, spinner = spinner_New T\<rparr>"

definition NewTargetPicker :: "'s theme \<Rightarrow> Target list \<Rightarrow> 's TargetPicker" where
  "NewTargetPicker T ts = NewBootOptionPicker T (BootOptions ts [])"

definition picker_Init :: "'s TargetPicker \<Rightarrow> Cmd" where
  "picker_Init m = SpinnerCmd"

definition quit_key :: "string \<Rightarrow> bool" where "quit_key key \<longleftrightarrow> key \<in> {''ctrl+c'', ''esc'', ''q''}"
definition up_key :: "string \<Rightarrow> bool" where "up_key key \<longleftrightarrow> key \<in> {''up'', ''k''}"
definition down_key :: "string \<Rightarrow> bool" where "down_key key \<longleftrightarrow> key \<in> {''down'', ''j''}"
definition enter_key :: "string \<Rightarrow> bool" where "enter_key key \<longleftrightarrow> key = ''enter''"

definition updateKey :: "string \<Rightarrow> 's TargetPicker \<Rightarrow> 's TargetPicker \<times> Cmd" where
  "updateKey key m =
     (if quit_key key then (m\<lparr>canceled := True\<rparr>, QuitCmd)
      else if up_key key then (if cursor m > 0 then m\<lparr>cursor := cursor m - 1\<rparr> else m, NoCmd)
      else if down_key key then
        (if cursor m < int (length (options m)) - 1 then m\<lparr>cursor := cursor m + 1\<rparr> else m, NoCmd)
      else if enter_key key then (m\<lparr>selected := cursor m\<rparr>, QuitCmd)
      else case Atoi key of
          Some index \<Rightarrow>
            if 1 \<le> index \<and> index \<le> int (length (options m)) then
              (m\<lparr>cursor := index - 1, selected := index - 1\<rparr>, QuitCmd)
            else (m, NoCmd)
        | None \<Rightarrow> (m, NoCmd))"

definition picker_Update :: "'s theme \<Rightarrow> Msg \<Rightarrow> 's TargetPicker \<Rightarrow> 's TargetPicker \<times> Cmd" where
  "picker_Update T msg m =
     (case msg of
        WindowSizeMsg w \<Rightarrow> (if w > 0 then m\<lparr>pwidth := w\<rparr> else m, NoCmd)
      | TickMsg \<Rightarrow> (m\<lparr>spinner := spinner_Update T (spinner m)\<rparr>, SpinnerCmd)
      | KeyPressMsg key \<Rightarrow> updateKey key m
      | OtherMsg \<Rightarrow> (m, NoCmd))"

definition SelectedBootOption :: "'s TargetPicker \<Rightarrow> BootOption result" where
  "SelectedBootOption m =
     (if canceled m then Inl (Sentinel ErrSelectionCanceled)
      else if selected m < 0 \<or> selected m \<ge> int (length (options m)) then
        Inl (errors_New ''no boot option selected'')
      else Inr (options m ! nat (selected m)))"

definition option_target :: "BootOption \<Rightarrow> Target result" where
  "option_target o' = (case o' of
       TargetOptionEntry t \<Rightarrow> Inr t
     | FamilyOptionEntry _ \<Rightarrow> Inl (errors_New ''selected option is not a target''))"

definition picker_Selected :: "'s TargetPicker \<Rightarrow> Target result" where
  "picker_Selected m = and_then (SelectedBootOption m) option_target"

section \<open>The view\<close>

definition viewWidth :: "'s TargetPicker \<Rightarrow> int" where
  "viewWidth m = (if pwidth m \<le> 0 then defaultWidth else pwidth m)"

definition optionState :: "BootOption \<Rightarrow> string" where
  "optionState o' = (case o' of FamilyOptionEntry _ \<Rightarrow> ''DISCOVER'' | TargetOptionEntry _ \<Rightarrow> ''READY'')"

definition targetGroup :: "Target \<Rightarrow> string" where
  "targetGroup t =
     (let parts = filter (\<lambda>s. s \<noteq> []) [Distribution (Catalog t), Release (Catalog t)]
      in if parts = [] then ''targets'' else Join parts '' / '')"

definition optionGroup :: "BootOption \<Rightarrow> string" where
  "optionGroup o' = (case o' of FamilyOptionEntry _ \<Rightarrow> ''discovery'' | TargetOptionEntry t \<Rightarrow> targetGroup t)"

definition lifecycleDetail :: "LifecycleEntry \<Rightarrow> string" where
  "lifecycleDetail l =
     (if l = empty_LifecycleEntry then []
      else ''lifecycle: '' @ Status l @ (if Date l \<noteq> [] then '' '' @ Date l else []))"

definition banner :: "'s theme \<Rightarrow> 's TargetPicker \<Rightarrow> int \<Rightarrow> string result" where
  "banner T m width =
     and_then (truncate_to ''select a boot target and hand off with kexec'' width) (\<lambda>line.
       Inr (paint T ''activity'' (spinner_View T (spinner m)) @ '' '' @ paint T ''title'' ''BOOTUP'' @ ''  '' @
            paint T ''tagline'' ''dynamic verified netboot'' @ [CHR 0x0A] @ line))"

definition groupLine :: "'s theme \<Rightarrow> string \<Rightarrow> int \<Rightarrow> string result" where
  "groupLine T grp width =
     and_then (truncate_to (''== '' @ strings_ToUpper T grp @ '' =='') width) (\<lambda>s. Inr (paint T ''group'' s))"

text \<open>\<open>fmt.Sprintf("  %2d", n)\<close>\<close>

definition pad2 :: "nat \<Rightarrow> string" where
  "pad2 n = ''  '' @ (if n < 10 then '' '' else []) @ itoa n"

definition optionLine :: "'s theme \<Rightarrow> 's TargetPicker \<Rightarrow> nat \<Rightarrow> BootOption \<Rightarrow> int \<Rightarrow> string result" where
  "optionLine T m index o' width =
     and_then (truncate_to (optionName o') (max (width - 17) 16)) (\<lambda>name.
     let label = pad2 (index + 1) @ ''  ['' @ optionState o' @ '']  '' @ name in
     and_then (truncate_to (optionLabel o' @ ''  '' @ optionID o') (width - 4)) (\<lambda>meta.
     and_then (truncate_to (TrimSpace label) (width - 4)) (\<lambda>short.
       Inr (if int index = cursor m then
              paint T ''cursor'' (''> '' @ short) @ [CHR 0x0A] @ paint T ''cursor-meta'' (''  '' @ meta)
            else paint T ''option'' (''  '' @ short @ [CHR 0x0A] @ ''    '' @ meta)))))"

text \<open>\<open>m.options[m.cursor]\<close> panics when the cursor is outside the list.\<close>

definition picker_detail :: "'s theme \<Rightarrow> 's TargetPicker \<Rightarrow> int \<Rightarrow> string result" where
  "picker_detail T m width =
     (if cursor m < 0 \<or> cursor m \<ge> int (length (options m)) then Inl panic_slice
      else let text = (case options m ! nat (cursor m) of
             FamilyOptionEntry f \<Rightarrow> ''discover: '' @ FamID f @ '' | provider: '' @ FamProviderID f
           | TargetOptionEntry t \<Rightarrow>
               ''ready: '' @ TID t @ '' | provider: '' @ ProviderID t @ '' | arch: '' @ Architecture (Catalog t) @
               (let l = lifecycleDetail (Lifecycle t) in if l \<noteq> [] then '' | '' @ l else []))
      in and_then (truncate_to text width) (\<lambda>s. Inr (paint T ''detail'' s)))"

fun render_entries :: "'s theme \<Rightarrow> 's TargetPicker \<Rightarrow> int \<Rightarrow> string \<Rightarrow> nat \<Rightarrow> BootOption list \<Rightarrow> string result" where
  "render_entries T m width previousGroup index [] = Inr []"
| "render_entries T m width previousGroup index (o' # os) =
     (let grp = optionGroup o' in
      and_then (if grp \<noteq> previousGroup then and_then (groupLine T grp width) (\<lambda>s. Inr (s @ [CHR 0x0A])) else Inr []) (\<lambda>header.
      and_then (optionLine T m index o' width) (\<lambda>line.
      and_then (render_entries T m width grp (index + 1) os) (\<lambda>rest.
        Inr (header @ line @ [CHR 0x0A] @ rest)))))"

definition picker_Render :: "'s theme \<Rightarrow> 's TargetPicker \<Rightarrow> string result" where
  "picker_Render T m =
     (let contentWidth = max (viewWidth m - 2) 20 in
      and_then (banner T m contentWidth) (\<lambda>top.
      and_then (render_entries T m contentWidth [] 0 (options m)) (\<lambda>entries.
      and_then (if options m \<noteq> [] then and_then (picker_detail T m contentWidth) (\<lambda>s. Inr ([CHR 0x0A] @ s @ [CHR 0x0A]))
                else Inr []) (\<lambda>detail.
      and_then (truncate_to (spinner_View T (spinner m) @ ''  up/down j/k move  enter boot  q quit'') contentWidth) (\<lambda>footer.
        Inr (top @ [CHR 0x0A, CHR 0x0A] @ entries @ detail @ [CHR 0x0A] @ paint T ''footer'' footer @ [CHR 0x0A]))))))"

section \<open>Status lines\<close>

record RichMenu =
  RWidth :: int
  Animate :: bool

definition rm_width :: "RichMenu \<Rightarrow> int" where
  "rm_width m = (if RWidth m \<le> 0 then defaultWidth else RWidth m)"

text \<open>Percentages instead of fractions.\<close>

definition phasePercent :: "string \<Rightarrow> nat" where
  "phasePercent phase =
     (if phase = ''planning'' then 25 else if phase = ''verifying'' then 50 else if phase = ''staging'' then 75
      else if phase = ''loading'' then 100 else 10)"

definition phaseColor :: "string \<Rightarrow> string" where
  "phaseColor phase =
     (if phase = ''planning'' then ''51'' else if phase = ''verifying'' then ''220'' else if phase = ''staging'' then ''82''
      else if phase = ''loading'' then ''201'' else ''45'')"

definition renderStatusFrame :: "'s theme \<Rightarrow> RichMenu \<Rightarrow> string \<Rightarrow> string \<Rightarrow> string \<Rightarrow> bool \<Rightarrow> unit io" where
  "renderStatusFrame T m frame phase message carriageReturn =
     (let width = rm_width m; barWidth = (if width < 72 then 14 else 24);
          bar = progress_ViewAs T barWidth (phasePercent phase);
          phaseText = paint T (phaseColor phase) (strings_ToUpper T phase);
          messageWidth = max (width - int barWidth - int (length phase) - 14) 12 in
      io_bind (io_of (truncate_to message messageWidth)) (\<lambda>short.
      let line = frame @ '' '' @ phaseText @ '' '' @ bar @ '' '' @ short in
      if carriageReturn then
        io_wrap (\<lambda>e. Errorf ''write rich status frame: %w'' [W e]) (fmt_Fprint ([CHR 0x0D] @ line))
      else io_wrap (\<lambda>e. Errorf ''write rich status: %w'' [W e]) (fmt_Fprintln line)))"

definition rm_RenderStatus :: "'s theme \<Rightarrow> RichMenu \<Rightarrow> string \<Rightarrow> string \<Rightarrow> unit io" where
  "rm_RenderStatus T m phase message =
     (let frames = [''-'', [CHR 0x5C], ''|'', ''/''] in
      if \<not> Animate m then renderStatusFrame T m (hd frames) phase message False
      else io_bind (io_each (\<lambda>frame. renderStatusFrame T m frame phase message True) frames) (\<lambda>_.
        renderStatusFrame T m (hd frames) phase message False))"

definition rm_RenderFatal :: "'s theme \<Rightarrow> RichMenu \<Rightarrow> string \<Rightarrow> unit io" where
  "rm_RenderFatal T m message =
     io_bind (io_wrap (\<lambda>e. Errorf ''write rich fatal header: %w'' [W e]) (fmt_Fprintln (paint T ''fatal'' ''BOOTUP FAILURE''))) (\<lambda>_.
     io_bind (io_of (truncate_to (''reason: '' @ message) (rm_width m))) (\<lambda>reason.
     io_bind (io_wrap (\<lambda>e. Errorf ''write rich fatal reason: %w'' [W e]) (fmt_Fprintln (paint T ''reason'' reason))) (\<lambda>_.
     io_bind (io_of (truncate_to ''stage-1 environment remains available for diagnostics'' (rm_width m))) (\<lambda>hint.
     io_wrap (\<lambda>e. Errorf ''write rich fatal hint: %w'' [W e]) (fmt_Fprintln (paint T ''hint'' hint))))))"

section \<open>Running the picker\<close>

fun program_Run :: "'s theme \<Rightarrow> go_error \<Rightarrow> Msg list \<Rightarrow> 's TargetPicker \<Rightarrow> 's TargetPicker result" where
  "program_Run T ended [] m = Inl ended"
| "program_Run T ended (msg # msgs) m =
     (case picker_Update T msg m of
        (m', QuitCmd) \<Rightarrow> Inr m'
      | (m', _) \<Rightarrow> program_Run T ended msgs m')"

definition SelectBootOption :: "'s theme \<Rightarrow> RichMenu \<Rightarrow> go_error \<Rightarrow> Msg list \<Rightarrow> BootOption list \<Rightarrow> BootOption result" where
  "SelectBootOption T m ended msgs os =
     (if os = [] then Inl (errors_New ''no boot options available'')
      else and_then (map_err (\<lambda>e. Errorf ''run rich menu: %w'' [W e])
             (program_Run T ended msgs ((NewBootOptionPicker T os)\<lparr>pwidth := rm_width m\<rparr>))) SelectedBootOption)"

definition rm_SelectTarget :: "'s theme \<Rightarrow> RichMenu \<Rightarrow> go_error \<Rightarrow> Msg list \<Rightarrow> Target list \<Rightarrow> Target result" where
  "rm_SelectTarget T m ended msgs ts = and_then (SelectBootOption T m ended msgs (BootOptions ts [])) option_target"

section \<open>The state machine\<close>

inductive reachable :: "'s theme \<Rightarrow> BootOption list \<Rightarrow> 's TargetPicker \<Rightarrow> bool" for T os where
  start: "reachable T os ((NewBootOptionPicker T os)\<lparr>pwidth := w\<rparr>)"
| step: "reachable T os m \<Longrightarrow> picker_Update T msg m = (m', c) \<Longrightarrow> reachable T os m'"

definition picker_ok :: "BootOption list \<Rightarrow> 's TargetPicker \<Rightarrow> bool" where
  "picker_ok os m \<longleftrightarrow> options m = os \<and> 0 \<le> cursor m \<and> (os \<noteq> [] \<longrightarrow> cursor m < int (length os)) \<and>
     -1 \<le> selected m \<and> (os \<noteq> [] \<longrightarrow> selected m < int (length os))"

lemma updateKey_ok: "picker_ok os m \<Longrightarrow> updateKey key m = (m', c) \<Longrightarrow> picker_ok os m'"
  by (auto simp: picker_ok_def updateKey_def split: if_splits option.splits)

lemma picker_Update_ok: "picker_ok os m \<Longrightarrow> picker_Update T msg m = (m', c) \<Longrightarrow> picker_ok os m'"
proof (cases msg)
  case (KeyPressMsg key)
  assume "picker_ok os m" "picker_Update T msg m = (m', c)"
  then show ?thesis using updateKey_ok by (simp add: picker_Update_def KeyPressMsg)
qed (auto simp: picker_Update_def picker_ok_def split: if_splits)

lemma reachable_ok: "reachable T os m \<Longrightarrow> picker_ok os m"
proof (induction rule: reachable.induct)
  case (start w)
  then show ?case by (cases os) (auto simp: picker_ok_def NewBootOptionPicker_def)
next
  case (step m msg m' c)
  then show ?case using picker_Update_ok by blast
qed

lemma program_Run_Inr:
  assumes "program_Run T ended msgs m = Inr m'" and "reachable T os m"
  shows "reachable T os m' \<and> (\<exists>msg m0. reachable T os m0 \<and> picker_Update T msg m0 = (m', QuitCmd))"
  using assms
proof (induction msgs arbitrary: m)
  case (Cons msg msgs)
  obtain n c where u: "picker_Update T msg m = (n, c)" by (cases "picker_Update T msg m")
  with Cons.prems have n: "reachable T os n" by (blast intro: reachable.step)
  show ?case
  proof (cases "c = QuitCmd")
    case True
    with u Cons.prems n show ?thesis by auto
  next
    case False
    with u Cons.prems(1) have "program_Run T ended msgs n = Inr m'" by (cases c) auto
    with Cons.IH n show ?thesis by blast
  qed
qed simp

lemma quit_settled:
  "picker_Update T msg m = (m', QuitCmd) \<Longrightarrow> picker_ok os m \<Longrightarrow> os \<noteq> [] \<Longrightarrow>
     canceled m' \<or> 0 \<le> selected m' \<and> selected m' = cursor m'"
  by (cases msg) (auto simp: picker_Update_def updateKey_def picker_ok_def split: if_splits option.splits)

lemma truncate_then:
  assumes "0 < width" and "\<And>t. \<exists>r. k t = Inr r"
  shows "\<exists>r. and_then (truncate_to s width) k = Inr r"
  using truncate_to_fits [OF assms(1), of s] assms(2) by force

lemma groupLine_ok: "20 \<le> width \<Longrightarrow> \<exists>s. groupLine T g width = Inr s"
  unfolding groupLine_def by (rule truncate_then) auto

lemma optionLine_ok: "20 \<le> width \<Longrightarrow> \<exists>s. optionLine T m i o' width = Inr s"
  unfolding optionLine_def Let_def by (intro truncate_then) auto

lemma banner_ok: "20 \<le> width \<Longrightarrow> \<exists>s. banner T m width = Inr s"
  unfolding banner_def by (rule truncate_then) auto

lemma picker_detail_ok:
  assumes "20 \<le> width" and "0 \<le> cursor m" and "cursor m < int (length (options m))"
  shows "\<exists>s. picker_detail T m width = Inr s"
proof -
  have "\<not> (cursor m < 0 \<or> cursor m \<ge> int (length (options m)))" using assms by simp
  then show ?thesis
    unfolding picker_detail_def Let_def if_not_P by (simp only: if_False) (rule truncate_then, use assms in auto)
qed

lemma render_entries_ok: "20 \<le> width \<Longrightarrow> \<exists>s. render_entries T m width g i os = Inr s"
proof (induction os arbitrary: g i)
  case (Cons o' os)
  obtain h where "(if optionGroup o' \<noteq> g then and_then (groupLine T (optionGroup o') width) (\<lambda>s. Inr (s @ [CHR 0x0A])) else Inr []) = Inr h"
    using groupLine_ok [OF Cons.prems, of T "optionGroup o'"] by (cases "optionGroup o' = g") auto
  moreover obtain l where "optionLine T m i o' width = Inr l" using optionLine_ok [OF Cons.prems] by blast
  moreover obtain r where "render_entries T m width (optionGroup o') (i + 1) os = Inr r" using Cons by blast
  ultimately show ?case by (simp add: Let_def)
qed simp

lemma picker_Render_ok:
  assumes "picker_ok os m"
  shows "\<exists>s. picker_Render T m = Inr s"
proof -
  let ?w = "max (viewWidth m - 2) 20"
  have w: "20 \<le> ?w" by simp
  obtain a where a: "banner T m ?w = Inr a" using banner_ok [OF w] by blast
  obtain b where b: "render_entries T m ?w [] 0 (options m) = Inr b" using render_entries_ok [OF w] by blast
  obtain c where c: "(if options m \<noteq> [] then and_then (picker_detail T m ?w) (\<lambda>s. Inr ([CHR 0x0A] @ s @ [CHR 0x0A]))
      else Inr []) = Inr c"
    using picker_detail_ok [OF w, of m T] assms by (cases "options m = []") (auto simp: picker_ok_def)
  show ?thesis unfolding picker_Render_def Let_def a b c and_then_simps by (rule truncate_then) (use w in auto)
qed

lemma picker_moves:
  assumes "0 \<le> cursor m" and "cursor m + int i < int (length (options m))"
  shows "program_Run T ended (replicate i (KeyPressMsg ''down'') @ msgs) m =
         program_Run T ended msgs (m\<lparr>cursor := cursor m + int i\<rparr>)"
  using assms
proof (induction i arbitrary: m)
  case (Suc i)
  have "picker_Update T (KeyPressMsg ''down'') m = (m\<lparr>cursor := cursor m + 1\<rparr>, NoCmd)"
    using Suc.prems by (simp add: picker_Update_def updateKey_def quit_key_def up_key_def down_key_def)
  then show ?case using Suc.IH [of "m\<lparr>cursor := cursor m + 1\<rparr>"] Suc.prems by (simp add: algebra_simps)
qed simp

section \<open>Properties\<close>

text \<open>C21: In every state the picker can reach, the cursor points at an entry of the menu, so that drawing it never
  indexes or slices out of range.\<close>

theorem picker_Render_total:
  assumes "reachable T os m"
  shows "\<exists>s. picker_Render T m = Inr s"
  using picker_Render_ok [OF reachable_ok [OF assms]] .

definition plain_theme :: "unit theme" where
  "plain_theme = \<lparr>paint = (\<lambda>_ s. s), progress_ViewAs = (\<lambda>_ _. []), spinner_View = (\<lambda>_. ''-''), spinner_Update = id,
     spinner_New = (), strings_ToUpper = id\<rparr>"

theorem picker_Render_total_witness:
  "\<exists>s. picker_Render plain_theme (fst (picker_Update plain_theme (KeyPressMsg ''j'') (NewBootOptionPicker plain_theme [sample_family ''a'']))) = Inr s"
proof (rule picker_Render_total)
  let ?m = "NewBootOptionPicker plain_theme [sample_family ''a'']"
  have "reachable plain_theme [sample_family ''a''] (?m\<lparr>pwidth := defaultWidth\<rparr>)" by (rule reachable.start)
  then have "reachable plain_theme [sample_family ''a''] ?m" by (simp add: NewBootOptionPicker_def)
  then show "reachable plain_theme [sample_family ''a''] (fst (picker_Update plain_theme (KeyPressMsg ''j'') ?m))"
    by (rule reachable.step) (rule prod.collapse [symmetric])
qed

text \<open>What an operator selects is an entry of the menu that was offered, and leaving the picker is reported as
  a cancelled selection.\<close>

theorem SelectBootOption_offered:
  "(case SelectBootOption T m ended msgs os of
      Inr o' \<Rightarrow> o' \<in> set os
    | Inl e \<Rightarrow> os = [] \<or> errors_is e ErrSelectionCanceled \<or> e = Errorf ''run rich menu: %w'' [W ended])"
proof (cases "os = []")
  case False
  let ?p = "(NewBootOptionPicker T os)\<lparr>pwidth := rm_width m\<rparr>"
  have ended: "program_Run T ended msgs p = Inl e \<Longrightarrow> e = ended" for p e
    by (induction msgs arbitrary: p) (auto split: prod.splits Cmd.splits)
  show ?thesis
  proof (cases "program_Run T ended msgs ?p")
    case (Inl e)
    with ended False show ?thesis by (simp add: SelectBootOption_def)
  next
    case (Inr m')
    from program_Run_Inr [OF Inr reachable.start] obtain msg m0 where
      m0: "reachable T os m0" "picker_Update T msg m0 = (m', QuitCmd)" and m': "reachable T os m'" by blast
    from quit_settled [OF m0(2) reachable_ok [OF m0(1)] False] reachable_ok [OF m'] False
    have "case SelectedBootOption m' of Inr o' \<Rightarrow> o' \<in> set os | Inl e \<Rightarrow> errors_is e ErrSelectionCanceled"
      by (auto simp: SelectedBootOption_def picker_ok_def)
    with Inr False show ?thesis by (auto simp: SelectBootOption_def split: sum.splits)
  qed
qed (simp add: SelectBootOption_def)

text \<open>C23: Every entry can be reached with the arrow keys and chosen with enter.\<close>

theorem picker_arrows_select:
  assumes "i < length os"
  shows "SelectBootOption T m ended (replicate i (KeyPressMsg ''down'') @ [KeyPressMsg ''enter'']) os = Inr (os ! i)"
proof -
  let ?p = "(NewBootOptionPicker T os)\<lparr>pwidth := rm_width m\<rparr>"
  have "program_Run T ended (replicate i (KeyPressMsg ''down'') @ [KeyPressMsg ''enter'']) ?p =
        Inr (?p\<lparr>cursor := int i, selected := int i\<rparr>)"
    using assms
    by (subst picker_moves) (simp_all add: NewBootOptionPicker_def picker_Update_def updateKey_def quit_key_def
        up_key_def down_key_def enter_key_def)
  with assms show ?thesis by (auto simp: SelectBootOption_def SelectedBootOption_def NewBootOptionPicker_def)
qed

theorem picker_arrows_select_witness:
  "SelectBootOption plain_theme \<lparr>RWidth = 80, Animate = False\<rparr> (Sentinel ContextCanceled)
     [KeyPressMsg ''down'', KeyPressMsg ''enter''] [sample_family ''a'', sample_family ''b''] = Inr (sample_family ''b'')"
  using picker_arrows_select [of 1 "[sample_family ''a'', sample_family ''b'']"] by simp

end
