(* ===== verification/AppFlow.thy ===== *)
theory AppFlow
  imports Conformance Staging Picker "HOL-Library.Word"
begin

text \<open>
  The operator flows (\<^verbatim>\<open>internal/app/app.go\<close>): preparation, the modes, the two menus, planning, staging and the
  handoff, in the order the code takes them.

  What the operator types and the events of the rich menu are fields of \<open>terminal\<close>, as are the state of the
  standard streams, the \<open>TERM\<close> variable, the text of an error and the error with which the context ends.  Log
  records have no effect on the flow and are left out.
\<close>

unbundle bit_operations_syntax

section \<open>Configuration\<close>

definition ModeMenu :: string where "ModeMenu = ''menu''"
definition ModeListTargets :: string where "ModeListTargets = ''list-targets''"
definition ModeCatalogMatrix :: string where "ModeCatalogMatrix = ''catalog-matrix''"
definition ModeDiscoverTargets :: string where "ModeDiscoverTargets = ''discover-targets''"
definition ModeShowTarget :: string where "ModeShowTarget = ''show-target''"
definition ModePlanTarget :: string where "ModePlanTarget = ''plan-target''"
definition ModeStageTarget :: string where "ModeStageTarget = ''stage-target''"
definition ModeBootTarget :: string where "ModeBootTarget = ''boot-target''"

definition UIModeAuto :: string where "UIModeAuto = ''auto''"
definition UIModeRich :: string where "UIModeRich = ''rich''"
definition UIModePlain :: string where "UIModePlain = ''plain''"

text \<open>A stream of the process: whether it is an \<open>*os.File\<close>, whether it is the standard one, whether it is a terminal,
  and the type bits of its mode when \<open>Stat\<close> succeeds.\<close>

record stream =
  IsFile :: bool
  IsStandard :: bool
  IsTerminal :: bool
  ModeType :: "32 word option"

record 's terminal =
  term_theme :: "'s theme"
  err_Error :: "go_error \<Rightarrow> string"
  getenv_TERM :: string
  os_Stdin :: stream
  os_Stdout :: stream
  boot_console :: stream
  stdin_text :: "bytes \<times> go_error option"
  rich_events :: "nat \<Rightarrow> Msg list"
  ctx_end :: go_error

record App =
  ARegistry :: Registry
  AStdin :: stream
  AStdout :: stream
  AMode :: string
  AUIMode :: string
  ATargetID :: string
  ATargetOptions :: "SelectedOption list"
  ASecretStore :: "SecretStore option"
  ASecretRefs :: "SecretRef list"
  ADiscoveryFamilyID :: string
  AStagingDir :: string
  ACmdlineAppend :: string
  AHold :: bool
  AExecutor :: "(BootPlan \<Rightarrow> unit io) option"
  APreparers :: "unit io list"
  AOnBeforeListTargets :: "(world \<Rightarrow> world) option"

definition app_New :: "'s terminal \<Rightarrow> Registry option \<Rightarrow> stream option \<Rightarrow> stream option \<Rightarrow> App \<Rightarrow> App" where
  "app_New T registry stdin stdout c =
     c\<lparr>ARegistry := or_default registry NewRegistry, AStdin := or_default stdin (os_Stdin T),
       AStdout := or_default stdout (os_Stdout T), AUIMode := (if AUIMode c = [] then UIModeAuto else AUIMode c)\<rparr>"

text \<open>What stages and boots a target reports its progress to.\<close>

record statusRenderer =
  RenderStatus :: "string \<Rightarrow> string \<Rightarrow> unit io"
  RenderFatal :: "string \<Rightarrow> unit io"

definition text_renderer :: "TextMenu \<Rightarrow> statusRenderer" where
  "text_renderer m = \<lparr>RenderStatus = tm_RenderStatus m, RenderFatal = tm_RenderFatal m\<rparr>"

definition rich_renderer :: "'s theme \<Rightarrow> RichMenu \<Rightarrow> statusRenderer" where
  "rich_renderer T m = \<lparr>RenderStatus = rm_RenderStatus T m, RenderFatal = rm_RenderFatal T m\<rparr>"

definition textMenu :: TextMenu where "textMenu = \<lparr>Width = 80\<rparr>"
definition richMenu :: RichMenu where "richMenu = \<lparr>RWidth = 80, Animate = True\<rparr>"

text \<open>An error is shown and then returned, unless showing it fails.\<close>

definition fatal :: "'s terminal \<Rightarrow> statusRenderer \<Rightarrow> go_error \<Rightarrow> 'a io" where
  "fatal T renderer err =
     io_bind (io_wrap (\<lambda>e. Errorf ''render fatal error: %w'' [W e]) (RenderFatal renderer (err_Error T err))) (\<lambda>_. io_fail err)"

definition or_fatal :: "'s terminal \<Rightarrow> statusRenderer \<Rightarrow> 'a io \<Rightarrow> 'a io" where
  "or_fatal T renderer m = io_try m (\<lambda>r. case r of Inl err \<Rightarrow> fatal T renderer err | Inr x \<Rightarrow> io_return x)"

definition status :: "statusRenderer \<Rightarrow> string \<Rightarrow> string \<Rightarrow> unit io" where
  "status renderer phase message = io_wrap (\<lambda>e. Errorf ''render status: %w'' [W e]) (RenderStatus renderer phase message)"

section \<open>Listing\<close>

definition selectTarget :: "App \<Rightarrow> Target io" where
  "selectTarget a =
     io_bind (io_wrap (\<lambda>e. Errorf ''list targets: %w'' [W e]) (Registry_Targets (ARegistry a))) (\<lambda>targets.
     io_of (SelectTargetByID targets (ATargetID a)))"

definition app_listTargets :: "App \<Rightarrow> unit io" where
  "app_listTargets a w0 =
     (let w = (case AOnBeforeListTargets a of None \<Rightarrow> w0 | Some f \<Rightarrow> f w0) in
      io_bind (io_wrap (\<lambda>e. Errorf ''list targets: %w'' [W e]) (Registry_Targets (ARegistry a))) (\<lambda>targets.
      io_wrap (\<lambda>e. Errorf ''render targets: %w'' [W e]) (RenderTargets \<lparr>Width = 80\<rparr> targets)) w)"

definition smoke_label :: "SmokeCoverage \<Rightarrow> string" where
  "smoke_label s = (case s of
       SmokeCoverageMetadataOnly \<Rightarrow> ''metadata-only'' | SmokeCoverageLiveStage \<Rightarrow> ''live-stage''
     | SmokeCoverageCatalogQEMU \<Rightarrow> ''catalog-qemu'' | SmokeCoverageDebianQEMU \<Rightarrow> ''debian-qemu''
     | SmokeCoverageUbuntuQEMU \<Rightarrow> ''ubuntu-qemu'' | SmokeCoverageMFSBSDKbootQEMU \<Rightarrow> ''mfsbsd-kboot-qemu'')"

definition trust_label :: "ArtifactTrust \<Rightarrow> string" where
  "trust_label t = (case t of
       ArtifactTrustUnknown \<Rightarrow> ''unknown'' | ArtifactTrustHashPinned \<Rightarrow> ''hash-pinned''
     | ArtifactTrustSignedMetadata \<Rightarrow> ''signed-metadata'' | ArtifactTrustReleaseMetadata \<Rightarrow> ''release-metadata''
     | ArtifactTrustHTTPSOnly \<Rightarrow> ''https-only'' | ArtifactTrustPartialHashes \<Rightarrow> ''partial-hashes''
     | ArtifactTrustNotApplicable \<Rightarrow> ''not-applicable'' | ArtifactTrustUnverified \<Rightarrow> ''unverified'')"

definition plan_label :: "PlanStatus \<Rightarrow> string" where
  "plan_label p = (case p of PlanStatusOK \<Rightarrow> ''ok'' | PlanStatusError \<Rightarrow> ''error'')"

definition smokeCoverageLabel :: "SmokeCoverage list \<Rightarrow> string" where
  "smokeCoverageLabel cs = Join (map smoke_label cs) '',''"

definition plural :: "nat \<Rightarrow> string" where
  "plural n = (if n = 1 then [] else ''s'')"

definition matrix_line :: "'s terminal \<Rightarrow> ConformanceEntry \<Rightarrow> string" where
  "matrix_line T e =
     (let t = CETarget e; c = Catalog t in
      Join [TID t, ProviderID t, Distribution c, Release c, Architecture c, Kind c, Status (Lifecycle t), CEAction e,
            plan_label (CEPlanStatus e), trust_label (CEArtifactTrust e), smokeCoverageLabel (CESmokeCoverage e),
            (case CEPlanError e of None \<Rightarrow> [] | Some err \<Rightarrow> err_Error T err)] [CHR 0x09] @ [CHR 0x0A])"

definition matrix_columns :: "string list" where
  "matrix_columns = [''target'', ''provider'', ''distribution'', ''release'', ''architecture'', ''kind'', ''lifecycle'', ''action'',
     ''plan'', ''trust'', ''smoke'', ''error'']"

definition writeCatalogMatrix :: "'s terminal \<Rightarrow> ConformanceEntry list \<Rightarrow> unit io" where
  "writeCatalogMatrix T entries =
     io_bind (fmt_Fprintln ''bootup catalog matrix'') (\<lambda>_.
     io_bind (fmt_Fprintln (Join matrix_columns [CHR 0x09])) (\<lambda>_.
     io_each (\<lambda>e. fmt_Fprint (matrix_line T e)) entries))"

definition app_catalogMatrix :: "'s terminal \<Rightarrow> App \<Rightarrow> unit io" where
  "app_catalogMatrix T a =
     io_bind (io_wrap (\<lambda>e. Errorf ''build catalog matrix: %w'' [W e]) (BuildConformanceReport (Some (ARegistry a)))) (\<lambda>report.
     io_bind (io_wrap (\<lambda>e. Errorf ''render catalog matrix: %w'' [W e]) (writeCatalogMatrix T report)) (\<lambda>_.
     let count = PlanErrorCount report in
     if count > 0 then io_fail (Errorf ''catalog matrix has %d planning error%s'' [D (int count), S (plural count)])
     else io_return ()))"

definition app_showTarget :: "App \<Rightarrow> unit io" where
  "app_showTarget a =
     io_bind (selectTarget a) (\<lambda>target.
     io_wrap (\<lambda>e. Errorf ''render target details: %w'' [W e]) (RenderTargetDetails \<lparr>Width = 120\<rparr> target))"

definition app_discoverTargets :: "App \<Rightarrow> unit io" where
  "app_discoverTargets a =
     (let familyID = ADiscoveryFamilyID a in
      if TrimSpace familyID = [] then io_fail (errors_New ''discovery family is required'')
      else io_bind (io_wrap (\<lambda>e. Errorf ''discover targets: %w'' [W e]) (Registry_DiscoverTargets (ARegistry a) familyID)) (\<lambda>targets.
      if targets = [] then
        io_bind (io_wrap (\<lambda>e. Errorf ''write empty discovery result: %w'' [W e])
                   (fmt_Fprint (''no discovered targets for '' @ familyID @ [CHR 0x0A]))) (\<lambda>_.
        io_fail (Errorf ''no targets discovered for %s'' [S familyID]))
      else io_wrap (\<lambda>e. Errorf ''render discovered targets: %w'' [W e]) (RenderTargets \<lparr>Width = 80\<rparr> targets)))"

section \<open>Planning and staging\<close>

definition applyCmdlineAppend :: "App \<Rightarrow> BootPlan \<Rightarrow> BootPlan" where
  "applyCmdlineAppend a plan = plan\<lparr>BCmdline := appendCmdline (BCmdline plan) (ACmdlineAppend a)\<rparr>"

definition artifactLocation :: "Artifact \<Rightarrow> string" where
  "artifactLocation artifact = (if Path artifact \<noteq> [] then Path artifact else URL artifact)"

definition writeFreeBSDKbootPlan :: "FreeBSDKbootPlan \<Rightarrow> unit io" where
  "writeFreeBSDKbootPlan p =
     io_each (\<lambda>(label, v). if v = [] then io_return () else fmt_Fprint (label @ [CHR 0x09] @ v @ [CHR 0x0A]))
       [(''loader'', artifactLocation (Loader p)), (''loader_help'', artifactLocation (LoaderHelp p)),
        (''loader_archive'', artifactLocation (LoaderArchive p)), (''payload'', artifactLocation (Payload p)),
        (''payload_root'', PayloadRoot p), (''args'', Join (Args p) '' '')]"

definition writeBootPlan :: "BootPlan \<Rightarrow> unit io" where
  "writeBootPlan plan =
     (if ResolvedAction plan = BootActionFreeBSDKboot then writeFreeBSDKbootPlan (FreeBSDKboot plan)
      else fmt_Fprint (''kernel'' @ [CHR 0x09] @ artifactLocation (Kernel plan) @ [CHR 0x0A] @
             ''initrd'' @ [CHR 0x09] @ artifactLocation (Initrd plan) @ [CHR 0x0A] @
             ''cmdline'' @ [CHR 0x09] @ BCmdline plan @ [CHR 0x0A]))"

definition plan_input :: "App \<Rightarrow> Target \<Rightarrow> PlanInput" where
  "plan_input a target = \<lparr>PTarget = target, POptions = ATargetOptions a, PSecrets = ASecretStore a, PSecretRefs = ASecretRefs a, Offline = False\<rparr>"

definition app_planTarget :: "'s terminal \<Rightarrow> App \<Rightarrow> unit io" where
  "app_planTarget T a =
     io_bind (selectTarget a) (\<lambda>target.
     let menu = text_renderer textMenu in
     io_bind (status menu ''planning'' (Name target)) (\<lambda>_.
     io_bind (or_fatal T menu (Registry_Plan (ARegistry a) (plan_input a target))) (\<lambda>plan.
     io_wrap (\<lambda>e. Errorf ''write boot plan: %w'' [W e]) (writeBootPlan (applyCmdlineAppend a plan)))))"

definition stageProgressPhase :: "StageOperation \<Rightarrow> string" where
  "stageProgressPhase op = (case op of
       StageOperationFetch \<Rightarrow> ''fetching'' | StageOperationVerify \<Rightarrow> ''verifying''
     | StageOperationWrite \<Rightarrow> ''writing'' | StageOperationExtract \<Rightarrow> ''extracting'')"

definition stageProgress :: "statusRenderer \<Rightarrow> StageProgressFunc" where
  "stageProgress renderer event =
     (if PState event \<noteq> StageStateStarted then io_return ()
      else status renderer (stageProgressPhase (Operation event)) (PArtifact event))"

definition stage_config :: "App \<Rightarrow> statusRenderer \<Rightarrow> string \<Rightarrow> BootPlan \<Rightarrow> StageConfig" where
  "stage_config a renderer stagingDir plan =
     \<lparr>CPlan = plan, StagingDir = stagingDir, CSecrets = ASecretStore a, CSecretRefs = [], Progress = Some (stageProgress renderer)\<rparr>"

definition stageSelectedTarget :: "'s terminal \<Rightarrow> App \<Rightarrow> Target \<Rightarrow> statusRenderer \<Rightarrow> BootPlan io" where
  "stageSelectedTarget T a target renderer =
     (let stagingDir = (if AStagingDir a = [] then ''/tmp/bootup'' else AStagingDir a) in
      io_bind (io_wrap (\<lambda>e. Errorf ''create staging dir: %w'' [W e]) (os_MkdirAll stagingDir 0x1ED)) (\<lambda>_.
      io_bind (status renderer ''planning'' (Name target)) (\<lambda>_.
      io_bind (or_fatal T renderer (Registry_Plan (ARegistry a) (plan_input a target))) (\<lambda>plan.
      io_bind (status renderer ''verifying'' (Name target)) (\<lambda>_.
      io_bind (status renderer ''staging'' (Name target)) (\<lambda>_.
      io_bind (or_fatal T renderer (Registry_Stage (ARegistry a) (stage_config a renderer stagingDir (applyCmdlineAppend a plan)))) (\<lambda>staged.
      io_bind (io_wrap (\<lambda>e. Errorf ''write staged boot plan: %w'' [W e]) (writeBootPlan staged)) (\<lambda>_.
      io_return staged))))))))"

definition stageTarget :: "'s terminal \<Rightarrow> App \<Rightarrow> statusRenderer \<Rightarrow> BootPlan io" where
  "stageTarget T a renderer = io_bind (selectTarget a) (\<lambda>target. stageSelectedTarget T a target renderer)"

definition executeStaged :: "'s terminal \<Rightarrow> App \<Rightarrow> BootPlan \<Rightarrow> statusRenderer \<Rightarrow> unit io" where
  "executeStaged T a staged renderer =
     (case AExecutor a of
        None \<Rightarrow> io_fail (errors_New ''executor is required'')
      | Some executor \<Rightarrow>
          io_bind (status renderer ''loading'' (Name (BTarget staged))) (\<lambda>_.
          or_fatal T renderer (executor staged)))"

definition app_bootTarget :: "'s terminal \<Rightarrow> App \<Rightarrow> unit io" where
  "app_bootTarget T a =
     (let menu = text_renderer textMenu in
      io_bind (stageTarget T a menu) (\<lambda>staged. executeStaged T a staged menu))"

section \<open>The console\<close>

definition ModeCharDevice :: "32 word" where "ModeCharDevice = 0x200000"
definition ModeNamedPipe :: "32 word" where "ModeNamedPipe = 0x2000000"
definition ModeSocket :: "32 word" where "ModeSocket = 0x1000000"
definition ModeDir :: "32 word" where "ModeDir = 0x80000000"
definition ModeDevice :: "32 word" where "ModeDevice = 0x4000000"

definition isConsoleLikeFile :: "stream \<Rightarrow> bool" where
  "isConsoleLikeFile s = (case ModeType s of
       None \<Rightarrow> False
     | Some m \<Rightarrow>
         if m AND ModeCharDevice \<noteq> 0 then True
         else if m = 0 \<or> m AND ModeNamedPipe \<noteq> 0 \<or> m AND ModeSocket \<noteq> 0 then False
         else if m AND ModeDir \<noteq> 0 \<or> m AND ModeDevice \<noteq> 0 then False
         else True)"

definition hasInteractiveConsole :: "App \<Rightarrow> bool" where
  "hasInteractiveConsole a \<longleftrightarrow>
     IsFile (AStdin a) \<and> IsFile (AStdout a) \<and>
     (IsTerminal (AStdin a) \<and> IsTerminal (AStdout a) \<or> isConsoleLikeFile (AStdin a) \<and> isConsoleLikeFile (AStdout a))"

definition shouldAttachBootConsole :: "App \<Rightarrow> bool io" where
  "shouldAttachBootConsole a =
     (if \<not> IsFile (AStdin a) \<or> \<not> IsFile (AStdout a) then io_return False
      else if \<not> IsStandard (AStdin a) \<or> \<not> IsStandard (AStdout a) then io_return False
      else io_try (os_Stat ''/bbin/bb'') (\<lambda>r. io_return (\<not> isl r)))"

definition attachBootConsole :: "'s terminal \<Rightarrow> App \<Rightarrow> (bool \<times> App) io" where
  "attachBootConsole T a =
     io_bind (shouldAttachBootConsole a) (\<lambda>should.
     if \<not> should then io_return (False, a)
     else io_try (os_Open ''/dev/console'') (\<lambda>r. io_return (if isl r then (False, a)
       else (True, a\<lparr>AStdin := boot_console T, AStdout := boot_console T\<rparr>))))"

definition autoRichMenuAllowed :: "'s terminal \<Rightarrow> bool" where
  "autoRichMenuAllowed T \<longleftrightarrow> ToLower (getenv_TERM T) \<notin> {''dumb'', ''linux''}"

definition useRichMenu :: "'s terminal \<Rightarrow> App \<Rightarrow> (bool \<times> App) io" where
  "useRichMenu T a =
     (if AUIMode a = UIModeAuto then
        if \<not> autoRichMenuAllowed T then io_return (False, a)
        else if hasInteractiveConsole a then io_return (True, a)
        else io_bind (attachBootConsole T a) (\<lambda>(attached, a'). io_return (attached \<and> hasInteractiveConsole a', a'))
      else if AUIMode a = UIModeRich then
        io_bind (if hasInteractiveConsole a then io_return (False, a) else attachBootConsole T a) (\<lambda>(_, a').
        if \<not> hasInteractiveConsole a' then io_fail (errors_New ''rich UI requires console stdin and stdout'')
        else io_return (True, a'))
      else if AUIMode a = UIModePlain then io_return (False, a)
      else io_fail (Errorf ''unsupported ui mode %q'' [S (AUIMode a)]))"

section \<open>Menus\<close>

text \<open>\<open>reader.ReadString('\n')\<close>: the line with its end, or the rest and the error that ended it (\<open>io.EOF\<close> is \<open>None\<close>), and
  what is left to read.\<close>

definition ReadString :: "bytes \<times> go_error option \<Rightarrow> (bytes \<times> go_error option) \<times> (bytes \<times> go_error option)" where
  "ReadString src =
     (let (text, final) = src; line = takeWhile (\<lambda>c. c \<noteq> CHR 0x0A) text in
      if length line < length text then ((line @ [CHR 0x0A], None), (drop (Suc (length line)) text, final))
      else ((text, final), ([], final)))"

definition read_line :: "bytes \<times> go_error option \<Rightarrow> (bytes \<times> (bytes \<times> go_error option)) result" where
  "read_line src = (case ReadString src of ((line, err), rest) \<Rightarrow>
     (case err of None \<Rightarrow> Inr (line, rest) | Some e \<Rightarrow> Inl (Errorf ''read target selection: %w'' [W e])))"

text \<open>What both menus do with a discovery family.\<close>

definition discover_family :: "'s terminal \<Rightarrow> App \<Rightarrow> statusRenderer \<Rightarrow> DiscoveryFamily \<Rightarrow> Target list io" where
  "discover_family T a renderer family =
     io_bind (status renderer ''discovering'' (FamName family)) (\<lambda>_.
     io_bind (or_fatal T renderer (Registry_DiscoverTargets (ARegistry a) (FamID family))) (\<lambda>targets.
     if targets = [] then fatal T renderer (Errorf ''no targets discovered for %s'' [S (FamID family)])
     else io_return targets))"

definition richTargetFromOption :: "'s terminal \<Rightarrow> App \<Rightarrow> BootOption \<Rightarrow> Target io" where
  "richTargetFromOption T a o' = (case o' of
       TargetOptionEntry target \<Rightarrow> io_return target
     | FamilyOptionEntry family \<Rightarrow>
         io_bind (discover_family T a (rich_renderer (term_theme T) richMenu) family) (\<lambda>targets.
         io_of (rm_SelectTarget (term_theme T) richMenu (ctx_end T) (rich_events T 1) targets)))"

definition targetFromOption :: "'s terminal \<Rightarrow> App \<Rightarrow> BootOption \<Rightarrow> bytes \<times> go_error option \<Rightarrow> Target io" where
  "targetFromOption T a o' reader = (case o' of
       TargetOptionEntry target \<Rightarrow> io_return target
     | FamilyOptionEntry family \<Rightarrow>
         let menu = text_renderer textMenu in
         io_bind (discover_family T a menu family) (\<lambda>targets.
         io_bind (io_wrap (\<lambda>e. Errorf ''render discovered targets: %w'' [W e]) (RenderTargets textMenu targets)) (\<lambda>_.
         io_bind (RenderPrompt textMenu ''target> '') (\<lambda>_.
         io_bind (io_of (read_line reader)) (\<lambda>(input, _).
         or_fatal T menu (io_of (SelectTargetByInput targets input)))))))"

definition plainMenu :: "'s terminal \<Rightarrow> App \<Rightarrow> Target list \<Rightarrow> DiscoveryFamily list \<Rightarrow> unit io" where
  "plainMenu T a targets families =
     (let menu = text_renderer textMenu; os = BootOptions targets families in
      io_bind (io_wrap (\<lambda>e. Errorf ''render boot options: %w'' [W e]) (RenderBootOptions textMenu os)) (\<lambda>_.
      io_bind (RenderPrompt textMenu ''target> '') (\<lambda>_.
      io_bind (io_of (read_line (stdin_text T))) (\<lambda>(input, reader).
      io_bind (or_fatal T menu (io_of (SelectBootOptionByInput os input))) (\<lambda>o'.
      io_bind (targetFromOption T a o' reader) (\<lambda>target.
      io_bind (stageSelectedTarget T a target menu) (\<lambda>staged.
      executeStaged T a staged menu)))))))"

definition richMenu_flow :: "'s terminal \<Rightarrow> App \<Rightarrow> Target list \<Rightarrow> DiscoveryFamily list \<Rightarrow> unit io" where
  "richMenu_flow T a targets families =
     (let menu = rich_renderer (term_theme T) richMenu in
      case SelectBootOption (term_theme T) richMenu (ctx_end T) (rich_events T 0) (BootOptions targets families) of
        Inl err \<Rightarrow> if errors_is err ErrSelectionCanceled then io_return () else io_fail err
      | Inr o' \<Rightarrow>
          io_bind (richTargetFromOption T a o') (\<lambda>target.
          io_bind (stageSelectedTarget T a target menu) (\<lambda>staged.
          executeStaged T a staged menu)))"

definition app_menu :: "'s terminal \<Rightarrow> App \<Rightarrow> unit io" where
  "app_menu T a =
     io_bind (io_wrap (\<lambda>e. Errorf ''list targets: %w'' [W e]) (Registry_Targets (ARegistry a))) (\<lambda>targets.
     io_bind (io_of (map_err (\<lambda>e. Errorf ''list discovery families: %w'' [W e]) (DiscoveryFamilies (ARegistry a)))) (\<lambda>families.
     io_bind (useRichMenu T a) (\<lambda>(useRich, a').
     if useRich then richMenu_flow T a' targets families else plainMenu T a' targets families)))"

section \<open>Running\<close>

definition runMode :: "'s terminal \<Rightarrow> App \<Rightarrow> unit io" where
  "runMode T a =
     (if AMode a = ModeMenu then app_menu T a
      else if AMode a = [] \<or> AMode a = ModeListTargets then app_listTargets a
      else if AMode a = ModeCatalogMatrix then app_catalogMatrix T a
      else if AMode a = ModeDiscoverTargets then app_discoverTargets a
      else if AMode a = ModeShowTarget then app_showTarget a
      else if AMode a = ModePlanTarget then app_planTarget T a
      else if AMode a = ModeStageTarget then io_bind (stageTarget T a (text_renderer textMenu)) (\<lambda>_. io_return ())
      else if AMode a = ModeBootTarget then app_bootTarget T a
      else io_fail (Errorf ''unsupported mode %q'' [S (AMode a)]))"

text \<open>\<open>hold\<close> returns when the context ends, with its error.\<close>

definition hold :: "'s terminal \<Rightarrow> unit io" where
  "hold T = io_fail (ctx_end T)"

definition app_Run :: "'s terminal \<Rightarrow> App \<Rightarrow> unit io" where
  "app_Run T a =
     io_bind (io_each (\<lambda>prepare. io_wrap (\<lambda>e. Errorf ''prepare runtime: %w'' [W e]) prepare) (APreparers a)) (\<lambda>_.
     io_bind (runMode T a) (\<lambda>_.
     if AHold a then hold T else io_return ()))"

section \<open>Displays\<close>

text \<open>What the flows rely on of a display: showing a status or an error changes no file.\<close>

locale status_display =
  fixes R :: statusRenderer
  assumes status_pure: "fs_pure (RenderStatus R phase message)"
    and fatal_pure: "fs_pure (RenderFatal R message)"
begin

lemma status_keeps: "fs_pure (status R phase message)"
  unfolding status_def by (intro fs_pure_intros status_pure)

lemma fatal_keeps: "fs_pure (fatal T R err)"
  unfolding fatal_def by (intro fs_pure_intros fatal_pure)

lemma progress_quiet: "quiet (Some (stageProgress R))"
  unfolding quiet_def stageProgress_def by (auto intro!: fs_pure_intros status_keeps)

end

lemma or_fatal_Inr [simp]: "or_fatal T R m w = (Inr x, w') \<longleftrightarrow> m w = (Inr x, w')"
  by (auto simp: or_fatal_def io_try_def fatal_def split: prod.splits sum.splits)

lemma fs_pure_writeBootPlan [fs_pure_intros]: "fs_pure (writeBootPlan p)"
  unfolding writeBootPlan_def writeFreeBSDKbootPlan_def by (intro fs_pure_intros)

lemma fs_pure_rich [fs_pure_intros]: "fs_pure (rm_RenderStatus th m phase message)" "fs_pure (rm_RenderFatal th m message)"
  unfolding rm_RenderStatus_def rm_RenderFatal_def renderStatusFrame_def Let_def by (intro fs_pure_intros)+

interpretation text_display: status_display "text_renderer m" for m
  by unfold_locales (simp_all add: text_renderer_def fs_pure_intros)

interpretation rich_display: status_display "rich_renderer th m" for th m
  by unfold_locales (simp_all add: rich_renderer_def fs_pure_intros)

context status_display
begin

text \<open>A staged target was planned and staged by the registry, and what the provider left on disk is still there.\<close>

lemma stageSelectedTarget_Inr:
  assumes "stageSelectedTarget T a target R w = (Inr staged, w')"
  shows "\<exists>plan u u' dir v v'. Registry_Plan (ARegistry a) (plan_input a target) u = (Inr plan, u') \<and>
    Registry_Stage (ARegistry a) (stage_config a R dir (applyCmdlineAppend a plan)) v = (Inr staged, v') \<and> Fs w' = Fs v'"
proof -
  let ?dir = "if AStagingDir a = [] then ''/tmp/bootup'' else AStagingDir a"
  obtain plan u u' v v' where "Registry_Plan (ARegistry a) (plan_input a target) u = (Inr plan, u')"
    and "Registry_Stage (ARegistry a) (stage_config a R ?dir (applyCmdlineAppend a plan)) v = (Inr staged, v')"
    and wr: "writeBootPlan staged v' = (Inr (), w')"
    using assms unfolding stageSelectedTarget_def Let_def by (auto simp del: if_split)
  then show ?thesis using fs_pureD [OF fs_pure_writeBootPlan wr] by blast
qed

end

section \<open>Only staged plans are executed\<close>

text \<open>The executor under observation: a plan for which \<open>ok\<close> does not hold on the files at that moment is refused.\<close>

definition guard_handoff :: "(BootPlan \<Rightarrow> (string \<Rightarrow> node option) \<Rightarrow> bool) \<Rightarrow> App \<Rightarrow> App" where
  "guard_handoff ok a = a\<lparr>AExecutor := map_option (\<lambda>execute p w. if ok p (Fs w) then execute p w
     else (Inl (errors_New ''not a staged plan''), w)) (AExecutor a)\<rparr>"

text \<open>Whatever the registry plans, with any command line, and then stages satisfies \<open>ok\<close>.\<close>

definition stages_ok :: "(BootPlan \<Rightarrow> (string \<Rightarrow> node option) \<Rightarrow> bool) \<Rightarrow> Registry \<Rightarrow> bool" where
  "stages_ok ok r \<longleftrightarrow> (\<forall>input u plan u' cmdline cfg w p w'.
     Registry_Plan r input u = (Inr plan, u') \<longrightarrow> CPlan cfg = plan\<lparr>BCmdline := cmdline\<rparr> \<longrightarrow> quiet (Progress cfg) \<longrightarrow>
     Registry_Stage r cfg w = (Inr p, w') \<longrightarrow> ok p (Fs w'))"

lemma guard_handoff_fields [simp]:
  "ARegistry (guard_handoff ok a) = ARegistry a" "AStdin (guard_handoff ok a) = AStdin a" "AStdout (guard_handoff ok a) = AStdout a"
  "AMode (guard_handoff ok a) = AMode a" "AUIMode (guard_handoff ok a) = AUIMode a" "ATargetID (guard_handoff ok a) = ATargetID a"
  "ATargetOptions (guard_handoff ok a) = ATargetOptions a" "ASecretStore (guard_handoff ok a) = ASecretStore a"
  "ASecretRefs (guard_handoff ok a) = ASecretRefs a" "ADiscoveryFamilyID (guard_handoff ok a) = ADiscoveryFamilyID a"
  "AStagingDir (guard_handoff ok a) = AStagingDir a" "ACmdlineAppend (guard_handoff ok a) = ACmdlineAppend a"
  "AHold (guard_handoff ok a) = AHold a" "APreparers (guard_handoff ok a) = APreparers a"
  "AOnBeforeListTargets (guard_handoff ok a) = AOnBeforeListTargets a"
  by (simp_all add: guard_handoff_def)

text \<open>Operations that do not look at the executor.\<close>

lemma guard_handoff_unused [simp]:
  "selectTarget (guard_handoff ok a) = selectTarget a" "app_listTargets (guard_handoff ok a) w = app_listTargets a w"
  "app_catalogMatrix T (guard_handoff ok a) = app_catalogMatrix T a" "app_showTarget (guard_handoff ok a) = app_showTarget a"
  "app_discoverTargets (guard_handoff ok a) = app_discoverTargets a" "app_planTarget T (guard_handoff ok a) = app_planTarget T a"
  "stageSelectedTarget T (guard_handoff ok a) target R = stageSelectedTarget T a target R"
  "richTargetFromOption T (guard_handoff ok a) o' = richTargetFromOption T a o'"
  "targetFromOption T (guard_handoff ok a) o' rd = targetFromOption T a o' rd"
  "hasInteractiveConsole (guard_handoff ok a) = hasInteractiveConsole a"
  "shouldAttachBootConsole (guard_handoff ok a) = shouldAttachBootConsole a"
  by (simp_all add: selectTarget_def app_listTargets_def app_catalogMatrix_def app_showTarget_def app_discoverTargets_def
      app_planTarget_def stageSelectedTarget_def stage_config_def plan_input_def applyCmdlineAppend_def discover_family_def
      richTargetFromOption_def targetFromOption_def hasInteractiveConsole_def shouldAttachBootConsole_def Let_def cong: BootOption.case_cong if_cong)

lemma stageTarget_guard [simp]: "stageTarget T (guard_handoff ok a) R = stageTarget T a R"
  by (simp add: stageTarget_def)

context status_display
begin

lemma execute_guarded:
  assumes "ok staged (Fs w)"
  shows "executeStaged T (guard_handoff ok a) staged R w = executeStaged T a staged R w"
proof (cases "AExecutor a")
  case (Some ex)
  obtain r w1 where st: "status R ''loading'' (Name (BTarget staged)) w = (r, w1)" by fastforce
  then have "Fs w1 = Fs w" using fs_pureD [OF status_keeps] by blast
  with st assms Some show ?thesis
    by (cases r) (simp_all add: executeStaged_def guard_handoff_def io_bind_def or_fatal_def io_try_def)
qed (simp add: executeStaged_def guard_handoff_def)

lemma stage_execute_guarded:
  assumes "stages_ok ok (ARegistry a)"
  shows "io_bind (stageSelectedTarget T a target R) (\<lambda>staged. executeStaged T (guard_handoff ok a) staged R) =
         io_bind (stageSelectedTarget T a target R) (\<lambda>staged. executeStaged T a staged R)"
proof
  fix w
  obtain r w1 where st: "stageSelectedTarget T a target R w = (r, w1)" by fastforce
  show "io_bind (stageSelectedTarget T a target R) (\<lambda>staged. executeStaged T (guard_handoff ok a) staged R) w =
        io_bind (stageSelectedTarget T a target R) (\<lambda>staged. executeStaged T a staged R) w"
  proof (cases r)
    case (Inr staged)
    from stageSelectedTarget_Inr [OF st [unfolded Inr]] obtain plan u u' dir v v'
      where "Registry_Plan (ARegistry a) (plan_input a target) u = (Inr plan, u')"
        and "Registry_Stage (ARegistry a) (stage_config a R dir (applyCmdlineAppend a plan)) v = (Inr staged, v')" and "Fs w1 = Fs v'"
      by blast
    moreover have "CPlan (stage_config a R dir (applyCmdlineAppend a plan)) = plan\<lparr>BCmdline := appendCmdline (BCmdline plan) (ACmdlineAppend a)\<rparr>"
      and "quiet (Progress (stage_config a R dir (applyCmdlineAppend a plan)))"
      by (simp_all add: stage_config_def applyCmdlineAppend_def progress_quiet)
    ultimately have "ok staged (Fs w1)" using assms unfolding stages_ok_def by metis
    with st Inr show ?thesis by (simp add: io_bind_def execute_guarded)
  qed (use st in \<open>simp add: io_bind_def\<close>)
qed

end

text \<open>Choosing the menu only ever changes the streams.\<close>

definition with_console :: "'s terminal \<Rightarrow> App \<Rightarrow> App" where
  "with_console T a = a\<lparr>AStdin := boot_console T, AStdout := boot_console T\<rparr>"

lemma with_console_guard [simp]:
  "with_console T (guard_handoff ok a) = guard_handoff ok (with_console T a)" "ARegistry (with_console T a) = ARegistry a"
  by (simp_all add: with_console_def guard_handoff_def)

definition attached :: "'s terminal \<Rightarrow> App \<Rightarrow> bool io" where
  "attached T a =
     io_bind (shouldAttachBootConsole a) (\<lambda>should. if \<not> should then io_return False
       else io_try (os_Open ''/dev/console'') (\<lambda>r. io_return (\<not> isl r)))"

lemma attachBootConsole_attached:
  "attachBootConsole T a = io_bind (attached T a) (\<lambda>b. io_return (b, if b then with_console T a else a))"
  by (rule ext) (auto simp: attachBootConsole_def attached_def with_console_def io_bind_def io_try_def split: prod.splits sum.splits)

lemma attached_guard [simp]: "attached T (guard_handoff ok a) = attached T a"
  by (simp add: attached_def)

definition use_rich :: "'s terminal \<Rightarrow> App \<Rightarrow> (bool \<times> bool) io" where
  "use_rich T a =
     (if AUIMode a = UIModeAuto then
        if \<not> autoRichMenuAllowed T then io_return (False, False)
        else if hasInteractiveConsole a then io_return (True, False)
        else io_bind (attached T a) (\<lambda>b. io_return (b \<and> hasInteractiveConsole (with_console T a), b))
      else if AUIMode a = UIModeRich then
        io_bind (if hasInteractiveConsole a then io_return False else attached T a) (\<lambda>b.
        if \<not> hasInteractiveConsole (if b then with_console T a else a) then io_fail (errors_New ''rich UI requires console stdin and stdout'')
        else io_return (True, b))
      else if AUIMode a = UIModePlain then io_return (False, False)
      else io_fail (Errorf ''unsupported ui mode %q'' [S (AUIMode a)]))"

lemma useRichMenu_use_rich:
  "useRichMenu T a = io_bind (use_rich T a) (\<lambda>(rich, b). io_return (rich, if b then with_console T a else a))"
  by (rule ext) (auto simp: useRichMenu_def use_rich_def attachBootConsole_attached io_bind_def split: prod.splits sum.splits)

lemma hasInteractiveConsole_guard_if [simp]:
  "hasInteractiveConsole (if b then guard_handoff ok a else guard_handoff ok a') = hasInteractiveConsole (if b then a else a')"
  by simp

lemma use_rich_guard [simp]: "use_rich T (guard_handoff ok a) = use_rich T a"
  by (simp add: use_rich_def del: if_split cong: if_cong)

lemma menu_flows_guarded:
  assumes "stages_ok ok (ARegistry a)"
  shows "richMenu_flow T (guard_handoff ok a) ts fs = richMenu_flow T a ts fs"
    and "plainMenu T (guard_handoff ok a) ts fs = plainMenu T a ts fs"
  using assms by (simp_all add: richMenu_flow_def plainMenu_def Let_def rich_display.stage_execute_guarded
      text_display.stage_execute_guarded cong: sum.case_cong)

lemma app_menu_guarded:
  assumes "stages_ok ok (ARegistry a)"
  shows "app_menu T (guard_handoff ok a) = app_menu T a"
proof -
  have "(if rich then richMenu_flow T (if b then guard_handoff ok (with_console T a) else guard_handoff ok a) ts fs
         else plainMenu T (if b then guard_handoff ok (with_console T a) else guard_handoff ok a) ts fs) =
        (if rich then richMenu_flow T (if b then with_console T a else a) ts fs
         else plainMenu T (if b then with_console T a else a) ts fs)" for rich b ts fs
    using assms by (simp add: menu_flows_guarded)
  then show ?thesis
    by (simp add: app_menu_def useRichMenu_use_rich io_bind_assoc case_prod_unfold del: if_split cong: if_cong)
qed

text \<open>In every mode and with either menu, control is handed only to a plan that the registry staged, with the files as
  staging left them: when planning and then staging establishes \<open>ok\<close>, a run in which the executor refuses any plan that is
  not \<open>ok\<close> at the moment of the handoff is the same as the real run.\<close>

lemma app_executes_staged_only:
  assumes "stages_ok ok (ARegistry a)"
  shows "app_Run T (guard_handoff ok a) w = app_Run T a w"
proof -
  have "app_bootTarget T (guard_handoff ok a) = app_bootTarget T a"
    using assms by (simp add: app_bootTarget_def stageTarget_def io_bind_assoc text_display.stage_execute_guarded Let_def)
  moreover have "app_listTargets (guard_handoff ok a) = app_listTargets a" by (rule ext) simp
  ultimately have "runMode T (guard_handoff ok a) = runMode T a"
    using assms by (simp add: runMode_def app_menu_guarded)
  then show ?thesis by (simp add: app_Run_def)
qed

end
