(* ===== verification/Confinement.thy ===== *)
theory Confinement
  imports World
begin

text \<open>
  Which paths an action may change, as a set closed under the combinators of \<open>World\<close>, and the paths
  that lie below a directory.  A component that unpacks or stages files is confined when everything it
  changes is below the directory it was given, or is one of that directory's own missing parents.
\<close>

section \<open>Cleaned paths\<close>

definition canon :: "bool \<Rightarrow> string list \<Rightarrow> string" where
  "canon rooted es = (if rooted then CHR ''/'' # Join es ''/'' else if es = [] then ''.'' else Join es ''/'')"

lemma path_Clean_canon: "p \<noteq> [] \<Longrightarrow> path_Clean p = canon (prefix ''/'' p) (path_elems p)"
  by (simp add: path_Clean_elems canon_def)

lemma Join_snoc: "Join (es @ [n]) sep = (if es = [] then n else Join es sep @ sep @ n)"
  by (induction es sep rule: Join.induct) auto

lemma rooted_Clean: "p \<noteq> [] \<Longrightarrow> prefix ''/'' (path_Clean p) = prefix ''/'' p"
proof -
  assume p: "p \<noteq> []"
  have "\<not> prefix ''/'' (Join (path_elems p) ''/'')"
  proof (cases "path_elems p = []")
    case False
    then obtain e es where es: "path_elems p = e # es" by (meson neq_Nil_conv)
    then have "e \<noteq> []" "CHR ''/'' \<notin> set e"
      using path_elems_nonempty [of p] path_elems_no_slash [of e p] by auto
    then show ?thesis by (cases e; cases es) (auto simp: es)
  qed simp
  with p show ?thesis by (auto simp: path_Clean_elems)
qed

lemma path_Clean_idem [simp]: "path_Clean (path_Clean p) = path_Clean p"
proof (cases "p = []")
  case False
  have "path_Clean (path_Clean p) = canon (prefix ''/'' (path_Clean p)) (path_elems (path_Clean p))"
    by (rule path_Clean_canon) simp
  also have "\<dots> = path_Clean p" 
    by (simp only: rooted_Clean [OF False] path_elems_Clean [OF False] path_Clean_canon [OF False, symmetric])
  finally show ?thesis .
qed (simp add: path_Clean_def)

lemma filepath_Join_canon:
  assumes "d \<noteq> []" and "plain_elem n"
  shows "filepath_Join [d, n] = canon (prefix ''/'' d) (path_elems d @ [n])"
proof -
  have "filepath_Join [d, n] = path_Clean (d @ CHR ''/'' # n)"
    using assms by (cases n) (simp_all add: filepath_Join_def)
  moreover have "prefix ''/'' (d @ CHR ''/'' # n) = prefix ''/'' d" using assms(1) by (cases d) auto
  ultimately show ?thesis using assms by (simp add: path_Clean_canon path_elems_join)
qed

lemma path_Clean_trailing: "d \<noteq> [] \<Longrightarrow> path_Clean (d @ ''/'') = path_Clean d"
proof -
  assume d: "d \<noteq> []"
  have "prefix ''/'' (d @ ''/'') = prefix ''/'' d" using d by (cases d) auto
  moreover have "Split (d @ ''/'') CHR ''/'' = Split d CHR ''/'' @ [[]]" using Split_append [of d "CHR ''/''" "[]"] by simp
  ultimately show ?thesis using d by (simp add: path_Clean_canon path_elems_def)
qed

section \<open>Below a directory\<close>

definition beneath :: "string \<Rightarrow> string \<Rightarrow> bool" where
  "beneath d q \<longleftrightarrow> q \<noteq> [] \<and> prefix ''/'' q = prefix ''/'' d \<and> (\<exists>ns. list_all plain_elem ns \<and> path_elems q = path_elems d @ ns)"

lemma beneath_self: "d \<noteq> [] \<Longrightarrow> beneath d d"
  by (auto simp: beneath_def intro: exI [of _ "[]"])

lemma beneath_Clean: "beneath d q \<Longrightarrow> beneath d (path_Clean q)"
  by (auto simp: beneath_def rooted_Clean path_elems_Clean)

lemma filepath_Join_nonempty: "d \<noteq> [] \<Longrightarrow> filepath_Join (d # es) \<noteq> []"
  by (simp add: filepath_Join_def)

lemma beneath_Join: "beneath d q \<Longrightarrow> plain_elem n \<Longrightarrow> beneath d (filepath_Join [q, n])"
proof -
  assume b: "beneath d q" and n: "plain_elem n"
  then obtain ns where q: "q \<noteq> []" "prefix ''/'' q = prefix ''/'' d" "list_all plain_elem ns" "path_elems q = path_elems d @ ns"
    by (auto simp: beneath_def)
  have "filepath_Join [q, n] = path_Clean (q @ CHR ''/'' # n)"
    using q(1) n by (cases n) (simp_all add: filepath_Join_def)
  then have "prefix ''/'' (filepath_Join [q, n]) = prefix ''/'' q"
    using q(1) rooted_Clean [of "q @ CHR ''/'' # n"] by (cases q) auto
  with q n filepath_Join_below [OF q(1) n] filepath_Join_nonempty [OF q(1)] show ?thesis
    by (auto simp: beneath_def intro!: exI [of _ "ns @ [n]"])
qed

lemma ancestor_step:
  assumes n: "CHR ''/'' \<notin> set n" and es: "[] \<notin> set es" and q: "ancestor_or_self q (canon r (es @ [n]))"
  shows "q = canon r (es @ [n]) \<or> ancestor_or_self q (canon r es)"
proof -
  have key: "prefix (q @ ''/'') (x @ ''/'' @ n) \<Longrightarrow> q = x \<or> prefix (q @ ''/'') x" for x
  proof -
    assume "prefix (q @ ''/'') (x @ ''/'' @ n)"
    then obtain z where z: "q @ CHR ''/'' # z = x @ CHR ''/'' # n" by (auto simp: prefix_def)
    then show "q = x \<or> prefix (q @ ''/'') x"
      using n by (auto simp: append_eq_append_conv2 Cons_eq_append_conv append_eq_Cons_conv prefix_def)
  qed
  show ?thesis
  proof (cases "es = []")
    case True
    then show ?thesis
      using q n key [of "[]"] by (cases r) (auto simp: canon_def ancestor_or_self_def prefix_def Cons_eq_append_conv)
  next
    case False
    have c: "canon r (es @ [n]) = canon r es @ ''/'' @ n" using False by (cases r) (simp_all add: canon_def Join_snoc)
    show ?thesis using q key [of "canon r es"] False Join_nonempty [OF False es] unfolding c
      by (auto simp: ancestor_or_self_def prefix_def append_eq_Cons_conv canon_def split: if_splits)
  qed
qed

text \<open>What an unpacker of \<open>d\<close> may change: paths below \<open>d\<close>, and the parents of \<open>d\<close>.\<close>

definition reach :: "string \<Rightarrow> string set" where
  "reach d = {q. beneath d q} \<union> {q. ancestor_or_self q (path_Clean d)}"

lemma canon_below:
  assumes "d \<noteq> []" and "list_all plain_elem ns"
  defines "c \<equiv> canon (prefix ''/'' d) (path_elems d @ ns)"
  shows "c \<noteq> [] \<and> prefix ''/'' c = prefix ''/'' d \<and> path_elems c = path_elems d @ ns"
  using assms(2) unfolding c_def
proof (induction ns rule: rev_induct)
  case Nil
  then show ?case using assms(1) by (simp add: rooted_Clean path_elems_Clean flip: path_Clean_canon)
next
  case (snoc n ns)
  let ?q = "canon (prefix ''/'' d) (path_elems d @ ns)"
  from snoc have q: "?q \<noteq> []" "prefix ''/'' ?q = prefix ''/'' d" "path_elems ?q = path_elems d @ ns" and n: "plain_elem n"
    by simp_all
  have "filepath_Join [?q, n] = canon (prefix ''/'' d) (path_elems d @ ns @ [n])"
    using filepath_Join_canon [OF q(1) n] by (simp only: q append_assoc)
  then show ?case
    using beneath_Join [OF beneath_self [OF q(1)] n] filepath_Join_below [OF q(1) n] q
    by (simp add: beneath_def)
qed

lemma ancestor_reach:
  assumes d: "d \<noteq> []" and "beneath d p" and "ancestor_or_self q (path_Clean p)"
  shows "q \<in> reach d"
proof -
  from assms(2) obtain ns where p: "p \<noteq> []" "prefix ''/'' p = prefix ''/'' d" "list_all plain_elem ns"
    "path_elems p = path_elems d @ ns" by (auto simp: beneath_def)
    have "ancestor_or_self q (canon (prefix ''/'' d) (path_elems d @ ns)) \<Longrightarrow> list_all plain_elem ns \<Longrightarrow> q \<in> reach d"
    proof (induction ns rule: rev_induct)
      case Nil
      then show ?case using path_Clean_canon [OF d] by (simp add: reach_def)
    next
      case (snoc n ns)
      have "[] \<notin> set (path_elems d @ ns)" using snoc.prems(2) path_elems_nonempty by (auto simp: list_all_iff)
      then consider "q = canon (prefix ''/'' d) (path_elems d @ ns @ [n])" | "ancestor_or_self q (canon (prefix ''/'' d) (path_elems d @ ns))"
        using ancestor_step [of n "path_elems d @ ns" q "prefix ''/'' d"] snoc.prems by (auto simp: plain_elem_def)
      then show ?case
      proof cases
        case 1
        with canon_below [OF d snoc.prems(2)] have "beneath d q" using snoc.prems(2) by (auto simp: beneath_def)
        then show ?thesis by (simp add: reach_def)
      next
        case 2
        with snoc show ?thesis by simp
      qed
    qed
    with assms(3) p show ?thesis by (simp add: path_Clean_canon)
qed


lemma reach_Join:
  assumes "d \<noteq> []" and "beneath d p" and "plain_elem n"
  shows "path_Clean (filepath_Join [p, n]) \<in> reach d"
  using beneath_Clean [OF beneath_Join [OF assms(2,3)]] by (simp add: reach_def)

lemma filepath_Dir_Join:
  assumes "d \<noteq> []" and "plain_elem n"
  shows "filepath_Dir (filepath_Join [d, n]) = path_Clean d"
proof -
  have slash: "\<And>c. c \<in> set (rev n) \<Longrightarrow> c \<noteq> CHR ''/''" using plain_elem_no_slash [OF assms(2)] by auto
  have drop: "rev (dropWhile (\<lambda>c. c \<noteq> CHR ''/'') (rev (x @ CHR ''/'' # n))) = x @ ''/''" for x
  proof -
    have "dropWhile (\<lambda>c. c \<noteq> CHR ''/'') (rev n @ CHR ''/'' # rev x) = CHR ''/'' # rev x"
      by (simp only: dropWhile_append2 [OF slash] dropWhile.simps) simp
    then show ?thesis by simp
  qed
  show ?thesis
  proof (cases "path_elems d = []")
    case True
    have no: "dropWhile (\<lambda>c. c \<noteq> CHR ''/'') (rev n) = []" using slash by (simp add: dropWhile_eq_Nil_conv)
    show ?thesis
    proof (cases "prefix ''/'' d")
      case rooted: True
      have "filepath_Join [d, n] = [] @ CHR ''/'' # n" "path_Clean d = ''/''"
        using True rooted by (simp_all add: filepath_Join_canon [OF assms] path_Clean_canon [OF assms(1)] canon_def)
      moreover have "path_Clean ''/'' = ''/''" by code_simp
      ultimately show ?thesis using drop [of "[]"] by (simp only: filepath_Dir_def append.simps)
    next
      case False
      have "filepath_Join [d, n] = n" "path_Clean d = ''.''"
        using True False by (simp_all add: filepath_Join_canon [OF assms] path_Clean_canon [OF assms(1)] canon_def)
      then show ?thesis by (simp only: filepath_Dir_def no) (simp add: path_Clean_def)
    qed
  next
    case False
    then have "filepath_Join [d, n] = path_Clean d @ CHR ''/'' # n"
      by (simp add: filepath_Join_canon [OF assms] path_Clean_canon [OF assms(1)] canon_def Join_snoc)
    then show ?thesis using drop [of "path_Clean d"] path_Clean_trailing [of "path_Clean d"] by (simp add: filepath_Dir_def)
  qed
qed

section \<open>Actions confined to a set of paths\<close>

definition touches_within :: "string set \<Rightarrow> 'a io \<Rightarrow> bool" where
  "touches_within A m \<longleftrightarrow> (\<forall>w r w' q. m w = (r, w') \<longrightarrow> q \<notin> A \<longrightarrow> Fs w' q = Fs w q)"

named_theorems within_intros \<open>closure properties of confined actions\<close>

lemma touches_withinD: "touches_within A m \<Longrightarrow> m w = (r, w') \<Longrightarrow> q \<notin> A \<Longrightarrow> Fs w' q = Fs w q"
  by (simp add: touches_within_def)

lemma within_mono: "touches_within A m \<Longrightarrow> A \<subseteq> B \<Longrightarrow> touches_within B m"
  unfolding touches_within_def subset_iff by metis

lemma within_fs_pure: "fs_pure m \<Longrightarrow> touches_within A m"
  by (auto simp: touches_within_def fs_pure_def)

lemma within_touches_only: "touches_only p m \<Longrightarrow> p \<in> A \<Longrightarrow> touches_within A m"
  by (auto simp: touches_within_def elim: touches_onlyD)

lemma within_basic [within_intros]:
  "touches_within A (io_return x)" "touches_within A (io_fail e)" "touches_within A (io_of r)"
  by (intro within_fs_pure fs_pure_intros)+

lemma within_bind [within_intros]:
  "touches_within A m \<Longrightarrow> (\<And>x. touches_within A (k x)) \<Longrightarrow> touches_within A (io_bind m k)"
  unfolding touches_within_def io_bind_def by (auto split: prod.splits sum.splits)

lemma within_bind_dep:
  "touches_within A m \<Longrightarrow> (\<And>w x w'. m w = (Inr x, w') \<Longrightarrow> touches_within A (k x)) \<Longrightarrow> touches_within A (io_bind m k)"
  unfolding touches_within_def io_bind_def by (fastforce split: prod.splits sum.splits)

text \<open>A check that returned its argument's condition can be used in what follows.\<close>

lemma within_bind_of [within_intros]:
  "(\<And>x. r = Inr x \<Longrightarrow> touches_within A (k x)) \<Longrightarrow> touches_within A (io_bind (io_of r) k)"
  unfolding touches_within_def io_bind_def by (auto split: prod.splits sum.splits)

lemma within_wrap [within_intros]: "touches_within A m \<Longrightarrow> touches_within A (io_wrap f m)"
  unfolding touches_within_def io_wrap_def by (auto split: prod.splits)

lemma within_try [within_intros]:
  "touches_within A m \<Longrightarrow> (\<And>x. touches_within A (k x)) \<Longrightarrow> touches_within A (io_try m k)"
  unfolding touches_within_def io_try_def by (auto split: prod.splits)

lemma within_cleanup [within_intros]:
  "touches_within A m \<Longrightarrow> touches_within A c \<Longrightarrow> touches_within A (io_or_cleanup m c f)"
  unfolding touches_within_def io_or_cleanup_def io_try_def by (auto split: prod.splits sum.splits)

lemma within_finally [within_intros]:
  "touches_within A m \<Longrightarrow> touches_within A c \<Longrightarrow> touches_within A (io_finally m c)"
  unfolding io_finally_def by (intro within_intros)

lemma within_if [within_intros]:
  "(c \<Longrightarrow> touches_within A a) \<Longrightarrow> (\<not> c \<Longrightarrow> touches_within A b) \<Longrightarrow> touches_within A (if c then a else b)"
  by simp

lemma within_option [within_intros]:
  "touches_within A a \<Longrightarrow> (\<And>x. touches_within A (b x)) \<Longrightarrow> touches_within A (case o' of None \<Rightarrow> a | Some x \<Rightarrow> b x)"
  by (cases o') auto

lemma within_each [within_intros]:
  "(\<And>x. x \<in> set xs \<Longrightarrow> touches_within A (f x)) \<Longrightarrow> touches_within A (io_each f xs)"
  by (induction xs) (auto intro!: within_intros)

lemma within_os_MkdirAll: "{q. ancestor_or_self q (path_Clean p)} \<subseteq> A \<Longrightarrow> touches_within A (os_MkdirAll p mode)"
  by (auto simp: touches_within_def os_MkdirAll_def os_call_def refused_def Let_def split: option.splits if_splits)

text \<open>Writing through a temporary file beside the target touches the two of them.\<close>

lemma within_replace_file_from:
  assumes "\<And>k. path_Clean (filepath_Join [dir, pre @ itoa k]) \<in> A" and "path_Clean target \<in> A"
  shows "touches_within A (replace_file_from msg dir pre src mode target)"
  unfolding touches_within_def
proof (intro allI impI)
  fix w r w' q
  assume run: "replace_file_from msg dir pre src mode target w = (r, w')" and q: "q \<notin> A"
  show "Fs w' q = Fs w q"
  proof (cases r)
    case (Inl e)
    with run replace_file_from_Inl assms(1) q show ?thesis by metis
  next
    case (Inr u)
    with run replace_file_from_Inr [of msg dir pre src mode target w w'] assms(2) q show ?thesis by auto
  qed
qed

end
