(* ===== verification/Diagnostics.thy ===== *)
theory Diagnostics
  imports ProviderTypes Confinement
begin

text \<open>
  Failure bundles (\<^verbatim>\<open>internal/diagnostics/diagnostics.go\<close>): the summary with its redacted error text, the
  bundle directory and its files, and the capture of the two output streams.

  The text of an error is what its \<open>Error\<close> method returns, \<open>None\<close> for nil.  A time is its UTC calendar
  fields, \<open>None\<close> for the zero time.  JSON encoding, the clock and directory listings are parameters.
\<close>

section \<open>Summaries\<close>

definition diag_schemaVersion :: int where "diag_schemaVersion = 1"

definition redactedValue :: string where "redactedValue = ''<redacted>''"

record CatalogPosture =
  CPSource :: string
  CPLocalPathSet :: bool
  CPHostedURLSet :: bool
  CPSHA256 :: bool
  CPEd25519 :: bool
  CPSignatureFiles :: bool
  CPFreshness :: bool
  CPCache :: bool
  CPCacheFallback :: bool
  CPMaxBytes :: bool

record ProviderConfigPosture =
  PathSet :: bool

record PolicyPosture =
  PPSource :: string
  PPLocalPathSet :: bool
  PPRemoteURLSet :: bool
  PPEd25519 :: bool
  PPSignatureFiles :: bool
  PPFreshness :: bool
  PPCache :: bool
  PPCacheFallback :: bool
  PPMaxBytes :: bool
  PPFallback :: string
  PPDecisionID :: string
  PPTargetID :: string
  PPPublishedAt :: string
  PPExpiresAt :: string

record Summary =
  SumSchemaVersion :: int
  SumCreatedAt :: string
  SumMode :: string
  SumTargetID :: string
  SumDiscoveryFamilyID :: string
  SelectedOptionIDs :: "string list"
  SumSecretInputIDs :: "string list"
  SumSecretRefIDs :: "string list"
  SumCatalog :: CatalogPosture
  SumProviderConfig :: ProviderConfigPosture
  SumPolicy :: PolicyPosture
  SumError :: string

record SummaryInput =
  InMode :: string
  InTargetID :: string
  InDiscoveryFamilyID :: string
  InSelectedOptions :: "SelectedOption list"
  InSecretInputIDs :: "string list"
  InSecretRefIDs :: "string list"
  InCatalog :: CatalogPosture
  InProviderConfig :: ProviderConfigPosture
  InPolicy :: PolicyPosture
  InError :: "string option"
  InRedactValues :: "string list"

definition redact_step :: "string \<Rightarrow> string \<Rightarrow> string" where
  "redact_step value text = (if value = [] then text else ReplaceAll text value redactedValue)"

definition redactError :: "string option \<Rightarrow> string list \<Rightarrow> string" where
  "redactError err vs = (case err of None \<Rightarrow> [] | Some text \<Rightarrow> fold redact_step vs text)"

definition BuildSummary :: "SummaryInput \<Rightarrow> Summary" where
  "BuildSummary inp =
     (let redactions = map SelValue (InSelectedOptions inp) @ InRedactValues inp in
      \<lparr>SumSchemaVersion = diag_schemaVersion, SumCreatedAt = [], SumMode = InMode inp, SumTargetID = InTargetID inp,
       SumDiscoveryFamilyID = InDiscoveryFamilyID inp, SelectedOptionIDs = map SelID (InSelectedOptions inp),
       SumSecretInputIDs = InSecretInputIDs inp, SumSecretRefIDs = InSecretRefIDs inp, SumCatalog = InCatalog inp,
       SumProviderConfig = InProviderConfig inp, SumPolicy = InPolicy inp, SumError = redactError (InError inp) redactions\<rparr>)"

section \<open>Bundles\<close>

record utc_time =
  year :: nat
  month :: nat
  day :: nat
  hour :: nat
  minute :: nat
  second :: nat

definition zero_pad :: "nat \<Rightarrow> nat \<Rightarrow> string" where
  "zero_pad k n = replicate (k - length (itoa n)) (CHR ''0'') @ itoa n"

text \<open>The layouts \<open>20060102T150405Z\<close> and \<open>time.RFC3339\<close>, in UTC.\<close>

definition format_compact :: "utc_time \<Rightarrow> string" where
  "format_compact t = zero_pad 4 (year t) @ zero_pad 2 (month t) @ zero_pad 2 (day t) @ ''T'' @
     zero_pad 2 (hour t) @ zero_pad 2 (minute t) @ zero_pad 2 (second t) @ ''Z''"

definition format_RFC3339 :: "utc_time \<Rightarrow> string" where
  "format_RFC3339 t = zero_pad 4 (year t) @ ''-'' @ zero_pad 2 (month t) @ ''-'' @ zero_pad 2 (day t) @ ''T'' @
     zero_pad 2 (hour t) @ '':'' @ zero_pad 2 (minute t) @ '':'' @ zero_pad 2 (second t) @ ''Z''"

record Bundle =
  RootDir :: string
  CreatedAt :: "utc_time option"
  BSummary :: Summary
  Stdout :: bytes
  Stderr :: bytes

record diag_env =
  json_MarshalIndent :: "Summary \<Rightarrow> bytes result"
  diag_Now :: "utc_time io"
  os_ReadDir :: "string \<Rightarrow> string list io"

definition isEmptyDir :: "diag_env \<Rightarrow> string \<Rightarrow> bool io" where
  "isEmptyDir E path = io_try (os_ReadDir E path) (\<lambda>r. io_return (r = Inr []))"

text \<open>One iteration of the loop: the directory, or \<open>None\<close> to go on with the next name.\<close>

definition try_bundle_dir :: "diag_env \<Rightarrow> string \<Rightarrow> string \<Rightarrow> nat \<Rightarrow> string option io" where
  "try_bundle_dir E root baseName attempt =
     (let name = (if attempt > 0 then baseName @ ''-'' @ zero_pad 3 attempt else baseName);
          path = filepath_Join [root, name] in
      io_bind (io_wrap (\<lambda>e. Errorf ''create diagnostics directory %s: %w'' [S path, W e]) (os_MkdirAll path 0x1C0)) (\<lambda>_.
      io_bind (io_wrap (\<lambda>e. Errorf ''stat diagnostics directory %s: %w'' [S path, W e]) (os_Stat path)) (\<lambda>info.
      case info of
        Dir _ \<Rightarrow>
          if attempt = 0 then io_return (Some path)
          else io_bind (isEmptyDir E path) (\<lambda>empty. io_return (if empty then Some path else None))
      | _ \<Rightarrow> io_fail (Errorf ''create diagnostics directory %s: not a directory'' [S path]))))"

function bundle_dir_loop :: "diag_env \<Rightarrow> string \<Rightarrow> string \<Rightarrow> nat \<Rightarrow> string io" where
  "bundle_dir_loop E root baseName attempt =
     (if attempt < 1000 then
        io_bind (try_bundle_dir E root baseName attempt) (\<lambda>found. case found of
          Some path \<Rightarrow> io_return path
        | None \<Rightarrow> bundle_dir_loop E root baseName (attempt + 1))
      else io_fail (Errorf ''create diagnostics directory %s: too many collisions'' [S (filepath_Join [root, baseName])]))"
  by pat_completeness auto
termination
  by (relation "measure (\<lambda>(E, root, baseName, attempt). 1000 - attempt)") auto

declare bundle_dir_loop.simps [simp del]

definition createBundleDir :: "diag_env \<Rightarrow> string \<Rightarrow> utc_time \<Rightarrow> string io" where
  "createBundleDir E root createdAt = bundle_dir_loop E root (''bootup-'' @ format_compact createdAt) 0"

definition writeJSONFile :: "diag_env \<Rightarrow> string \<Rightarrow> Summary \<Rightarrow> unit io" where
  "writeJSONFile E path v =
     io_bind (io_of (map_err (\<lambda>e. Errorf ''encode diagnostics summary: %w'' [W e]) (json_MarshalIndent E v))) (\<lambda>data.
     io_wrap (\<lambda>e. Errorf ''write diagnostics summary: %w'' [W e]) (os_WriteFile path (data @ [CHR 0x0A]) 0x180))"

definition bundle_summary :: "Bundle \<Rightarrow> utc_time \<Rightarrow> Summary" where
  "bundle_summary b createdAt =
     (let s = BSummary b in
      s\<lparr>SumSchemaVersion := (if SumSchemaVersion s = 0 then diag_schemaVersion else SumSchemaVersion s),
        SumCreatedAt := format_RFC3339 createdAt\<rparr>)"

definition WriteBundle :: "diag_env \<Rightarrow> Bundle \<Rightarrow> string io" where
  "WriteBundle E b =
     (if TrimSpace (RootDir b) = [] then io_fail (errors_New ''diagnostics root directory is required'')
      else io_bind (case CreatedAt b of None \<Rightarrow> diag_Now E | Some t \<Rightarrow> io_return t) (\<lambda>createdAt.
      io_bind (createBundleDir E (RootDir b) createdAt) (\<lambda>dir.
      io_bind (writeJSONFile E (filepath_Join [dir, ''summary.json'']) (bundle_summary b createdAt)) (\<lambda>_.
      io_bind (io_wrap (\<lambda>e. Errorf ''write diagnostics stdout: %w'' [W e])
                 (os_WriteFile (filepath_Join [dir, ''stdout.txt'']) (Stdout b) 0x180)) (\<lambda>_.
      io_bind (io_wrap (\<lambda>e. Errorf ''write diagnostics stderr: %w'' [W e])
                 (os_WriteFile (filepath_Join [dir, ''stderr.txt'']) (Stderr b) 0x180)) (\<lambda>_.
      io_return dir))))))"

section \<open>Capture\<close>

record Capture =
  cap_stdout :: bytes
  cap_stderr :: bytes

definition NewCapture :: Capture where
  "NewCapture = \<lparr>cap_stdout = [], cap_stderr = []\<rparr>"

text \<open>\<open>io.MultiWriter\<close> writes to the original stream first and to the buffer only when that succeeded.\<close>

definition Capture_Stdout :: "(bytes \<Rightarrow> unit io) \<Rightarrow> bytes \<Rightarrow> Capture \<Rightarrow> world \<Rightarrow> (unit result \<times> Capture) \<times> world" where
  "Capture_Stdout output p c w =
     (case output p w of
        (Inl e, w') \<Rightarrow> ((Inl e, c), w')
      | (Inr _, w') \<Rightarrow> ((Inr (), c\<lparr>cap_stdout := cap_stdout c @ p\<rparr>), w'))"

definition Capture_Stderr :: "(bytes \<Rightarrow> unit io) \<Rightarrow> bytes \<Rightarrow> Capture \<Rightarrow> world \<Rightarrow> (unit result \<times> Capture) \<times> world" where
  "Capture_Stderr output p c w =
     (case output p w of
        (Inl e, w') \<Rightarrow> ((Inl e, c), w')
      | (Inr _, w') \<Rightarrow> ((Inr (), c\<lparr>cap_stderr := cap_stderr c @ p\<rparr>), w'))"

section \<open>Redaction\<close>

text \<open>A text without the brackets of the replacement.\<close>

definition bare :: "string \<Rightarrow> bool" where
  "bare v \<longleftrightarrow> CHR ''<'' \<notin> set v \<and> CHR ''>'' \<notin> set v"

definition redacted_word :: string where "redacted_word = ''redacted''"

definition redactable :: "string \<Rightarrow> bool" where
  "redactable v \<longleftrightarrow> v \<noteq> [] \<and> bare v \<and> \<not> Contains redacted_word v"

lemma redactedValue_word: "redactedValue @ s = CHR ''<'' # redacted_word @ CHR ''>'' # s"
  by (simp add: redactedValue_def redacted_word_def)

lemma ReplaceAll_hit: "v \<noteq> [] \<Longrightarrow> prefix v s \<Longrightarrow> ReplaceAll s v r = r @ ReplaceAll (drop (length v) s) v r"
  by (simp add: ReplaceAll.simps [of s])

lemma ReplaceAll_skip: "v \<noteq> [] \<Longrightarrow> \<not> prefix v (a # t) \<Longrightarrow> ReplaceAll (a # t) v r = a # ReplaceAll t v r"
  by (simp add: ReplaceAll.simps [of "a # t"])

lemma ReplaceAll_empty [simp]: "ReplaceAll s [] r = s" "ReplaceAll [] v r = []"
  by (auto simp: ReplaceAll.simps [of s] ReplaceAll.simps [of "[]"])

lemma sublist_around:
  assumes "sublist x (a @ c # b)" and "c \<notin> set x"
  shows "sublist x a \<or> sublist x b"
proof -
  consider "sublist x a" | "sublist x (c # b)" | xs ys where "x = xs @ ys" "suffix xs a" "prefix ys (c # b)"
    using assms(1) by (auto simp: sublist_append)
  then show ?thesis
  proof cases
    case 3
    with assms(2) have "ys = []" by (auto simp: prefix_Cons)
    with 3 show ?thesis by (simp add: suffix_imp_sublist)
  qed (use assms(2) in \<open>auto simp: sublist_Cons_right prefix_Cons\<close>)
qed

lemma sublist_redacted:
  assumes "sublist x (redactedValue @ s)" and "bare x" and "\<not> sublist x redacted_word"
  shows "sublist x s"
proof -
  have "sublist x ([] @ CHR ''<'' # (redacted_word @ CHR ''>'' # s))" using assms(1) by (simp add: redactedValue_word)
  then have "sublist x [] \<or> sublist x (redacted_word @ CHR ''>'' # s)"
    by (rule sublist_around) (use assms(2) in \<open>simp add: bare_def\<close>)
  then show ?thesis using sublist_around [of x redacted_word "CHR ''>''" s] assms(2,3) by (auto simp: bare_def)
qed

lemma prefix_ReplaceAll:
  "bare x \<Longrightarrow> prefix x (ReplaceAll s v redactedValue) \<Longrightarrow> prefix x s"
proof (induction s arbitrary: x)
  case (Cons a t)
  show ?case
  proof (cases "v = []"; cases "prefix v (a # t)")
    assume hit: "v \<noteq> []" "prefix v (a # t)"
    have "prefix x (CHR ''<'' # redacted_word @ CHR ''>'' # ReplaceAll (drop (length v) (a # t)) v redactedValue)"
      using Cons.prems(2) by (simp only: ReplaceAll_hit [OF hit] redactedValue_word)
    then show ?thesis using Cons.prems(1) by (cases x) (simp_all add: bare_def)
  next
    assume "v \<noteq> []" "\<not> prefix v (a # t)"
    with Cons show ?thesis by (cases x) (auto simp: ReplaceAll_skip bare_def)
  qed (use Cons.prems in simp_all)
qed simp

text \<open>Replacing introduces no bare text that was not there.\<close>

lemma sublist_ReplaceAll:
  assumes x: "bare x" "\<not> sublist x redacted_word"
  shows "sublist x (ReplaceAll s v redactedValue) \<Longrightarrow> sublist x s"
proof (induction "length s" arbitrary: s rule: less_induct)
  case less
  consider "v = [] \<or> s = []" | "v \<noteq> []" "prefix v s" | a t where "s = a # t" "v \<noteq> []" "\<not> prefix v s"
    by (cases s) auto
  then show ?case
  proof cases
    case 2
    have "length (drop (length v) s) < length s" using 2 prefix_length_le [OF 2(2)] by (cases v) auto
    moreover have "sublist x (ReplaceAll (drop (length v) s) v redactedValue)"
      using sublist_redacted [OF less.prems [unfolded ReplaceAll_hit [OF 2]] x] .
    ultimately have "sublist x (drop (length v) s)" by (rule less.hyps)
    then show ?thesis by (rule sublist_order.order.trans) simp
  next
    case 3
    then have "prefix x (ReplaceAll s v redactedValue) \<or> sublist x (ReplaceAll t v redactedValue)"
      using less.prems by (simp add: ReplaceAll_skip sublist_Cons_right)
    then show ?thesis
      using less.hyps [of t] prefix_ReplaceAll [OF x(1), of s v] 3(1) by (auto simp: sublist_Cons_right)
  qed (use less.prems in auto)
qed

lemma ReplaceAll_hides:
  assumes v: "v \<noteq> []" "bare v" "\<not> sublist v redacted_word"
  shows "\<not> sublist v (ReplaceAll s v redactedValue)"
proof (induction "length s" arbitrary: s rule: less_induct)
  case less
  consider "s = []" | "prefix v s" | a t where "s = a # t" "\<not> prefix v s" by (cases s) auto
  then show ?case
  proof cases
    case 2
    have "length (drop (length v) s) < length s" using v(1) prefix_length_le [OF 2] by (cases v) auto
    then have "\<not> sublist v (ReplaceAll (drop (length v) s) v redactedValue)" by (rule less)
    then show ?thesis using sublist_redacted [OF _ v(2,3)] by (auto simp only: ReplaceAll_hit [OF v(1) 2])
  next
    case 3
    then show ?thesis
      using less [of t] prefix_ReplaceAll [OF v(2), of s v] v(1) by (auto simp: ReplaceAll_skip sublist_Cons_right)
  qed (use v in simp)
qed

lemma fold_redact_keeps_hidden:
  "redactable v \<Longrightarrow> \<not> sublist v tx \<Longrightarrow> \<not> sublist v (fold redact_step vs tx)"
proof (induction vs arbitrary: tx)
  case (Cons u us)
  then have "\<not> sublist v (redact_step u tx)" using sublist_ReplaceAll [of v tx u]
    by (auto simp: redact_step_def redactable_def Contains_iff)
  with Cons show ?case by simp
qed simp

lemma fold_redact_hides:
  "redactable v \<Longrightarrow> v \<in> set vs \<Longrightarrow> \<not> sublist v (fold redact_step vs tx)"
proof (induction vs arbitrary: tx)
  case (Cons u us)
  show ?case
  proof (cases "v = u")
    case True
    then have "\<not> sublist v (redact_step u tx)"
      using ReplaceAll_hides [of v tx] Cons.prems(1) by (simp add: redact_step_def redactable_def Contains_iff)
    then show ?thesis using fold_redact_keeps_hidden Cons.prems(1) by simp
  qed (use Cons in simp)
qed simp

text \<open>C29: No value to be redacted survives in the error text of a summary, whatever the error and the other
  values are and in whatever order they are replaced, as long as it has no angle bracket and is not a part
  of the word \<open>redacted\<close> itself.\<close>

theorem BuildSummary_redacts:
  assumes "v \<in> set (map SelValue (InSelectedOptions inp) @ InRedactValues inp)" and "redactable v"
  shows "\<not> Contains (SumError (BuildSummary inp)) v"
proof (cases "InError inp")
  case None
  with assms(2) show ?thesis by (simp add: BuildSummary_def redactError_def Contains_iff redactable_def Let_def)
next
  case (Some tx)
  with fold_redact_hides [OF assms(2,1), of tx] show ?thesis
    by (simp add: BuildSummary_def redactError_def Contains_iff Let_def del: fold_append set_append)
qed

definition sample_input :: SummaryInput where
  "sample_input = \<lparr>InMode = ''boot'', InTargetID = ''t'', InDiscoveryFamilyID = [],
     InSelectedOptions = [\<lparr>SelID = ''host'', SelValue = ''ab''\<rparr>], InSecretInputIDs = [], InSecretRefIDs = [],
     InCatalog = \<lparr>CPSource = ''embedded'', CPLocalPathSet = False, CPHostedURLSet = False, CPSHA256 = False, CPEd25519 = False,
       CPSignatureFiles = False, CPFreshness = False, CPCache = False, CPCacheFallback = False, CPMaxBytes = False\<rparr>,
     InProviderConfig = \<lparr>PathSet = False\<rparr>,
     InPolicy = \<lparr>PPSource = [], PPLocalPathSet = False, PPRemoteURLSet = False, PPEd25519 = False, PPSignatureFiles = False,
       PPFreshness = False, PPCache = False, PPCacheFallback = False, PPMaxBytes = False, PPFallback = [], PPDecisionID = [],
       PPTargetID = [], PPPublishedAt = [], PPExpiresAt = []\<rparr>,
     InError = Some ''open /run/abcd: permission denied'', InRedactValues = [''/run/abcd'']\<rparr>"

theorem BuildSummary_redacts_witness:
  "redactable ''/run/abcd'' \<and> \<not> Contains (SumError (BuildSummary sample_input)) ''/run/abcd''"
proof -
  have r: "redactable ''/run/abcd''" by code_simp
  have "''/run/abcd'' \<in> set (map SelValue (InSelectedOptions sample_input) @ InRedactValues sample_input)"
    by (simp add: sample_input_def)
  from BuildSummary_redacts [OF this r] r show ?thesis by blast
qed


section \<open>Contents of a bundle\<close>

definition bundle_dir :: "string \<Rightarrow> utc_time \<Rightarrow> string" where
  "bundle_dir root t = filepath_Join [root, ''bootup-'' @ format_compact t]"

definition is_directory :: "node option \<Rightarrow> bool" where
  "is_directory n = (case n of Some (Dir _) \<Rightarrow> True | _ \<Rightarrow> False)"

definition holds_file :: "world \<Rightarrow> string \<Rightarrow> string \<Rightarrow> bytes \<Rightarrow> bool" where
  "holds_file w dir name data = (case Fs w (path_Clean (filepath_Join [dir, name])) of Some (File d _) \<Rightarrow> d = data | _ \<Rightarrow> False)"

lemma holds_file_not_directory: "holds_file w d n x \<Longrightarrow> \<not> is_directory (Fs w (path_Clean (filepath_Join [d, n])))"
  by (auto simp: holds_file_def is_directory_def split: option.splits node.splits)

lemma Join_name_distinct:
  assumes "d \<noteq> []" "plain_elem n" "plain_elem m" "n \<noteq> m"
  shows "path_Clean (filepath_Join [d, n]) \<noteq> path_Clean (filepath_Join [d, m])"
  using assms filepath_Join_nonempty [of d] path_elems_Clean by (metis filepath_Join_below last_snoc)

text \<open>The loop ends in its first round, with success or failure.\<close>

definition make_bundle_dir :: "string \<Rightarrow> string io" where
  "make_bundle_dir path =
     io_bind (io_wrap (\<lambda>e. Errorf ''create diagnostics directory %s: %w'' [S path, W e]) (os_MkdirAll path 0x1C0)) (\<lambda>_.
     io_bind (io_wrap (\<lambda>e. Errorf ''stat diagnostics directory %s: %w'' [S path, W e]) (os_Stat path)) (\<lambda>info.
     case info of
       Dir _ \<Rightarrow> io_return path
     | _ \<Rightarrow> io_fail (Errorf ''create diagnostics directory %s: not a directory'' [S path])))"

lemma try_first_bundle_dir:
  "io_bind (try_bundle_dir E root base 0) (\<lambda>found. case found of Some path \<Rightarrow> io_return path | None \<Rightarrow> m) =
     make_bundle_dir (filepath_Join [root, base])"
proof -
  have last: "io_bind (case info of Dir _ \<Rightarrow> io_return (Some p) | _ \<Rightarrow> io_fail e) (\<lambda>found. case found of Some path \<Rightarrow> io_return path | None \<Rightarrow> m) =
      (case info of Dir _ \<Rightarrow> io_return p | _ \<Rightarrow> io_fail e)" for info p e
    by (rule ext) (simp add: io_bind_def split: node.split)
  show ?thesis by (simp add: try_bundle_dir_def make_bundle_dir_def io_bind_assoc last Let_def)
qed

lemma createBundleDir_once [code]: "createBundleDir E root t = make_bundle_dir (bundle_dir root t)"
  by (simp add: createBundleDir_def bundle_dir_loop.simps [of E root _ 0] try_first_bundle_dir bundle_dir_def del: append_Cons)

lemma createBundleDir_Inr:
  assumes "createBundleDir E root t w = (Inr d, w')"
  shows "d = bundle_dir root t" and "Fs w q \<noteq> None \<Longrightarrow> Fs w' q = Fs w q"
proof -
  obtain w1 n w2 where mk: "os_MkdirAll (bundle_dir root t) 0x1C0 w = (Inr (), w1)"
    and st: "os_Stat (bundle_dir root t) w1 = (Inr n, w2)"
    and res: "(case n of Dir _ \<Rightarrow> io_return (bundle_dir root t)
       | _ \<Rightarrow> io_fail (Errorf ''create diagnostics directory %s: not a directory'' [S (bundle_dir root t)])) w2 = (Inr d, w')"
    using assms unfolding createBundleDir_once make_bundle_dir_def by auto
  then have "d = bundle_dir root t \<and> w2 = w'" by (cases n) auto
  then show "d = bundle_dir root t" and "Fs w q \<noteq> None \<Longrightarrow> Fs w' q = Fs w q"
    using os_MkdirAll_Inr(1) [OF mk] os_Stat_Inr [OF st] by simp_all
qed

lemma plain_bundle_files: "plain_elem ''summary.json''" "plain_elem ''stdout.txt''" "plain_elem ''stderr.txt''"
  by (simp_all add: plain_elem_def)

section \<open>Healthy worlds\<close>

definition calm :: "world \<Rightarrow> bool" where
  "calm w \<longleftrightarrow> Faults w = (\<lambda>_. None)"

definition no_file_above :: "world \<Rightarrow> string \<Rightarrow> bool" where
  "no_file_above w p \<longleftrightarrow> (\<forall>q. ancestor_or_self q (path_Clean p) \<longrightarrow> Fs w q = None \<or> is_directory (Fs w q))"

lemma Clean_Join: "d \<noteq> [] \<Longrightarrow> path_Clean (filepath_Join (d # es)) = filepath_Join (d # es)"
  by (simp add: filepath_Join_def)

lemma name_not_above:
  assumes "d \<noteq> []" "plain_elem n" "1 < length n"
  shows "\<not> ancestor_or_self (path_Clean (filepath_Join [d, n])) (path_Clean d)"
proof
  assume "ancestor_or_self (path_Clean (filepath_Join [d, n])) (path_Clean d)"
  then have "length (path_Clean (filepath_Join [d, n])) \<le> length (path_Clean d)"
    by (auto simp: ancestor_or_self_def prefix_length_le dest: prefix_length_le)
  moreover have "path_Clean (filepath_Join [d, n]) = canon (prefix ''/'' d) (path_elems d @ [n])"
    by (rule trans [OF Clean_Join [OF assms(1)] filepath_Join_canon [OF assms(1,2)]])
  ultimately show False
    using assms(3) path_Clean_canon [OF assms(1)] by (auto simp: canon_def Join_snoc split: if_splits)
qed

lemma os_MkdirAll_calm:
  assumes "calm w" "no_file_above w p"
  shows "\<exists>w'. os_MkdirAll p mode w = (Inr (), w') \<and> calm w' \<and>
    (\<forall>q. \<not> ancestor_or_self q (path_Clean p) \<longrightarrow> Fs w' q = Fs w q)"
proof -
  have "\<not> list_ex (\<lambda>n. ancestor_or_self (take n (path_Clean p)) (path_Clean p) \<and>
      (case Fs w (take n (path_Clean p)) of None \<Rightarrow> False | Some (Dir _) \<Rightarrow> False | Some _ \<Rightarrow> True)) [0..<Suc (length (path_Clean p))]"
    using assms(2) by (auto simp: list_ex_iff no_file_above_def is_directory_def split: option.splits node.splits)
  with assms(1) show ?thesis by (simp add: os_MkdirAll_def os_call_def calm_def Let_def del: upt.simps)
qed

lemma os_WriteFile_calm:
  assumes "calm w" "\<not> is_directory (Fs w (path_Clean p))"
  shows "\<exists>w'. os_WriteFile p d mode w = (Inr (), w') \<and> calm w' \<and> (\<forall>q. q \<noteq> path_Clean p \<longrightarrow> Fs w' q = Fs w q)"
  using assms by (auto simp: os_WriteFile_def os_call_def calm_def is_directory_def set_node_def split: option.splits node.splits)

lemma make_bundle_dir_calm:
  assumes "calm w" "no_file_above w d"
  shows "\<exists>w'. make_bundle_dir d w = (Inr d, w') \<and> calm w' \<and> no_file_above w' d \<and> (\<forall>q. \<not> ancestor_or_self q (path_Clean d) \<longrightarrow> Fs w' q = Fs w q)"
proof -
  obtain w1 where mk: "os_MkdirAll d 0x1C0 w = (Inr (), w1)" and c: "calm w1"
    and fr: "\<forall>q. \<not> ancestor_or_self q (path_Clean d) \<longrightarrow> Fs w1 q = Fs w q"
    using os_MkdirAll_calm [OF assms] by blast
  obtain m where m: "Fs w1 (path_Clean d) = Some (Dir m)" using os_MkdirAll_Inr(3) [OF mk] by blast
  with c have st: "os_Stat d w1 = (Inr (Dir m), w1\<lparr>Calls := Suc (Calls w1)\<rparr>)"
    by (simp add: os_Stat_def os_call_def calm_def Let_def)
  have "no_file_above w1 d"
    unfolding no_file_above_def
  proof (intro allI impI)
    fix q
    assume "ancestor_or_self q (path_Clean d)"
    then show "Fs w1 q = None \<or> is_directory (Fs w1 q)"
      using os_MkdirAll_Inr(2) [OF mk, of q] assms(2) by (cases "Fs w1 q = Fs w q") (auto simp: no_file_above_def is_directory_def)
  qed
  with mk st c fr show ?thesis by (simp add: make_bundle_dir_def calm_def no_file_above_def io_bind_def io_wrap_def)
qed

text \<open>A bundle that was written lies in the directory named after its second, holds the captured streams byte
  for byte and the encoded summary, and no other existing file was changed.\<close>

lemma WriteBundle_contents:
  assumes "WriteBundle E b w = (Inr d, w')" and "CreatedAt b = Some t"
  shows "d = bundle_dir (RootDir b) t \<and> holds_file w' d ''stdout.txt'' (Stdout b) \<and> holds_file w' d ''stderr.txt'' (Stderr b) \<and>
    (\<exists>j. json_MarshalIndent E (bundle_summary b t) = Inr j \<and> holds_file w' d ''summary.json'' (j @ [CHR 0x0A])) \<and>
    (\<forall>q. Fs w q \<noteq> None \<and> q \<notin> (\<lambda>n. path_Clean (filepath_Join [d, n])) ` {''summary.json'', ''stdout.txt'', ''stderr.txt''} \<longrightarrow> Fs w' q = Fs w q)"
proof -
  obtain w1 j w2 w3 where cr: "createBundleDir E (RootDir b) t w = (Inr d, w1)"
    and js: "json_MarshalIndent E (bundle_summary b t) = Inr j"
    and sm: "os_WriteFile (filepath_Join [d, ''summary.json'']) (j @ [CHR 0x0A]) 0x180 w1 = (Inr (), w2)"
    and so: "os_WriteFile (filepath_Join [d, ''stdout.txt'']) (Stdout b) 0x180 w2 = (Inr (), w3)"
    and se: "os_WriteFile (filepath_Join [d, ''stderr.txt'']) (Stderr b) 0x180 w3 = (Inr (), w')"
    using assms by (auto simp: WriteBundle_def writeJSONFile_def split: if_splits)
  note d = createBundleDir_Inr(1) [OF cr]
  have "d \<noteq> []" using filepath_Join_nonempty [of "RootDir b"] assms(1) d
    by (cases "RootDir b = []") (auto simp: WriteBundle_def bundle_dir_def)
  note dis = Join_name_distinct [OF this plain_bundle_files(1,2)] Join_name_distinct [OF this plain_bundle_files(1,3)]
    Join_name_distinct [OF this plain_bundle_files(2,3)]
  note fs = os_WriteFile_Inr [OF sm] os_WriteFile_Inr [OF so] os_WriteFile_Inr [OF se]
  show ?thesis
    using d js dis fs createBundleDir_Inr(2) [OF cr] by (auto simp: holds_file_def)
qed

text \<open>On a healthy system a bundle is always written: when no call fails, no file stands where a directory is
  needed and no directory where a file goes, \<open>WriteBundle\<close> returns the directory of that second.\<close>

lemma WriteBundle_succeeds:
  assumes "calm w" and "CreatedAt b = Some t" and "TrimSpace (RootDir b) \<noteq> []"
    and "json_MarshalIndent E (bundle_summary b t) = Inr j"
    and "no_file_above w (bundle_dir (RootDir b) t)"
    and "list_all (\<lambda>n. \<not> is_directory (Fs w (path_Clean (filepath_Join [bundle_dir (RootDir b) t, n]))))
           [''summary.json'', ''stdout.txt'', ''stderr.txt'']"
  shows "\<exists>w'. WriteBundle E b w = (Inr (bundle_dir (RootDir b) t), w') \<and> calm w' \<and> no_file_above w' (bundle_dir (RootDir b) t)"
proof -
  let ?d = "bundle_dir (RootDir b) t" and ?p = "\<lambda>n. path_Clean (filepath_Join [bundle_dir (RootDir b) t, n])"
  have d: "?d \<noteq> []" using assms(3) filepath_Join_nonempty [of "RootDir b"] by (cases "RootDir b = []") (auto simp: bundle_dir_def)
  note dis = Join_name_distinct [OF d plain_bundle_files(2,1)] Join_name_distinct [OF d plain_bundle_files(3,1)]
    Join_name_distinct [OF d plain_bundle_files(3,2)]
  have below: "\<not> ancestor_or_self (?p n) (path_Clean ?d)" if "n \<in> {''summary.json'', ''stdout.txt'', ''stderr.txt''}" for n
    using that plain_bundle_files by (intro name_not_above [OF d]) auto
  obtain w1 where w1: "make_bundle_dir ?d w = (Inr ?d, w1)" "calm w1" "\<forall>q. \<not> ancestor_or_self q (path_Clean ?d) \<longrightarrow> Fs w1 q = Fs w q"
      "no_file_above w1 ?d"
    using make_bundle_dir_calm [OF assms(1,5)] by blast
  have free: "\<not> is_directory (Fs w1 (?p n))" if "n \<in> {''summary.json'', ''stdout.txt'', ''stderr.txt''}" for n
    using that assms(6) w1(3) below [OF that] by auto
  obtain w2 where w2: "os_WriteFile (filepath_Join [?d, ''summary.json'']) (j @ [CHR 0x0A]) 0x180 w1 = (Inr (), w2)" "calm w2"
      "\<forall>q. q \<noteq> ?p ''summary.json'' \<longrightarrow> Fs w2 q = Fs w1 q"
    using os_WriteFile_calm [OF w1(2) free [of "''summary.json''"], of "j @ [CHR 0x0A]" "0x180"] by auto
  have "\<not> is_directory (Fs w2 (?p ''stdout.txt''))" using free [of "''stdout.txt''"] w2(3) dis(1) by simp
  from os_WriteFile_calm [OF w2(2) this, of "Stdout b" "0x180"]
  obtain w3 where w3: "os_WriteFile (filepath_Join [?d, ''stdout.txt'']) (Stdout b) 0x180 w2 = (Inr (), w3)" "calm w3"
      "\<forall>q. q \<noteq> ?p ''stdout.txt'' \<longrightarrow> Fs w3 q = Fs w2 q" by blast
  have "\<not> is_directory (Fs w3 (?p ''stderr.txt''))" using free [of "''stderr.txt''"] w2(3) w3(3) dis(2,3) by simp
  from os_WriteFile_calm [OF w3(2) this, of "Stderr b" "0x180"]
  obtain w4 where w4: "os_WriteFile (filepath_Join [?d, ''stderr.txt'']) (Stderr b) 0x180 w3 = (Inr (), w4)" "calm w4"
      "\<forall>q. q \<noteq> ?p ''stderr.txt'' \<longrightarrow> Fs w4 q = Fs w3 q" by blast
  have "Fs w4 q = Fs w1 q" if "ancestor_or_self q (path_Clean ?d)" for q
  proof -
    have "q \<noteq> ?p n" if "n \<in> {''summary.json'', ''stdout.txt'', ''stderr.txt''}" for n
      using below [OF that] \<open>ancestor_or_self q (path_Clean ?d)\<close> by blast
    then show ?thesis using w2(3) w3(3) w4(3) by simp
  qed
  then have "no_file_above w4 ?d" using w1(4) by (simp add: no_file_above_def)
  then show ?thesis
    using assms(2-4) w1(1) w2(1) w3(1) w4(1,2) by (simp add: WriteBundle_def writeJSONFile_def createBundleDir_once io_bind_def io_wrap_def)
qed

text \<open>C31: The numbered directory names are never used: the first name is taken even when it already holds a bundle, so of
  two bundles written in the same second below one root only the streams of the second survive.\<close>

theorem WriteBundle_same_second_overwrites:
  assumes "WriteBundle E b w = (Inr d, w1)" and "WriteBundle E b' w1 = (Inr d', w2)"
    and "RootDir b' = RootDir b" and "CreatedAt b = Some t" and "CreatedAt b' = Some t"
  shows "d' = d \<and> holds_file w1 d ''stdout.txt'' (Stdout b) \<and> holds_file w2 d ''stdout.txt'' (Stdout b') \<and>
    holds_file w2 d ''stderr.txt'' (Stderr b')"
  using WriteBundle_contents [OF assms(1,4)] WriteBundle_contents [OF assms(2,5)] assms(3) by metis

definition sample_env :: diag_env where
  "sample_env = \<lparr>json_MarshalIndent = (\<lambda>s. Inr (SumError s)), diag_Now = io_fail (errors_New ''no clock''), os_ReadDir = (\<lambda>_. io_return [])\<rparr>"

definition sample_time :: utc_time where
  "sample_time = \<lparr>year = 2026, month = 1, day = 2, hour = 3, minute = 4, second = 5\<rparr>"

definition sample_bundle :: "bytes \<Rightarrow> Bundle" where
  "sample_bundle out = \<lparr>RootDir = ''/d'', CreatedAt = Some sample_time, BSummary = BuildSummary sample_input, Stdout = out, Stderr = []\<rparr>"

lemma list_all_Nil_iff: "list_all P [] \<longleftrightarrow> True"
  by simp

lemma sample_bundle_written:
  assumes "calm w" "no_file_above w (bundle_dir ''/d'' sample_time)"
    "list_all (\<lambda>n. \<not> is_directory (Fs w (path_Clean (filepath_Join [bundle_dir ''/d'' sample_time, n]))))
       [''summary.json'', ''stdout.txt'', ''stderr.txt'']"
  shows "\<exists>w'. WriteBundle sample_env (sample_bundle out) w = (Inr (bundle_dir ''/d'' sample_time), w') \<and> calm w' \<and>
    no_file_above w' (bundle_dir ''/d'' sample_time)"
proof -
  have ns: "TrimSpace ''/d'' \<noteq> []" by code_simp
  show ?thesis
    using WriteBundle_succeeds [of w "sample_bundle out" sample_time sample_env] assms ns
    by (simp add: sample_bundle_def sample_env_def)
qed

theorem WriteBundle_same_second_overwrites_witness:
  "\<exists>w1 w2. WriteBundle sample_env (sample_bundle ''first'') (quiet_world (\<lambda>_ _ _. Reply 404 (Inr []))) =
      (Inr (bundle_dir ''/d'' sample_time), w1) \<and>
    holds_file w1 (bundle_dir ''/d'' sample_time) ''stdout.txt'' ''first'' \<and>
    holds_file w2 (bundle_dir ''/d'' sample_time) ''stdout.txt'' ''second''"
proof -
  let ?w = "quiet_world (\<lambda>_ _ _. Reply 404 (Inr []))" and ?d = "bundle_dir ''/d'' sample_time"
  obtain w1 where r1: "WriteBundle sample_env (sample_bundle ''first'') ?w = (Inr ?d, w1)" and c1: "calm w1" and above: "no_file_above w1 ?d"
    using sample_bundle_written [of ?w] by (auto simp: calm_def no_file_above_def is_directory_def quiet_world_def)
  have t: "CreatedAt (sample_bundle x) = Some sample_time" for x by (simp add: sample_bundle_def)
  have "list_all (\<lambda>n. \<not> is_directory (Fs w1 (path_Clean (filepath_Join [?d, n])))) [''summary.json'', ''stdout.txt'', ''stderr.txt'']"
    using WriteBundle_contents [OF r1 t] holds_file_not_directory unfolding list.pred_inject list_all_Nil_iff by blast
  from sample_bundle_written [OF c1 above this, of "''second''"]
  obtain w2 where r2: "WriteBundle sample_env (sample_bundle ''second'') w1 = (Inr ?d, w2)" by blast
  have "RootDir (sample_bundle ''second'') = RootDir (sample_bundle ''first'')" by (simp add: sample_bundle_def)
  from WriteBundle_same_second_overwrites [OF r1 r2 this t t] r1 show ?thesis by (auto simp: sample_bundle_def)
qed

end
