(* ===== verification/RuntimePrep.thy ===== *)
theory RuntimePrep
  imports World "HOL-Library.Word"
begin

text \<open>
  The preparation of the host before providers run (\<^verbatim>\<open>internal/runtime/runtime.go\<close>): explicit network
  configuration, the resolver file, the certificate pool and the clock.  Commands, the list of network
  interfaces, the certificate pool and the clock are the parameters of \<open>host\<close>; a function field of a
  preparer that is nil is \<open>None\<close> and stands for the one of the host.
\<close>

unbundle bit_operations_syntax

section \<open>Configuration\<close>

type_synonym CommandRunner = "string \<Rightarrow> string list \<Rightarrow> unit io"

record net_interface =
  LinkName :: string
  LinkFlags :: "64 word"

text \<open>\<open>exec_CombinedOutput\<close> gives the combined output and the error of a command.\<close>

record host =
  exec_CombinedOutput :: "string \<Rightarrow> string list \<Rightarrow> (bytes \<times> go_error option) io"
  net_Interfaces :: "net_interface list io"
  x509_SystemCertPool :: "unit io"
  time_Now :: "int io"

definition FlagUp :: "64 word" where "FlagUp = 1"
definition FlagLoopback :: "64 word" where "FlagLoopback = 4"

definition ExecRunner :: "host \<Rightarrow> CommandRunner" where
  "ExecRunner H name args =
     io_bind (exec_CombinedOutput H name args) (\<lambda>(output, err). case err of
       None \<Rightarrow> io_return ()
     | Some e \<Rightarrow> io_fail (Errorf ''%s %v: %w: %s'' ([S name] @ map S args @ [W e, S output])))"

record NetworkConfig =
  NInterface :: string
  AddressCIDR :: string
  Gateway :: string
  DNSServers :: "string list"

record NetworkPreparer =
  NInterfaces :: "net_interface list io option"
  NReadFile :: "(string \<Rightarrow> bytes io) option"
  NWriteFile :: "(string \<Rightarrow> bytes \<Rightarrow> nat \<Rightarrow> unit io) option"
  NRunner :: "CommandRunner option"
  NConfig :: NetworkConfig
  ResolverPath :: string
  KernelPNPPath :: string

section \<open>Network\<close>

definition net_isZero :: "NetworkConfig \<Rightarrow> bool" where
  "net_isZero c \<longleftrightarrow> NInterface c = [] \<and> AddressCIDR c = [] \<and> Gateway c = [] \<and> DNSServers c = []"

definition check_server :: "string \<Rightarrow> unit result" where
  "check_server server =
     (if TrimSpace server \<noteq> server then Inl (errors_New ''DNS server has surrounding whitespace'')
      else if \<not> net_ParseIP server then Inl (Errorf ''parse DNS server: %q is not an IP address'' [S server])
      else Inr ())"

definition validateNetworkConfig :: "NetworkConfig \<Rightarrow> unit result" where
  "validateNetworkConfig c =
     (if TrimSpace (NInterface c) \<noteq> NInterface c then Inl (errors_New ''network interface has surrounding whitespace'')
      else if (AddressCIDR c \<noteq> [] \<or> Gateway c \<noteq> []) \<and> NInterface c = [] then
        Inl (errors_New ''network interface is required for address or gateway configuration'')
      else if AddressCIDR c \<noteq> [] \<and> \<not> net_ParseCIDR (AddressCIDR c) then
        Inl (Errorf ''parse network address: %w'' [W (Errorf ''invalid CIDR address: %s'' [S (AddressCIDR c)])])
      else if Gateway c \<noteq> [] \<and> \<not> net_ParseIP (Gateway c) then
        Inl (Errorf ''parse network gateway: %q is not an IP address'' [S (Gateway c)])
      else for_each check_server (DNSServers c))"

definition resolverPath :: "NetworkPreparer \<Rightarrow> string" where
  "resolverPath p = (if ResolverPath p = [] then ''/etc/resolv.conf'' else ResolverPath p)"

definition resolver_text :: "string list \<Rightarrow> bytes" where
  "resolver_text servers = concat (map (\<lambda>server. ''nameserver '' @ server @ [CHR 0x0A]) servers)"

definition writeResolver :: "NetworkPreparer \<Rightarrow> string list \<Rightarrow> unit io" where
  "writeResolver p servers =
     io_wrap (\<lambda>e. Errorf ''write resolver config: %w'' [W e])
       (or_default (NWriteFile p) os_WriteFile (resolverPath p) (resolver_text servers) 0x1A4)"

definition configure_link :: "CommandRunner \<Rightarrow> NetworkConfig \<Rightarrow> unit io" where
  "configure_link run c =
     (if NInterface c = [] then io_return ()
      else io_bind (io_wrap (\<lambda>e. Errorf ''configure network link: %w'' [W e])
             (run ''ip'' [''link'', ''set'', ''dev'', NInterface c, ''up''])) (\<lambda>_.
      io_bind (if AddressCIDR c \<noteq> [] then
                 io_wrap (\<lambda>e. Errorf ''configure network address: %w'' [W e])
                   (run ''ip'' [''addr'', ''add'', AddressCIDR c, ''dev'', NInterface c])
               else io_return ()) (\<lambda>_.
      if Gateway c \<noteq> [] then
        io_wrap (\<lambda>e. Errorf ''configure default route: %w'' [W e])
          (run ''ip'' [''route'', ''replace'', ''default'', ''via'', Gateway c, ''dev'', NInterface c])
      else io_return ())))"

definition applyExplicitConfig :: "host \<Rightarrow> NetworkPreparer \<Rightarrow> unit io" where
  "applyExplicitConfig H p =
     (let c = NConfig p in
      if net_isZero c then io_return ()
      else io_bind (io_of (validateNetworkConfig c)) (\<lambda>_.
      io_bind (configure_link (or_default (NRunner p) (ExecRunner H)) c) (\<lambda>_.
      if DNSServers c \<noteq> [] then writeResolver p (DNSServers c) else io_return ())))"

definition kernelPNPPath :: "NetworkPreparer \<Rightarrow> string" where
  "kernelPNPPath p = (if KernelPNPPath p = [] then ''/proc/net/pnp'' else KernelPNPPath p)"

definition copy_pnp :: "NetworkPreparer \<Rightarrow> unit io" where
  "copy_pnp p =
     io_try (or_default (NReadFile p) os_ReadFile (kernelPNPPath p)) (\<lambda>r. case r of
       Inl e \<Rightarrow> if errors_is e OsErrNotExist then io_return ()
                else io_fail (Errorf ''read kernel network config: %w'' [W e])
     | Inr kernelPNP \<Rightarrow>
         if \<not> Contains kernelPNP ''nameserver'' then io_return ()
         else io_wrap (\<lambda>e. Errorf ''write resolver config: %w'' [W e])
                (or_default (NWriteFile p) os_WriteFile (resolverPath p) kernelPNP 0x1A4))"

definition installKernelResolver :: "NetworkPreparer \<Rightarrow> unit io" where
  "installKernelResolver p =
     io_try (or_default (NReadFile p) os_ReadFile (resolverPath p)) (\<lambda>r. case r of
       Inr resolver \<Rightarrow> if TrimSpace resolver \<noteq> [] then io_return () else copy_pnp p
     | Inl e \<Rightarrow> if \<not> errors_is e OsErrNotExist then io_fail (Errorf ''read resolver config: %w'' [W e])
               else copy_pnp p)"

definition link_ready :: "net_interface \<Rightarrow> bool" where
  "link_ready l \<longleftrightarrow> LinkFlags l AND FlagLoopback = 0 \<and> LinkFlags l AND FlagUp \<noteq> 0"

definition net_Prepare :: "host \<Rightarrow> NetworkPreparer \<Rightarrow> unit io" where
  "net_Prepare H p =
     io_bind (applyExplicitConfig H p) (\<lambda>_.
     io_bind (installKernelResolver p) (\<lambda>_.
     io_bind (io_wrap (\<lambda>e. Errorf ''list network interfaces: %w'' [W e]) (or_default (NInterfaces p) (net_Interfaces H))) (\<lambda>links.
     if list_ex link_ready links then io_return ()
     else io_fail (errors_New ''no configured non-loopback network interface''))))"

section \<open>Certificates and time\<close>

record CertPreparer =
  LoadSystemPool :: "unit io option"

definition cert_Prepare :: "host \<Rightarrow> CertPreparer \<Rightarrow> unit io" where
  "cert_Prepare H p =
     io_wrap (\<lambda>e. Errorf ''load system cert pool: %w'' [W e]) (or_default (LoadSystemPool p) (x509_SystemCertPool H))"

text \<open>Times are seconds since 1970; the zero time of Go is \<open>None\<close>.\<close>

record TimePreparer =
  TRunner :: "CommandRunner option"
  TNow :: "int io option"
  Minimum :: "int option"

definition default_minimum :: int where "default_minimum = 1735689600"

definition time_Prepare :: "host \<Rightarrow> TimePreparer \<Rightarrow> unit io" where
  "time_Prepare H p =
     io_bind (or_default (TNow p) (time_Now H)) (\<lambda>now.
     if \<not> now < or_default (Minimum p) default_minimum then io_return ()
     else io_wrap (\<lambda>e. Errorf ''sync time: %w'' [W e])
            (or_default (TRunner p) (ExecRunner H) ''ntpdate'' [''-u'', ''pool.ntp.org'']))"

section \<open>Facts\<close>

text \<open>A runner under observation: it logs the command and fails on the ones that \<open>refuse\<close> names.\<close>

definition logging_runner :: "(string list \<Rightarrow> go_error option) \<Rightarrow> CommandRunner" where
  "logging_runner refuse name args w =
     (let w' = w\<lparr>Console := Console w @ [Join (name # args) '' '']\<rparr> in
      case refuse args of None \<Rightarrow> (Inr (), w') | Some e \<Rightarrow> (Inl e, w'))"

definition ip_commands :: "NetworkConfig \<Rightarrow> string list list" where
  "ip_commands c =
     (if NInterface c = [] then []
      else [[''link'', ''set'', ''dev'', NInterface c, ''up'']] @
        (if AddressCIDR c = [] then [] else [[''addr'', ''add'', AddressCIDR c, ''dev'', NInterface c]]) @
        (if Gateway c = [] then [] else [[''route'', ''replace'', ''default'', ''via'', Gateway c, ''dev'', NInterface c]]))"

text \<open>The commands up to and including the first refused one.\<close>

fun until_refused :: "(string list \<Rightarrow> go_error option) \<Rightarrow> string list list \<Rightarrow> string list list" where
  "until_refused refuse [] = []"
| "until_refused refuse (c # cs) = c # (case refuse c of None \<Rightarrow> until_refused refuse cs | Some _ \<Rightarrow> [])"

definition command_line :: "string list \<Rightarrow> string" where
  "command_line args = Join (''ip'' # args) '' ''"

lemma check_server_ok: "check_server s = Inr () \<longleftrightarrow> TrimSpace s = s \<and> net_ParseIP s"
  by (simp add: check_server_def)

text \<open>An explicit network configuration is accepted exactly when the interface name carries no outer
  whitespace and is present if an address or gateway is given, the address is in CIDR notation, the gateway
  and every DNS server are IP addresses; and nothing is run or written for one that is not.\<close>

theorem validateNetworkConfig_iff:
  "validateNetworkConfig c = Inr () \<longleftrightarrow>
     TrimSpace (NInterface c) = NInterface c \<and>
     (NInterface c = [] \<longrightarrow> AddressCIDR c = [] \<and> Gateway c = []) \<and>
     (AddressCIDR c = [] \<or> net_ParseCIDR (AddressCIDR c)) \<and> (Gateway c = [] \<or> net_ParseIP (Gateway c)) \<and>
     (\<forall>s \<in> set (DNSServers c). TrimSpace s = s \<and> net_ParseIP s)"
  by (auto simp: validateNetworkConfig_def check_server_ok)

lemma strip_keeps: "set s \<subseteq> set (strip rs s) \<union> (\<Union>r \<in> set rs. set r)"
proof (induction rs s rule: strip.induct)
  case (1 rs s)
  show ?case
  proof (cases "find (\<lambda>r. r \<noteq> [] \<and> prefix r s) rs")
    case None
    then show ?thesis by (simp add: strip.simps [of rs s])
  next
    case (Some r)
    then have "r \<in> set rs" "prefix r s" by (auto simp: find_Some_iff)
    then have "set s = set r \<union> set (drop (length r) s)" by (auto simp: prefix_def)
    with 1 [OF Some] \<open>r \<in> set rs\<close> show ?thesis by (auto simp: strip.simps [of rs s] Some)
  qed
qed

lemma TrimSpace_nonblank:
  assumes "c \<in> set s" and "\<forall>r \<in> set space_runes. c \<notin> set r"
  shows "TrimSpace s \<noteq> []"
proof
  assume "TrimSpace s = []"
  then have "strip (map rev space_runes) (rev (strip space_runes s)) = []" by (simp add: TrimSpace_def)
  then have "set (strip space_runes s) \<subseteq> (\<Union>r \<in> set space_runes. set r)"
    using strip_keeps [of "rev (strip space_runes s)" "map rev space_runes"] by simp
  with strip_keeps [of s space_runes] assms show False by blast
qed

lemma resolver_text_nonblank [simp]: "servers \<noteq> [] \<Longrightarrow> TrimSpace (resolver_text servers) \<noteq> []"
  by (rule TrimSpace_nonblank [where c = "CHR ''n''"])
    (auto simp: resolver_text_def space_runes_def neq_Nil_conv)

text \<open>The commands that configure a link are exactly those of the configuration, in order, up to the first
  that fails; a failure stops the sequence and is reported, and without one all of them run.\<close>

theorem configure_link_commands:
  "case configure_link (logging_runner refuse) c w of (r, w') \<Rightarrow>
     Console w' = Console w @ map command_line (until_refused refuse (ip_commands c)) \<and>
     Fs w' = Fs w \<and> (r = Inr () \<longleftrightarrow> list_all (\<lambda>args. refuse args = None) (ip_commands c))"
  by (auto simp: configure_link_def ip_commands_def logging_runner_def command_line_def io_bind_def io_wrap_def Let_def
      split: if_splits option.splits)

section \<open>The resolver file\<close>

text \<open>What \<open>Prepare\<close> leaves in the resolver file: \<open>None\<close> for as it was.\<close>

definition resolver_kept :: "NetworkPreparer \<Rightarrow> (string \<Rightarrow> node option) \<Rightarrow> bool" where
  "resolver_kept p fs = (case fs (path_Clean (resolverPath p)) of Some (File d _) \<Rightarrow> TrimSpace d \<noteq> [] | _ \<Rightarrow> False)"

definition pnp_wanted :: "NetworkPreparer \<Rightarrow> (string \<Rightarrow> node option) \<Rightarrow> bytes option" where
  "pnp_wanted p fs = (case fs (path_Clean (kernelPNPPath p)) of
       Some (File d _) \<Rightarrow> if Contains d ''nameserver'' then Some d else None
     | _ \<Rightarrow> None)"

definition resolver_wanted :: "NetworkPreparer \<Rightarrow> (string \<Rightarrow> node option) \<Rightarrow> bytes option" where
  "resolver_wanted p fs =
     (if DNSServers (NConfig p) \<noteq> [] then Some (resolver_text (DNSServers (NConfig p)))
      else if resolver_kept p fs then None else pnp_wanted p fs)"

definition put_resolver :: "NetworkPreparer \<Rightarrow> bytes option \<Rightarrow> (string \<Rightarrow> node option) \<Rightarrow> string \<Rightarrow> node option" where
  "put_resolver p d fs = (case d of
       None \<Rightarrow> fs
     | Some d \<Rightarrow> fs(path_Clean (resolverPath p) \<mapsto> File d (file_mode (fs (path_Clean (resolverPath p))) 0x1A4)))"

text \<open>Actions that leave the files alone and do not change which calls fail.\<close>

definition neutral :: "'a io \<Rightarrow> bool" where
  "neutral m \<longleftrightarrow> (\<forall>w r w'. m w = (r, w') \<longrightarrow> Fs w' = Fs w \<and> Faults w' = Faults w)"

text \<open>No failing call reports a missing file.\<close>

definition honest :: "world \<Rightarrow> bool" where
  "honest w \<longleftrightarrow> (\<forall>n k e. Faults w n = Some (k, e) \<longrightarrow> \<not> errors_is e OsErrNotExist)"

lemma neutral_configure_link:
  assumes "\<And>name args. neutral (run name args)"
  shows "neutral (configure_link run c)"
  using assms unfolding neutral_def configure_link_def
  by (auto simp: io_bind_def io_wrap_def split: prod.splits sum.splits if_splits)

lemma os_ReadFile_cases:
  assumes "os_ReadFile q w = (r, w')" and "honest w"
  shows "Fs w' = Fs w \<and> Faults w' = Faults w \<and>
    (case r of Inr d \<Rightarrow> \<exists>m. Fs w (path_Clean q) = Some (File d m)
     | Inl e \<Rightarrow> errors_is e OsErrNotExist \<longrightarrow> Fs w (path_Clean q) = None)"
  using assms by (auto simp: os_ReadFile_def os_call_def Let_def refused_def honest_def
      split: option.splits node.splits)

lemma copy_pnp_Inr:
  assumes "copy_pnp p w = (Inr (), w')" and "honest w" "NReadFile p = None" "NWriteFile p = None"
  shows "Fs w' = put_resolver p (pnp_wanted p (Fs w)) (Fs w)"
proof -
  obtain r w1 where rd: "os_ReadFile (kernelPNPPath p) w = (r, w1)" by fastforce
  note c = os_ReadFile_cases [OF rd assms(2)]
  show ?thesis
  proof (cases r)
    case (Inl e)
    with assms rd c show ?thesis
      by (auto simp: copy_pnp_def io_try_def put_resolver_def pnp_wanted_def split: if_splits)
  next
    case (Inr d)
    then obtain m where "Fs w (path_Clean (kernelPNPPath p)) = Some (File d m)" using c by auto
    with assms rd c Inr show ?thesis
      by (auto simp: copy_pnp_def io_try_def put_resolver_def pnp_wanted_def dest!: os_WriteFile_Inr split: if_splits)
  qed
qed

lemma installKernelResolver_Inr:
  assumes "installKernelResolver p w = (Inr (), w')" and "honest w" "NReadFile p = None" "NWriteFile p = None"
  shows "Fs w' = put_resolver p (if resolver_kept p (Fs w) then None else pnp_wanted p (Fs w)) (Fs w)"
proof -
  obtain r w1 where rd: "os_ReadFile (resolverPath p) w = (r, w1)" by fastforce
  note c = os_ReadFile_cases [OF rd assms(2)]
  have h: "honest w1" using c assms(2) by (simp add: honest_def)
  note cp = copy_pnp_Inr [OF _ h assms(3,4)]
  show ?thesis
  proof (cases r)
    case (Inl e)
    with assms rd c have "copy_pnp p w1 = (Inr (), w')" "\<not> resolver_kept p (Fs w)"
      by (auto simp: installKernelResolver_def io_try_def resolver_kept_def split: if_splits)
    with cp c show ?thesis by simp
  next
    case (Inr d)
    then have k: "resolver_kept p (Fs w) \<longleftrightarrow> TrimSpace d \<noteq> []" using c by (auto simp: resolver_kept_def)
    show ?thesis
    proof (cases "TrimSpace d = []")
      case True
      with assms rd Inr have "copy_pnp p w1 = (Inr (), w')"
        by (auto simp: installKernelResolver_def io_try_def split: if_splits)
      with cp c k True show ?thesis by simp
    next
      case False
      with assms rd Inr c k show ?thesis
        by (auto simp: installKernelResolver_def io_try_def put_resolver_def split: if_splits)
    qed
  qed
qed

lemma os_WriteFile_Faults: "os_WriteFile q d m w = (r, w') \<Longrightarrow> Faults w' = Faults w"
  by (auto simp: os_WriteFile_def os_call_def Let_def io_bind_def set_node_def split: option.splits node.splits)

lemma applyExplicitConfig_Inr:
  assumes "applyExplicitConfig H p w = (Inr (), w')" and "NWriteFile p = None"
    and "\<And>name args. neutral (or_default (NRunner p) (ExecRunner H) name args)"
  shows "Fs w' = put_resolver p (if DNSServers (NConfig p) = [] then None else Some (resolver_text (DNSServers (NConfig p)))) (Fs w)"
    and "Faults w' = Faults w"
proof -
  let ?run = "or_default (NRunner p) (ExecRunner H)"
  have "Fs w' = put_resolver p (if DNSServers (NConfig p) = [] then None else Some (resolver_text (DNSServers (NConfig p)))) (Fs w)
        \<and> Faults w' = Faults w"
  proof (cases "net_isZero (NConfig p)")
    case True
    with assms(1) show ?thesis by (auto simp: applyExplicitConfig_def net_isZero_def put_resolver_def Let_def)
  next
    case False
    with assms(1) obtain w1 where link: "configure_link ?run (NConfig p) w = (Inr (), w1)"
      and rest: "(if DNSServers (NConfig p) \<noteq> [] then writeResolver p (DNSServers (NConfig p)) else io_return ()) w1 = (Inr (), w')"
      by (auto simp: applyExplicitConfig_def Let_def)
    have "Fs w1 = Fs w \<and> Faults w1 = Faults w"
      using neutral_configure_link [of ?run "NConfig p"] assms(3) link unfolding neutral_def by blast
    with rest assms(2) show ?thesis
      by (auto simp: writeResolver_def put_resolver_def split: if_splits dest: os_WriteFile_Faults os_WriteFile_Inr)
  qed
  then show "Fs w' = put_resolver p (if DNSServers (NConfig p) = [] then None else Some (resolver_text (DNSServers (NConfig p)))) (Fs w)"
    and "Faults w' = Faults w" by simp_all
qed

lemma resolver_kept_put: "resolver_kept p (put_resolver p (Some d) fs) \<longleftrightarrow> TrimSpace d \<noteq> []"
  by (simp add: resolver_kept_def put_resolver_def)


definition sample_host :: host where
  "sample_host = \<lparr>exec_CombinedOutput = (\<lambda>name args. io_return ([], None)),
     net_Interfaces = io_return [\<lparr>LinkName = ''lo'', LinkFlags = 5\<rparr>, \<lparr>LinkName = ''eth0'', LinkFlags = 19\<rparr>],
     x509_SystemCertPool = io_return (), time_Now = io_return 0\<rparr>"

definition sample_net_preparer :: NetworkPreparer where
  "sample_net_preparer = \<lparr>NInterfaces = None, NReadFile = None, NWriteFile = None, NRunner = None,
     NConfig = \<lparr>NInterface = ''eth0'', AddressCIDR = ''192.0.2.5/24'', Gateway = ''192.0.2.1'', DNSServers = [''192.0.2.53'']\<rparr>,
     ResolverPath = [], KernelPNPPath = []\<rparr>"

definition sample_net_world :: world where
  "sample_net_world = (quiet_world (\<lambda>_ _ _. Reply 404 (Inr [])))\<lparr>Fs := [''/proc/net/pnp'' \<mapsto> File ''nameserver 198.51.100.1'' 292]\<rparr>"


end
