(* ===== verification/Debian.thy ===== *)
theory Debian
  imports Staging
begin

text \<open>
  The Debian provider (\<^verbatim>\<open>internal/providers/debian/provider.go\<close>): plans for netboot installers, discovery
  from a mirror's index, and staging along Debian's trust chain: the keyring signs \<open>InRelease\<close>, which
  lists the digest of \<open>SHA256SUMS\<close>, which lists the digests of kernel and initrd.
\<close>

section \<open>Configuration\<close>

definition deb_providerID :: string where "deb_providerID = ''debian''"
definition deb_targetID :: string where "deb_targetID = ''debian-trixie-amd64-netboot''"
definition deb_defaultMirrorURL :: string where "deb_defaultMirrorURL = ''https://deb.debian.org/debian''"

record DebianConfig =
  DCMirrorURL :: string
  DCDiscoveryURL :: string
  DCDiscoveryFile :: string
  DCKeyring :: bytes
  DCTargets :: "Target list option"
  DCLifecycle :: "(string \<times> LifecycleEntry) list"

record DebianProvider =
  deb_mirrorURL :: string
  deb_discoveryURL :: string
  deb_discoveryFile :: string
  deb_keyring :: bytes
  deb_targets :: "Target list"
  deb_lifecycle :: "(string \<times> LifecycleEntry) list"

definition deb_defaultTargets :: "Target list" where
  "deb_defaultTargets =
     [\<lparr>TID = deb_targetID, ProviderID = deb_providerID, Name = ''Debian trixie amd64 netboot'', Action = [],
       Catalog = \<lparr>Distribution = ''debian'', Release = ''trixie'', Architecture = ''amd64'', Kind = ''installer''\<rparr>,
       Source = empty_SourceEntry, Lifecycle = empty_LifecycleEntry, Options = [], Secrets = []\<rparr>]"

definition deb_NewProvider :: "DebianConfig \<Rightarrow> DebianProvider" where
  "deb_NewProvider c =
     (let mirror0 = TrimRight (DCMirrorURL c) (CHR ''/'');
          mirror = (if mirror0 = [] then deb_defaultMirrorURL else mirror0);
          disc0 = TrimRight (DCDiscoveryURL c) (CHR ''/'');
          disc = (if disc0 = [] then mirror else disc0) in
      \<lparr>deb_mirrorURL = mirror, deb_discoveryURL = disc, deb_discoveryFile = TrimSpace (DCDiscoveryFile c),
       deb_keyring = DCKeyring c,
       deb_targets = (case DCTargets c of None \<Rightarrow> deb_defaultTargets | Some ts \<Rightarrow> ts),
       deb_lifecycle = DCLifecycle c\<rparr>)"

definition deb_Targets :: "DebianProvider \<Rightarrow> Target list io" where
  "deb_Targets p = io_return (deb_targets p)"

definition deb_DiscoveryFamily :: DiscoveryFamily where
  "deb_DiscoveryFamily = \<lparr>FamID = deb_providerID, FamProviderID = deb_providerID, FamName = ''Debian'',
     Description = ''Discover Debian amd64 netboot installers from the configured mirror.''\<rparr>"

section \<open>Planning\<close>

definition find_target :: "Target list \<Rightarrow> string \<Rightarrow> Target option" where
  "find_target targets i = find (\<lambda>t. TID t = i) targets"

definition deb_selectedTarget :: "DebianProvider \<Rightarrow> Target \<Rightarrow> Target result" where
  "deb_selectedTarget p t =
     (case find_target (deb_targets p) (TID t) of
        Some selected \<Rightarrow> Inr selected
      | None \<Rightarrow>
          and_then (ValidateTarget deb_providerID t) (\<lambda>_.
          if Distribution (Catalog t) \<noteq> deb_providerID then
            Inl (Errorf ''unsupported Debian distribution %q for target %s'' [S (Distribution (Catalog t)), S (TID t)])
          else if Kind (Catalog t) \<noteq> ''installer'' then
            Inl (Errorf ''unsupported Debian target kind %q for target %s'' [S (Kind (Catalog t)), S (TID t)])
          else Inr t))"

definition targetBaseURL :: "Target \<Rightarrow> string \<Rightarrow> string" where
  "targetBaseURL t fallback =
     (if BaseURL (Source t) \<noteq> [] then TrimRight (BaseURL (Source t)) (CHR ''/'') else fallback)"

definition deb_plan :: "Target \<Rightarrow> string \<Rightarrow> BootPlan" where
  "deb_plan t baseURL =
     (let release = Release (Catalog t); architecture = Architecture (Catalog t);
          imagesBase = baseURL @ ''/dists/'' @ release @ ''/main/installer-'' @ architecture @ ''/current/images'';
          installerBase = imagesBase @ ''/netboot'' in
      (plan_for t)
        \<lparr>Kernel := \<lparr>AName = ''linux'', URL = installerBase @ ''/debian-installer/'' @ architecture @ ''/linux'',
                    SHA256 = [], Path = []\<rparr>,
         Initrd := \<lparr>AName = ''initrd.gz'', URL = installerBase @ ''/debian-installer/'' @ architecture @ ''/initrd.gz'',
                    SHA256 = [], Path = []\<rparr>,
         BCmdline := ''priority=low console=ttyS0'',
         BVerification := \<lparr>MetadataURL = baseURL @ ''/dists/'' @ release @ ''/InRelease'',
                           ChecksumURL = imagesBase @ ''/SHA256SUMS'', SignatureURL = []\<rparr>\<rparr>)"

definition deb_Plan :: "DebianProvider \<Rightarrow> PlanInput \<Rightarrow> BootPlan result" where
  "deb_Plan p input =
     and_then (deb_selectedTarget p (PTarget input)) (\<lambda>selected.
       if Architecture (Catalog selected) \<noteq> ''amd64'' then
         Inl (Errorf ''unsupported Debian architecture %q for target %s''
                [S (Architecture (Catalog selected)), S (TID selected)])
       else ApplySelectedOptions (deb_plan selected (targetBaseURL selected (deb_mirrorURL p))) (POptions input))"

section \<open>Discovery\<close>

definition isDiscoveryRelease :: "string \<Rightarrow> bool" where
  "isDiscoveryRelease release \<longleftrightarrow>
     \<not> (release = [] \<or> prefix ''.'' release) \<and>
     release \<notin> {''stable'', ''oldstable'', ''oldoldstable'', ''testing'', ''unstable'', ''sid'', ''experimental'', ''rc-buggy''} \<and>
     list_all (\<lambda>c. ((0x61::nat) \<le> of_char c \<and> of_char c \<le> (0x7A::nat)) \<or> is_digit c \<or> c = CHR ''-'') release"

definition parseDistsIndex :: "bytes \<Rightarrow> string list" where
  "parseDistsIndex data =
     (let found = map (\<lambda>m. PathBase (TrimSuffix m ''/'')) (href_matches data) in
      sort (remdups (filter isDiscoveryRelease found)))"

definition discoverReleases :: "string \<Rightarrow> string list io" where
  "discoverReleases mirrorURL =
     io_bind (io_wrap (\<lambda>e. Errorf ''fetch Debian dists index: %w'' [W e]) (FetchStatus (mirrorURL @ ''/dists/'')))
       (\<lambda>(body, status).
         if status \<noteq> 200 then
           io_fail (Errorf ''fetch Debian dists index: GET %s/dists/: %s'' [S mirrorURL, D status])
         else io_return (parseDistsIndex body))"

definition hasAMD64Netboot :: "string \<Rightarrow> string \<Rightarrow> bool io" where
  "hasAMD64Netboot mirrorURL release =
     (let checksumURL = mirrorURL @ ''/dists/'' @ release @ ''/main/installer-amd64/current/images/SHA256SUMS'' in
      io_bind (io_wrap (\<lambda>e. Errorf ''fetch Debian %s amd64 netboot metadata: %w'' [S release, W e])
                 (FetchStatus checksumURL)) (\<lambda>(body, status).
        if status = 404 then io_return False
        else if status \<noteq> 200 then
          io_fail (Errorf ''fetch Debian %s amd64 netboot metadata: GET %s: %s'' [S release, S checksumURL, D status])
        else io_return (Contains body ''netboot/debian-installer/amd64/linux'' \<and>
                        Contains body ''netboot/debian-installer/amd64/initrd.gz'')))"

definition deb_lifecycleEntry :: "DebianProvider \<Rightarrow> string \<Rightarrow> LifecycleEntry" where
  "deb_lifecycleEntry p release =
     (case map_of (deb_lifecycle p) release of
        Some e \<Rightarrow> e
      | None \<Rightarrow> \<lparr>Status = LifecycleUnknown, LSource = ''debian'', Date = []\<rparr>)"

definition deb_discoveredTarget :: "DebianProvider \<Rightarrow> string \<Rightarrow> Target" where
  "deb_discoveredTarget p release =
     \<lparr>TID = ''debian-'' @ release @ ''-amd64-netboot'', ProviderID = deb_providerID,
      Name = ''Debian '' @ release @ '' amd64 netboot'', Action = [],
      Catalog = \<lparr>Distribution = deb_providerID, Release = release, Architecture = ''amd64'', Kind = ''installer''\<rparr>,
      Source = empty_SourceEntry\<lparr>BaseURL := deb_discoveryURL p\<rparr>,
      Lifecycle = deb_lifecycleEntry p release, Options = [], Secrets = []\<rparr>"

definition isContextError :: "go_error \<Rightarrow> bool" where
  "isContextError e \<longleftrightarrow> errors_is e ContextCanceled \<or> errors_is e ContextDeadlineExceeded"

definition deb_discoveryMetadataURL :: "DebianProvider \<Rightarrow> string" where
  "deb_discoveryMetadataURL p =
     (if deb_discoveryFile p \<noteq> [] then LocalFileURL (deb_discoveryFile p) else deb_discoveryURL p)"

text \<open>The loop over the releases: a release that cannot be asked is skipped, unless the context ended.\<close>

fun deb_discover_loop :: "DebianProvider \<Rightarrow> string \<Rightarrow> string list \<Rightarrow> Target list io" where
  "deb_discover_loop p metadataURL [] = io_return []"
| "deb_discover_loop p metadataURL (release # rest) =
     io_try (hasAMD64Netboot metadataURL release) (\<lambda>r. case r of
       Inl e \<Rightarrow> (if isContextError e then io_fail e else deb_discover_loop p metadataURL rest)
     | Inr ok \<Rightarrow>
         io_bind (deb_discover_loop p metadataURL rest) (\<lambda>ts.
           io_return (if ok then deb_discoveredTarget p release # ts else ts)))"

definition deb_DiscoverTargets :: "DebianProvider \<Rightarrow> Target list io" where
  "deb_DiscoverTargets p =
     (let metadataURL = deb_discoveryMetadataURL p in
      io_bind (discoverReleases metadataURL) (deb_discover_loop p metadataURL))"

section \<open>Staging\<close>

definition VerifyInRelease :: "('k, 'b) crypto \<Rightarrow> bytes \<Rightarrow> reader \<Rightarrow> bytes result" where
  "VerifyInRelease C inRelease keyring = ClearSigned C \<lparr>CMessage = inRelease, CKeyring = keyring, CName = ''InRelease''\<rparr>"

definition VerifyArtifactChecksum ::
  "('k, 'b) crypto \<Rightarrow> string \<Rightarrow> bytes \<Rightarrow> (string \<times> string) list \<Rightarrow> unit result" where
  "VerifyArtifactChecksum C name data checksums =
     (case map_of checksums name of
        None \<Rightarrow> Inl (Errorf ''checksum for %q not found'' [S name])
      | Some want \<Rightarrow> verify_SHA256 C \<lparr>HArtifact = Some (Inr data), HExpectedSHA256 = want, HName = name\<rparr>)"

fun release_lines :: "bool \<Rightarrow> (string \<times> string) list \<Rightarrow> string list \<Rightarrow> (string \<times> string) list result" where
  "release_lines inSHA256 checksums [] = Inr checksums"
| "release_lines inSHA256 checksums (line # rest) =
     (if suffix '':'' line then release_lines (line = ''SHA256:'') checksums rest
      else if \<not> inSHA256 \<or> TrimSpace line = [] then release_lines inSHA256 checksums rest
      else case Fields line of
        f0 # f1 # f2 # _ \<Rightarrow> release_lines inSHA256 (map_put f2 f0 checksums) rest
      | _ \<Rightarrow> Inl (Errorf ''parse Release SHA256 line %q'' [S line]))"

definition parseReleaseSHA256 :: "bytes \<Rightarrow> (string \<times> string) list result" where
  "parseReleaseSHA256 release = release_lines False [] (Split release (CHR 0x0A))"

definition verifyReleaseFileChecksum :: "('k, 'b) crypto \<Rightarrow> string \<Rightarrow> bytes \<Rightarrow> bytes \<Rightarrow> unit result" where
  "verifyReleaseFileChecksum C name data release =
     and_then (parseReleaseSHA256 release) (\<lambda>checksums. VerifyArtifactChecksum C name data checksums)"

definition releasePath :: "string \<Rightarrow> string \<Rightarrow> string result" where
  "releasePath rawURL release =
     (case url_Parse rawURL of
        None \<Rightarrow> Inl (Errorf ''parse checksum URL: %w'' [W (errors_New ''parse'')])
      | Some u \<Rightarrow>
          (let marker = ''/dists/'' @ release @ ''/'' in
           case Index (url_Path u) marker of
             None \<Rightarrow> Inl (Errorf ''checksum URL %q does not contain %s'' [S rawURL, S marker])
           | Some i \<Rightarrow> Inr (drop (i + length marker) (url_Path u))))"

definition deb_fetchStageVerify ::
  "('k, 'b) crypto \<Rightarrow> string \<Rightarrow> string \<Rightarrow> string \<Rightarrow> string \<Rightarrow> bytes \<Rightarrow> StageProgressFunc option \<Rightarrow> string io" where
  "deb_fetchStageVerify C dir artifactURL filename checksumName shaSums progress =
     io_bind (io_wrap (\<lambda>e. Errorf ''fetch %s: %w'' [S filename, W e]) (fetchWithProgress artifactURL filename progress)) (\<lambda>data.
     io_bind (verifyWithProgress (verify_Artifact C \<lparr>IArtifact = Some (Inr data), IName = checksumName,
                IExpectedSHA256 = [], ISHA256Sums = Some (Inr shaSums), ISignature = None, IKeyring = None\<rparr>)
                filename progress) (\<lambda>_.
     writeWithProgress dir filename data progress))"

definition deb_FetchAndStageArtifacts ::
  "('k, 'b) crypto \<Rightarrow> BootPlan \<Rightarrow> reader \<Rightarrow> string \<Rightarrow> StageProgressFunc option \<Rightarrow> BootPlan io" where
  "deb_FetchAndStageArtifacts C plan keyring stagingDir progress =
     (if keyring = None then io_fail (errors_New ''keyring is required'')
      else if stagingDir = [] then io_fail (errors_New ''staging dir is required'')
      else
      io_bind (io_wrap (\<lambda>e. Errorf ''fetch InRelease: %w'' [W e])
                 (fetchWithProgress (MetadataURL (BVerification plan)) ''InRelease'' progress)) (\<lambda>inRelease.
      io_bind (reportProgress progress StageOperationVerify StageStateStarted ''InRelease'') (\<lambda>_.
      io_bind (io_of (VerifyInRelease C inRelease keyring)) (\<lambda>release.
      io_bind (reportProgress progress StageOperationVerify StageStateCompleted ''InRelease'') (\<lambda>_.
      io_bind (io_wrap (\<lambda>e. Errorf ''fetch SHA256SUMS: %w'' [W e])
                 (fetchWithProgress (ChecksumURL (BVerification plan)) ''SHA256SUMS'' progress)) (\<lambda>shaSums.
      io_bind (io_of (releasePath (ChecksumURL (BVerification plan)) (Release (Catalog (BTarget plan))))) (\<lambda>checksumPath.
      io_bind (verifyWithProgress (verifyReleaseFileChecksum C checksumPath shaSums release) ''SHA256SUMS'' progress) (\<lambda>_.
      let architecture = Architecture (Catalog (BTarget plan)) in
      io_bind (deb_fetchStageVerify C stagingDir (URL (Kernel plan)) ''linux''
                 (''netboot/debian-installer/'' @ architecture @ ''/linux'') shaSums progress) (\<lambda>kernelPath.
      io_bind (deb_fetchStageVerify C stagingDir (URL (Initrd plan)) ''initrd.gz''
                 (''netboot/debian-installer/'' @ architecture @ ''/initrd.gz'') shaSums progress) (\<lambda>initrdPath.
      io_return (plan\<lparr>Kernel := (Kernel plan)\<lparr>Path := kernelPath\<rparr>,
                      Initrd := (Initrd plan)\<lparr>Path := initrdPath\<rparr>\<rparr>)))))))))))"

definition deb_Stage :: "('k, 'b) crypto \<Rightarrow> DebianProvider \<Rightarrow> StageConfig \<Rightarrow> BootPlan io" where
  "deb_Stage C p cfg =
     (if deb_keyring p = [] then io_fail (errors_New ''keyring is required'')
      else deb_FetchAndStageArtifacts C (CPlan cfg) (Some (Inr (deb_keyring p))) (StagingDir cfg) (Progress cfg))"

definition deb_Provider :: "('k, 'b) crypto \<Rightarrow> DebianProvider \<Rightarrow> Provider" where
  "deb_Provider C p = \<lparr>ProvID = deb_providerID, ProvTargets = deb_Targets p,
     ProvPlan = (\<lambda>i. io_of (deb_Plan p i)),
     ProvDiscoverer = Some (deb_DiscoveryFamily, deb_DiscoverTargets p),
     ProvStager = Some (deb_Stage C p)\<rparr>"

section \<open>The trust chain\<close>

text \<open>
  \<open>deb_trusted C keyring plan k i\<close>: there is an \<open>InRelease\<close> message that verifies under the keyring, whose
  plaintext lists the digest of a \<open>SHA256SUMS\<close> file under the path its URL has below the release, and that
  file lists the digests of \<open>k\<close> and \<open>i\<close> under the names of the netboot kernel and initrd.
\<close>

definition deb_trusted :: "('k, 'b) crypto \<Rightarrow> bytes \<Rightarrow> BootPlan \<Rightarrow> bytes \<Rightarrow> bytes \<Rightarrow> bool" where
  "deb_trusted C keyring plan k i \<longleftrightarrow>
     (\<exists>inRelease release shaSums checksumPath sums want.
        ClearSigned C \<lparr>CMessage = inRelease, CKeyring = Some (Inr keyring), CName = ''InRelease''\<rparr> = Inr release \<and>
        releasePath (ChecksumURL (BVerification plan)) (Release (Catalog (BTarget plan))) = Inr checksumPath \<and>
        parseReleaseSHA256 release = Inr sums \<and> map_of sums checksumPath = Some want \<and>
        sha256_hex C shaSums = ToLower want \<and>
        listed_in C shaSums (''netboot/debian-installer/'' @ Architecture (Catalog (BTarget plan)) @ ''/linux'') k \<and>
        listed_in C shaSums (''netboot/debian-installer/'' @ Architecture (Catalog (BTarget plan)) @ ''/initrd.gz'') i)"

lemma verifyReleaseFileChecksum_Inr:
  "verifyReleaseFileChecksum C name data release = Inr () \<Longrightarrow>
     \<exists>sums want. parseReleaseSHA256 release = Inr sums \<and> map_of sums name = Some want \<and>
       sha256_hex C data = ToLower want"
  by (auto simp: verifyReleaseFileChecksum_def VerifyArtifactChecksum_def verify_SHA256_iff split: option.splits)

lemma verify_listed:
  "verify_Artifact C \<lparr>IArtifact = Some (Inr d), IName = n, IExpectedSHA256 = [],
     ISHA256Sums = Some (Inr s), ISignature = None, IKeyring = None\<rparr> = Inr () \<longleftrightarrow> listed_in C s n d"
  by (auto simp: verify_Artifact_def verify_SHA256Sums_Inr)

lemma deb_fetchStageVerify_Inr:
  assumes "deb_fetchStageVerify C dir u name sumname sums progress w = (Inr p, w')" and "quiet progress"
  shows "p = filepath_Join [dir, name] \<and>
         (\<exists>d m. listed_in C sums sumname d \<and> Fs w' = (Fs w)(path_Clean p \<mapsto> File d m))"
proof -
  from assms(1) obtain d w1 w2 where "fetchWithProgress u name progress w = (Inr d, w1)"
    and v: "verifyWithProgress (verify_Artifact C \<lparr>IArtifact = Some (Inr d), IName = sumname, IExpectedSHA256 = [],
       ISHA256Sums = Some (Inr sums), ISignature = None, IKeyring = None\<rparr>) name progress w1 = (Inr (), w2)"
    and wr: "writeWithProgress dir name d progress w2 = (Inr p, w')"
    by (auto simp: deb_fetchStageVerify_def)
  then have "Fs w2 = Fs w"
    using fs_pureD [OF fs_pure_fetchWithProgress [OF assms(2)]] fs_pureD [OF fs_pure_verifyWithProgress [OF assms(2)]]
    by metis
  with verifyWithProgress_Inr [OF v] writeWithProgress_Inr [OF wr assms(2)] show ?thesis
    by (auto simp: verify_listed)
qed

text \<open>The two files are different: \<open>linux\<close> and \<open>initrd.gz\<close> in the same directory.\<close>

lemma staged_names_distinct:
  assumes "dir \<noteq> []" and "plain_elem a" and "plain_elem b" and "a \<noteq> b"
  shows "path_Clean (filepath_Join [dir, a]) \<noteq> path_Clean (filepath_Join [dir, b])"
proof
  assume eq: "path_Clean (filepath_Join [dir, a]) = path_Clean (filepath_Join [dir, b])"
  have "filepath_Join [dir, x] \<noteq> []" if "plain_elem x" for x
    using filepath_Join_below [OF assms(1) that] by (auto simp: path_elems_def)
  then have "path_elems (filepath_Join [dir, a]) = path_elems (filepath_Join [dir, b])"
    using eq assms(2,3) by (metis path_elems_Clean)
  then show False using filepath_Join_below assms by fastforce
qed

lemma deb_FetchAndStageArtifacts_Inr:
  assumes "deb_FetchAndStageArtifacts C plan (Some (Inr keyring)) dir progress w = (Inr p, w')"
  shows "same_boot p plan"
    and "quiet progress \<Longrightarrow> \<exists>k i. deb_trusted C keyring plan k i \<and>
           file_at w' (Path (Kernel p)) k \<and> file_at w' (Path (Initrd p)) i"
proof -
  let ?arch = "Architecture (Catalog (BTarget plan))"
  from assms obtain inRelease release shaSums checksumPath kp ip w1 w2 w3 v v' where dir: "dir \<noteq> []"
    and rel: "VerifyInRelease C inRelease (Some (Inr keyring)) = Inr release"
    and path: "releasePath (ChecksumURL (BVerification plan)) (Release (Catalog (BTarget plan))) = Inr checksumPath"
    and sums: "verifyWithProgress (verifyReleaseFileChecksum C checksumPath shaSums release) ''SHA256SUMS'' progress v = (Inr (), v')"
    and k: "deb_fetchStageVerify C dir (URL (Kernel plan)) ''linux''
              (''netboot/debian-installer/'' @ ?arch @ ''/linux'') shaSums progress w1 = (Inr kp, w2)"
    and i: "deb_fetchStageVerify C dir (URL (Initrd plan)) ''initrd.gz''
              (''netboot/debian-installer/'' @ ?arch @ ''/initrd.gz'') shaSums progress w2 = (Inr ip, w3)"
    and p: "p = plan\<lparr>Kernel := (Kernel plan)\<lparr>Path := kp\<rparr>, Initrd := (Initrd plan)\<lparr>Path := ip\<rparr>\<rparr>" and w3: "w' = w3"
    unfolding deb_FetchAndStageArtifacts_def by (auto simp: Let_def split: if_splits)
  show "same_boot p plan" by (simp add: p)
  assume quiet: "quiet progress"
  from deb_fetchStageVerify_Inr [OF k quiet] obtain kd km where kp: "kp = filepath_Join [dir, ''linux'']"
    and kd: "listed_in C shaSums (''netboot/debian-installer/'' @ ?arch @ ''/linux'') kd"
    and fk: "Fs w2 = (Fs w1)(path_Clean kp \<mapsto> File kd km)" by auto
  from deb_fetchStageVerify_Inr [OF i quiet] obtain d im where ip: "ip = filepath_Join [dir, ''initrd.gz'']"
    and d: "listed_in C shaSums (''netboot/debian-installer/'' @ ?arch @ ''/initrd.gz'') d"
    and fi: "Fs w3 = (Fs w2)(path_Clean ip \<mapsto> File d im)" by auto
  have "path_Clean kp \<noteq> path_Clean ip"
    unfolding kp ip by (rule staged_names_distinct [OF dir]) (simp_all add: plain_elem_def)
  with fk fi have "file_at w' (Path (Kernel p)) kd" "file_at w' (Path (Initrd p)) d"
    by (auto simp: file_at_def p w3)
  moreover have "deb_trusted C keyring plan kd d"
    using rel path verifyReleaseFileChecksum_Inr [OF verifyWithProgress_Inr [OF sums]] kd d
    unfolding deb_trusted_def VerifyInRelease_def by blast
  ultimately show "\<exists>k i. deb_trusted C keyring plan k i \<and>
           file_at w' (Path (Kernel p)) k \<and> file_at w' (Path (Initrd p)) i" by blast
qed

interpretation debian: stager "deb_Stage C p" "\<lambda>cfg. deb_trusted C (deb_keyring p) (CPlan cfg)" "\<lambda>_. True"
  for C :: "('k, 'b) crypto" and p
proof
  show "same_boot q (CPlan cfg)" if "deb_Stage C p cfg w = (Inr q, w')" for cfg w q w'
    using that deb_FetchAndStageArtifacts_Inr(1) by (fastforce simp: deb_Stage_def split: if_splits)
  show "\<exists>k i. deb_trusted C (deb_keyring p) (CPlan cfg) k i \<and> file_at w' (Path (Kernel q)) k \<and>
          (Path (Initrd q) \<noteq> [] \<longrightarrow> URL (Initrd q) \<noteq> [] \<longrightarrow> file_at w' (Path (Initrd q)) i)"
    if "deb_Stage C p cfg w = (Inr q, w')" "quiet (Progress cfg)" for cfg w q w'
    using that deb_FetchAndStageArtifacts_Inr(2) by (fastforce simp: deb_Stage_def split: if_splits)
qed

text \<open>Debian staging succeeds only along the whole trust chain.  The staged plan is the requested one, and
  its kernel and initrd files hold bytes whose digests are listed in a sums file whose digest is listed in
  release metadata signed under the configured keyring; a provider without keyring stages nothing.\<close>

theorem deb_Stage_trust_chain:
  assumes "deb_Stage C p cfg w = (Inr q, w')" and "quiet (Progress cfg)"
  shows "deb_keyring p \<noteq> [] \<and> same_boot q (CPlan cfg) \<and>
         (\<exists>k i. deb_trusted C (deb_keyring p) (CPlan cfg) k i \<and>
            file_at w' (Path (Kernel q)) k \<and> file_at w' (Path (Initrd q)) i)"
  using assms debian.stage_same [OF assms(1)] deb_FetchAndStageArtifacts_Inr(2)
  by (fastforce simp: deb_Stage_def split: if_splits)

section \<open>Discovered targets\<close>

lemma isDiscoveryRelease_visible:
  "isDiscoveryRelease r \<Longrightarrow> r \<noteq> [] \<and> (\<forall>c \<in> set r. visible c)"
  by (auto simp: isDiscoveryRelease_def list_all_iff visible_def is_digit_def)

lemma wf_discovered:
  assumes rel: "isDiscoveryRelease r" and url: "trimmed (deb_discoveryURL p)" "http_url (deb_discoveryURL p)"
    and lc: "\<forall>(k, e) \<in> set (deb_lifecycle p). wf_lifecycle e"
  shows "wf_target deb_providerID (deb_discoveredTarget p r)"
proof -
  note vis = isDiscoveryRelease_visible [OF rel]
  have "TrimSpace r \<noteq> []" using vis by (simp add: TrimSpace_visible)
  moreover have "TrimSpace (''debian-'' @ r @ ''-amd64-netboot'') = ''debian-'' @ r @ ''-amd64-netboot''"
    by (rule TrimSpace_visible) (simp_all add: visible_def)
  moreover have "TrimSpace (''Debian '' @ r @ '' amd64 netboot'') = ''Debian '' @ r @ '' amd64 netboot''"
    by (rule TrimSpace_visible) (simp_all add: visible_def)
  moreover have "TrimSpace ''debian'' = ''debian''" "TrimSpace ''amd64'' = ''amd64''" "TrimSpace ''installer'' = ''installer''"
    by (rule TrimSpace_visible; simp add: visible_def)+
  moreover have "wf_source (empty_SourceEntry\<lparr>BaseURL := deb_discoveryURL p\<rparr>)"
    using url by (simp add: wf_source_def empty_SourceEntry_def wf_iso_name_def wf_source_path_def wf_pins_def)
  moreover have "wf_lifecycle (deb_lifecycleEntry p r)"
  proof (cases "map_of (deb_lifecycle p) r")
    case None
    have "trimmed ''debian''" by (rule trimmed_visible) (simp_all add: visible_def)
    with None show ?thesis by (simp add: deb_lifecycleEntry_def wf_lifecycle_def)
  next
    case (Some e)
    with lc map_of_SomeD [OF Some] show ?thesis by (auto simp: deb_lifecycleEntry_def)
  qed
  ultimately show ?thesis
    by (simp add: wf_target_def deb_discoveredTarget_def deb_providerID_def wf_catalog_def known_action_def)
qed

lemma deb_discover_loop_Inr:
  "deb_discover_loop p u rs w = (Inr ts, w') \<Longrightarrow> subseq ts (map (deb_discoveredTarget p) rs)"
proof (induction rs arbitrary: w ts)
  case (Cons r rs)
  obtain ans w1 where ask: "hasAMD64Netboot u r w = (ans, w1)" by (cases "hasAMD64Netboot u r w")
  show ?case
  proof (cases ans)
    case (Inl e)
    with Cons.prems ask have "deb_discover_loop p u rs w1 = (Inr ts, w')"
      by (auto simp: io_try_def split: if_splits)
    from Cons.IH [OF this] show ?thesis by (simp add: list_emb_Cons)
  next
    case (Inr ok)
    with Cons.prems ask obtain us where "deb_discover_loop p u rs w1 = (Inr us, w')"
      and "ts = (if ok then deb_discoveredTarget p r # us else us)"
      by (auto simp: io_try_def)
    with Cons.IH [OF this(1)] show ?thesis by (auto simp: list_emb_Cons)
  qed
qed simp

lemma fs_pure_deb_discover_loop: "fs_pure (deb_discover_loop p u rs)"
  by (induction rs; unfold deb_discover_loop.simps hasAMD64Netboot_def Let_def; intro fs_pure_intros; assumption?)

lemma parseDistsIndex_releases:
  "sorted (parseDistsIndex d) \<and> distinct (parseDistsIndex d) \<and> (\<forall>r \<in> set (parseDistsIndex d). isDiscoveryRelease r)"
  by (auto simp: parseDistsIndex_def)

text \<open>Whatever index page and metadata a Debian mirror serves, every discovered target is well-formed and
  their IDs are distinct, so the registry never has to reject them, provided the configured mirror URL
  and lifecycle data are valid; discovery changes no file.\<close>

theorem deb_DiscoverTargets_wf:
  assumes "deb_DiscoverTargets p w = (Inr ts, w')" and "trimmed (deb_discoveryURL p)" and "http_url (deb_discoveryURL p)"
    and "\<forall>(k, e) \<in> set (deb_lifecycle p). wf_lifecycle e"
  shows "(\<forall>t \<in> set ts. ValidateTarget ''debian'' t = Inr ()) \<and> distinct (map TID ts) \<and> Fs w' = Fs w"
proof -
  from assms(1) obtain d w1 where loop: "deb_discover_loop p (deb_discoveryMetadataURL p) (parseDistsIndex d) w1 = (Inr ts, w')"
    by (auto simp: deb_DiscoverTargets_def discoverReleases_def Let_def split: if_splits)
  note sub = deb_discover_loop_Inr [OF loop]
  have "distinct (map TID (map (deb_discoveredTarget p) (parseDistsIndex d)))"
    using parseDistsIndex_releases [of d] by (auto simp: distinct_map inj_on_def deb_discoveredTarget_def)
  then have "distinct (map TID ts)" using subseq_map [OF sub] by (metis distinct_nthsI subseq_conv_nths)
  moreover have "wf_target ''debian'' t" if t: "t \<in> set ts" for t
  proof -
    from t sub have "t \<in> set (map (deb_discoveredTarget p) (parseDistsIndex d))" by (auto elim!: list_emb_set)
    then obtain r where "r \<in> set (parseDistsIndex d)" "t = deb_discoveredTarget p r" by auto
    with parseDistsIndex_releases wf_discovered [OF _ assms(2-4)] show ?thesis by (auto simp: deb_providerID_def)
  qed
  moreover have "fs_pure (deb_DiscoverTargets p)"
    unfolding deb_DiscoverTargets_def discoverReleases_def Let_def by (intro fs_pure_intros fs_pure_deb_discover_loop)
  ultimately show ?thesis using fs_pureD assms(1) by (auto simp: ValidateTarget_wf)
qed

end
