(* ===== verification/Ubuntu.thy ===== *)
theory Ubuntu
  imports Debian
begin

text \<open>
  The Ubuntu provider (\<^verbatim>\<open>internal/providers/ubuntu/provider.go\<close>).  Resolving a hyperlink against the
  index URL (\<open>url.URL.ResolveReference\<close> and \<open>String\<close>) is the parameter \<open>resolve\<close>: for a base and a
  reference it gives the path and the text of the resolved URL.
\<close>

section \<open>Configuration\<close>

definition ubu_providerID :: string where "ubu_providerID = ''ubuntu''"
definition ubu_targetID :: string where "ubu_targetID = ''ubuntu-2604-amd64-netboot''"
definition liveServerISO :: string where "liveServerISO = ''ubuntu-26.04-live-server-amd64.iso''"

record UbuntuConfig =
  UCReleaseURL :: string
  UCDiscoveryURL :: string
  UCDiscoveryFile :: string
  UCKeyring :: bytes
  UCKernelSHA256 :: string
  UCInitrdSHA256 :: string
  UCTargets :: "Target list option"
  UCLifecycle :: "(string \<times> LifecycleEntry) list"

record UbuntuProvider =
  ubu_releaseURL :: string
  ubu_discoveryURL :: string
  ubu_discoveryFile :: string
  ubu_keyring :: bytes
  ubu_kernelSHA256 :: string
  ubu_initrdSHA256 :: string
  ubu_targets :: "Target list"
  ubu_lifecycle :: "(string \<times> LifecycleEntry) list"

definition ubu_defaultTargets :: "Target list" where
  "ubu_defaultTargets =
     [\<lparr>TID = ubu_targetID, ProviderID = ubu_providerID, Name = ''Ubuntu 26.04 amd64 netboot'', Action = [],
       Catalog = \<lparr>Distribution = ''ubuntu'', Release = ''26.04'', Architecture = ''amd64'', Kind = ''installer''\<rparr>,
       Source = empty_SourceEntry, Lifecycle = empty_LifecycleEntry, Options = [], Secrets = []\<rparr>]"

definition ubu_NewProvider :: "UbuntuConfig \<Rightarrow> UbuntuProvider" where
  "ubu_NewProvider c =
     (let rel0 = TrimRight (UCReleaseURL c) (CHR ''/'');
          disc0 = TrimRight (UCDiscoveryURL c) (CHR ''/'') in
      \<lparr>ubu_releaseURL = (if rel0 = [] then ''https://releases.ubuntu.com/26.04'' else rel0),
       ubu_discoveryURL = (if disc0 = [] then ''https://releases.ubuntu.com/releases'' else disc0),
       ubu_discoveryFile = TrimSpace (UCDiscoveryFile c), ubu_keyring = UCKeyring c,
       ubu_kernelSHA256 = UCKernelSHA256 c, ubu_initrdSHA256 = UCInitrdSHA256 c,
       ubu_targets = (case UCTargets c of None \<Rightarrow> ubu_defaultTargets | Some ts \<Rightarrow> ts),
       ubu_lifecycle = UCLifecycle c\<rparr>)"

definition ubu_Targets :: "UbuntuProvider \<Rightarrow> Target list io" where
  "ubu_Targets p = io_return (ubu_targets p)"

definition ubu_DiscoveryFamily :: DiscoveryFamily where
  "ubu_DiscoveryFamily = \<lparr>FamID = ubu_providerID, FamProviderID = ubu_providerID, FamName = ''Ubuntu'',
     Description = ''Discover Ubuntu amd64 netboot installers from the configured releases index.''\<rparr>"

section \<open>Planning\<close>

definition ubu_selectedTarget :: "UbuntuProvider \<Rightarrow> Target \<Rightarrow> Target result" where
  "ubu_selectedTarget p t =
     (case find_target (ubu_targets p) (TID t) of
        Some selected \<Rightarrow> Inr selected
      | None \<Rightarrow>
          and_then (ValidateTarget ubu_providerID t) (\<lambda>_.
          if Distribution (Catalog t) \<noteq> ubu_providerID then
            Inl (Errorf ''unsupported Ubuntu distribution %q for target %s'' [S (Distribution (Catalog t)), S (TID t)])
          else if Kind (Catalog t) \<noteq> ''installer'' then
            Inl (Errorf ''unsupported Ubuntu target kind %q for target %s'' [S (Kind (Catalog t)), S (TID t)])
          else Inr t))"

definition targetISOName :: "Target \<Rightarrow> string result" where
  "targetISOName t =
     (if ISOName (Source t) \<noteq> [] then Inr (ISOName (Source t))
      else if TID t = ubu_targetID then Inr liveServerISO
      else Inl (Errorf ''source ISO name is required for Ubuntu target %s'' [S (TID t)]))"

definition ubu_plan :: "UbuntuProvider \<Rightarrow> Target \<Rightarrow> string \<Rightarrow> string \<Rightarrow> BootPlan" where
  "ubu_plan p t releaseURL isoName =
     (let architecture = Architecture (Catalog t) in
      (plan_for t)
        \<lparr>Kernel := \<lparr>AName = ''linux'', URL = releaseURL @ ''/netboot/'' @ architecture @ ''/linux'',
                    SHA256 = ubu_kernelSHA256 p, Path = []\<rparr>,
         Initrd := \<lparr>AName = ''initrd'', URL = releaseURL @ ''/netboot/'' @ architecture @ ''/initrd'',
                    SHA256 = ubu_initrdSHA256 p, Path = []\<rparr>,
         BCmdline := ''url='' @ releaseURL @ ''/'' @ isoName @ '' ip=dhcp console=ttyS0'',
         BVerification := \<lparr>MetadataURL = [], ChecksumURL = releaseURL @ ''/SHA256SUMS'',
                           SignatureURL = releaseURL @ ''/SHA256SUMS.gpg''\<rparr>\<rparr>)"

definition ubu_Plan :: "UbuntuProvider \<Rightarrow> PlanInput \<Rightarrow> BootPlan result" where
  "ubu_Plan p input =
     and_then (ubu_selectedTarget p (PTarget input)) (\<lambda>selected.
       if Architecture (Catalog selected) \<noteq> ''amd64'' then
         Inl (Errorf ''unsupported Ubuntu architecture %q for target %s''
                [S (Architecture (Catalog selected)), S (TID selected)])
       else let releaseURL = targetBaseURL selected (ubu_releaseURL p) in
            and_then (targetISOName selected) (\<lambda>isoName.
              ApplySelectedOptions (ubu_plan p selected releaseURL isoName) (POptions input)))"

section \<open>Discovery\<close>

definition all_digits :: "string \<Rightarrow> bool" where
  "all_digits s \<longleftrightarrow> s \<noteq> [] \<and> list_all is_digit s"

text \<open>\<open>^\d+\.\d+$\<close> and \<open>^ubuntu-(\d+\.\d+(?:\.\d+)?)-live-server-amd64\.iso$\<close>.\<close>

definition releaseDirPattern :: "string \<Rightarrow> bool" where
  "releaseDirPattern s \<longleftrightarrow> length (Split s (CHR ''.'')) = 2 \<and> list_all all_digits (Split s (CHR ''.''))"

definition liveServerISOPattern :: "string \<Rightarrow> string option" where
  "liveServerISOPattern name =
     (let n = length name; pre = ''ubuntu-''; post = ''-live-server-amd64.iso'';
          v = drop (length pre) (take (n - length post) name) in
      if prefix pre name \<and> suffix post name \<and> length pre + length post \<le> n \<and>
         length (Split v (CHR ''.'')) \<in> {2, 3} \<and> list_all all_digits (Split v (CHR ''.''))
      then Some v else None)"

type_synonym releaseCandidate = "string \<times> string"  \<comment> \<open>source URL, metadata URL\<close>

fun index_releases ::
  "(string \<Rightarrow> string \<Rightarrow> string \<times> string) \<Rightarrow> string \<Rightarrow> string \<Rightarrow> releaseCandidate list \<Rightarrow> string list \<Rightarrow> releaseCandidate list" where
  "index_releases resolve metadataBase sourceBase seen [] = seen"
| "index_releases resolve metadataBase sourceBase seen (href # rest) =
     (if url_Parse href = None then index_releases resolve metadataBase sourceBase seen rest
      else let (metaPath, metaText) = resolve metadataBase href in
           if \<not> releaseDirPattern (PathBase metaPath) then index_releases resolve metadataBase sourceBase seen rest
           else let sourceURL = TrimRight (snd (resolve sourceBase href)) (CHR ''/'') in
                index_releases resolve metadataBase sourceBase
                  (map_put sourceURL (TrimRight metaText (CHR ''/'')) seen) rest)"

definition discoverReleaseURLs ::
  "(string \<Rightarrow> string \<Rightarrow> string \<times> string) \<Rightarrow> string \<Rightarrow> string \<Rightarrow> releaseCandidate list io" where
  "discoverReleaseURLs resolve metadataDiscoveryURL sourceDiscoveryURL =
     (let indexURL = EnsureTrailingSlash metadataDiscoveryURL in
      io_bind (io_wrap (\<lambda>e. Errorf ''fetch Ubuntu releases index: %w'' [W e]) (FetchStatus indexURL)) (\<lambda>(body, status).
        if status \<noteq> 200 then io_fail (Errorf ''fetch Ubuntu releases index: GET %s: %s'' [S indexURL, D status])
        else if url_Parse indexURL = None then
          io_fail (Errorf ''parse Ubuntu releases index URL: %w'' [W (errors_New ''parse'')])
        else if url_Parse (EnsureTrailingSlash sourceDiscoveryURL) = None then
          io_fail (Errorf ''parse Ubuntu releases source URL: %w'' [W (errors_New ''parse'')])
        else io_return (sort_key fst (index_releases resolve indexURL (EnsureTrailingSlash sourceDiscoveryURL) []
                          (href_matches body)))))"

text \<open>
  The source ranges over a Go map and returns the first live-server image the iteration meets; the model
  takes the entries in the order they were stored.
\<close>

fun first_live_iso :: "(string \<times> string) list \<Rightarrow> (string \<times> string) option" where
  "first_live_iso [] = None"
| "first_live_iso ((name, _) # rest) =
     (case liveServerISOPattern name of Some v \<Rightarrow> Some (name, v) | None \<Rightarrow> first_live_iso rest)"

definition parseLiveServerISO :: "bytes \<Rightarrow> (string \<times> string) option result" where
  "parseLiveServerISO shaSums =
     and_then (ParseSHA256Sums (Some (Inr shaSums))) (\<lambda>checksums. Inr (first_live_iso checksums))"

definition ubu_lifecycleEntry :: "UbuntuProvider \<Rightarrow> string \<Rightarrow> LifecycleEntry" where
  "ubu_lifecycleEntry p release =
     (case map_of (ubu_lifecycle p) release of
        Some e \<Rightarrow> e
      | None \<Rightarrow> \<lparr>Status = LifecycleUnknown, LSource = ''ubuntu'', Date = []\<rparr>)"

definition ubu_discoveredTarget :: "UbuntuProvider \<Rightarrow> string \<Rightarrow> string \<Rightarrow> string \<Rightarrow> Target" where
  "ubu_discoveredTarget p releaseURL release isoName =
     \<lparr>TID = ''ubuntu-'' @ ReplaceAll release ''.'' [] @ ''-amd64-netboot'', ProviderID = ubu_providerID,
      Name = ''Ubuntu '' @ release @ '' amd64 netboot'', Action = [],
      Catalog = \<lparr>Distribution = ubu_providerID, Release = release, Architecture = ''amd64'', Kind = ''installer''\<rparr>,
      Source = empty_SourceEntry\<lparr>BaseURL := releaseURL, ISOName := isoName\<rparr>,
      Lifecycle = ubu_lifecycleEntry p release, Options = [], Secrets = []\<rparr>"

definition discoverReleaseTarget :: "UbuntuProvider \<Rightarrow> releaseCandidate \<Rightarrow> Target option io" where
  "discoverReleaseTarget p release =
     (let sourceURL = fst release; metadataURL = snd release in
      io_bind (io_wrap (\<lambda>e. Errorf ''fetch Ubuntu release metadata for %s: %w'' [S metadataURL, W e])
                 (FetchStatus (metadataURL @ ''/SHA256SUMS''))) (\<lambda>(shaSums, status).
      if status = 404 then io_return None
      else if status \<noteq> 200 then
        io_fail (Errorf ''fetch Ubuntu release metadata for %s: %s'' [S metadataURL, D status])
      else io_bind (io_of (parseLiveServerISO shaSums)) (\<lambda>iso. case iso of
          None \<Rightarrow> io_return None
        | Some (isoName, releaseVersion) \<Rightarrow>
            io_bind (Probe (metadataURL @ ''/netboot/amd64/linux'')) (\<lambda>k.
            if \<not> k then io_return None
            else io_bind (Probe (metadataURL @ ''/netboot/amd64/initrd'')) (\<lambda>i.
            if \<not> i then io_return None
            else io_return (Some (ubu_discoveredTarget p sourceURL releaseVersion isoName)))))))"

fun ubu_discover_loop :: "UbuntuProvider \<Rightarrow> releaseCandidate list \<Rightarrow> Target list io" where
  "ubu_discover_loop p [] = io_return []"
| "ubu_discover_loop p (release # rest) =
     io_try (discoverReleaseTarget p release) (\<lambda>r. case r of
       Inl e \<Rightarrow> (if isContextError e then io_fail e else ubu_discover_loop p rest)
     | Inr t \<Rightarrow> io_bind (ubu_discover_loop p rest) (\<lambda>ts.
                  io_return (case t of None \<Rightarrow> ts | Some x \<Rightarrow> x # ts)))"

definition ubu_discoveryMetadataURL :: "UbuntuProvider \<Rightarrow> string" where
  "ubu_discoveryMetadataURL p =
     (if ubu_discoveryFile p \<noteq> [] then LocalFileURL (ubu_discoveryFile p) else ubu_discoveryURL p)"

definition ubu_DiscoverTargets :: "(string \<Rightarrow> string \<Rightarrow> string \<times> string) \<Rightarrow> UbuntuProvider \<Rightarrow> Target list io" where
  "ubu_DiscoverTargets resolve p =
     io_bind (discoverReleaseURLs resolve (ubu_discoveryMetadataURL p) (ubu_discoveryURL p)) (ubu_discover_loop p)"

section \<open>Staging\<close>

definition requireChecksumEntry :: "bytes \<Rightarrow> string \<Rightarrow> unit result" where
  "requireChecksumEntry shaSums name =
     and_then (ParseSHA256Sums (Some (Inr shaSums))) (\<lambda>checksums.
       if map_of checksums name = None then Inl (Errorf ''checksum for %q not found'' [S name]) else Inr ())"

text \<open>\<open>requireHTTPS\<close>, with the name of the distribution the message mentions.\<close>

definition requireHTTPS :: "string \<Rightarrow> string list \<Rightarrow> unit result" where
  "requireHTTPS distro urls =
     for_each (\<lambda>u. case url_Parse u of
         None \<Rightarrow> Inl (Errorf ''parse artifact URL: %w'' [W (errors_New ''parse'')])
       | Some v \<Rightarrow> if url_Scheme v \<noteq> ''https''
                   then Inl (Errorf ''unverified %s artifact URL must use https: %s'' [S distro, S u]) else Inr ()) urls"

definition ubu_fetchStageVerify ::
  "('k, 'b) crypto \<Rightarrow> string \<Rightarrow> Artifact \<Rightarrow> StageProgressFunc option \<Rightarrow> string io" where
  "ubu_fetchStageVerify C dir artifact progress =
     io_bind (io_wrap (\<lambda>e. Errorf ''fetch %s: %w'' [S (AName artifact), W e])
                (fetchWithProgress (URL artifact) (AName artifact) progress)) (\<lambda>data.
     io_bind (if SHA256 artifact \<noteq> [] then
                verifyWithProgress (verify_SHA256 C \<lparr>HArtifact = Some (Inr data),
                   HExpectedSHA256 = SHA256 artifact, HName = AName artifact\<rparr>) (AName artifact) progress
              else io_return ()) (\<lambda>_.
     writeWithProgress dir (AName artifact) data progress))"

definition ubu_verify_sums :: "('k, 'b) crypto \<Rightarrow> BootPlan \<Rightarrow> reader \<Rightarrow> StageProgressFunc option \<Rightarrow> unit io" where
  "ubu_verify_sums C plan keyring progress =
     io_bind (io_wrap (\<lambda>e. Errorf ''fetch SHA256SUMS: %w'' [W e])
                (fetchWithProgress (ChecksumURL (BVerification plan)) ''SHA256SUMS'' progress)) (\<lambda>shaSums.
     io_bind (io_wrap (\<lambda>e. Errorf ''fetch SHA256SUMS.gpg: %w'' [W e])
                (fetchWithProgress (SignatureURL (BVerification plan)) ''SHA256SUMS.gpg'' progress)) (\<lambda>signature.
     io_bind (verifyWithProgress (verify_Artifact C \<lparr>IArtifact = Some (Inr shaSums), IName = ''SHA256SUMS'',
                IExpectedSHA256 = [], ISHA256Sums = None, ISignature = Some (Inr signature), IKeyring = keyring\<rparr>)
                ''SHA256SUMS'' progress) (\<lambda>_.
     io_bind (io_of (targetISOName (BTarget plan))) (\<lambda>isoName.
       io_of (requireChecksumEntry shaSums isoName)))))"

definition ubu_FetchAndStageArtifacts ::
  "('k, 'b) crypto \<Rightarrow> BootPlan \<Rightarrow> reader \<Rightarrow> string \<Rightarrow> StageProgressFunc option \<Rightarrow> BootPlan io" where
  "ubu_FetchAndStageArtifacts C plan keyring stagingDir progress =
     (if stagingDir = [] then io_fail (errors_New ''staging dir is required'')
      else if (SHA256 (Kernel plan) = []) \<noteq> (SHA256 (Initrd plan) = []) then
        io_fail (errors_New ''kernel and initrd sha256 must be supplied together'')
      else
      io_bind (if keyring \<noteq> None then ubu_verify_sums C plan keyring progress else io_return ()) (\<lambda>_.
      io_bind (if SHA256 (Kernel plan) = []
               then io_of (requireHTTPS ''Ubuntu'' [URL (Kernel plan), URL (Initrd plan)]) else io_return ()) (\<lambda>_.
      io_bind (ubu_fetchStageVerify C stagingDir (Kernel plan) progress) (\<lambda>kernelPath.
      io_bind (ubu_fetchStageVerify C stagingDir (Initrd plan) progress) (\<lambda>initrdPath.
      io_return (plan\<lparr>Kernel := (Kernel plan)\<lparr>Path := kernelPath\<rparr>,
                      Initrd := (Initrd plan)\<lparr>Path := initrdPath\<rparr>\<rparr>))))))"

definition ubu_Stage :: "('k, 'b) crypto \<Rightarrow> UbuntuProvider \<Rightarrow> StageConfig \<Rightarrow> BootPlan io" where
  "ubu_Stage C p cfg =
     ubu_FetchAndStageArtifacts C (CPlan cfg)
       (if ubu_keyring p \<noteq> [] then Some (Inr (ubu_keyring p)) else None) (StagingDir cfg) (Progress cfg)"

definition ubu_Provider ::
  "('k, 'b) crypto \<Rightarrow> (string \<Rightarrow> string \<Rightarrow> string \<times> string) \<Rightarrow> UbuntuProvider \<Rightarrow> Provider" where
  "ubu_Provider C resolve p = \<lparr>ProvID = ubu_providerID, ProvTargets = ubu_Targets p,
     ProvPlan = (\<lambda>i. io_of (ubu_Plan p i)),
     ProvDiscoverer = Some (ubu_DiscoveryFamily, ubu_DiscoverTargets resolve p),
     ProvStager = Some (ubu_Stage C p)\<rparr>"

section \<open>What staging guarantees\<close>

lemma requireHTTPS_iff: "requireHTTPS d us = Inr () \<longleftrightarrow> (\<forall>u \<in> set us. https_scheme u)"
  by (auto simp: requireHTTPS_def https_scheme_def split: option.splits)

text \<open>An artifact's content is acceptable when it has the pinned digest, if there is one.\<close>

definition pin_ok :: "('k, 'b) crypto \<Rightarrow> Artifact \<Rightarrow> bytes \<Rightarrow> bool" where
  "pin_ok C a d \<longleftrightarrow> SHA256 a = [] \<or> sha256_hex C d = ToLower (SHA256 a)"

lemma ubu_fetchStageVerify_Inr:
  assumes "ubu_fetchStageVerify C dir a progress w = (Inr p, w')" and "quiet progress"
  shows "p = filepath_Join [dir, AName a] \<and> (\<exists>d m. pin_ok C a d \<and> Fs w' = (Fs w)(path_Clean p \<mapsto> File d m))"
proof -
  from assms(1) obtain d w1 w2 where "fetchWithProgress (URL a) (AName a) progress w = (Inr d, w1)"
    and v: "(if SHA256 a \<noteq> [] then verifyWithProgress (verify_SHA256 C \<lparr>HArtifact = Some (Inr d),
               HExpectedSHA256 = SHA256 a, HName = AName a\<rparr>) (AName a) progress else io_return ()) w1 = (Inr (), w2)"
    and wr: "writeWithProgress dir (AName a) d progress w2 = (Inr p, w')"
    by (auto simp: ubu_fetchStageVerify_def)
  then have "Fs w1 = Fs w" using fs_pureD [OF fs_pure_fetchWithProgress [OF assms(2)]] by metis
  moreover have "Fs w2 = Fs w1 \<and> pin_ok C a d"
    using v fs_pureD [OF fs_pure_verifyWithProgress [OF assms(2)]]
    by (auto simp: pin_ok_def verify_SHA256_iff split: if_splits dest!: verifyWithProgress_Inr)
  ultimately show ?thesis using writeWithProgress_Inr [OF wr assms(2)] by auto
qed

text \<open>
  \<open>ubu_trusted\<close>: both artifacts meet their pins, or without pins both came over HTTPS; and with a keyring
  a sums file signed under it lists the installer image the command line points to.
\<close>

definition ubu_trusted :: "('k, 'b) crypto \<Rightarrow> bytes \<Rightarrow> BootPlan \<Rightarrow> bytes \<Rightarrow> bytes \<Rightarrow> bool" where
  "ubu_trusted C keyring plan k i \<longleftrightarrow>
     pin_ok C (Kernel plan) k \<and> pin_ok C (Initrd plan) i \<and>
     (SHA256 (Kernel plan) = [] \<longleftrightarrow> SHA256 (Initrd plan) = []) \<and>
     (SHA256 (Kernel plan) = [] \<longrightarrow> https_scheme (URL (Kernel plan)) \<and> https_scheme (URL (Initrd plan))) \<and>
     (keyring \<noteq> [] \<longrightarrow> (\<exists>shaSums signature iso cs. signed_by C keyring signature shaSums \<and>
        targetISOName (BTarget plan) = Inr iso \<and> ParseSHA256Sums (Some (Inr shaSums)) = Inr cs \<and> map_of cs iso \<noteq> None))"

lemma ubu_verify_sums_Inr:
  assumes "ubu_verify_sums C plan (Some (Inr keyring)) progress w = (Inr (), w')"
  shows "\<exists>shaSums signature iso cs. signed_by C keyring signature shaSums \<and>
        targetISOName (BTarget plan) = Inr iso \<and> ParseSHA256Sums (Some (Inr shaSums)) = Inr cs \<and> map_of cs iso \<noteq> None"
proof -
  have sig: "verify_Artifact C \<lparr>IArtifact = Some (Inr d), IName = n, IExpectedSHA256 = [], ISHA256Sums = None,
      ISignature = Some (Inr s), IKeyring = Some (Inr k)\<rparr> = Inr () \<longleftrightarrow> signed_by C k s d" for d n s k
    by (auto simp: verify_Artifact_def ArmoredDetachedSignature_Inr)
  from assms obtain shaSums signature iso where
    "signed_by C keyring signature shaSums" "targetISOName (BTarget plan) = Inr iso"
    "requireChecksumEntry shaSums iso = Inr ()"
    by (auto simp: ubu_verify_sums_def sig dest!: verifyWithProgress_Inr)
  then show ?thesis by (auto simp: requireChecksumEntry_def)
qed

lemma fs_pure_ubu_verify_sums: "quiet progress \<Longrightarrow> fs_pure (ubu_verify_sums C plan k progress)"
  unfolding ubu_verify_sums_def by (intro fs_pure_intros)

lemma ubu_Stage_Inr:
  assumes "ubu_Stage C p cfg w = (Inr q, w')"
  shows "same_boot q (CPlan cfg)"
    and "quiet (Progress cfg) \<Longrightarrow> plain_elem (AName (Kernel (CPlan cfg))) \<Longrightarrow> plain_elem (AName (Initrd (CPlan cfg))) \<Longrightarrow>
         AName (Kernel (CPlan cfg)) \<noteq> AName (Initrd (CPlan cfg)) \<Longrightarrow>
         \<exists>k i. ubu_trusted C (ubu_keyring p) (CPlan cfg) k i \<and>
           file_at w' (Path (Kernel q)) k \<and> file_at w' (Path (Initrd q)) i"
proof -
  let ?plan = "CPlan cfg" and ?dir = "StagingDir cfg" and ?pr = "Progress cfg"
  from assms obtain kp ip w0 w1 w2 where dir: "?dir \<noteq> []"
    and pins: "(SHA256 (Kernel ?plan) = []) = (SHA256 (Initrd ?plan) = [])"
    and sums: "ubu_keyring p \<noteq> [] \<longrightarrow> ubu_verify_sums C ?plan (Some (Inr (ubu_keyring p))) ?pr w = (Inr (), w0)"
    and none: "ubu_keyring p = [] \<longrightarrow> w0 = w"
    and https: "SHA256 (Kernel ?plan) = [] \<longrightarrow> requireHTTPS ''Ubuntu'' [URL (Kernel ?plan), URL (Initrd ?plan)] = Inr ()"
    and k: "ubu_fetchStageVerify C ?dir (Kernel ?plan) ?pr w1 = (Inr kp, w2)"
    and i: "ubu_fetchStageVerify C ?dir (Initrd ?plan) ?pr w2 = (Inr ip, w')"
    and q: "q = ?plan\<lparr>Kernel := (Kernel ?plan)\<lparr>Path := kp\<rparr>, Initrd := (Initrd ?plan)\<lparr>Path := ip\<rparr>\<rparr>"
    unfolding ubu_Stage_def ubu_FetchAndStageArtifacts_def by (auto split: if_splits)
  show "same_boot q ?plan" by (simp add: q)
  assume quiet: "quiet ?pr" and plain: "plain_elem (AName (Kernel ?plan))" "plain_elem (AName (Initrd ?plan))"
    and ne: "AName (Kernel ?plan) \<noteq> AName (Initrd ?plan)"
  from ubu_fetchStageVerify_Inr [OF k quiet] obtain kd km where kp: "kp = filepath_Join [?dir, AName (Kernel ?plan)]"
    and kd: "pin_ok C (Kernel ?plan) kd" and fk: "Fs w2 = (Fs w1)(path_Clean kp \<mapsto> File kd km)" by auto
  from ubu_fetchStageVerify_Inr [OF i quiet] obtain d im where ip: "ip = filepath_Join [?dir, AName (Initrd ?plan)]"
    and d: "pin_ok C (Initrd ?plan) d" and fi: "Fs w' = (Fs w2)(path_Clean ip \<mapsto> File d im)" by auto
  have "path_Clean kp \<noteq> path_Clean ip" unfolding kp ip by (rule staged_names_distinct [OF dir plain ne])
  with fk fi have "file_at w' (Path (Kernel q)) kd" "file_at w' (Path (Initrd q)) d" by (auto simp: file_at_def q)
  moreover have "ubu_trusted C (ubu_keyring p) ?plan kd d"
    using kd d pins https sums ubu_verify_sums_Inr unfolding ubu_trusted_def by (auto simp: requireHTTPS_iff)
  ultimately show "\<exists>k i. ubu_trusted C (ubu_keyring p) ?plan k i \<and>
           file_at w' (Path (Kernel q)) k \<and> file_at w' (Path (Initrd q)) i" by blast
qed

text \<open>A plan made by this provider names its files \<open>linux\<close> and \<open>initrd\<close>.\<close>

definition distinct_names :: "BootPlan \<Rightarrow> bool" where
  "distinct_names plan \<longleftrightarrow> plain_elem (AName (Kernel plan)) \<and> plain_elem (AName (Initrd plan)) \<and>
     AName (Kernel plan) \<noteq> AName (Initrd plan)"

interpretation ubuntu: stager "ubu_Stage C p" "\<lambda>cfg. ubu_trusted C (ubu_keyring p) (CPlan cfg)"
  "\<lambda>cfg. distinct_names (CPlan cfg)" for C :: "('k, 'b) crypto" and p
proof
  show "same_boot q (CPlan cfg)" if "ubu_Stage C p cfg w = (Inr q, w')" for cfg w q w'
    using ubu_Stage_Inr(1) [OF that] .
  show "\<exists>k i. ubu_trusted C (ubu_keyring p) (CPlan cfg) k i \<and> file_at w' (Path (Kernel q)) k \<and>
          (Path (Initrd q) \<noteq> [] \<longrightarrow> URL (Initrd q) \<noteq> [] \<longrightarrow> file_at w' (Path (Initrd q)) i)"
    if "ubu_Stage C p cfg w = (Inr q, w')" "quiet (Progress cfg)" "distinct_names (CPlan cfg)" for cfg w q w'
    using ubu_Stage_Inr(2) [OF that(1,2)] that(3) unfolding distinct_names_def by blast
qed

text \<open>Ubuntu staging accepts a kernel and an initrd only when both meet their pinned digests, or, without
  pins, both come over HTTPS; with a keyring configured, a sums file signed under it must also list the
  installer image of the target.\<close>

theorem ubu_Stage_trust:
  assumes "ubu_Stage C p cfg w = (Inr q, w')" and "quiet (Progress cfg)" and "distinct_names (CPlan cfg)"
  shows "same_boot q (CPlan cfg) \<and>
         (\<exists>k i. ubu_trusted C (ubu_keyring p) (CPlan cfg) k i \<and> file_at w' (Path (Kernel q)) k)"
  using ubuntu.stage_same [OF assms(1)] ubuntu.stage_files [OF assms] by blast

end
