(* ===== verification/LinuxGeneric.thy ===== *)
theory LinuxGeneric
  imports Ubuntu
begin

text \<open>
  The generic Linux provider (\<^verbatim>\<open>internal/providers/linux/provider.go\<close>), whose targets come with their URLs
  and digests from a catalog, and the local-disk provider (\<^verbatim>\<open>internal/providers/localdisk/provider.go\<close>).
\<close>

section \<open>Linux: planning\<close>

definition lin_providerID :: string where "lin_providerID = ''linux''"

record LinuxProvider =
  lin_targets :: "Target list"

definition lin_NewProvider :: "Target list \<Rightarrow> LinuxProvider" where
  "lin_NewProvider targets = \<lparr>lin_targets = targets\<rparr>"

definition lin_selectedTarget :: "LinuxProvider \<Rightarrow> Target \<Rightarrow> Target result" where
  "lin_selectedTarget p t =
     (case find_target (lin_targets p) (TID t) of
        Some selected \<Rightarrow> Inr selected
      | None \<Rightarrow> and_then (ValidateTarget lin_providerID t) (\<lambda>_. Inr t))"

definition joinURLPath :: "string \<Rightarrow> string \<Rightarrow> string" where
  "joinURLPath baseURL elem = TrimRight baseURL (CHR ''/'') @ ''/'' @ TrimLeft elem (CHR ''/'')"

definition lin_plan :: "Target \<Rightarrow> string \<Rightarrow> BootPlan" where
  "lin_plan t baseURL =
     (let src = Source t in
      (plan_for t)
        \<lparr>BAction := BootActionLinuxKexec,
         Kernel := \<lparr>AName = path_Base (KernelPath src), URL = joinURLPath baseURL (KernelPath src),
                    SHA256 = ToLower (KernelSHA256 src), Path = []\<rparr>,
         Initrd := (if InitrdPath src \<noteq> [] then
                      \<lparr>AName = path_Base (InitrdPath src), URL = joinURLPath baseURL (InitrdPath src),
                       SHA256 = ToLower (InitrdSHA256 src), Path = []\<rparr>
                    else empty_Artifact),
         BCmdline := ReplaceAll (Cmdline src) ''{base_url}'' baseURL\<rparr>)"

definition lin_Plan :: "LinuxProvider \<Rightarrow> PlanInput \<Rightarrow> BootPlan result" where
  "lin_Plan p input =
     and_then (lin_selectedTarget p (PTarget input)) (\<lambda>selected.
       if ResolveBootAction (Action selected) \<noteq> BootActionLinuxKexec then
         Inl (Errorf ''unsupported Linux boot action %q for target %s'' [S (Action selected), S (TID selected)])
       else let baseURL = TrimRight (BaseURL (Source selected)) (CHR ''/'') in
       if baseURL = [] then Inl (Errorf ''source base URL is required for Linux target %s'' [S (TID selected)])
       else if KernelPath (Source selected) = [] then
         Inl (Errorf ''source kernel path is required for Linux target %s'' [S (TID selected)])
       else ApplySelectedOptions (lin_plan selected baseURL) (POptions input))"

section \<open>Linux: staging\<close>

definition nonEmptyURLs :: "string list \<Rightarrow> string list" where
  "nonEmptyURLs us = filter (\<lambda>u. u \<noteq> []) us"

definition lin_fetchStageVerify ::
  "('k, 'b) crypto \<Rightarrow> string \<Rightarrow> Artifact \<Rightarrow> StageProgressFunc option \<Rightarrow> string io" where
  "lin_fetchStageVerify C dir artifact progress =
     io_bind (reportProgress progress StageOperationFetch StageStateStarted (AName artifact)) (\<lambda>_.
     io_bind (io_wrap (\<lambda>e. Errorf ''fetch %s: %w'' [S (AName artifact), W e]) (Fetch (URL artifact))) (\<lambda>data.
     io_bind (reportProgress progress StageOperationFetch StageStateCompleted (AName artifact)) (\<lambda>_.
     io_bind (if SHA256 artifact \<noteq> [] then
                verifyWithProgress (verify_SHA256 C \<lparr>HArtifact = Some (Inr data),
                   HExpectedSHA256 = SHA256 artifact, HName = AName artifact\<rparr>) (AName artifact) progress
              else io_return ()) (\<lambda>_.
     let name = (if AName artifact = [] then path_Base (URL artifact) else AName artifact) in
     writeWithProgress dir name data progress))))"

definition lin_FetchAndStageArtifacts ::
  "('k, 'b) crypto \<Rightarrow> BootPlan \<Rightarrow> string \<Rightarrow> StageProgressFunc option \<Rightarrow> BootPlan io" where
  "lin_FetchAndStageArtifacts C plan stagingDir progress =
     (if stagingDir = [] then io_fail (errors_New ''staging dir is required'')
      else if URL (Kernel plan) = [] then io_fail (errors_New ''kernel URL is required'')
      else io_bind (io_of (requireHTTPS ''Linux'' (nonEmptyURLs [URL (Kernel plan), URL (Initrd plan)]))) (\<lambda>_.
      io_bind (lin_fetchStageVerify C stagingDir (Kernel plan) progress) (\<lambda>kernelPath.
      let plan1 = plan\<lparr>Kernel := (Kernel plan)\<lparr>Path := kernelPath\<rparr>\<rparr> in
      if URL (Initrd plan) \<noteq> [] then
        io_bind (lin_fetchStageVerify C stagingDir (Initrd plan) progress) (\<lambda>initrdPath.
          io_return (plan1\<lparr>Initrd := (Initrd plan)\<lparr>Path := initrdPath\<rparr>\<rparr>))
      else io_return plan1)))"

definition lin_Stage :: "('k, 'b) crypto \<Rightarrow> StageConfig \<Rightarrow> BootPlan io" where
  "lin_Stage C cfg = lin_FetchAndStageArtifacts C (CPlan cfg) (StagingDir cfg) (Progress cfg)"

definition lin_Provider :: "('k, 'b) crypto \<Rightarrow> LinuxProvider \<Rightarrow> Provider" where
  "lin_Provider C p = \<lparr>ProvID = lin_providerID, ProvTargets = io_return (lin_targets p),
     ProvPlan = (\<lambda>i. io_of (lin_Plan p i)), ProvDiscoverer = None, ProvStager = Some (lin_Stage C)\<rparr>"

section \<open>Local disk\<close>

definition disk_providerID :: string where "disk_providerID = ''local''"

definition disk_defaultTargets :: "Target list" where
  "disk_defaultTargets =
     [\<lparr>TID = ''local-disk-auto'', ProviderID = disk_providerID, Name = ''Boot from local disk'',
       Action = BootActionLocalBoot,
       Catalog = \<lparr>Distribution = ''local'', Release = ''disk'', Architecture = ''amd64'', Kind = ''localboot''\<rparr>,
       Source = empty_SourceEntry, Lifecycle = empty_LifecycleEntry, Options = [], Secrets = []\<rparr>]"

record LocalDiskProvider =
  disk_targets :: "Target list"

definition disk_NewProvider :: "Target list option \<Rightarrow> LocalDiskProvider" where
  "disk_NewProvider targets =
     \<lparr>disk_targets = (case targets of None \<Rightarrow> disk_defaultTargets | Some ts \<Rightarrow> ts)\<rparr>"

definition disk_selectedTarget :: "LocalDiskProvider \<Rightarrow> Target \<Rightarrow> Target result" where
  "disk_selectedTarget p t =
     (case find_target (disk_targets p) (TID t) of
        Some selected \<Rightarrow> Inr selected
      | None \<Rightarrow> and_then (ValidateTarget disk_providerID t) (\<lambda>_. Inr t))"

definition disk_Plan :: "LocalDiskProvider \<Rightarrow> PlanInput \<Rightarrow> BootPlan result" where
  "disk_Plan p input =
     and_then (disk_selectedTarget p (PTarget input)) (\<lambda>selected.
       if ResolveBootAction (Action selected) \<noteq> BootActionLocalBoot then
         Inl (Errorf ''unsupported local boot action %q for target %s'' [S (Action selected), S (TID selected)])
       else ApplySelectedOptions ((plan_for selected)\<lparr>BAction := BootActionLocalBoot\<rparr>) (POptions input))"

definition disk_Stage :: "StageConfig \<Rightarrow> BootPlan io" where
  "disk_Stage cfg = io_return (CPlan cfg)"

definition disk_Provider :: "LocalDiskProvider \<Rightarrow> Provider" where
  "disk_Provider p = \<lparr>ProvID = disk_providerID, ProvTargets = io_return (disk_targets p),
     ProvPlan = (\<lambda>i. io_of (disk_Plan p i)), ProvDiscoverer = None, ProvStager = Some disk_Stage\<rparr>"

section \<open>What Linux staging guarantees\<close>

text \<open>The file name an artifact is staged under.\<close>

definition stage_name :: "Artifact \<Rightarrow> string" where
  "stage_name a = (if AName a = [] then path_Base (URL a) else AName a)"

lemma lin_fetchStageVerify_Inr:
  assumes "lin_fetchStageVerify C dir a progress w = (Inr p, w')" and "quiet progress"
  shows "p = filepath_Join [dir, stage_name a] \<and> (\<exists>d m. pin_ok C a d \<and> Fs w' = (Fs w)(path_Clean p \<mapsto> File d m))"
proof -
  from assms(1) obtain d w0 w1 w2 w3
    where "reportProgress progress StageOperationFetch StageStateStarted (AName a) w = (Inr (), w0)"
      "Fetch (URL a) w0 = (Inr d, w1)"
      "reportProgress progress StageOperationFetch StageStateCompleted (AName a) w1 = (Inr (), w2)"
    and v: "(if SHA256 a \<noteq> [] then verifyWithProgress (verify_SHA256 C \<lparr>HArtifact = Some (Inr d),
               HExpectedSHA256 = SHA256 a, HName = AName a\<rparr>) (AName a) progress else io_return ()) w2 = (Inr (), w3)"
    and wr: "writeWithProgress dir (stage_name a) d progress w3 = (Inr p, w')"
    by (auto simp: lin_fetchStageVerify_def stage_name_def Let_def)
  then have "Fs w2 = Fs w"
    using fs_pureD [OF fs_pure_reportProgress [OF assms(2)]] fs_pureD [OF fs_pure_Fetch(2)] by metis
  moreover have "Fs w3 = Fs w2 \<and> pin_ok C a d"
    using v fs_pureD [OF fs_pure_verifyWithProgress [OF assms(2)]]
    by (auto simp: pin_ok_def verify_SHA256_iff split: if_splits dest!: verifyWithProgress_Inr)
  ultimately show ?thesis using writeWithProgress_Inr [OF wr assms(2)] by auto
qed

definition lin_trusted :: "('k, 'b) crypto \<Rightarrow> BootPlan \<Rightarrow> bytes \<Rightarrow> bytes \<Rightarrow> bool" where
  "lin_trusted C plan k i \<longleftrightarrow>
     https_scheme (URL (Kernel plan)) \<and> pin_ok C (Kernel plan) k \<and>
     (URL (Initrd plan) \<noteq> [] \<longrightarrow> https_scheme (URL (Initrd plan)) \<and> pin_ok C (Initrd plan) i)"

definition lin_distinct_names :: "BootPlan \<Rightarrow> bool" where
  "lin_distinct_names plan \<longleftrightarrow> plain_elem (stage_name (Kernel plan)) \<and>
     (URL (Initrd plan) = [] \<or>
      plain_elem (stage_name (Initrd plan)) \<and> stage_name (Kernel plan) \<noteq> stage_name (Initrd plan))"

lemma lin_Stage_Inr:
  assumes "lin_Stage C cfg w = (Inr q, w')"
  shows "same_boot q (CPlan cfg)"
    and "quiet (Progress cfg) \<Longrightarrow> lin_distinct_names (CPlan cfg) \<Longrightarrow>
         \<exists>k i. lin_trusted C (CPlan cfg) k i \<and> file_at w' (Path (Kernel q)) k \<and>
           (URL (Initrd q) \<noteq> [] \<longrightarrow> file_at w' (Path (Initrd q)) i)"
proof -
  let ?plan = "CPlan cfg" and ?dir = "StagingDir cfg" and ?pr = "Progress cfg"
  from assms obtain kp w1 w2 where dir: "?dir \<noteq> []" and ku: "URL (Kernel ?plan) \<noteq> []"
    and https: "requireHTTPS ''Linux'' (nonEmptyURLs [URL (Kernel ?plan), URL (Initrd ?plan)]) = Inr ()"
    and k: "lin_fetchStageVerify C ?dir (Kernel ?plan) ?pr w1 = (Inr kp, w2)"
    and rest: "if URL (Initrd ?plan) \<noteq> [] then
        \<exists>ip. lin_fetchStageVerify C ?dir (Initrd ?plan) ?pr w2 = (Inr ip, w') \<and>
          q = ?plan\<lparr>Kernel := (Kernel ?plan)\<lparr>Path := kp\<rparr>, Initrd := (Initrd ?plan)\<lparr>Path := ip\<rparr>\<rparr>
      else w' = w2 \<and> q = ?plan\<lparr>Kernel := (Kernel ?plan)\<lparr>Path := kp\<rparr>\<rparr>"
    unfolding lin_Stage_def lin_FetchAndStageArtifacts_def by (auto simp: Let_def split: if_splits)
  show "same_boot q ?plan" using rest by (auto split: if_splits)
  assume quiet: "quiet ?pr" and names: "lin_distinct_names ?plan"
  from lin_fetchStageVerify_Inr [OF k quiet] obtain kd km where kp: "kp = filepath_Join [?dir, stage_name (Kernel ?plan)]"
    and kd: "pin_ok C (Kernel ?plan) kd" and fk: "Fs w2 = (Fs w1)(path_Clean kp \<mapsto> File kd km)" by auto
  have sch: "https_scheme (URL (Kernel ?plan))" "URL (Initrd ?plan) \<noteq> [] \<longrightarrow> https_scheme (URL (Initrd ?plan))"
    using https ku by (auto simp: requireHTTPS_iff nonEmptyURLs_def split: if_splits)
  show "\<exists>k i. lin_trusted C ?plan k i \<and> file_at w' (Path (Kernel q)) k \<and>
           (URL (Initrd q) \<noteq> [] \<longrightarrow> file_at w' (Path (Initrd q)) i)"
  proof (cases "URL (Initrd ?plan) = []")
    case True
    with rest fk kd sch show ?thesis by (auto simp: file_at_def lin_trusted_def)
  next
    case False
    with rest obtain ip where i: "lin_fetchStageVerify C ?dir (Initrd ?plan) ?pr w2 = (Inr ip, w')"
      and q: "q = ?plan\<lparr>Kernel := (Kernel ?plan)\<lparr>Path := kp\<rparr>, Initrd := (Initrd ?plan)\<lparr>Path := ip\<rparr>\<rparr>" by auto
    from lin_fetchStageVerify_Inr [OF i quiet] obtain d im where ip: "ip = filepath_Join [?dir, stage_name (Initrd ?plan)]"
      and d: "pin_ok C (Initrd ?plan) d" and fi: "Fs w' = (Fs w2)(path_Clean ip \<mapsto> File d im)" by auto
    have "path_Clean kp \<noteq> path_Clean ip"
      unfolding kp ip using names False by (intro staged_names_distinct [OF dir]) (auto simp: lin_distinct_names_def)
    with fk fi have "file_at w' (Path (Kernel q)) kd" "file_at w' (Path (Initrd q)) d" by (auto simp: file_at_def q)
    with kd d sch show ?thesis by (auto simp: lin_trusted_def)
  qed
qed

interpretation linux: stager "lin_Stage C" "\<lambda>cfg. lin_trusted C (CPlan cfg)" "\<lambda>cfg. lin_distinct_names (CPlan cfg)"
  for C :: "('k, 'b) crypto"
proof
  show "same_boot q (CPlan cfg)" if "lin_Stage C cfg w = (Inr q, w')" for cfg w q w'
    using lin_Stage_Inr(1) [OF that] .
  show "\<exists>k i. lin_trusted C (CPlan cfg) k i \<and> file_at w' (Path (Kernel q)) k \<and>
          (Path (Initrd q) \<noteq> [] \<longrightarrow> URL (Initrd q) \<noteq> [] \<longrightarrow> file_at w' (Path (Initrd q)) i)"
    if "lin_Stage C cfg w = (Inr q, w')" "quiet (Progress cfg)" "lin_distinct_names (CPlan cfg)" for cfg w q w'
    using lin_Stage_Inr(2) [OF that] by blast
qed

text \<open>Linux staging accepts a kernel only over HTTPS and with its pinned digest when it has one, the same
  for an initrd, and leaves exactly those bytes in the staged files, as long as the two have different
  file names.\<close>

theorem lin_Stage_trust:
  assumes "lin_Stage C cfg w = (Inr q, w')" and "quiet (Progress cfg)" and "lin_distinct_names (CPlan cfg)"
  shows "same_boot q (CPlan cfg) \<and>
         (\<exists>k i. lin_trusted C (CPlan cfg) k i \<and> file_at w' (Path (Kernel q)) k \<and>
            (URL (Initrd q) \<noteq> [] \<longrightarrow> file_at w' (Path (Initrd q)) i))"
  using linux.stage_same [OF assms(1)] lin_Stage_Inr(2) [OF assms] by blast

section \<open>Two artifacts of one name\<close>

text \<open>
  A catalog target whose kernel and initrd paths end in the same element is valid and can be planned and
  staged; the initrd is then written over the kernel.
\<close>

definition clash_target :: Target where
  "clash_target =
     \<lparr>TID = ''clash'', ProviderID = ''linux'', Name = ''Clash'', Action = [],
      Catalog = \<lparr>Distribution = ''x'', Release = ''1'', Architecture = ''amd64'', Kind = ''live''\<rparr>,
      Source = empty_SourceEntry\<lparr>BaseURL := ''https://m.example'', KernelPath := ''kernel/boot'', InitrdPath := ''initrd/boot''\<rparr>,
      Lifecycle = empty_LifecycleEntry, Options = [], Secrets = []\<rparr>"

definition clash_net :: "nat \<Rightarrow> string \<Rightarrow> string \<Rightarrow> http_reply" where
  "clash_net n meth u = Reply 200 (Inr (if u = ''https://m.example/kernel/boot'' then ''KERNEL'' else ''INITRD''))"

definition plain_crypto :: "(unit, unit) crypto" where
  "plain_crypto = \<lparr>sha256_Sum = (\<lambda>d. d), ReadArmoredKeyRing = (\<lambda>_. Inr ()), ReadBinaryKeyRing = (\<lambda>_. Inr ()),
     CheckArmoredDetachedSignature = (\<lambda>_ _ _. Inr ()), CheckDetachedSignature = (\<lambda>_ _ _. Inr ()),
     clearsign_Decode = (\<lambda>_. Some ()), Plaintext = (\<lambda>_. []), VerifySignature = (\<lambda>_ _. Inr ())\<rparr>"

definition clash_run :: "(BootPlan \<times> node option) result" where
  "clash_run =
     and_then (lin_Plan (lin_NewProvider []) \<lparr>PTarget = clash_target, POptions = [], PSecrets = None,
                 PSecretRefs = [], Offline = False\<rparr>) (\<lambda>plan.
     case lin_Stage plain_crypto \<lparr>CPlan = plan, StagingDir = ''/s'', CSecrets = None, CSecretRefs = [], Progress = None\<rparr>
            (quiet_world clash_net) of
       (Inl e, _) \<Rightarrow> Inl e
     | (Inr q, w) \<Rightarrow> Inr (q, Fs w (path_Clean (Path (Kernel q)))))"


end
