(* ===== verification/Fedora.thy ===== *)
theory Fedora
  imports LinuxGeneric
begin

text \<open>
  The Fedora provider (\<^verbatim>\<open>internal/providers/fedora\<close>): digests come from the configuration, from the
  target's catalog entry, or from the \<open>.treeinfo\<close> file of the release, in this order.
\<close>

section \<open>The .treeinfo file (treeinfo.go)\<close>

definition kernelTreeinfoPath :: string where "kernelTreeinfoPath = ''images/pxeboot/vmlinuz''"
definition initrdTreeinfoPath :: string where "initrdTreeinfoPath = ''images/pxeboot/initrd.img''"

record treeinfoChecksums =
  TIkernelSHA256 :: string
  TIinitrdSHA256 :: string

definition parseTreeinfoSHA256 :: "string \<Rightarrow> string \<Rightarrow> string result" where
  "parseTreeinfoSHA256 p v =
     (let bad = Inl (Errorf ''fedora .treeinfo checksum for %s must use sha256'' [S p]) in
      case Cut (TrimSpace v) '':'' of
        None \<Rightarrow> bad
      | Some (algorithm, digest0) \<Rightarrow>
          if \<not> EqualFold (TrimSpace algorithm) ''sha256'' then bad
          else let digest = ToLower (TrimSpace digest0) in
               (case hex_DecodeString digest of
                  Some d \<Rightarrow> if length d = 32 then Inr digest
                     else Inl (Errorf ''fedora .treeinfo checksum for %s must be a 64-character SHA-256 hex digest'' [S p])
                | None \<Rightarrow> Inl (Errorf ''fedora .treeinfo checksum for %s must be a 64-character SHA-256 hex digest'' [S p])))"

text \<open>
  \<open>bufio.Scanner\<close> with its default limit: lines end at a newline, a final empty line is not one, one
  carriage return at the end is dropped, and a line of 65536 bytes or more stops the scan with an error.
\<close>

definition scan_lines :: "bytes \<Rightarrow> string list" where
  "scan_lines data =
     (let ls = Split data (CHR 0x0A) in if last ls = [] then butlast ls else ls)"

definition drop_CR :: "string \<Rightarrow> string" where
  "drop_CR l = TrimSuffix l [CHR 0x0D]"

fun treeinfo_lines ::
  "string \<Rightarrow> (string \<times> string) list \<Rightarrow> string list \<Rightarrow> (string \<times> string) list result" where
  "treeinfo_lines section0 checksums [] = Inr checksums"
| "treeinfo_lines section0 checksums (raw # rest) =
     (if 65536 \<le> length raw then
        Inl (Errorf ''read .treeinfo: %w'' [W (errors_New ''bufio.Scanner: token too long'')])
      else let line = TrimSpace (drop_CR raw) in
      if line = [] \<or> prefix ''#'' line \<or> prefix '';'' line then treeinfo_lines section0 checksums rest
      else if prefix ''['' line \<and> suffix '']'' line then
        treeinfo_lines (ToLower (TrimSpace (butlast (tl line)))) checksums rest
      else if section0 \<noteq> ''checksums'' then treeinfo_lines section0 checksums rest
      else case Cut line ''='' of
        None \<Rightarrow> Inl (Errorf ''parse .treeinfo checksum line %q'' [S line])
      | Some (path0, v) \<Rightarrow>
          (let p = TrimSpace path0 in
           if p \<noteq> kernelTreeinfoPath \<and> p \<noteq> initrdTreeinfoPath then treeinfo_lines section0 checksums rest
           else and_then (parseTreeinfoSHA256 p v) (\<lambda>digest.
                  treeinfo_lines section0 (map_put p digest checksums) rest)))"

definition parseTreeinfoChecksums :: "bytes \<Rightarrow> treeinfoChecksums result" where
  "parseTreeinfoChecksums data =
     and_then (treeinfo_lines [] [] (scan_lines data)) (\<lambda>checksums.
     (case map_of checksums kernelTreeinfoPath of
        None \<Rightarrow> Inl (Errorf ''fedora .treeinfo missing checksum for %s'' [S kernelTreeinfoPath])
      | Some k \<Rightarrow>
          (case map_of checksums initrdTreeinfoPath of
             None \<Rightarrow> Inl (Errorf ''fedora .treeinfo missing checksum for %s'' [S initrdTreeinfoPath])
           | Some i \<Rightarrow> Inr \<lparr>TIkernelSHA256 = k, TIinitrdSHA256 = i\<rparr>)))"

section \<open>Configuration\<close>

definition fed_providerID :: string where "fed_providerID = ''fedora''"

definition fed_defaultReleaseURL :: string where
  "fed_defaultReleaseURL = ''https://download.fedoraproject.org/pub/fedora/linux/releases/44/Server/x86_64/os''"

record FedoraConfig =
  FCReleaseURL :: string
  FCDiscoveryURL :: string
  FCDiscoveryFile :: string
  FCKernelSHA256 :: string
  FCInitrdSHA256 :: string
  FCTargets :: "Target list option"
  FCLifecycle :: "(string \<times> LifecycleEntry) list"

record FedoraProvider =
  fed_releaseURL :: string
  fed_discoveryURL :: string
  fed_discoveryFile :: string
  fed_kernelSHA256 :: string
  fed_initrdSHA256 :: string
  fed_targets :: "Target list"
  fed_lifecycle :: "(string \<times> LifecycleEntry) list"
  fed_releaseURLConfigured :: bool

definition fed_defaultTargets :: "Target list" where
  "fed_defaultTargets =
     [\<lparr>TID = ''fedora-44-amd64-server-netboot'', ProviderID = fed_providerID,
       Name = ''Fedora Server 44 amd64 netboot'', Action = [],
       Catalog = \<lparr>Distribution = fed_providerID, Release = ''44'', Architecture = ''amd64'', Kind = ''installer''\<rparr>,
       Source = empty_SourceEntry\<lparr>BaseURL := fed_defaultReleaseURL\<rparr>,
       Lifecycle = \<lparr>Status = LifecycleSupported, LSource = ''catalog'', Date = []\<rparr>, Options = [], Secrets = []\<rparr>]"

definition fed_NewProvider :: "FedoraConfig \<Rightarrow> FedoraProvider" where
  "fed_NewProvider c =
     (let rel0 = TrimRight (FCReleaseURL c) (CHR ''/'');
          disc0 = TrimRight (FCDiscoveryURL c) (CHR ''/'') in
      \<lparr>fed_releaseURL = (if rel0 = [] then fed_defaultReleaseURL else rel0),
       fed_discoveryURL = (if disc0 = [] then ''https://download.fedoraproject.org/pub/fedora/linux/releases'' else disc0),
       fed_discoveryFile = TrimSpace (FCDiscoveryFile c), fed_kernelSHA256 = FCKernelSHA256 c,
       fed_initrdSHA256 = FCInitrdSHA256 c,
       fed_targets = (case FCTargets c of None \<Rightarrow> fed_defaultTargets | Some ts \<Rightarrow> ts),
       fed_lifecycle = FCLifecycle c, fed_releaseURLConfigured = (TrimSpace (FCReleaseURL c) \<noteq> [])\<rparr>)"

definition fed_DiscoveryFamily :: DiscoveryFamily where
  "fed_DiscoveryFamily = \<lparr>FamID = fed_providerID, FamProviderID = fed_providerID, FamName = ''Fedora'',
     Description = ''Discover Fedora Server amd64 netboot installers from the configured releases index.''\<rparr>"

section \<open>Discovery\<close>

definition parseReleasesIndex :: "bytes \<Rightarrow> string list" where
  "parseReleasesIndex data =
     sort (remdups (filter all_digits (map (\<lambda>m. PathBase (TrimSuffix m ''/'')) (href_matches data))))"

definition fed_lifecycleEntry :: "FedoraProvider \<Rightarrow> string \<Rightarrow> LifecycleEntry" where
  "fed_lifecycleEntry p release =
     (case map_of (fed_lifecycle p) release of
        Some e \<Rightarrow> e
      | None \<Rightarrow> \<lparr>Status = LifecycleUnknown, LSource = fed_providerID, Date = []\<rparr>)"

definition fed_discoveredTarget :: "FedoraProvider \<Rightarrow> string \<Rightarrow> string \<Rightarrow> Target" where
  "fed_discoveredTarget p release baseURL =
     \<lparr>TID = ''fedora-'' @ release @ ''-amd64-server-netboot'', ProviderID = fed_providerID,
      Name = ''Fedora Server '' @ release @ '' amd64 netboot'', Action = [],
      Catalog = \<lparr>Distribution = fed_providerID, Release = release, Architecture = ''amd64'', Kind = ''installer''\<rparr>,
      Source = empty_SourceEntry\<lparr>BaseURL := baseURL\<rparr>, Lifecycle = fed_lifecycleEntry p release,
      Options = [], Secrets = []\<rparr>"

definition fed_discoveryMetadataURL :: "FedoraProvider \<Rightarrow> string" where
  "fed_discoveryMetadataURL p =
     (if fed_discoveryFile p \<noteq> [] then LocalFileURL (fed_discoveryFile p) else fed_discoveryURL p)"

fun fed_discover_loop :: "FedoraProvider \<Rightarrow> string \<Rightarrow> string \<Rightarrow> string list \<Rightarrow> Target list io" where
  "fed_discover_loop p indexURL sourceIndexURL [] = io_return []"
| "fed_discover_loop p indexURL sourceIndexURL (release # rest) =
     (let metadataBaseURL = indexURL @ release @ ''/Server/x86_64/os'';
          sourceBaseURL = sourceIndexURL @ release @ ''/Server/x86_64/os'' in
      io_try (Probe (metadataBaseURL @ ''/images/pxeboot/vmlinuz'')) (\<lambda>k. case k of
        Inl e \<Rightarrow> (if isContextError e then io_fail (Errorf ''probe Fedora %s kernel: %w'' [S release, W e])
                  else fed_discover_loop p indexURL sourceIndexURL rest)
      | Inr False \<Rightarrow> fed_discover_loop p indexURL sourceIndexURL rest
      | Inr True \<Rightarrow>
          io_try (Probe (metadataBaseURL @ ''/images/pxeboot/initrd.img'')) (\<lambda>i. case i of
            Inl e \<Rightarrow> (if isContextError e then io_fail (Errorf ''probe Fedora %s initrd: %w'' [S release, W e])
                      else fed_discover_loop p indexURL sourceIndexURL rest)
          | Inr False \<Rightarrow> fed_discover_loop p indexURL sourceIndexURL rest
          | Inr True \<Rightarrow> io_bind (fed_discover_loop p indexURL sourceIndexURL rest) (\<lambda>ts.
                          io_return (fed_discoveredTarget p release sourceBaseURL # ts)))))"

definition fed_DiscoverTargets :: "FedoraProvider \<Rightarrow> Target list io" where
  "fed_DiscoverTargets p =
     (let indexURL = EnsureTrailingSlash (fed_discoveryMetadataURL p);
          sourceIndexURL = EnsureTrailingSlash (fed_discoveryURL p) in
      io_bind (io_wrap (\<lambda>e. Errorf ''fetch Fedora releases index: %w'' [W e]) (FetchStatus indexURL)) (\<lambda>(body, status).
        if status \<noteq> 200 then io_fail (Errorf ''fetch Fedora releases index: GET %s: %s'' [S indexURL, D status])
        else fed_discover_loop p indexURL sourceIndexURL (parseReleasesIndex body)))"

section \<open>Planning\<close>

definition fed_selectedTarget :: "FedoraProvider \<Rightarrow> Target \<Rightarrow> Target result" where
  "fed_selectedTarget p t =
     (case find_target (fed_targets p) (TID t) of
        Some selected \<Rightarrow> Inr selected
      | None \<Rightarrow>
          and_then (ValidateTarget fed_providerID t) (\<lambda>_.
          if Distribution (Catalog t) \<noteq> fed_providerID then
            Inl (Errorf ''unsupported Fedora distribution %q for target %s'' [S (Distribution (Catalog t)), S (TID t)])
          else if Kind (Catalog t) \<noteq> ''installer'' then
            Inl (Errorf ''unsupported Fedora target kind %q for target %s'' [S (Kind (Catalog t)), S (TID t)])
          else Inr t))"

definition fed_targetBaseURL :: "FedoraProvider \<Rightarrow> Target \<Rightarrow> string" where
  "fed_targetBaseURL p t =
     (if BaseURL (Source t) \<noteq> [] \<and> \<not> fed_releaseURLConfigured p
      then TrimRight (BaseURL (Source t)) (CHR ''/'') else fed_releaseURL p)"

definition artifactChecksums :: "FedoraProvider \<Rightarrow> Target \<Rightarrow> string \<Rightarrow> bool \<Rightarrow> treeinfoChecksums io" where
  "artifactChecksums p t releaseURL offline =
     (if (fed_kernelSHA256 p = []) \<noteq> (fed_initrdSHA256 p = []) then
        io_fail (errors_New ''kernel and initrd sha256 must be supplied together'')
      else if fed_kernelSHA256 p \<noteq> [] then
        io_return \<lparr>TIkernelSHA256 = fed_kernelSHA256 p, TIinitrdSHA256 = fed_initrdSHA256 p\<rparr>
      else if (KernelSHA256 (Source t) = []) \<noteq> (InitrdSHA256 (Source t) = []) then
        io_fail (Errorf ''target %s source kernel and initrd sha256 must be supplied together'' [S (TID t)])
      else if KernelSHA256 (Source t) \<noteq> [] then
        io_return \<lparr>TIkernelSHA256 = ToLower (KernelSHA256 (Source t)), TIinitrdSHA256 = ToLower (InitrdSHA256 (Source t))\<rparr>
      else if offline then
        io_fail (Errorf ''fedora .treeinfo checksums are required for target %s but offline planning cannot fetch remote metadata'' [S (TID t)])
      else let treeinfoURL = releaseURL @ ''/.treeinfo'' in
        io_bind (io_of (requireHTTPS ''Fedora'' [treeinfoURL])) (\<lambda>_.
        io_bind (io_wrap (\<lambda>e. Errorf ''fetch Fedora .treeinfo: %w'' [W e]) (Fetch treeinfoURL)) (\<lambda>data.
          io_of (map_err (\<lambda>e. Errorf ''parse Fedora .treeinfo: %w'' [W e]) (parseTreeinfoChecksums data)))))"

definition fed_plan :: "Target \<Rightarrow> string \<Rightarrow> treeinfoChecksums \<Rightarrow> BootPlan" where
  "fed_plan t releaseURL checksums =
     (plan_for t)
       \<lparr>Kernel := \<lparr>AName = ''vmlinuz'', URL = releaseURL @ ''/'' @ kernelTreeinfoPath,
                   SHA256 = TIkernelSHA256 checksums, Path = []\<rparr>,
        Initrd := \<lparr>AName = ''initrd.img'', URL = releaseURL @ ''/'' @ initrdTreeinfoPath,
                   SHA256 = TIinitrdSHA256 checksums, Path = []\<rparr>,
        BCmdline := ''inst.repo='' @ releaseURL @ '' ip=dhcp console=ttyS0''\<rparr>"

definition fed_Plan :: "FedoraProvider \<Rightarrow> PlanInput \<Rightarrow> BootPlan io" where
  "fed_Plan p input =
     io_bind (io_of (fed_selectedTarget p (PTarget input))) (\<lambda>selected.
       if Architecture (Catalog selected) \<noteq> ''amd64'' then
         io_fail (Errorf ''unsupported Fedora architecture %q for target %s''
                    [S (Architecture (Catalog selected)), S (TID selected)])
       else let releaseURL = fed_targetBaseURL p selected in
            io_bind (artifactChecksums p selected releaseURL (Offline input)) (\<lambda>checksums.
              io_of (ApplySelectedOptions (fed_plan selected releaseURL checksums) (POptions input))))"

section \<open>Staging\<close>

definition fed_fetchStageVerify ::
  "('k, 'b) crypto \<Rightarrow> string \<Rightarrow> Artifact \<Rightarrow> StageProgressFunc option \<Rightarrow> string io" where
  "fed_fetchStageVerify C dir artifact progress =
     io_bind (reportProgress progress StageOperationFetch StageStateStarted (AName artifact)) (\<lambda>_.
     io_bind (io_wrap (\<lambda>e. Errorf ''fetch %s: %w'' [S (AName artifact), W e]) (Fetch (URL artifact))) (\<lambda>data.
     io_bind (reportProgress progress StageOperationFetch StageStateCompleted (AName artifact)) (\<lambda>_.
     io_bind (if SHA256 artifact \<noteq> [] then
                verifyWithProgress (verify_SHA256 C \<lparr>HArtifact = Some (Inr data),
                   HExpectedSHA256 = SHA256 artifact, HName = AName artifact\<rparr>) (AName artifact) progress
              else io_return ()) (\<lambda>_.
     writeWithProgress dir (AName artifact) data progress))))"

definition fed_FetchAndStageArtifacts ::
  "('k, 'b) crypto \<Rightarrow> BootPlan \<Rightarrow> string \<Rightarrow> StageProgressFunc option \<Rightarrow> BootPlan io" where
  "fed_FetchAndStageArtifacts C plan stagingDir progress =
     (if stagingDir = [] then io_fail (errors_New ''staging dir is required'')
      else if (SHA256 (Kernel plan) = []) \<noteq> (SHA256 (Initrd plan) = []) then
        io_fail (errors_New ''kernel and initrd sha256 must be supplied together'')
      else
      io_bind (if SHA256 (Kernel plan) = []
               then io_of (requireHTTPS ''Fedora'' [URL (Kernel plan), URL (Initrd plan)]) else io_return ()) (\<lambda>_.
      io_bind (fed_fetchStageVerify C stagingDir (Kernel plan) progress) (\<lambda>kernelPath.
      io_bind (fed_fetchStageVerify C stagingDir (Initrd plan) progress) (\<lambda>initrdPath.
      io_return (plan\<lparr>Kernel := (Kernel plan)\<lparr>Path := kernelPath\<rparr>,
                      Initrd := (Initrd plan)\<lparr>Path := initrdPath\<rparr>\<rparr>)))))"

definition fed_Stage :: "('k, 'b) crypto \<Rightarrow> StageConfig \<Rightarrow> BootPlan io" where
  "fed_Stage C cfg = fed_FetchAndStageArtifacts C (CPlan cfg) (StagingDir cfg) (Progress cfg)"

definition fed_Provider :: "('k, 'b) crypto \<Rightarrow> FedoraProvider \<Rightarrow> Provider" where
  "fed_Provider C p = \<lparr>ProvID = fed_providerID, ProvTargets = io_return (fed_targets p), ProvPlan = fed_Plan p,
     ProvDiscoverer = Some (fed_DiscoveryFamily, fed_DiscoverTargets p), ProvStager = Some (fed_Stage C)\<rparr>"

section \<open>Digests from .treeinfo\<close>

lemma parseTreeinfoSHA256_digest: "parseTreeinfoSHA256 p v = Inr d \<Longrightarrow> is_digest d"
  by (auto simp: parseTreeinfoSHA256_def Let_def is_digest_def sha256_hex_iff split: option.splits if_splits)

lemma treeinfo_lines_digests:
  "treeinfo_lines sec cs ls = Inr cs' \<Longrightarrow> \<forall>x \<in> ran (map_of cs). is_digest x \<Longrightarrow> \<forall>x \<in> ran (map_of cs'). is_digest x"
proof (induction ls arbitrary: sec cs)
  case (Cons raw rest)
  let ?line = "TrimSpace (drop_CR raw)"
  from Cons.prems(1) consider sec' where "treeinfo_lines sec' cs rest = Inr cs'"
    | p v d where "parseTreeinfoSHA256 p v = Inr d" "treeinfo_lines sec (map_put p d cs) rest = Inr cs'"
    by (auto simp: Let_def split: if_splits option.splits)
  then show ?case
  proof cases
    case 1
    from Cons.IH [OF this Cons.prems(2)] show ?thesis .
  next
    case 2
    have "\<forall>x \<in> ran (map_of (map_put p d cs)). is_digest x"
      using parseTreeinfoSHA256_digest [OF 2(1)] Cons.prems(2) by (auto simp: ran_def)
    from Cons.IH [OF 2(2) this] show ?thesis .
  qed
qed simp

lemma parseTreeinfoChecksums_digests:
  assumes "parseTreeinfoChecksums data = Inr cs"
  shows "is_digest (TIkernelSHA256 cs) \<and> is_digest (TIinitrdSHA256 cs)"
proof -
  from assms obtain m where m1: "treeinfo_lines [] [] (scan_lines data) = Inr m"
    by (auto simp: parseTreeinfoChecksums_def)
  with assms have "map_of m kernelTreeinfoPath = Some (TIkernelSHA256 cs)"
    "map_of m initrdTreeinfoPath = Some (TIinitrdSHA256 cs)"
    by (auto simp: parseTreeinfoChecksums_def split: option.splits)
  note m = m1 this
  from treeinfo_lines_digests [OF m(1)] m(2,3) show ?thesis by (auto simp: ran_def)
qed

text \<open>
  Every Fedora plan pins both artifacts: a plan exists only with a digest for the kernel and one for the
  initrd, whether configured, catalogued or read from an HTTPS \<open>.treeinfo\<close>.
\<close>

lemma artifactChecksums_Inr:
  assumes "artifactChecksums p t u off w = (Inr cs, w')"
  shows "TIkernelSHA256 cs \<noteq> [] \<and> TIinitrdSHA256 cs \<noteq> [] \<and> Fs w' = Fs w \<and>
    (off \<or> fed_kernelSHA256 p \<noteq> [] \<or> KernelSHA256 (Source t) \<noteq> [] \<longrightarrow> w' = w)"
proof -
  have low: "ToLower s \<noteq> []" if "s \<noteq> []" for s using that by (cases s) auto
  have dig: "is_digest d \<Longrightarrow> d \<noteq> []" for d by (auto simp: is_digest_def is_sha256_hex_def)
  show ?thesis
    using assms low fs_pureD [OF fs_pure_Fetch(2)] parseTreeinfoChecksums_digests dig
    by (auto simp: artifactChecksums_def Let_def split: if_splits)
qed

text \<open>Every Fedora boot plan pins a non-empty digest for both kernel and initrd; offline planning makes
  no request and planning never writes a file.\<close>

theorem fed_Plan_pinned:
  assumes "fed_Plan p input w = (Inr plan, w')"
  shows "SHA256 (Kernel plan) \<noteq> [] \<and> SHA256 (Initrd plan) \<noteq> [] \<and> Fs w' = Fs w \<and>
         (Offline input \<longrightarrow> w' = w)"
proof -
  from assms obtain t cs w1 where cs: "artifactChecksums p t (fed_targetBaseURL p t) (Offline input) w = (Inr cs, w1)"
    and plan: "ApplySelectedOptions (fed_plan t (fed_targetBaseURL p t) cs) (POptions input) = Inr plan" "w' = w1"
    by (auto simp: fed_Plan_def Let_def split: if_splits)
  have "SHA256 (Kernel plan) = TIkernelSHA256 cs \<and> SHA256 (Initrd plan) = TIinitrdSHA256 cs"
    using plan(1) by (auto simp: ApplySelectedOptions_def fed_plan_def plan_for_def split: if_splits)
  with artifactChecksums_Inr [OF cs] plan(2) show ?thesis by auto
qed

section \<open>Staging\<close>

lemma fed_fetch_lin: "AName a \<noteq> [] \<Longrightarrow> fed_fetchStageVerify C dir a progress = lin_fetchStageVerify C dir a progress"
  by (simp add: fed_fetchStageVerify_def lin_fetchStageVerify_def Let_def)

definition fed_trusted :: "('k, 'b) crypto \<Rightarrow> BootPlan \<Rightarrow> bytes \<Rightarrow> bytes \<Rightarrow> bool" where
  "fed_trusted C plan k i \<longleftrightarrow>
     pin_ok C (Kernel plan) k \<and> pin_ok C (Initrd plan) i \<and>
     (SHA256 (Kernel plan) = [] \<longleftrightarrow> SHA256 (Initrd plan) = []) \<and>
     (SHA256 (Kernel plan) = [] \<longrightarrow> https_scheme (URL (Kernel plan)) \<and> https_scheme (URL (Initrd plan)))"

lemma fed_Stage_Inr:
  assumes "fed_Stage C cfg w = (Inr q, w')"
  shows "same_boot q (CPlan cfg)"
    and "quiet (Progress cfg) \<Longrightarrow> distinct_names (CPlan cfg) \<Longrightarrow>
         \<exists>k i. fed_trusted C (CPlan cfg) k i \<and> file_at w' (Path (Kernel q)) k \<and> file_at w' (Path (Initrd q)) i"
proof -
  let ?plan = "CPlan cfg" and ?dir = "StagingDir cfg" and ?pr = "Progress cfg"
  from assms obtain kp ip w1 w2 where dir: "?dir \<noteq> []"
    and pins: "(SHA256 (Kernel ?plan) = []) = (SHA256 (Initrd ?plan) = [])"
    and https: "SHA256 (Kernel ?plan) = [] \<longrightarrow> requireHTTPS ''Fedora'' [URL (Kernel ?plan), URL (Initrd ?plan)] = Inr ()"
    and k: "fed_fetchStageVerify C ?dir (Kernel ?plan) ?pr w1 = (Inr kp, w2)"
    and i: "fed_fetchStageVerify C ?dir (Initrd ?plan) ?pr w2 = (Inr ip, w')"
    and q: "q = ?plan\<lparr>Kernel := (Kernel ?plan)\<lparr>Path := kp\<rparr>, Initrd := (Initrd ?plan)\<lparr>Path := ip\<rparr>\<rparr>"
    unfolding fed_Stage_def fed_FetchAndStageArtifacts_def by (auto split: if_splits)
  show "same_boot q ?plan" by (simp add: q)
  assume quiet: "quiet ?pr" and names: "distinct_names ?plan"
  then have ne: "AName (Kernel ?plan) \<noteq> []" "AName (Initrd ?plan) \<noteq> []" by (auto simp: distinct_names_def)
  from lin_fetchStageVerify_Inr [OF k [unfolded fed_fetch_lin [OF ne(1)]] quiet] ne(1) obtain kd km
    where kp: "kp = filepath_Join [?dir, AName (Kernel ?plan)]" and kd: "pin_ok C (Kernel ?plan) kd"
      and fk: "Fs w2 = (Fs w1)(path_Clean kp \<mapsto> File kd km)" by (auto simp: stage_name_def)
  from lin_fetchStageVerify_Inr [OF i [unfolded fed_fetch_lin [OF ne(2)]] quiet] ne(2) obtain d im
    where ip: "ip = filepath_Join [?dir, AName (Initrd ?plan)]" and d: "pin_ok C (Initrd ?plan) d"
      and fi: "Fs w' = (Fs w2)(path_Clean ip \<mapsto> File d im)" by (auto simp: stage_name_def)
  have "path_Clean kp \<noteq> path_Clean ip"
    unfolding kp ip using names by (intro staged_names_distinct [OF dir]) (auto simp: distinct_names_def)
  with fk fi have "file_at w' (Path (Kernel q)) kd" "file_at w' (Path (Initrd q)) d" by (auto simp: file_at_def q)
  with kd d pins https show "\<exists>k i. fed_trusted C ?plan k i \<and> file_at w' (Path (Kernel q)) k \<and> file_at w' (Path (Initrd q)) i"
    by (auto simp: fed_trusted_def requireHTTPS_iff)
qed

interpretation fedora: stager "fed_Stage C" "\<lambda>cfg. fed_trusted C (CPlan cfg)" "\<lambda>cfg. distinct_names (CPlan cfg)"
  for C :: "('k, 'b) crypto"
proof
  show "same_boot q (CPlan cfg)" if "fed_Stage C cfg w = (Inr q, w')" for cfg w q w'
    using fed_Stage_Inr(1) [OF that] .
  show "\<exists>k i. fed_trusted C (CPlan cfg) k i \<and> file_at w' (Path (Kernel q)) k \<and>
          (Path (Initrd q) \<noteq> [] \<longrightarrow> URL (Initrd q) \<noteq> [] \<longrightarrow> file_at w' (Path (Initrd q)) i)"
    if "fed_Stage C cfg w = (Inr q, w')" "quiet (Progress cfg)" "distinct_names (CPlan cfg)" for cfg w q w'
    using fed_Stage_Inr(2) [OF that] by blast
qed

end
