(* ===== verification/ProviderConfig.thy ===== *)
theory ProviderConfig
  imports Fedora
begin

text \<open>
  Operator-supplied provider settings (\<^verbatim>\<open>internal/providerconfig/config.go\<close>): strict decoding of the file, the
  validation of every field and the loading of keyrings.

  The JSON decoder is a parameter: for each record type of the file, the value it decodes and what follows it.
  A JSON object is the list of its members in the order the loop over the map visits them.
  \<open>time.ParseDuration\<close> is written out in nanoseconds; of a fraction it keeps the whole nanoseconds.
\<close>

section \<open>Durations\<close>

definition duration_unit :: "string \<Rightarrow> nat option" where
  "duration_unit u = map_of
     [(''ns'', 1), (''us'', 1000), ([CHR 0xC2, CHR 0xB5] @ ''s'', 1000), ([CHR 0xCE, CHR 0xBC] @ ''s'', 1000),
      (''ms'', 1000000), (''s'', 1000000000), (''m'', 60000000000), (''h'', 3600000000000)] u"

text \<open>The digits after the point as numerator and scale; digits that do not fit 63 bits are dropped.\<close>

fun leadingFraction :: "nat \<Rightarrow> nat \<Rightarrow> string \<Rightarrow> nat \<times> nat" where
  "leadingFraction f scale [] = (f, scale)"
| "leadingFraction f scale (c # cs) =
     (if f > (2 ^ 63 - 1) div 10 \<or> f * 10 + (of_char c - 0x30) > 2 ^ 63 then (f, scale)
      else leadingFraction (f * 10 + (of_char c - 0x30)) (scale * 10) cs)"

definition number_char :: "char \<Rightarrow> bool" where
  "number_char c \<longleftrightarrow> c = CHR ''.'' \<or> is_digit c"

lemma dropWhile_shrinks: "takeWhile P t \<noteq> [] \<Longrightarrow> length t \<le> n \<Longrightarrow> length (dropWhile P t) < n"
proof (cases t)
  case (Cons a u)
  moreover assume "takeWhile P t \<noteq> []" "length t \<le> n"
  ultimately show ?thesis using length_dropWhile_le [of P u] by (auto split: if_splits)
qed simp

lemma after_number_le:
  "length (dropWhile is_digit s) \<le> length s" "length (dropWhile is_digit (tl (dropWhile is_digit s))) \<le> length s"
  using length_dropWhile_le [of is_digit s] length_dropWhile_le [of is_digit "tl (dropWhile is_digit s)"] by auto

function parse_duration :: "nat \<Rightarrow> string \<Rightarrow> nat option" where
  "parse_duration d s =
     (if s = [] then Some d
      else
        let ds = takeWhile is_digit s; s1 = dropWhile is_digit s;
            dot = prefix ''.'' s1;
            fs = (if dot then takeWhile is_digit (tl s1) else []);
            s2 = (if dot then dropWhile is_digit (tl s1) else s1);
            u = takeWhile (\<lambda>c. \<not> number_char c) s2; s3 = dropWhile (\<lambda>c. \<not> number_char c) s2 in
        if (ds = [] \<and> fs = []) \<or> u = [] \<or> digits_value ds > 2 ^ 63 then None
        else case duration_unit u of
            None \<Rightarrow> None
          | Some unit \<Rightarrow>
              let v = digits_value ds * unit; (f, scale) = leadingFraction 0 1 fs; v' = v + f * unit div scale in
              if digits_value ds > 2 ^ 63 div unit \<or> v' > 2 ^ 63 \<or> d + v' > 2 ^ 63 then None
              else parse_duration (d + v') s3)"
  by pat_completeness auto

termination
  by (relation "measure (\<lambda>(d, s). length s)")
    (auto intro!: dropWhile_shrinks after_number_le simp: Let_def simp del: takeWhile_eq_Nil_iff)

declare parse_duration.simps [simp del]

definition time_ParseDuration :: "string \<Rightarrow> int option" where
  "time_ParseDuration s =
     (let neg = prefix ''-'' s; t = (if neg \<or> prefix ''+'' s then tl s else s) in
      if t = ''0'' then Some 0
      else if t = [] then None
      else case parse_duration 0 t of
          None \<Rightarrow> None
        | Some d \<Rightarrow> if neg then Some (- int d) else if d > 2 ^ 63 - 1 then None else Some (int d))"

section \<open>Configuration\<close>

record DebianRuntime =
  DRMirrorURL :: string
  DRDiscoveryURL :: string
  DRDiscoveryFile :: string
  DRDiscoveryTimeout :: int
  DRKeyring :: bytes
  DRLifecycle :: "(string \<times> LifecycleEntry) list"

record UbuntuRuntime =
  URReleaseURL :: string
  URDiscoveryURL :: string
  URDiscoveryFile :: string
  URDiscoveryTimeout :: int
  URKeyring :: bytes
  URKernelSHA256 :: string
  URInitrdSHA256 :: string
  URLifecycle :: "(string \<times> LifecycleEntry) list"

record FedoraRuntime =
  FRReleaseURL :: string
  FRDiscoveryURL :: string
  FRDiscoveryFile :: string
  FRDiscoveryTimeout :: int
  FRKernelSHA256 :: string
  FRInitrdSHA256 :: string
  FRLifecycle :: "(string \<times> LifecycleEntry) list"

record RuntimeConfig =
  RDebian :: DebianRuntime
  RUbuntu :: UbuntuRuntime
  RFedora :: FedoraRuntime

definition empty_RuntimeConfig :: RuntimeConfig where
  "empty_RuntimeConfig = \<lparr>
     RDebian = \<lparr>DRMirrorURL = [], DRDiscoveryURL = [], DRDiscoveryFile = [], DRDiscoveryTimeout = 0, DRKeyring = [], DRLifecycle = []\<rparr>,
     RUbuntu = \<lparr>URReleaseURL = [], URDiscoveryURL = [], URDiscoveryFile = [], URDiscoveryTimeout = 0, URKeyring = [],
       URKernelSHA256 = [], URInitrdSHA256 = [], URLifecycle = []\<rparr>,
     RFedora = \<lparr>FRReleaseURL = [], FRDiscoveryURL = [], FRDiscoveryFile = [], FRDiscoveryTimeout = 0,
       FRKernelSHA256 = [], FRInitrdSHA256 = [], FRLifecycle = []\<rparr>\<rparr>"

record debianFileConfig =
  dfMirrorURL :: string
  dfDiscoveryURL :: string
  dfDiscoveryFile :: string
  dfDiscoveryTimeout :: string
  dfKeyringPath :: string
  dfLifecycle :: "(string \<times> LifecycleEntry) list"

record ubuntuFileConfig =
  ufReleaseURL :: string
  ufDiscoveryURL :: string
  ufDiscoveryFile :: string
  ufDiscoveryTimeout :: string
  ufKeyringPath :: string
  ufKernelSHA256 :: string
  ufInitrdSHA256 :: string
  ufLifecycle :: "(string \<times> LifecycleEntry) list"

record fedoraFileConfig =
  ffReleaseURL :: string
  ffDiscoveryURL :: string
  ffDiscoveryFile :: string
  ffDiscoveryTimeout :: string
  ffKernelSHA256 :: string
  ffInitrdSHA256 :: string
  ffLifecycle :: "(string \<times> LifecycleEntry) list"

text \<open>What a second \<open>Decode\<close> finds after the first value.\<close>

datatype json_tail = TailEOF | TailValue | TailError go_error

record config_decoder =
  dec_file :: "bytes \<Rightarrow> ((string \<times> bytes) list \<times> json_tail) result"
  dec_debian :: "bytes \<Rightarrow> (debianFileConfig \<times> json_tail) result"
  dec_ubuntu :: "bytes \<Rightarrow> (ubuntuFileConfig \<times> json_tail) result"
  dec_fedora :: "bytes \<Rightarrow> (fedoraFileConfig \<times> json_tail) result"

definition decodeStrict :: "('v \<times> json_tail) result \<Rightarrow> 'v result" where
  "decodeStrict decoded =
     and_then decoded (\<lambda>(v, t). case t of
       TailEOF \<Rightarrow> Inr v
     | TailValue \<Rightarrow> Inl (errors_New ''multiple JSON values'')
     | TailError e \<Rightarrow> Inl e)"

section \<open>Field validation\<close>

definition validateHTTPURL :: "string \<Rightarrow> string \<Rightarrow> unit result" where
  "validateHTTPURL field v =
     (if v = [] then Inr ()
      else case url_Parse v of
          None \<Rightarrow> Inl (Errorf ''parse %s: %w'' [S field, W (Errorf ''parse %q'' [S v])])
        | Some parsed \<Rightarrow>
            if url_Scheme parsed \<noteq> ''http'' \<and> url_Scheme parsed \<noteq> ''https'' then
              Inl (Errorf ''%s must use http or https'' [S field])
            else if url_Host parsed = [] then Inl (Errorf ''%s must include host'' [S field])
            else Inr ())"

definition validateLocalPath :: "string \<Rightarrow> string \<Rightarrow> string result" where
  "validateLocalPath field v =
     (if v = [] then Inr []
      else if TrimSpace v \<noteq> v then Inl (Errorf ''%s has surrounding whitespace'' [S field])
      else if \<not> filepath_IsAbs v then Inl (Errorf ''%s must be an absolute path'' [S field])
      else Inr v)"

definition parseDuration :: "string \<Rightarrow> string \<Rightarrow> int result" where
  "parseDuration field v =
     (if v = [] then Inr 0
      else case time_ParseDuration v of
          None \<Rightarrow> Inl (Errorf ''parse %s: %w'' [S field, W (Errorf ''time: invalid duration %q'' [S v])])
        | Some duration \<Rightarrow>
            if duration \<le> 0 then Inl (Errorf ''%s must be greater than zero'' [S field]) else Inr duration)"

definition check_lifecycle :: "string \<times> LifecycleEntry \<Rightarrow> unit result" where
  "check_lifecycle re = (case re of (release, entry) \<Rightarrow>
     if TrimSpace release = [] then Inl (errors_New ''lifecycle release must not be empty'')
     else if TrimSpace release \<noteq> release then Inl (Errorf ''lifecycle release %q has surrounding whitespace'' [S release])
     else if TrimSpace (LSource entry) \<noteq> LSource entry then
       Inl (Errorf ''lifecycle source for %s has surrounding whitespace'' [S release])
     else if LSource entry = [] then Inl (Errorf ''lifecycle source for %s is required'' [S release])
     else if TrimSpace (Date entry) \<noteq> Date entry then
       Inl (Errorf ''lifecycle date for %s has surrounding whitespace'' [S release])
     else if Status entry = [] then Inl (Errorf ''lifecycle status for %s is required'' [S release])
     else if Status entry \<notin> {LifecycleSupported, LifecycleObsolete, LifecycleEOL, LifecycleUnknown} then
       Inl (Errorf ''lifecycle status for %s is invalid'' [S release])
     else if Date entry \<noteq> [] \<and> parse_DateOnly (Date entry) = None then
       Inl (Errorf ''lifecycle date for %s must use YYYY-MM-DD'' [S release])
     else Inr ())"

definition validateLifecycle :: "(string \<times> LifecycleEntry) list \<Rightarrow> (string \<times> LifecycleEntry) list result" where
  "validateLifecycle entries = and_then (for_each check_lifecycle entries) (\<lambda>_. Inr entries)"

definition config_validateSHA256 :: "string \<Rightarrow> string \<Rightarrow> unit result" where
  "config_validateSHA256 field v =
     (if (case hex_DecodeString v of None \<Rightarrow> True | Some decoded \<Rightarrow> length decoded \<noteq> 32) then
        Inl (Errorf ''%s must be a 64-character SHA-256 hex digest'' [S field])
      else Inr ())"

definition validateSHA256Pins :: "string \<Rightarrow> string \<Rightarrow> unit result" where
  "validateSHA256Pins kernelSHA256 initrdSHA256 =
     (if (kernelSHA256 = []) \<noteq> (initrdSHA256 = []) then
        Inl (errors_New ''kernel_sha256 and initrd_sha256 must be supplied together'')
      else if kernelSHA256 = [] then Inr ()
      else and_then (config_validateSHA256 ''kernel_sha256'' kernelSHA256) (\<lambda>_.
        config_validateSHA256 ''initrd_sha256'' initrdSHA256))"

definition loadKeyring :: "('k, 'b) crypto \<Rightarrow> string \<Rightarrow> bytes io" where
  "loadKeyring C path =
     (if path = [] then io_return []
      else io_bind (io_wrap (\<lambda>e. Errorf ''read keyring %s: %w'' [S path, W e]) (os_ReadFile path)) (\<lambda>keyring.
      io_bind (io_of (map_err (\<lambda>e. Errorf ''validate keyring %s: %w'' [S path, W e])
                 (ReadKeyring C (Some (Inr keyring))))) (\<lambda>_.
      io_return keyring)))"

section \<open>Provider sections\<close>

definition loadFedora :: "config_decoder \<Rightarrow> bytes \<Rightarrow> FedoraRuntime result" where
  "loadFedora J raw =
     and_then (decodeStrict (dec_fedora J raw)) (\<lambda>f.
     and_then (validateHTTPURL ''release_url'' (ffReleaseURL f)) (\<lambda>_.
     and_then (validateHTTPURL ''discovery_url'' (ffDiscoveryURL f)) (\<lambda>_.
     and_then (validateLocalPath ''discovery_file'' (ffDiscoveryFile f)) (\<lambda>discoveryFile.
     and_then (parseDuration ''discovery_timeout'' (ffDiscoveryTimeout f)) (\<lambda>discoveryTimeout.
     and_then (validateSHA256Pins (ffKernelSHA256 f) (ffInitrdSHA256 f)) (\<lambda>_.
     and_then (validateLifecycle (ffLifecycle f)) (\<lambda>lifecycle.
     Inr \<lparr>FRReleaseURL = TrimRight (ffReleaseURL f) (CHR ''/''), FRDiscoveryURL = TrimRight (ffDiscoveryURL f) (CHR ''/''),
          FRDiscoveryFile = discoveryFile, FRDiscoveryTimeout = discoveryTimeout, FRKernelSHA256 = ToLower (ffKernelSHA256 f),
          FRInitrdSHA256 = ToLower (ffInitrdSHA256 f), FRLifecycle = lifecycle\<rparr>)))))))"

definition loadDebian :: "('k, 'b) crypto \<Rightarrow> config_decoder \<Rightarrow> bytes \<Rightarrow> DebianRuntime io" where
  "loadDebian C J raw =
     io_bind (io_of (
       and_then (decodeStrict (dec_debian J raw)) (\<lambda>f.
       and_then (validateHTTPURL ''mirror_url'' (dfMirrorURL f)) (\<lambda>_.
       and_then (validateHTTPURL ''discovery_url'' (dfDiscoveryURL f)) (\<lambda>_.
       and_then (validateLocalPath ''discovery_file'' (dfDiscoveryFile f)) (\<lambda>discoveryFile.
       and_then (parseDuration ''discovery_timeout'' (dfDiscoveryTimeout f)) (\<lambda>discoveryTimeout.
       and_then (validateLifecycle (dfLifecycle f)) (\<lambda>lifecycle.
       Inr (f, discoveryFile, discoveryTimeout, lifecycle))))))))) (\<lambda>(f, discoveryFile, discoveryTimeout, lifecycle).
     io_bind (loadKeyring C (dfKeyringPath f)) (\<lambda>keyring.
     io_return \<lparr>DRMirrorURL = TrimRight (dfMirrorURL f) (CHR ''/''), DRDiscoveryURL = TrimRight (dfDiscoveryURL f) (CHR ''/''),
       DRDiscoveryFile = discoveryFile, DRDiscoveryTimeout = discoveryTimeout, DRKeyring = keyring, DRLifecycle = lifecycle\<rparr>))"

definition loadUbuntu :: "('k, 'b) crypto \<Rightarrow> config_decoder \<Rightarrow> bytes \<Rightarrow> UbuntuRuntime io" where
  "loadUbuntu C J raw =
     io_bind (io_of (
       and_then (decodeStrict (dec_ubuntu J raw)) (\<lambda>f.
       and_then (validateHTTPURL ''release_url'' (ufReleaseURL f)) (\<lambda>_.
       and_then (validateHTTPURL ''discovery_url'' (ufDiscoveryURL f)) (\<lambda>_.
       and_then (validateLocalPath ''discovery_file'' (ufDiscoveryFile f)) (\<lambda>discoveryFile.
       and_then (parseDuration ''discovery_timeout'' (ufDiscoveryTimeout f)) (\<lambda>discoveryTimeout.
       and_then (validateSHA256Pins (ufKernelSHA256 f) (ufInitrdSHA256 f)) (\<lambda>_.
       and_then (validateLifecycle (ufLifecycle f)) (\<lambda>lifecycle.
       Inr (f, discoveryFile, discoveryTimeout, lifecycle)))))))))) (\<lambda>(f, discoveryFile, discoveryTimeout, lifecycle).
     io_bind (loadKeyring C (ufKeyringPath f)) (\<lambda>keyring.
     io_return \<lparr>URReleaseURL = TrimRight (ufReleaseURL f) (CHR ''/''), URDiscoveryURL = TrimRight (ufDiscoveryURL f) (CHR ''/''),
       URDiscoveryFile = discoveryFile, URDiscoveryTimeout = discoveryTimeout, URKeyring = keyring,
       URKernelSHA256 = ToLower (ufKernelSHA256 f), URInitrdSHA256 = ToLower (ufInitrdSHA256 f), URLifecycle = lifecycle\<rparr>))"

fun load_sections :: "('k, 'b) crypto \<Rightarrow> config_decoder \<Rightarrow> RuntimeConfig \<Rightarrow> (string \<times> bytes) list \<Rightarrow> RuntimeConfig io" where
  "load_sections C J config [] = io_return config"
| "load_sections C J config ((i, raw) # rest) =
     (if i = ''debian'' then
        io_bind (io_wrap (\<lambda>e. Errorf ''load Debian provider config: %w'' [W e]) (loadDebian C J raw)) (\<lambda>d.
        load_sections C J (config\<lparr>RDebian := d\<rparr>) rest)
      else if i = ''ubuntu'' then
        io_bind (io_wrap (\<lambda>e. Errorf ''load Ubuntu provider config: %w'' [W e]) (loadUbuntu C J raw)) (\<lambda>u.
        load_sections C J (config\<lparr>RUbuntu := u\<rparr>) rest)
      else if i = ''fedora'' then
        io_bind (io_wrap (\<lambda>e. Errorf ''load Fedora provider config: %w'' [W e]) (io_of (loadFedora J raw))) (\<lambda>f.
        load_sections C J (config\<lparr>RFedora := f\<rparr>) rest)
      else io_fail (Errorf ''unknown provider %q'' [S i]))"

definition config_LoadFile :: "('k, 'b) crypto \<Rightarrow> config_decoder \<Rightarrow> string \<Rightarrow> RuntimeConfig io" where
  "config_LoadFile C J path =
     (if TrimSpace path = [] then io_fail (errors_New ''provider config path is required'')
      else io_bind (io_wrap (\<lambda>e. Errorf ''read provider config %s: %w'' [S path, W e]) (os_ReadFile path)) (\<lambda>data.
      io_bind (io_of (map_err (\<lambda>e. Errorf ''parse provider config %s: %w'' [S path, W e]) (decodeStrict (dec_file J data)))) (\<lambda>sections.
      load_sections C J empty_RuntimeConfig sections)))"

section \<open>What a loaded configuration guarantees\<close>

definition pins_ok :: "string \<Rightarrow> string \<Rightarrow> bool" where
  "pins_ok k i \<longleftrightarrow> (k = [] \<and> i = []) \<or> (is_digest k \<and> is_digest i)"

definition keyring_ok :: "('k, 'b) crypto \<Rightarrow> bytes \<Rightarrow> bool" where
  "keyring_ok C kr \<longleftrightarrow> kr = [] \<or> \<not> isl (ReadKeyring C (Some (Inr kr)))"

definition discovery_ok :: "string \<Rightarrow> int \<Rightarrow> bool" where
  "discovery_ok path timeout \<longleftrightarrow> (path = [] \<or> filepath_IsAbs path \<and> TrimSpace path = path) \<and> 0 \<le> timeout"

definition lifecycle_ok :: "(string \<times> LifecycleEntry) list \<Rightarrow> bool" where
  "lifecycle_ok es \<longleftrightarrow> list_all (\<lambda>e. check_lifecycle e = Inr ()) es"

definition debian_ok :: "('k, 'b) crypto \<Rightarrow> DebianRuntime \<Rightarrow> bool" where
  "debian_ok C d \<longleftrightarrow> keyring_ok C (DRKeyring d) \<and> discovery_ok (DRDiscoveryFile d) (DRDiscoveryTimeout d) \<and> lifecycle_ok (DRLifecycle d)"

definition ubuntu_ok :: "('k, 'b) crypto \<Rightarrow> UbuntuRuntime \<Rightarrow> bool" where
  "ubuntu_ok C u \<longleftrightarrow> keyring_ok C (URKeyring u) \<and> pins_ok (URKernelSHA256 u) (URInitrdSHA256 u) \<and>
     discovery_ok (URDiscoveryFile u) (URDiscoveryTimeout u) \<and> lifecycle_ok (URLifecycle u)"

definition fedora_ok :: "FedoraRuntime \<Rightarrow> bool" where
  "fedora_ok f \<longleftrightarrow> pins_ok (FRKernelSHA256 f) (FRInitrdSHA256 f) \<and>
     discovery_ok (FRDiscoveryFile f) (FRDiscoveryTimeout f) \<and> lifecycle_ok (FRLifecycle f)"

definition runtime_ok :: "('k, 'b) crypto \<Rightarrow> RuntimeConfig \<Rightarrow> bool" where
  "runtime_ok C c \<longleftrightarrow> debian_ok C (RDebian c) \<and> ubuntu_ok C (RUbuntu c) \<and> fedora_ok (RFedora c)"

lemma config_validateSHA256_iff: "config_validateSHA256 field v = Inr () \<longleftrightarrow> is_sha256_hex v"
  by (auto simp: config_validateSHA256_def sha256_hex_iff split: option.splits)

lemma is_digest_ToLower: "is_sha256_hex v \<Longrightarrow> is_digest (ToLower v)"
  by (auto simp: sha256_hex_iff is_digest_def hex_Decode_ToLower hex_Decode_Encode)

lemma validateSHA256Pins_ok: "validateSHA256Pins k i = Inr () \<Longrightarrow> pins_ok (ToLower k) (ToLower i)"
  by (auto simp: validateSHA256Pins_def pins_ok_def config_validateSHA256_iff is_digest_ToLower split: if_splits)

lemma discovery_fields_ok:
  "validateLocalPath f1 v = Inr path \<Longrightarrow> parseDuration f2 t = Inr timeout \<Longrightarrow> discovery_ok path timeout"
  by (auto simp: validateLocalPath_def parseDuration_def discovery_ok_def split: if_splits option.splits)

lemma validateLifecycle_ok: "validateLifecycle es = Inr es' \<Longrightarrow> es' = es \<and> lifecycle_ok es'"
  by (auto simp: validateLifecycle_def lifecycle_ok_def list_all_iff)

lemmas field_oks = validateSHA256Pins_ok discovery_fields_ok

lemma loadKeyring_Inr:
  assumes "loadKeyring C path w = (Inr kr, w')"
  shows "keyring_ok C kr \<and> Fs w' = Fs w \<and>
    (if path = [] then kr = [] else \<exists>m. Fs w (path_Clean path) = Some (File kr m))"
  using assms by (auto simp: loadKeyring_def keyring_ok_def split: if_splits dest!: os_ReadFile_Inr)

lemma loadFedora_ok: "loadFedora J raw = Inr f \<Longrightarrow> fedora_ok f"
  by (auto simp: loadFedora_def fedora_ok_def dest: field_oks validateLifecycle_ok)

lemma loadDebian_Inr:
  assumes "loadDebian C J raw w = (Inr d, w')"
  shows "debian_ok C d \<and> Fs w' = Fs w"
  using assms by (auto simp: loadDebian_def debian_ok_def dest!: loadKeyring_Inr dest: field_oks validateLifecycle_ok)

lemma loadUbuntu_Inr:
  assumes "loadUbuntu C J raw w = (Inr u, w')"
  shows "ubuntu_ok C u \<and> Fs w' = Fs w"
  using assms by (auto simp: loadUbuntu_def ubuntu_ok_def dest!: loadKeyring_Inr dest: field_oks validateLifecycle_ok)

text \<open>Loading a section twice on the same files gives the same settings.\<close>

lemma loadKeyring_det:
  "loadKeyring C path v = (Inr a, v') \<Longrightarrow> loadKeyring C path w = (Inr b, w') \<Longrightarrow> Fs v = Fs w \<Longrightarrow> a = b"
  by (auto dest!: loadKeyring_Inr split: if_splits)

lemma loadDebian_det:
  "loadDebian C J raw v = (Inr a, v') \<Longrightarrow> loadDebian C J raw w = (Inr b, w') \<Longrightarrow> Fs v = Fs w \<Longrightarrow> a = b"
  by (auto simp: loadDebian_def dest: loadKeyring_det)

lemma loadUbuntu_det:
  "loadUbuntu C J raw v = (Inr a, v') \<Longrightarrow> loadUbuntu C J raw w = (Inr b, w') \<Longrightarrow> Fs v = Fs w \<Longrightarrow> a = b"
  by (auto simp: loadUbuntu_def dest: loadKeyring_det)

lemma empty_runtime_ok: "runtime_ok C empty_RuntimeConfig"
  by (simp add: runtime_ok_def debian_ok_def ubuntu_ok_def fedora_ok_def keyring_ok_def pins_ok_def discovery_ok_def
      lifecycle_ok_def empty_RuntimeConfig_def)

lemma load_sections_ok:
  "load_sections C J c secs w = (Inr c', w') \<Longrightarrow> runtime_ok C c \<Longrightarrow> runtime_ok C c' \<and> Fs w' = Fs w"
proof (induction C J c secs arbitrary: w rule: load_sections.induct)
  case (2 C J c i raw rest)
  consider (deb) d w1 where "loadDebian C J raw w = (Inr d, w1)" "load_sections C J (c\<lparr>RDebian := d\<rparr>) rest w1 = (Inr c', w')" "i = ''debian''"
    | (ubu) u w1 where "loadUbuntu C J raw w = (Inr u, w1)" "load_sections C J (c\<lparr>RUbuntu := u\<rparr>) rest w1 = (Inr c', w')" "i = ''ubuntu''"
    | (fed) f where "loadFedora J raw = Inr f" "load_sections C J (c\<lparr>RFedora := f\<rparr>) rest w = (Inr c', w')" "i = ''fedora''"
    using "2.prems"(1) by (auto split: if_splits)
  then show ?case
  proof cases
    case deb
    then show ?thesis using "2.IH"(1) [of d w1] loadDebian_Inr [OF deb(1)] "2.prems"(2) by (simp add: runtime_ok_def)
  next
    case ubu
    then show ?thesis using "2.IH"(2) [of u w1] loadUbuntu_Inr [OF ubu(1)] "2.prems"(2) by (simp add: runtime_ok_def)
  next
    case fed
    then show ?thesis using "2.IH"(3) [of f w] loadFedora_ok [OF fed(1)] "2.prems"(2) by (simp add: runtime_ok_def)
  qed
qed simp

text \<open>C32: A configuration that loads is safe to hand to the providers: every configured keyring is one the verifier can
  read, digests come in pairs of well-formed lower-case SHA-256 digests or not at all, metadata files are absolute
  paths, timeouts are not negative and lifecycle entries are valid; and loading changes no file.\<close>

theorem config_LoadFile_sound:
  assumes "config_LoadFile C J path w = (Inr c, w')"
  shows "runtime_ok C c \<and> Fs w' = Fs w"
  using assms
  by (auto simp: config_LoadFile_def split: if_splits dest!: os_ReadFile_Inr load_sections_ok [OF _ empty_runtime_ok])

text \<open>The settings of a section depend on its text and the files alone.\<close>

definition section_is :: "(string \<times> bytes) list \<Rightarrow> string \<Rightarrow> 'a \<Rightarrow> (bytes \<Rightarrow> 'a \<Rightarrow> bool) \<Rightarrow> 'a \<Rightarrow> bool" where
  "section_is secs name old load new = (case map_of secs name of None \<Rightarrow> new = old | Some raw \<Rightarrow> load raw new)"

lemma section_is_Cons:
  "section_is ((i, raw) # rest) name old load new \<longleftrightarrow> (if i = name then load raw new else section_is rest name old load new)"
  by (simp add: section_is_def)

lemma section_is_absent: "map_of secs name = None \<Longrightarrow> section_is secs name old load new \<longleftrightarrow> new = old"
  by (simp add: section_is_def)

lemma section_is_det:
  "section_is secs name old load a \<Longrightarrow> section_is secs name old load b \<Longrightarrow> (\<And>raw. load raw a \<Longrightarrow> load raw b \<Longrightarrow> a = b) \<Longrightarrow> a = b"
  by (auto simp: section_is_def split: option.splits)

definition loads_debian :: "('k, 'b) crypto \<Rightarrow> config_decoder \<Rightarrow> (string \<Rightarrow> node option) \<Rightarrow> bytes \<Rightarrow> DebianRuntime \<Rightarrow> bool" where
  "loads_debian C J fs raw d \<longleftrightarrow> (\<exists>v v'. Fs v = fs \<and> loadDebian C J raw v = (Inr d, v'))"

definition loads_ubuntu :: "('k, 'b) crypto \<Rightarrow> config_decoder \<Rightarrow> (string \<Rightarrow> node option) \<Rightarrow> bytes \<Rightarrow> UbuntuRuntime \<Rightarrow> bool" where
  "loads_ubuntu C J fs raw u \<longleftrightarrow> (\<exists>v v'. Fs v = fs \<and> loadUbuntu C J raw v = (Inr u, v'))"

definition sections_of :: "('k, 'b) crypto \<Rightarrow> config_decoder \<Rightarrow> (string \<times> bytes) list \<Rightarrow> RuntimeConfig \<Rightarrow> (string \<Rightarrow> node option) \<Rightarrow> RuntimeConfig \<Rightarrow> bool" where
  "sections_of C J secs c fs c' \<longleftrightarrow>
     section_is secs ''debian'' (RDebian c) (loads_debian C J fs) (RDebian c') \<and>
     section_is secs ''ubuntu'' (RUbuntu c) (loads_ubuntu C J fs) (RUbuntu c') \<and>
     section_is secs ''fedora'' (RFedora c) (\<lambda>raw f. loadFedora J raw = Inr f) (RFedora c')"

lemma load_sections_of:
  "load_sections C J c secs w = (Inr c', w') \<Longrightarrow> distinct (map fst secs) \<Longrightarrow> sections_of C J secs c (Fs w) c'"
proof (induction C J c secs arbitrary: w rule: load_sections.induct)
  case (2 C J c i raw rest)
  have new: "map_of rest i = None" using "2.prems"(2) by (auto simp: map_of_eq_None_iff)
  consider (deb) d w1 where "loadDebian C J raw w = (Inr d, w1)" "load_sections C J (c\<lparr>RDebian := d\<rparr>) rest w1 = (Inr c', w')" "i = ''debian''"
    | (ubu) u w1 where "loadUbuntu C J raw w = (Inr u, w1)" "load_sections C J (c\<lparr>RUbuntu := u\<rparr>) rest w1 = (Inr c', w')" "i = ''ubuntu''"
    | (fed) f where "loadFedora J raw = Inr f" "load_sections C J (c\<lparr>RFedora := f\<rparr>) rest w = (Inr c', w')" "i = ''fedora''"
    using "2.prems"(1) by (auto split: if_splits)
  then show ?case
  proof cases
    case deb
    then have "sections_of C J rest (c\<lparr>RDebian := d\<rparr>) (Fs w) c'"
      using "2.IH"(1) [of d w1] loadDebian_Inr [OF deb(1)] "2.prems"(2) by simp
    with deb(1,3) new show ?thesis by (auto simp: sections_of_def section_is_Cons section_is_absent loads_debian_def)
  next
    case ubu
    then have "sections_of C J rest (c\<lparr>RUbuntu := u\<rparr>) (Fs w) c'"
      using "2.IH"(2) [of u w1] loadUbuntu_Inr [OF ubu(1)] "2.prems"(2) by simp
    with ubu(1,3) new show ?thesis by (auto simp: sections_of_def section_is_Cons section_is_absent loads_ubuntu_def)
  next
    case fed
    then have "sections_of C J rest (c\<lparr>RFedora := f\<rparr>) (Fs w) c'" using "2.IH"(3) [of f w] "2.prems"(2) by simp
    with fed(1,3) new show ?thesis by (auto simp: sections_of_def section_is_Cons section_is_absent)
  qed
qed (simp add: sections_of_def section_is_def)

lemma sections_of_det:
  assumes "sections_of C J secs c fs a" "sections_of C J secs c fs b"
  shows "RDebian a = RDebian b \<and> RUbuntu a = RUbuntu b \<and> RFedora a = RFedora b"
proof (intro conjI)
  show "RDebian a = RDebian b"
    using assms by (auto simp: sections_of_def elim!: section_is_det) (auto simp: loads_debian_def dest: loadDebian_det)
  show "RUbuntu a = RUbuntu b"
    using assms by (auto simp: sections_of_def elim!: section_is_det) (auto simp: loads_ubuntu_def dest: loadUbuntu_det)
  show "RFedora a = RFedora b"
    using assms by (auto simp: sections_of_def elim!: section_is_det)
qed

text \<open>C33: The settings do not depend on the order in which the loop visits the sections of the file: two visits of the
  same sections that both succeed, with whatever calls failing or not on the way, give the same configuration.\<close>

theorem load_sections_order:
  assumes "load_sections C J c secs w = (Inr a, w1)" and "load_sections C J c secs' v = (Inr b, v1)"
    and "distinct (map fst secs)" and "distinct (map fst secs')" and "set secs = set secs'" and "Fs v = Fs w"
  shows "a = b"
proof -
  have "map_of secs = map_of secs'" using assms(3-5) map_of_inject_set by blast
  then have "sections_of C J secs c (Fs w) b"
    using load_sections_of [OF assms(2,4)] assms(6) by (simp add: sections_of_def section_is_def)
  from sections_of_det [OF load_sections_of [OF assms(1,3)] this] show ?thesis by simp
qed

definition sample_decoder :: config_decoder where
  "sample_decoder = \<lparr>dec_file = (\<lambda>_. Inr ([(''debian'', []), (''fedora'', [])], TailEOF)),
     dec_debian = (\<lambda>_. Inr (\<lparr>dfMirrorURL = ''https://m/debian'', dfDiscoveryURL = [], dfDiscoveryFile = ''/x'', dfDiscoveryTimeout = [],
       dfKeyringPath = ''/k'', dfLifecycle = []\<rparr>, TailEOF)),
     dec_ubuntu = (\<lambda>_. Inl (errors_New ''unexpected'')),
     dec_fedora = (\<lambda>_. Inr (\<lparr>ffReleaseURL = [], ffDiscoveryURL = [], ffDiscoveryFile = [], ffDiscoveryTimeout = [],
       ffKernelSHA256 = [], ffInitrdSHA256 = [], ffLifecycle = []\<rparr>, TailEOF))\<rparr>"

definition sample_config_world :: world where
  "sample_config_world = (quiet_world clash_net)\<lparr>Fs := [''/c'' \<mapsto> File ''cfg'' 420, ''/k'' \<mapsto> File ''KEYS'' 420]\<rparr>"

theorem config_LoadFile_sound_witness:
  "\<exists>c. fst (config_LoadFile plain_crypto sample_decoder ''/c'' sample_config_world) = Inr c \<and> runtime_ok plain_crypto c"
proof -
  have "\<not> isl (fst (config_LoadFile plain_crypto sample_decoder ''/c'' sample_config_world))" by code_simp
  then obtain c w' where "config_LoadFile plain_crypto sample_decoder ''/c'' sample_config_world = (Inr c, w')"
    by (cases "config_LoadFile plain_crypto sample_decoder ''/c'' sample_config_world";
        cases "fst (config_LoadFile plain_crypto sample_decoder ''/c'' sample_config_world)") auto
  with config_LoadFile_sound [OF this] show ?thesis by auto
qed

definition sample_sections :: "(string \<times> bytes) list \<Rightarrow> RuntimeConfig result" where
  "sample_sections secs = fst (load_sections plain_crypto sample_decoder empty_RuntimeConfig secs sample_config_world)"

theorem load_sections_order_witness:
  "\<exists>c. sample_sections [(''debian'', []), (''fedora'', [])] = Inr c \<and> sample_sections [(''fedora'', []), (''debian'', [])] = Inr c"
proof -
  let ?run = "\<lambda>secs. load_sections plain_crypto sample_decoder empty_RuntimeConfig secs sample_config_world"
  have ok: "\<not> isl (sample_sections [(''debian'', []), (''fedora'', [])])" "\<not> isl (sample_sections [(''fedora'', []), (''debian'', [])])"
    by code_simp+
  obtain a w1 where a: "?run [(''debian'', []), (''fedora'', [])] = (Inr a, w1)"
    using ok(1) by (cases "?run [(''debian'', []), (''fedora'', [])]"; cases "fst (?run [(''debian'', []), (''fedora'', [])])") (auto simp: sample_sections_def)
  obtain b w2 where b: "?run [(''fedora'', []), (''debian'', [])] = (Inr b, w2)"
    using ok(2) by (cases "?run [(''fedora'', []), (''debian'', [])]"; cases "fst (?run [(''fedora'', []), (''debian'', [])])") (auto simp: sample_sections_def)
  have "a = b" by (rule load_sections_order [OF a b]) auto
  with a b show ?thesis unfolding sample_sections_def by (intro exI [of _ a]) (simp del: load_sections.simps)
qed

end
