(* ===== verification/Iso9660.thy ===== *)
theory Iso9660
  imports Confinement ProviderTypes "HOL-Library.Word"
begin

unbundle bit_operations_syntax

text \<open>
  The ISO9660/Rock Ridge extractor (\<^verbatim>\<open>internal/providers/mfsbsd/iso.go\<close>), which unpacks a downloaded image
  without mounting it.

  A slice or index expression out of range panics in Go; here it is the error \<open>runtime_panic\<close>, so that
  the absence of panics on arbitrary images is a theorem.  The 32-bit fields of a directory record are
  words, the offsets computed from them are 64-bit words, and their comparison with the image size is
  signed, as in the source.

  \<open>strings.ToLower\<close> of a name outside ASCII goes through the Unicode tables; that part is the parameter
  \<open>uni\<close>.  The kernel refuses a path of 4096 bytes or more, which is what ends the recursion on an image
  whose directories form a cycle: \<open>extractISORecord\<close> takes the number of nested calls it may still make,
  and 4097 of them are always enough (\<open>extract_fuel_enough\<close>).
\<close>

section \<open>Bytes\<close>

definition runtime_panic :: go_error where
  "runtime_panic = errors_New ''panic: runtime error: index out of range''"

definition byte_at :: "bytes \<Rightarrow> nat \<Rightarrow> nat result" where
  "byte_at s i = (if i < length s then Inr (of_char (s ! i)) else Inl runtime_panic)"

definition slice :: "bytes \<Rightarrow> nat \<Rightarrow> nat \<Rightarrow> bytes result" where
  "slice s i j = (if i \<le> j \<and> j \<le> length s then Inr (take (j - i) (drop i s)) else Inl runtime_panic)"

definition le_uint32 :: "bytes \<Rightarrow> 32 word result" where
  "le_uint32 b =
     and_then (byte_at b 3) (\<lambda>b3. and_then (byte_at b 0) (\<lambda>b0. and_then (byte_at b 1) (\<lambda>b1.
     and_then (byte_at b 2) (\<lambda>b2.
       Inr (word_of_nat b0 OR push_bit 8 (word_of_nat b1) OR push_bit 16 (word_of_nat b2) OR push_bit 24 (word_of_nat b3))))))"

definition go_ToLower :: "(string \<Rightarrow> string) \<Rightarrow> string \<Rightarrow> string" where
  "go_ToLower uni s = (if list_all (\<lambda>c. of_char c < (128::nat)) s then map lower_char s else uni s)"

section \<open>Files read and written in place\<close>

text \<open>\<open>file.ReadAt(buf, off)\<close> fills the buffer or fails; a section reader stops early at the end of the file.\<close>

definition file_ReadAt :: "string \<Rightarrow> nat \<Rightarrow> nat \<Rightarrow> bytes io" where
  "file_ReadAt p n off = os_call refused (\<lambda>w. case Fs w (path_Clean p) of
       Some (File d _) \<Rightarrow> if off + n \<le> length d then (Inr (take n (drop off d)), w) else (Inl (Sentinel IoEOF), w)
     | _ \<Rightarrow> (Inl (errors_New ''is a directory''), w))"

definition file_ReadSection :: "string \<Rightarrow> nat \<Rightarrow> nat \<Rightarrow> bytes io" where
  "file_ReadSection p n off = os_call refused (\<lambda>w. case Fs w (path_Clean p) of
       Some (File d _) \<Rightarrow> (Inr (take n (drop off d)), w)
     | _ \<Rightarrow> (Inl (errors_New ''is a directory''), w))"

text \<open>\<open>os.OpenFile(p, O_WRONLY|O_CREATE|O_TRUNC, mode)\<close>\<close>

definition os_OpenTrunc :: "string \<Rightarrow> nat \<Rightarrow> unit io" where
  "os_OpenTrunc p mode = os_call refused (\<lambda>w. case Fs w (path_Clean p) of
       Some (Dir _) \<Rightarrow> (Inl (errors_New ''is a directory''), w)
     | n \<Rightarrow> set_node p (Some (File [] (file_mode n mode))) w)"

definition path_max :: nat where "path_max = 4096"

definition os_MkdirAll_max :: "string \<Rightarrow> nat \<Rightarrow> unit io" where
  "os_MkdirAll_max p mode =
     (if length p \<ge> path_max then io_fail (errors_New ''file name too long'') else os_MkdirAll p mode)"

section \<open>Directory records\<close>

definition iso9660SectorSize :: nat where "iso9660SectorSize = 2048"

record isoDirectoryRecord =
  isoName :: string
  extent :: "32 word"
  isoSize :: "32 word"
  isoMode :: "32 word"
  isoDir :: bool
  isoSpecial :: bool

record rockRidgeInfo =
  rrName :: string
  rrMode :: "32 word"
  rrSymlink :: string

definition normalizeISO9660Name :: "(string \<Rightarrow> string) \<Rightarrow> string \<Rightarrow> string" where
  "normalizeISO9660Name uni name =
     (if name = [CHR 0x00] then ''.''
      else if name = [CHR 0x01] then ''..''
      else go_ToLower uni (TrimRight (TrimSuffix name '';1'') (CHR ''.'')))"

function sl_components :: "bytes \<Rightarrow> nat \<Rightarrow> string list \<Rightarrow> string list result" where
  "sl_components entry offset parts =
     (if offset \<ge> length entry then Inr parts
      else if offset + 2 > length entry then
        Inl (Errorf ''invalid Rock Ridge SL component at offset %d'' [D (int offset)])
      else and_then (byte_at entry offset) (\<lambda>flags. and_then (byte_at entry (offset + 1)) (\<lambda>n.
        if offset + 2 + n > length entry then
          Inl (Errorf ''invalid Rock Ridge SL component length %d'' [D (int n)])
        else and_then (slice entry (offset + 2) (offset + 2 + n)) (\<lambda>component.
          let part = (if bit flags 1 then ''.'' else if bit flags 2 then ''..''
                      else if bit flags 3 then [] else component) in
          if bit flags 0 then Inl (errors_New ''continued Rock Ridge symlink is not supported'')
          else sl_components entry (offset + 2 + n) (parts @ [part])))))"
  by pat_completeness auto
termination by (relation "measure (\<lambda>(entry, offset, parts). length entry - offset)") auto

declare sl_components.simps [simp del]

definition parseRockRidgeSymlink :: "bytes \<Rightarrow> string result" where
  "parseRockRidgeSymlink entry =
     (if length entry < 5 then Inl (Errorf ''invalid Rock Ridge SL length %d'' [D (int (length entry))])
      else and_then (sl_components entry 5 []) (\<lambda>parts. Inr (Join parts ''/'')))"

definition rr_entry :: "rockRidgeInfo \<Rightarrow> bytes \<Rightarrow> rockRidgeInfo result" where
  "rr_entry info entry =
     and_then (slice entry 0 2) (\<lambda>tag.
       if tag = ''NM'' then
         (if length entry < 5 then Inl (Errorf ''invalid Rock Ridge NM length %d'' [D (int (length entry))])
          else and_then (byte_at entry 4) (\<lambda>flags.
            if bit flags 1 then Inr (info\<lparr>rrName := ''.''\<rparr>)
            else if bit flags 2 then Inr (info\<lparr>rrName := ''..''\<rparr>)
            else and_then (slice entry 5 (length entry)) (\<lambda>s. Inr (info\<lparr>rrName := rrName info @ s\<rparr>))))
       else if tag = ''PX'' then
         (if length entry \<ge> 12 then
            and_then (slice entry 4 8) (\<lambda>b. and_then (le_uint32 b) (\<lambda>m. Inr (info\<lparr>rrMode := m\<rparr>)))
          else Inr info)
       else if tag = ''SL'' then
         and_then (parseRockRidgeSymlink entry) (\<lambda>target. Inr (info\<lparr>rrSymlink := target\<rparr>))
       else Inr info)"

function rr_entries :: "rockRidgeInfo \<Rightarrow> bytes \<Rightarrow> rockRidgeInfo result" where
  "rr_entries info systemUse =
     (if length systemUse < 4 then Inr info
      else and_then (byte_at systemUse 2) (\<lambda>n.
        if n = 0 then Inr info
        else if n < 4 \<or> n > length systemUse then
          Inl (Errorf ''invalid Rock Ridge entry length %d'' [D (int n)])
        else and_then (slice systemUse 0 n) (\<lambda>entry.
          and_then (rr_entry info entry) (\<lambda>info'. rr_entries info' (drop n systemUse)))))"
  by pat_completeness auto
termination by (relation "measure (\<lambda>(info, s). length s)") auto

declare rr_entries.simps [simp del]

definition parseRockRidge :: "bytes \<Rightarrow> rockRidgeInfo result" where
  "parseRockRidge systemUse = rr_entries \<lparr>rrName = [], rrMode = 0, rrSymlink = []\<rparr> systemUse"

definition parseISODirectoryRecord :: "(string \<Rightarrow> string) \<Rightarrow> bytes \<Rightarrow> isoDirectoryRecord result" where
  "parseISODirectoryRecord uni data =
     (if data = [] then Inl (errors_New ''empty ISO directory record'')
      else and_then (byte_at data 0) (\<lambda>recordLen.
      if recordLen = 0 then
        Inr \<lparr>isoName = [], extent = 0, isoSize = 0, isoMode = 0, isoDir = False, isoSpecial = True\<rparr>
      else if recordLen < 34 then
        Inl (Errorf ''ISO directory record length %d is too short'' [D (int recordLen)])
      else if recordLen > length data then
        Inl (Errorf ''ISO directory record length %d exceeds buffer length %d'' [D (int recordLen), D (int (length data))])
      else and_then (slice data 0 recordLen) (\<lambda>rec.
      and_then (byte_at rec 32) (\<lambda>fileIDLen.
      let fileIDEnd = 33 + fileIDLen in
      if fileIDLen = 0 \<or> fileIDEnd > length rec then
        Inl (Errorf ''invalid ISO file identifier length %d'' [D (int fileIDLen)])
      else and_then (slice rec 33 fileIDEnd) (\<lambda>fileID.
      let special = (fileID = [CHR 0x00] \<or> fileID = [CHR 0x01]);
          name0 = normalizeISO9660Name uni fileID;
          start0 = (if even fileIDLen then fileIDEnd + 1 else fileIDEnd);
          systemUseStart = (if start0 > length rec then length rec else start0) in
      and_then (slice rec systemUseStart (length rec)) (\<lambda>systemUse.
      and_then (parseRockRidge systemUse) (\<lambda>rr.
      let name = (if rrName rr \<noteq> [] then rrName rr else name0) in
      if rrSymlink rr \<noteq> [] then Inl (Errorf ''rock ridge symlink %q is not supported'' [S name])
      else and_then (byte_at rec 25) (\<lambda>flags.
      if bit flags 7 then Inl (Errorf ''multi-extent ISO file %q is not supported'' [S name])
      else and_then (slice rec 2 6) (\<lambda>e. and_then (le_uint32 e) (\<lambda>ext.
      and_then (slice rec 10 14) (\<lambda>z. and_then (le_uint32 z) (\<lambda>sz.
      Inr \<lparr>isoName = name, extent = ext, isoSize = sz, isoMode = rrMode rr, isoDir = bit flags 1,
           isoSpecial = special\<rparr>))))))))))))"

text \<open>The loop of \<open>readISODirectory\<close> over the bytes of a directory.\<close>

function iso_records :: "(string \<Rightarrow> string) \<Rightarrow> bytes \<Rightarrow> nat \<Rightarrow> isoDirectoryRecord list \<Rightarrow> isoDirectoryRecord list result" where
  "iso_records uni data offset records =
     (if offset \<ge> length data then Inr records
      else and_then (byte_at data offset) (\<lambda>recordLen.
      if recordLen = 0 then
        iso_records uni data ((offset div iso9660SectorSize + 1) * iso9660SectorSize) records
      else if offset + recordLen > length data then
        Inl (Errorf ''ISO directory record at offset %d exceeds directory size'' [D (int offset)])
      else and_then (slice data offset (offset + recordLen)) (\<lambda>rec.
      and_then (parseISODirectoryRecord uni rec) (\<lambda>child.
      iso_records uni data (offset + recordLen) (if isoSpecial child then records else records @ [child])))))"
  by pat_completeness auto
termination
proof (relation "measure (\<lambda>(uni, data, offset, records). length data - offset)", goal_cases)
  case (2 uni data offset records recordLen)
  have "offset < (offset div 2048 + 1) * 2048" by (simp add: algebra_simps)
  with 2 show ?case by (simp add: iso9660SectorSize_def)
qed auto

declare iso_records.simps [simp del]

section \<open>Reading the image\<close>

definition iso_start :: "isoDirectoryRecord \<Rightarrow> 64 word" where
  "iso_start r = ucast (extent r) * 2048"

definition validateISOExtent :: "isoDirectoryRecord \<Rightarrow> int \<Rightarrow> unit result" where
  "validateISOExtent r imageSize =
     (if imageSize < 0 then Inl (errors_New ''ISO size is negative'')
      else let start = iso_start r; end' = start + ucast (isoSize r) in
      if sint start > imageSize \<or> sint end' > imageSize then
        Inl (Errorf ''ISO record %q extent %d size %d exceeds ISO size %d''
               [S (isoName r), D (uint (extent r)), D (uint (isoSize r)), D imageSize])
      else Inr ())"

fun scan_descriptors :: "(string \<Rightarrow> string) \<Rightarrow> string \<Rightarrow> nat list \<Rightarrow> isoDirectoryRecord io" where
  "scan_descriptors uni p [] = io_fail (errors_New ''ISO primary volume descriptor not found'')"
| "scan_descriptors uni p (offset # rest) =
     io_bind (io_wrap (\<lambda>e. Errorf ''read ISO volume descriptor: %w'' [W e]) (file_ReadAt p iso9660SectorSize offset)) (\<lambda>d.
     io_bind (io_of (slice d 1 6)) (\<lambda>magic.
     if magic \<noteq> ''CD001'' then io_fail (errors_New ''ISO volume descriptor missing CD001 signature'')
     else io_bind (io_of (byte_at d 0)) (\<lambda>kind.
     if kind = 1 then
       io_bind (io_of (slice d 156 (length d))) (\<lambda>s.
       io_bind (io_of (map_err (\<lambda>e. Errorf ''parse ISO root directory record: %w'' [W e]) (parseISODirectoryRecord uni s))) (\<lambda>root.
       if \<not> isoDir root then io_fail (errors_New ''ISO root directory record is not a directory'')
       else io_return root))
     else if kind = 255 then io_fail (errors_New ''ISO primary volume descriptor not found'')
     else scan_descriptors uni p rest)))"

text \<open>\<open>for offset := 16 * 2048; offset + 2048 <= size; offset += 2048\<close>\<close>

definition readPrimaryVolumeRoot :: "(string \<Rightarrow> string) \<Rightarrow> string \<Rightarrow> nat \<Rightarrow> isoDirectoryRecord io" where
  "readPrimaryVolumeRoot uni p imageSize =
     scan_descriptors uni p (map (\<lambda>k. k * iso9660SectorSize) [16..<imageSize div iso9660SectorSize])"

text \<open>
  The source looks at the context before each record of the directory; nothing but the result depends on
  how far the loop came, so one look before the loop has the same outcomes.
\<close>

definition readISODirectory ::
  "(string \<Rightarrow> string) \<Rightarrow> string \<Rightarrow> int \<Rightarrow> isoDirectoryRecord \<Rightarrow> isoDirectoryRecord list io" where
  "readISODirectory uni p imageSize r =
     io_bind ctx_Err (\<lambda>_.
     io_bind (io_of (validateISOExtent r imageSize)) (\<lambda>_.
     io_bind (io_wrap (\<lambda>e. Errorf ''read ISO directory %s: %w'' [S (isoName r), W e])
                (file_ReadAt p (unat (isoSize r)) (unat (iso_start r)))) (\<lambda>data.
     io_bind ctx_Err (\<lambda>_.
     io_of (iso_records uni data 0 [])))))"

section \<open>Extraction\<close>

definition safeISOPathComponent :: "string \<Rightarrow> string result" where
  "safeISOPathComponent name =
     (if name = [] \<or> name = ''.'' \<or> name = ''..'' then Inl (Errorf ''unsafe ISO path component %q'' [S name])
      else if filepath_IsAbs name \<or> CHR 0x00 \<in> set name \<or> Contains name ''/'' \<or> CHR ''/'' \<in> set name then
        Inl (Errorf ''unsafe ISO path component %q'' [S name])
      else Inr name)"

definition perm_or :: "32 word \<Rightarrow> nat \<Rightarrow> nat" where
  "perm_or mode dflt = (let m = unat (mode AND 0x1FF) in if m = 0 then dflt else m)"

definition writeISOFile :: "string \<Rightarrow> isoDirectoryRecord \<Rightarrow> string \<Rightarrow> unit io" where
  "writeISOFile p r dest =
     (let mode = perm_or (isoMode r) 0x1A4 in
      io_bind (io_wrap (\<lambda>e. Errorf ''create ISO file parent %s: %w'' [S dest, W e])
                 (os_MkdirAll_max (filepath_Dir dest) 0x1ED)) (\<lambda>_.
      io_bind (io_wrap (\<lambda>e. Errorf ''create ISO file %s: %w'' [S dest, W e]) (os_OpenTrunc dest mode)) (\<lambda>_.
      io_try (io_bind (file_ReadSection p (unat (isoSize r)) (unat (iso_start r))) (file_Write dest)) (\<lambda>copied.
      io_try file_Close (\<lambda>closed.
      io_bind (io_of (map_err (\<lambda>e. Errorf ''copy ISO file %s: %w'' [S dest, W e]) copied)) (\<lambda>_.
      io_bind (io_of (map_err (\<lambda>e. Errorf ''close ISO file %s: %w'' [S dest, W e]) closed)) (\<lambda>_.
      os_Chmod dest mode)))))))"

fun extractISORecord :: "nat \<Rightarrow> (string \<Rightarrow> string) \<Rightarrow> string \<Rightarrow> int \<Rightarrow> isoDirectoryRecord \<Rightarrow> string \<Rightarrow> unit io" where
  "extractISORecord 0 uni p imageSize r dest = io_fail (errors_New ''stack exhausted'')"
| "extractISORecord (Suc n) uni p imageSize r dest =
     io_bind ctx_Err (\<lambda>_.
     io_bind (io_of (validateISOExtent r imageSize)) (\<lambda>_.
     if isoDir r then
       (let mode = perm_or (isoMode r) 0x1ED in
        io_bind (io_wrap (\<lambda>e. Errorf ''create ISO directory %s: %w'' [S dest, W e]) (os_MkdirAll_max dest mode)) (\<lambda>_.
        io_bind (readISODirectory uni p imageSize r) (\<lambda>records.
        io_bind (io_each (\<lambda>child.
            io_bind (io_of (safeISOPathComponent (isoName child))) (\<lambda>name.
            extractISORecord n uni p imageSize child (filepath_Join [dest, name]))) records) (\<lambda>_.
        os_Chmod dest mode))))
     else writeISOFile p r dest))"

definition node_size :: "node \<Rightarrow> nat" where
  "node_size n = (case n of File d _ \<Rightarrow> length d | _ \<Rightarrow> 0)"

definition max_depth :: nat where "max_depth = 4097"

definition iso_Extract :: "(string \<Rightarrow> string) \<Rightarrow> string \<Rightarrow> string \<Rightarrow> unit io" where
  "iso_Extract uni isoPath dest =
     (if TrimSpace isoPath = [] then io_fail (errors_New ''ISO path is required'')
      else if TrimSpace dest = [] then io_fail (errors_New ''extract destination is required'')
      else io_bind ctx_Err (\<lambda>_.
      io_bind (io_wrap (\<lambda>e. Errorf ''open ISO: %w'' [W e]) (os_Open isoPath)) (\<lambda>_.
      io_bind (io_wrap (\<lambda>e. Errorf ''stat ISO: %w'' [W e]) (os_Stat isoPath)) (\<lambda>info.
      io_bind (readPrimaryVolumeRoot uni isoPath (node_size info)) (\<lambda>root.
      io_bind (io_wrap (\<lambda>e. Errorf ''create extract destination: %w'' [W e]) (os_MkdirAll_max dest 0x1ED)) (\<lambda>_.
      extractISORecord max_depth uni isoPath (int (node_size info)) root dest))))))"

section \<open>Bounds\<close>

text \<open>
  The 64-bit offsets of a record never wrap: the check compares the mathematical end of the extent with
  the image size.
\<close>

lemma unat32: "unat w < 4294967296" for w :: "32 word"
  using unsigned_less [of w, where ?'a = nat] by simp

lemma unat_ucast64: "unat (ucast w :: 64 word) = unat w" for w :: "32 word"
  using unat32 [of w] by (simp add: unsigned_ucast_eq take_bit_eq_mod)

lemma unat_iso_start: "unat (iso_start r) = unat (extent r) * 2048"
  using unat32 [of "extent r"] unat_mult_lem [of "ucast (extent r) :: 64 word" 2048]
  by (simp add: iso_start_def unat_ucast64)

lemma sint_small: "unat w < 9223372036854775808 \<Longrightarrow> sint w = int (unat w)" for w :: "64 word"
proof -
  assume "unat w < 9223372036854775808"
  then have "int (unat w) < int 9223372036854775808" by (simp only: of_nat_less_iff)
  then have "uint w < 9223372036854775808" by simp
  moreover have "- 9223372036854775808 \<le> uint w" by (rule order_trans [OF _ unsigned_greater_eq]) simp
  ultimately have "signed_take_bit 63 (uint w) = uint w" by (intro signed_take_bit_int_eq_self) simp_all
  then show ?thesis by (simp add: sint_uint)
qed

lemma validateISOExtent_iff:
  "validateISOExtent r imageSize = Inr () \<longleftrightarrow> int (unat (extent r) * 2048 + unat (isoSize r)) \<le> imageSize"
proof -
  note e = unat32 [of "extent r"] and z = unat32 [of "isoSize r"]
  let ?stop = "iso_start r + ucast (isoSize r)"
  have u: "unat ?stop = unat (extent r) * 2048 + unat (isoSize r)"
    using e z unat_add_lem [of "iso_start r" "ucast (isoSize r)"] by (simp add: unat_iso_start unat_ucast64)
  define a b where "a = unat (extent r) * 2048" and "b = unat (isoSize r)"
  have "sint (iso_start r) = int a"
    using sint_small [of "iso_start r"] e by (simp add: unat_iso_start a_def)
  moreover have "sint ?stop = int (a + b)"
    using sint_small [of ?stop] e z unfolding u a_def b_def by simp
  ultimately show ?thesis unfolding validateISOExtent_def Let_def a_def [symmetric] b_def [symmetric] by auto
qed

lemma safeISOPathComponent_iff:
  "safeISOPathComponent n = Inr m \<longleftrightarrow> m = n \<and> plain_elem n \<and> CHR 0x00 \<notin> set n"
  by (auto simp: safeISOPathComponent_def plain_elem_def filepath_IsAbs_def Contains_iff sublist_def prefix_def
      dest: split_list)

section \<open>No panics\<close>

lemma byte_at_Inr [simp]: "byte_at s i = Inr b \<longleftrightarrow> i < length s \<and> b = of_char (s ! i)"
  by (auto simp: byte_at_def)

lemma slice_Inr [simp]: "slice s i j = Inr t \<longleftrightarrow> i \<le> j \<and> j \<le> length s \<and> t = take (j - i) (drop i s)"
  by (auto simp: slice_def)

lemma byte_at_panic [simp]: "byte_at s i = Inl e \<longleftrightarrow> length s \<le> i \<and> e = runtime_panic"
  by (auto simp: byte_at_def)

lemma slice_panic [simp]: "slice s i j = Inl e \<longleftrightarrow> (j < i \<or> length s < j) \<and> e = runtime_panic"
  by (auto simp: slice_def)

lemma le_uint32_panic: "length b = 4 \<Longrightarrow> le_uint32 b \<noteq> Inl e"
  by (simp add: le_uint32_def and_then_eq_Inl)

lemma sl_components_panic: "sl_components entry offset parts \<noteq> Inl runtime_panic"
proof (induction entry offset parts rule: sl_components.induct)
  case (1 entry offset parts)
  then show ?case
    by (subst sl_components.simps) (auto simp: and_then_eq_Inl Let_def runtime_panic_def split: if_splits)
qed

lemma rr_entry_panic: "4 \<le> length entry \<Longrightarrow> rr_entry info entry \<noteq> Inl runtime_panic"
  using sl_components_panic [of entry 5 "[]"] le_uint32_panic
  by (auto simp: rr_entry_def parseRockRidgeSymlink_def and_then_eq_Inl split: if_splits)
     (auto simp: runtime_panic_def)

lemma rr_entries_panic: "rr_entries info s \<noteq> Inl runtime_panic"
proof (induction info s rule: rr_entries.induct)
  case (1 info s)
  show ?case
    using 1 rr_entry_panic
    by (subst rr_entries.simps) (auto simp: and_then_eq_Inl runtime_panic_def split: if_splits)
qed

lemma parseISODirectoryRecord_panic: "parseISODirectoryRecord uni data \<noteq> Inl runtime_panic"
  using rr_entries_panic le_uint32_panic
  by (auto simp: parseISODirectoryRecord_def parseRockRidge_def and_then_eq_Inl Let_def runtime_panic_def split: if_splits)

section \<open>Reading leaves the files alone\<close>

lemma fs_pure_iso_reads [fs_pure_intros]:
  "fs_pure ctx_Err" "fs_pure (file_ReadAt p n off)" "fs_pure (file_ReadSection p n off)"
  unfolding ctx_Err_def file_ReadAt_def file_ReadSection_def
  by (rule fs_pure_os_call; auto simp: fs_pure_def split: option.splits node.splits)+

lemma fs_pure_scan_descriptors [fs_pure_intros]: "fs_pure (scan_descriptors uni p offs)"
  by (induction offs) (simp_all only: scan_descriptors.simps, (intro fs_pure_intros | assumption)+)

lemma fs_pure_readPrimaryVolumeRoot [fs_pure_intros]: "fs_pure (readPrimaryVolumeRoot uni p z)"
  unfolding readPrimaryVolumeRoot_def by (rule fs_pure_scan_descriptors)

lemma fs_pure_readISODirectory [fs_pure_intros]: "fs_pure (readISODirectory uni p z r)"
  unfolding readISODirectory_def by (intro fs_pure_intros)

section \<open>Extraction stays below the destination\<close>

lemma within_os_MkdirAll_max:
  "{q. ancestor_or_self q (path_Clean p)} \<subseteq> A \<Longrightarrow> touches_within A (os_MkdirAll_max p mode)"
  unfolding os_MkdirAll_max_def by (intro within_intros within_os_MkdirAll)

lemma touches_os_OpenTrunc: "touches_only (path_Clean p) (os_OpenTrunc p mode)"
  by (auto simp: touches_only_def os_OpenTrunc_def os_call_def refused_def Let_def set_node_def
      split: option.splits node.splits)

lemma writeISOFile_within:
  assumes "d \<noteq> []" and "beneath d d'" and "plain_elem n"
  shows "touches_within (reach d) (writeISOFile p r (filepath_Join [d', n]))"
proof -
  have d': "d' \<noteq> []" using assms(2) by (simp add: beneath_def)
  note here = reach_Join [OF assms]
  have up: "{q. ancestor_or_self q (path_Clean (filepath_Dir (filepath_Join [d', n])))} \<subseteq> reach d"
    using ancestor_reach [OF assms(1,2)] by (auto simp: filepath_Dir_Join [OF d' assms(3)])
  show ?thesis
    unfolding writeISOFile_def Let_def
    by (intro within_intros within_os_MkdirAll_max [OF up] within_touches_only [OF touches_os_OpenTrunc here]
        within_touches_only [OF touches_os(1) here] within_touches_only [OF touches_os(3) here]
        within_fs_pure [OF fs_pure_iso_reads(3)] within_fs_pure [OF fs_pure_reads(5)])
qed

lemma extract_within:
  assumes "d \<noteq> []" and "beneath d dest"
    and "isoDir r \<or> (\<exists>d' n. dest = filepath_Join [d', n] \<and> beneath d d' \<and> plain_elem n)"
  shows "touches_within (reach d) (extractISORecord k uni p imageSize r dest)"
  using assms(2,3)
proof (induction k arbitrary: r dest)
  case (Suc k)
  have up: "{q. ancestor_or_self q (path_Clean dest)} \<subseteq> reach d" using ancestor_reach [OF assms(1) Suc.prems(1)] by auto
  have here: "path_Clean dest \<in> reach d" using beneath_Clean [OF Suc.prems(1)] by (simp add: reach_def)
  have child: "touches_within (reach d) (extractISORecord k uni p imageSize c (filepath_Join [dest, n]))"
    if "safeISOPathComponent m = Inr n" for c m n
    using that Suc.IH [OF beneath_Join [OF Suc.prems(1)]] Suc.prems(1) by (auto simp: safeISOPathComponent_iff)
  have leaf: "touches_within (reach d) (writeISOFile p r dest)" if "\<not> isoDir r"
    using that Suc.prems(2) writeISOFile_within [OF assms(1)] by auto
  show ?case
    unfolding extractISORecord.simps Let_def
    by (intro within_intros within_fs_pure [OF fs_pure_iso_reads(1)] within_os_MkdirAll_max [OF up]
        within_fs_pure [OF fs_pure_readISODirectory] child within_touches_only [OF touches_os(3) here] leaf)
qed (auto intro: within_intros)

lemma readPrimaryVolumeRoot_dir: "readPrimaryVolumeRoot uni p z w = (Inr r, w') \<Longrightarrow> isoDir r"
proof -
  have "scan_descriptors uni p offs w = (Inr r, w') \<Longrightarrow> isoDir r" for offs w
    by (induction offs arbitrary: w) (auto split: if_splits)
  then show "readPrimaryVolumeRoot uni p z w = (Inr r, w') \<Longrightarrow> isoDir r"
    unfolding readPrimaryVolumeRoot_def by blast
qed

section \<open>Nesting is bounded by the length of a path\<close>

lemma length_clean_fold:
  "length (fold (\<lambda>e acc. clean_step r acc e) xs acc) \<le> length acc + length (filter (\<lambda>e. e \<noteq> []) xs)"
proof (induction xs arbitrary: acc)
  case (Cons e xs)
  have "length (clean_step r acc e) \<le> length acc + (if e = [] then 0 else 1)"
    by (cases acc) (auto simp: clean_step.simps)
  with Cons [of "clean_step r acc e"] show ?case by (auto split: if_splits)
qed simp

lemma length_Split_nonempty: "length (filter (\<lambda>e. e \<noteq> []) (Split s c)) \<le> length s"
proof (induction s)
  case (Cons a s)
  then show ?case by (cases "Split s c") (auto split: if_splits)
qed simp

lemma length_path_elems: "length (path_elems p) \<le> length p"
  using length_clean_fold [of "prefix ''/'' p" "Split p (CHR ''/'')" "[]"] length_Split_nonempty [of p "CHR ''/''"]
  by (simp add: path_elems_def)

lemma io_bind_of_cong: "(\<And>x. r = Inr x \<Longrightarrow> k x = k' x) \<Longrightarrow> io_bind (io_of r) k = io_bind (io_of r) k'"
  by (cases r) (auto simp: fun_eq_iff io_bind_def)

text \<open>With 4097 nested calls or more, the number makes no difference.\<close>

lemma extract_fuel_enough:
  assumes "dest \<noteq> []" and "0 < k" and "4097 \<le> k + length (path_elems dest)"
  shows "extractISORecord (k + j) uni p imageSize r dest = extractISORecord k uni p imageSize r dest"
  using assms
proof (induction k arbitrary: r dest)
  case (Suc k)
  show ?case
  proof (cases "path_max \<le> length dest")
    case True
    then show ?thesis by (auto simp: os_MkdirAll_max_def fun_eq_iff io_bind_def io_wrap_def Let_def split: prod.splits sum.splits)
  next
    case False
    then have short: "length (path_elems dest) < 4096" using length_path_elems [of dest] by (simp add: path_max_def)
    have "extractISORecord (k + j) uni p imageSize c (filepath_Join [dest, n]) = extractISORecord k uni p imageSize c (filepath_Join [dest, n])"
      if "safeISOPathComponent m = Inr n" for c m n
    proof -
      have n: "plain_elem n" using that by (simp add: safeISOPathComponent_iff)
      show ?thesis
        using Suc.IH [of "filepath_Join [dest, n]" c] filepath_Join_below [OF Suc.prems(1) n]
          filepath_Join_nonempty [OF Suc.prems(1)] Suc.prems(3) short by simp
    qed
    note step = ext [OF io_bind_of_cong [OF this]]
    have "(\<lambda>child. io_bind (io_of (safeISOPathComponent (isoName child)))
                 (\<lambda>name. extractISORecord (k + j) uni p imageSize child (filepath_Join [dest, name]))) =
               (\<lambda>child. io_bind (io_of (safeISOPathComponent (isoName child)))
                 (\<lambda>name. extractISORecord k uni p imageSize child (filepath_Join [dest, name])))"
      by (rule step)
    then show ?thesis by simp
  qed
qed simp

section \<open>What extraction writes\<close>

text \<open>The files of an image in the order they are written, as a pure function of its bytes.\<close>

definition iso_bytes :: "bytes \<Rightarrow> isoDirectoryRecord \<Rightarrow> bytes" where
  "iso_bytes img r = take (unat (isoSize r)) (drop (unat (extent r) * iso9660SectorSize) img)"

fun iso_files :: "nat \<Rightarrow> (string \<Rightarrow> string) \<Rightarrow> bytes \<Rightarrow> isoDirectoryRecord \<Rightarrow> string \<Rightarrow> (string \<times> bytes) list" where
  "iso_files 0 uni img r dest = []"
| "iso_files (Suc k) uni img r dest =
     (if isoDir r then
        (case iso_records uni (iso_bytes img r) 0 [] of
           Inl e \<Rightarrow> []
         | Inr cs \<Rightarrow> concat (map (\<lambda>c. iso_files k uni img c (filepath_Join [dest, isoName c])) cs))
      else [(path_Clean dest, iso_bytes img r)])"

definition content :: "world \<Rightarrow> string \<Rightarrow> bytes option" where
  "content w q = (case Fs w q of Some (File d _) \<Rightarrow> Some d | _ \<Rightarrow> None)"

definition put_files :: "(string \<times> bytes) list \<Rightarrow> (string \<Rightarrow> bytes option) \<Rightarrow> (string \<Rightarrow> bytes option)" where
  "put_files fs c = fold (\<lambda>(q, d) c. c(q \<mapsto> d)) fs c"

lemma put_files_append: "put_files (xs @ ys) c = put_files ys (put_files xs c)"
  by (simp add: put_files_def)

lemma put_files_other: "q \<notin> fst ` set fs \<Longrightarrow> put_files fs c q = c q"
  unfolding put_files_def by (induction fs arbitrary: c) auto

lemma content_fs: "Fs w' = Fs w \<Longrightarrow> content w' = content w"
  by (simp add: content_def fun_eq_iff)

lemma content_Chmod: "os_Chmod p m w = (Inr (), w') \<Longrightarrow> content w' = content w"
  by (auto simp: os_Chmod_def os_call_Inr content_def fun_eq_iff split: option.splits node.splits)

lemma content_MkdirAll: "os_MkdirAll_max p m w = (Inr (), w') \<Longrightarrow> content w' = content w"
  by (auto simp: os_MkdirAll_max_def os_MkdirAll_def os_call_Inr Let_def content_def fun_eq_iff split: if_splits option.splits)

lemma content_OpenTrunc: "os_OpenTrunc p m w = (Inr (), w') \<Longrightarrow> content w' = (content w)(path_Clean p \<mapsto> [])"
  by (auto simp: os_OpenTrunc_def os_call_Inr content_def fun_eq_iff split: option.splits node.splits)

lemma content_Write:
  "file_Write p d w = (Inr (), w') \<Longrightarrow> content w (path_Clean p) = Some old \<Longrightarrow> content w' = (content w)(path_Clean p \<mapsto> old @ d)"
  by (drule file_Write_Inr) (auto simp: content_def fun_eq_iff)

lemma ReadSection_content:
  "file_ReadSection p n off w = (Inr d, w') \<Longrightarrow> content w (path_Clean p) = Some img \<Longrightarrow> d = take n (drop off img)"
  by (auto simp: file_ReadSection_def os_call_Inr content_def split: option.splits node.splits)

lemma ReadAt_content:
  "file_ReadAt p n off w = (Inr d, w') \<Longrightarrow> content w (path_Clean p) = Some img \<Longrightarrow> d = take n (drop off img) \<and> off + n \<le> length img"
  by (auto simp: file_ReadAt_def os_call_Inr content_def split: option.splits node.splits if_splits)

lemma writeISOFile_content:
  assumes "writeISOFile p r dest w = (Inr (), w')" and "content w (path_Clean p) = Some img"
    and "path_Clean p \<noteq> path_Clean dest"
  shows "content w' = (content w)(path_Clean dest \<mapsto> iso_bytes img r)"
proof -
  from assms(1) obtain w1 w2 w3 w4 w5 m d where
    mk: "os_MkdirAll_max (filepath_Dir dest) 0x1ED w = (Inr (), w1)" and op: "os_OpenTrunc dest m w1 = (Inr (), w2)"
    and rd: "file_ReadSection p (unat (isoSize r)) (unat (iso_start r)) w2 = (Inr d, w3)"
    and wr: "file_Write dest d w3 = (Inr (), w4)"
    and cl: "file_Close w4 = (Inr (), w5)" and ch: "os_Chmod dest m w5 = (Inr (), w')"
    by (auto simp: writeISOFile_def Let_def io_try_iff)
  have c2: "content w2 = (content w)(path_Clean dest \<mapsto> [])"
    using content_MkdirAll [OF mk] content_OpenTrunc [OF op] by simp
  have c3: "content w3 = content w2" using content_fs fs_pureD [OF fs_pure_iso_reads(3) rd] by blast
  have "d = iso_bytes img r"
    using ReadSection_content [OF rd] c2 assms(2,3) by (simp add: iso_bytes_def unat_iso_start iso9660SectorSize_def)
  with content_Write [OF wr, of "[]"] c2 c3 content_fs [OF file_Close_Inr [OF cl]] content_Chmod [OF ch]
  show ?thesis by simp
qed

lemma extract_content:
  assumes "extractISORecord k uni p imageSize r dest w = (Inr (), w')" and "content w (path_Clean p) = Some img"
    and "beneath d dest" and "\<not> beneath d (path_Clean p)"
  shows "content w' = put_files (iso_files k uni img r dest) (content w) \<and> content w' (path_Clean p) = Some img"
  using assms(1-3)
proof (induction k arbitrary: r dest w w')
  case (Suc k)
  show ?case
  proof (cases "isoDir r")
    case False
    with Suc.prems(1) obtain w1 where w1: "ctx_Err w = (Inr (), w1)" and wr: "writeISOFile p r dest w1 = (Inr (), w')"
      by (auto split: if_splits)
    have "content w1 = content w" using content_fs fs_pureD [OF fs_pure_iso_reads(1) w1] by blast
    moreover have "path_Clean p \<noteq> path_Clean dest" using assms(4) beneath_Clean [OF Suc.prems(3)] by auto
    ultimately show ?thesis using writeISOFile_content [OF wr, of img] False Suc.prems(2) by (simp add: put_files_def)
  next
    case True
    let ?f = "\<lambda>child. io_bind (io_of (safeISOPathComponent (isoName child)))
                 (\<lambda>name. extractISORecord k uni p imageSize child (filepath_Join [dest, name]))"
    from Suc.prems(1) True obtain m w1 w2 w3 w4 cs where w1: "ctx_Err w = (Inr (), w1)"
      and mk: "os_MkdirAll_max dest m w1 = (Inr (), w2)" and rd: "readISODirectory uni p imageSize r w2 = (Inr cs, w3)"
      and each: "io_each ?f cs w3 = (Inr (), w4)" and ch: "os_Chmod dest m w4 = (Inr (), w')"
      by (auto simp: Let_def split: if_splits)
    have c3: "content w3 = content w"
      using content_MkdirAll [OF mk] content_fs fs_pureD [OF fs_pure_iso_reads(1) w1] fs_pureD [OF fs_pure_readISODirectory rd]
      by metis
    have c2: "content w2 = content w"
      using content_MkdirAll [OF mk] content_fs fs_pureD [OF fs_pure_iso_reads(1) w1] by metis
    from rd obtain data v0 v1 where v0: "ctx_Err w2 = (Inr (), v0)"
      and ra: "file_ReadAt p (unat (isoSize r)) (unat (iso_start r)) v0 = (Inr data, v1)"
      and cs: "iso_records uni data 0 [] = Inr cs"
      by (auto simp: readISODirectory_def)
    have "content v0 = content w" using c2 content_fs fs_pureD [OF fs_pure_iso_reads(1) v0] by metis
    with ReadAt_content [OF ra] Suc.prems(2) have "data = iso_bytes img r"
      by (simp add: iso_bytes_def unat_iso_start iso9660SectorSize_def)
    with cs have recs: "iso_records uni (iso_bytes img r) 0 [] = Inr cs" by simp
    let ?fs = "\<lambda>cs. concat (map (\<lambda>c. iso_files k uni img c (filepath_Join [dest, isoName c])) cs)"
    have "content v' = put_files (?fs cs) (content v) \<and> content v' (path_Clean p) = Some img"
      if "io_each ?f cs v = (Inr (), v')" "content v (path_Clean p) = Some img" for cs v v'
      using that
    proof (induction cs arbitrary: v)
      case (Cons c cs)
      from Cons.prems(1) obtain v1 where "?f c v = (Inr (), v1)" and e2: "io_each ?f cs v1 = (Inr (), v')"
        by (simp only: io_each_Inr_Cons) blast
      then have e1: "extractISORecord k uni p imageSize c (filepath_Join [dest, isoName c]) v = (Inr (), v1)"
        and n: "plain_elem (isoName c)"
        by (auto simp: safeISOPathComponent_iff)
      note v1 = Suc.IH [OF e1 Cons.prems(2) beneath_Join [OF Suc.prems(3) n]]
      with Cons.IH [OF e2] show ?case by (auto simp: put_files_append)
    qed (simp add: put_files_def)
    from this [OF each] c3 Suc.prems(2) recs True content_Chmod [OF ch] show ?thesis by auto
  qed
qed simp

lemma scan_descriptors_content:
  assumes "scan_descriptors uni p offs w = (Inr r, w')" and "content w (path_Clean p) = Some img"
  shows "\<exists>off \<in> set offs. parseISODirectoryRecord uni (drop 156 (take iso9660SectorSize (drop off img))) = Inr r"
  using assms
proof (induction offs arbitrary: w)
  case (Cons off offs)
  from Cons.prems(1) obtain d w1 where rd: "file_ReadAt p iso9660SectorSize off w = (Inr d, w1)"
    and rest: "(isoDir r \<and> parseISODirectoryRecord uni (drop 156 d) = Inr r) \<or> scan_descriptors uni p offs w1 = (Inr r, w')"
    by (auto split: if_splits)
  have "content w1 = content w" using content_fs fs_pureD [OF fs_pure_iso_reads(2) rd] by blast
  with rest Cons.IH [of w1] Cons.prems(2) ReadAt_content [OF rd Cons.prems(2)] show ?case by auto
qed simp

section \<open>Properties\<close>

text \<open>C12: An extent that passes the check lies inside the image, as mathematical integers: the 64-bit
  arithmetic of the check cannot wrap around.\<close>

theorem validateISOExtent_exact:
  "(validateISOExtent r imageSize = Inr ()) = (int (unat (extent r) * 2048 + unat (isoSize r)) \<le> imageSize)"
  by (rule validateISOExtent_iff)

text \<open>C13: Parsing a directory record never indexes out of range, whatever bytes the image holds.\<close>

theorem parse_record_no_panic:
  "parseISODirectoryRecord uni data \<noteq> Inl runtime_panic"
  by (rule parseISODirectoryRecord_panic)

lemma iso_Extract_touches:
  "touches_within (reach dest) (iso_Extract uni isoPath dest)"
proof (cases "dest = []")
  case True
  then show ?thesis by (auto simp: iso_Extract_def intro: within_intros)
next
  case False
  have up: "{q. ancestor_or_self q (path_Clean dest)} \<subseteq> reach dest" by (auto simp: reach_def)
  show ?thesis
    unfolding iso_Extract_def
    by (intro within_bind_dep [OF within_fs_pure [OF fs_pure_readPrimaryVolumeRoot]] within_intros
        within_os_MkdirAll_max [OF up] extract_within [OF False beneath_self [OF False]] disjI1
        within_fs_pure [OF fs_pure_iso_reads(1)] within_fs_pure [OF fs_pure_reads(3)] within_fs_pure [OF fs_pure_reads(4)])
       (rule readPrimaryVolumeRoot_dir)
qed

text \<open>C14: Whatever the image contains and however the extraction ends, it changes nothing outside the
  destination except the destination's own missing parents.\<close>

theorem iso_Extract_confined:
  "touches_within (reach dest) (iso_Extract uni isoPath dest)"
  by (rule iso_Extract_touches)

text \<open>C15: The recursion of an extraction is bounded on every image, cyclic directories included: allowing more
  nested calls never changes what an extraction does.\<close>

theorem iso_Extract_terminates:
  "extractISORecord (max_depth + j) uni p imageSize r (CHR ''/'' # dest) =
   extractISORecord max_depth uni p imageSize r (CHR ''/'' # dest)"
  by (rule extract_fuel_enough) (simp_all add: max_depth_def)

text \<open>C16: After a successful extraction of a record the files are those of the image, each with the bytes of
  its extent, in the order of the directory records, and every other file keeps its content; the image
  must not lie below the destination.\<close>

theorem extract_contents:
  assumes "extractISORecord k uni p imageSize r dest w = (Inr (), w')" and "content w (path_Clean p) = Some img"
    and "dest \<noteq> []" and "\<not> beneath dest (path_Clean p)"
  shows "content w' = put_files (iso_files k uni img r dest) (content w)"
  using extract_content [OF assms(1,2) beneath_self [OF assms(3)] assms(4)] by simp

definition tiny_image :: bytes where
  "tiny_image = [CHR 0x23] @ replicate 9 (CHR 0x00) @ [CHR 0x04, CHR 0x00, CHR 0x00, CHR 0x00] @ replicate 18 (CHR 0x00) @ [CHR 0x01] @ ''A'' @ [CHR 0x00]"

definition tiny_root :: isoDirectoryRecord where
  "tiny_root = \<lparr>isoName = ''.'', extent = 0, isoSize = 35, isoMode = 0, isoDir = True, isoSpecial = True\<rparr>"

definition tiny_world :: world where
  "tiny_world = \<lparr>Fs = [''/i'' \<mapsto> File tiny_image 420], Faults = (\<lambda>_. None), Calls = 0, TempName = (\<lambda>n. n),
     Net = (\<lambda>_ _ _. NetError (errors_New ''down'')), Requests = [], Console = []\<rparr>"

theorem extract_contents_witness:
  "content (snd (extractISORecord 2 id ''/i'' 35 tiny_root ''/d'' tiny_world)) ''/d/a'' = Some [CHR 0x23, CHR 0x00, CHR 0x00, CHR 0x00]"
proof -
  let ?run = "extractISORecord 2 id ''/i'' 35 tiny_root ''/d'' tiny_world"
  have ok: "fst ?run = Inr ()" by code_simp
  have files: "iso_files 2 id tiny_image tiny_root ''/d'' = [(''/d/a'', [CHR 0x23, CHR 0x00, CHR 0x00, CHR 0x00])]" by code_simp
  have clean: "path_Clean ''/i'' = ''/i''" and el: "path_elems ''/i'' = [''i'']" "path_elems ''/d'' = [''d'']" by code_simp+
  have "content tiny_world (path_Clean ''/i'') = Some tiny_image" by (simp add: clean content_def tiny_world_def)
  moreover have "\<not> beneath ''/d'' (path_Clean ''/i'')" by (simp add: clean beneath_def el)
  ultimately have "content (snd ?run) = put_files (iso_files 2 id tiny_image tiny_root ''/d'') (content tiny_world)"
    using ok by (intro extract_contents [of 2 id "''/i''" 35 tiny_root "''/d''" tiny_world]) (simp_all add: prod_eq_iff)
  then show ?thesis by (simp add: files put_files_def)
qed

text \<open>The same for a whole image, whose root record is that of one of its volume descriptors.\<close>

lemma iso_Extract_contents:
  assumes "iso_Extract uni isoPath dest w = (Inr (), w')" and "content w (path_Clean isoPath) = Some img"
    and "\<not> beneath dest (path_Clean isoPath)"
  shows "\<exists>root off. isoDir root \<and>
    parseISODirectoryRecord uni (drop 156 (take iso9660SectorSize (drop off img))) = Inr root \<and> content w' = put_files (iso_files max_depth uni img root dest) (content w)"
proof -
  from assms(1) obtain w1 w2 w3 w4 w5 n root where w1: "ctx_Err w = (Inr (), w1)"
    and w2: "os_Open isoPath w1 = (Inr (), w2)" and w3: "os_Stat isoPath w2 = (Inr n, w3)"
    and rt: "readPrimaryVolumeRoot uni isoPath (node_size n) w3 = (Inr root, w4)"
    and mk: "os_MkdirAll_max dest 0x1ED w4 = (Inr (), w5)"
    and ex: "extractISORecord max_depth uni isoPath (int (node_size n)) root dest w5 = (Inr (), w')"
    by (auto simp: iso_Extract_def split: if_splits)
  have dest: "dest \<noteq> []" using assms(1) by (auto simp: iso_Extract_def split: if_splits)
  have fs3: "Fs w3 = Fs w"
    using fs_pureD [OF fs_pure_iso_reads(1) w1] fs_pureD [OF fs_pure_reads(4) w2] fs_pureD [OF fs_pure_reads(3) w3] by simp
  then have "content w3 (path_Clean isoPath) = Some img" using content_fs assms(2) by metis
  from scan_descriptors_content [OF rt [unfolded readPrimaryVolumeRoot_def] this]
  obtain off where off: "parseISODirectoryRecord uni (drop 156 (take iso9660SectorSize (drop off img))) = Inr root" by blast
  have "Fs w4 = Fs w" using fs3 fs_pureD [OF fs_pure_readPrimaryVolumeRoot rt] by simp
  then have "content w5 = content w" using content_MkdirAll [OF mk] content_fs by metis
  with extract_content [OF ex _ beneath_self [OF dest] assms(3)] assms(2) readPrimaryVolumeRoot_dir [OF rt] off
  show ?thesis by auto
qed

end
