(* ===== verification/Mfsbsd.thy ===== *)
theory Mfsbsd
  imports LinuxGeneric Iso9660
begin

text \<open>
  The mfsBSD provider (\<^verbatim>\<open>internal/providers/mfsbsd/provider.go\<close>): the plan of a FreeBSD kboot target and its
  staging, which downloads and checks two archives, unpacks the ISO image and the loader archive below the
  staging directory and completes the loader's command line.

  The decompressors are parameters: what \<open>gzip.NewReader\<close> and \<open>xz.NewReader\<close> with \<open>tar.NewReader\<close> make of
  their input.  A stream may fail after part of its data was delivered.
\<close>

section \<open>Parameters\<close>

record TarEntry =
  HeaderName :: string
  IsRegular :: bool
  TarData :: "bytes \<times> go_error option"

record codecs =
  gzip_NewReader :: "bytes \<Rightarrow> (bytes \<times> go_error option) result"
  xz_tar_NewReader :: "bytes \<Rightarrow> (TarEntry list \<times> go_error option) result"
  unicode_ToLower :: "string \<Rightarrow> string"

section \<open>Planning\<close>

definition mfs_providerID :: string where "mfs_providerID = ''mfsbsd''"
definition mfs_targetID :: string where "mfs_targetID = ''mfsbsd-142-amd64''"

definition defaultLoaderArchiveURL :: string where
  "defaultLoaderArchiveURL = ''https://download.freebsd.org/releases/amd64/amd64/15.0-RELEASE/base.txz''"
definition defaultLoaderArchiveSHA256 :: string where
  "defaultLoaderArchiveSHA256 = ''ac0c933cc02ee8af4da793f551e4a9a15cdcf0e67851290b1e8c19dd6d30bba8''"

definition mfs_defaultTargets :: "Target list" where
  "mfs_defaultTargets =
     [\<lparr>TID = mfs_targetID, ProviderID = mfs_providerID, Name = ''mfsBSD 14.2 amd64'', Action = BootActionFreeBSDKboot,
       Catalog = \<lparr>Distribution = mfs_providerID, Release = ''14.2'', Architecture = ''amd64'', Kind = ''rescue''\<rparr>,
       Source = empty_SourceEntry\<lparr>BaseURL := ''https://mfsbsd.vx.sk/files/iso/14/amd64'',
         ISOName := ''mfsbsd-14.2-RELEASE-amd64.iso'',
         ISOSHA256 := ''2803be01ef284cb4d58c9177475c7a20ac72292e4943bc91eb159c592bfc3b5c''\<rparr>,
       Lifecycle = \<lparr>Status = LifecycleSupported, LSource = ''catalog'', Date = []\<rparr>,
       Options = [\<lparr>OptID = ''hostname'', OptLabel = ''Hostname'', OptType = TargetOptionString, Fragment = [],
                   Values = [], Template = ''mfsbsd.hostname={value}'', Secret = False\<rparr>],
       Secrets = []\<rparr>]"

text \<open>The extractor of the configuration, when it has one, replaces the ISO9660 reader.\<close>

record MfsbsdConfig =
  CfgTargets :: "Target list option"
  CfgLoaderArchiveURL :: string
  CfgLoaderArchiveSHA256 :: string
  CfgExtractor :: "(string \<Rightarrow> string \<Rightarrow> unit io) option"

record MfsbsdProvider =
  mfs_targets :: "Target list"
  loaderArchiveURL :: string
  loaderArchiveSHA256 :: string
  mfs_extractor :: "(string \<Rightarrow> string \<Rightarrow> unit io) option"

definition mfs_NewProvider :: "MfsbsdConfig \<Rightarrow> MfsbsdProvider" where
  "mfs_NewProvider c =
     (let u = TrimSpace (CfgLoaderArchiveURL c); h = ToLower (TrimSpace (CfgLoaderArchiveSHA256 c)) in
      \<lparr>mfs_targets = (case CfgTargets c of None \<Rightarrow> mfs_defaultTargets | Some ts \<Rightarrow> ts),
       loaderArchiveURL = (if u = [] then defaultLoaderArchiveURL else u),
       loaderArchiveSHA256 = (if h = [] then defaultLoaderArchiveSHA256 else h),
       mfs_extractor = CfgExtractor c\<rparr>)"

definition mfs_selectedTarget :: "MfsbsdProvider \<Rightarrow> Target \<Rightarrow> Target result" where
  "mfs_selectedTarget p t =
     (case find_target (mfs_targets p) (TID t) of
        Some selected \<Rightarrow> Inr selected
      | None \<Rightarrow> and_then (ValidateTarget mfs_providerID t) (\<lambda>_. Inr t))"

definition artifactNameFromURL :: "string \<Rightarrow> string \<Rightarrow> string" where
  "artifactNameFromURL rawURL fallback =
     (case url_Parse rawURL of
        None \<Rightarrow> fallback
      | Some parsed \<Rightarrow> let name = path_Base (url_Path parsed) in if name = ''.'' \<or> name = ''/'' then fallback else name)"

definition mfs_plan :: "MfsbsdProvider \<Rightarrow> Target \<Rightarrow> string \<Rightarrow> BootPlan" where
  "mfs_plan p t baseURL =
     (plan_for t)
       \<lparr>BAction := BootActionFreeBSDKboot,
        FreeBSDKboot := empty_FreeBSDKbootPlan
          \<lparr>Payload := \<lparr>AName = ISOName (Source t), URL = joinURLPath baseURL (ISOName (Source t)),
                       SHA256 = ISOSHA256 (Source t), Path = []\<rparr>,
           LoaderArchive := \<lparr>AName = artifactNameFromURL (loaderArchiveURL p) ''base.txz'', URL = loaderArchiveURL p,
                             SHA256 = loaderArchiveSHA256 p, Path = []\<rparr>\<rparr>\<rparr>"

definition mfs_Plan :: "MfsbsdProvider \<Rightarrow> PlanInput \<Rightarrow> BootPlan result" where
  "mfs_Plan p input =
     and_then (mfs_selectedTarget p (PTarget input)) (\<lambda>t.
       if ResolveBootAction (Action t) \<noteq> BootActionFreeBSDKboot then
         Inl (Errorf ''unsupported mfsBSD boot action %q for target %s'' [S (Action t), S (TID t)])
       else if Distribution (Catalog t) \<noteq> mfs_providerID then
         Inl (Errorf ''unsupported mfsBSD distribution %q for target %s'' [S (Distribution (Catalog t)), S (TID t)])
       else if Architecture (Catalog t) \<noteq> ''amd64'' then
         Inl (Errorf ''unsupported mfsBSD architecture %q for target %s'' [S (Architecture (Catalog t)), S (TID t)])
       else let baseURL = TrimRight (BaseURL (Source t)) (CHR ''/'') in
       if baseURL = [] then Inl (Errorf ''source base URL is required for mfsBSD target %s'' [S (TID t)])
       else if ISOName (Source t) = [] then Inl (Errorf ''source ISO name is required for mfsBSD target %s'' [S (TID t)])
       else if ISOSHA256 (Source t) = [] then Inl (Errorf ''source ISO SHA256 is required for mfsBSD target %s'' [S (TID t)])
       else ApplySelectedOptions (mfs_plan p t baseURL) (POptions input))"

section \<open>Downloading\<close>

definition validateArtifact :: "string \<Rightarrow> Artifact \<Rightarrow> unit result" where
  "validateArtifact label a =
     (if TrimSpace (URL a) = [] then Inl (Errorf ''%s URL is required'' [S label])
      else if TrimSpace (SHA256 a) = [] then Inl (Errorf ''%s SHA256 is required'' [S label])
      else Inr ())"

definition mfs_fetchStageVerify :: "('k, 'b) crypto \<Rightarrow> string \<Rightarrow> Artifact \<Rightarrow> StageProgressFunc option \<Rightarrow> string io" where
  "mfs_fetchStageVerify C dir a progress =
     (let name = (if AName a = [] then artifactNameFromURL (URL a) [] else AName a) in
      io_bind (reportProgress progress StageOperationFetch StageStateStarted name) (\<lambda>_.
      io_bind (io_wrap (\<lambda>e. Errorf ''fetch %s: %w'' [S (AName a), W e]) (Fetch (URL a))) (\<lambda>data.
      io_bind (reportProgress progress StageOperationFetch StageStateCompleted name) (\<lambda>_.
      if name = [] \<or> path_Base name \<noteq> name then io_fail (Errorf ''artifact name %q must be a filename'' [S name])
      else
        io_bind (verifyWithProgress (verify_SHA256 C \<lparr>HArtifact = Some (Inr data), HExpectedSHA256 = SHA256 a, HName = name\<rparr>)
                   name progress) (\<lambda>_.
        writeWithProgress dir name data progress)))))"

section \<open>Unpacking\<close>

text \<open>The errors of the two functions that replace a file through a temporary one.\<close>

definition archive_write_error :: "string \<Rightarrow> go_error \<Rightarrow> string \<Rightarrow> string \<Rightarrow> go_error \<Rightarrow> go_error" where
  "archive_write_error targetPath copied step tmp e =
     (if step = ''create'' then Errorf ''create temp %s: %w'' [S targetPath, W e]
      else if step = ''write'' then copied
      else if step = ''close'' then Errorf ''close %s: %w'' [S tmp, W e]
      else if step = ''chmod'' then Errorf ''chmod %s: %w'' [S tmp, W e]
      else Errorf ''stage %s: %w'' [S targetPath, W e])"

definition gunzip_beside :: "codecs \<Rightarrow> string \<Rightarrow> unit io" where
  "gunzip_beside K targetPath =
     (let sourcePath = targetPath @ ''.gz'' in
      io_bind (io_wrap (\<lambda>e. Errorf ''open %s: %w'' [S sourcePath, W e]) (os_Open sourcePath)) (\<lambda>_.
      io_bind (io_wrap (\<lambda>e. Errorf ''open gzip %s: %w'' [S sourcePath, W e])
                 (io_bind (file_ReadAll sourcePath) (\<lambda>packed. io_of (gzip_NewReader K packed)))) (\<lambda>stream.
      io_bind (io_wrap (\<lambda>e. Errorf ''create %s parent: %w'' [S targetPath, W e]) (os_MkdirAll (filepath_Dir targetPath) 0x1ED)) (\<lambda>_.
      replace_file_from (\<lambda>step tmp e. archive_write_error targetPath (Errorf ''decompress %s: %w'' [S sourcePath, W e]) step tmp e)
        (filepath_Dir targetPath) (''.'' @ path_Base targetPath @ ''.'') stream (Some 0x1A4) targetPath))))"

definition normalizeGzipFile :: "codecs \<Rightarrow> string \<Rightarrow> unit io" where
  "normalizeGzipFile K targetPath =
     io_try (os_Stat targetPath) (\<lambda>st. case st of
       Inr _ \<Rightarrow> io_return ()
     | Inl e \<Rightarrow>
         if \<not> errors_is e OsErrNotExist then io_fail (Errorf ''stat %s: %w'' [S targetPath, W e])
         else gunzip_beside K targetPath)"

definition normalizeMemoryRoot :: "codecs \<Rightarrow> string \<Rightarrow> unit io" where
  "normalizeMemoryRoot K root =
     io_each (\<lambda>name. normalizeGzipFile K (filepath_Join [root, name])) [filepath_Join [''boot'', ''kernel'', ''kernel''], ''mfsroot'']"

definition writeArchiveMember :: "string \<Rightarrow> bytes \<times> go_error option \<Rightarrow> nat \<Rightarrow> unit io" where
  "writeArchiveMember targetPath src mode =
     replace_file_from (\<lambda>step tmp e. archive_write_error targetPath (Errorf ''extract %s: %w'' [S targetPath, W e]) step tmp e)
       (filepath_Dir targetPath) (''.'' @ path_Base targetPath @ ''.'') src (Some mode) targetPath"

fun extract_members :: "string \<Rightarrow> string \<Rightarrow> bool \<Rightarrow> bool \<Rightarrow> go_error option \<Rightarrow> TarEntry list \<Rightarrow> (bool \<times> bool) io" where
  "extract_members loaderPath helpPath foundLoader foundHelp final [] =
     (case final of
        None \<Rightarrow> io_return (foundLoader, foundHelp)
      | Some e \<Rightarrow> io_fail (Errorf ''read FreeBSD loader archive: %w'' [W e]))"
| "extract_members loaderPath helpPath foundLoader foundHelp final (h # hs) =
     (if \<not> IsRegular h then extract_members loaderPath helpPath foundLoader foundHelp final hs
      else let name = TrimPrefix (path_Clean (HeaderName h)) ''./'' in
      if name = ''boot/loader.kboot'' then
        io_bind (writeArchiveMember loaderPath (TarData h) 0x16D) (\<lambda>_.
        extract_members loaderPath helpPath True foundHelp final hs)
      else if name = ''boot/loader.help.kboot'' then
        io_bind (writeArchiveMember helpPath (TarData h) 0x124) (\<lambda>_.
        extract_members loaderPath helpPath foundLoader True final hs)
      else extract_members loaderPath helpPath foundLoader foundHelp final hs)"

definition extractLoaderArchive :: "codecs \<Rightarrow> bytes \<Rightarrow> string \<Rightarrow> (string \<times> string) io" where
  "extractLoaderArchive K data dir =
     io_bind (io_of (map_err (\<lambda>e. Errorf ''open FreeBSD loader archive xz: %w'' [W e]) (xz_tar_NewReader K data))) (\<lambda>(hs, final).
     let loaderPath = filepath_Join [dir, ''loader.kboot'']; helpPath = filepath_Join [dir, ''loader.help.kboot''] in
     io_bind (extract_members loaderPath helpPath False False final hs) (\<lambda>(foundLoader, foundHelp).
     if \<not> foundLoader then io_fail (errors_New ''FreeBSD loader archive missing boot/loader.kboot'')
     else if \<not> foundHelp then io_fail (errors_New ''FreeBSD loader archive missing boot/loader.help.kboot'')
     else io_return (loaderPath, helpPath)))"

definition defaultLoaderArgs :: "string \<Rightarrow> string list" where
  "defaultLoaderArgs payloadRoot =
     [''hostfs_root='' @ payloadRoot, ''bootdev=host:/'', ''boot_serial=YES'', ''boot_multicons=YES'', ''boot_verbose=YES'',
      ''autoboot_delay=0'', ''beastie_disable=YES'', ''mfsbsd.autodhcp=YES'', ''mfsbsd.hostname=mfsbsd'']"

section \<open>Staging\<close>

definition mfs_FetchAndStageArtifacts ::
  "('k, 'b) crypto \<Rightarrow> codecs \<Rightarrow> (string \<Rightarrow> string \<Rightarrow> unit io) \<Rightarrow> BootPlan \<Rightarrow> string \<Rightarrow> StageProgressFunc option \<Rightarrow> BootPlan io" where
  "mfs_FetchAndStageArtifacts C K extract plan stagingDir progress =
     (if stagingDir = [] then io_fail (errors_New ''staging dir is required'')
      else if ResolveBootAction (BAction plan) \<noteq> BootActionFreeBSDKboot then
        io_fail (Errorf ''unsupported mfsBSD boot action %q'' [S (BAction plan)])
      else let kboot = FreeBSDKboot plan; selectedArgs = Args kboot in
      io_bind (io_of (validateArtifact ''mfsBSD ISO'' (Payload kboot))) (\<lambda>_.
      io_bind (io_of (validateArtifact ''FreeBSD loader archive'' (LoaderArchive kboot))) (\<lambda>_.
      io_bind (io_of (requireHTTPS ''mfsBSD'' [URL (Payload kboot), URL (LoaderArchive kboot)])) (\<lambda>_.
      io_bind (io_wrap (\<lambda>e. Errorf ''create staging dir: %w'' [W e]) (os_MkdirAll stagingDir 0x1ED)) (\<lambda>_.
      io_bind (mfs_fetchStageVerify C stagingDir (Payload kboot) progress) (\<lambda>isoPath.
      io_bind (mfs_fetchStageVerify C stagingDir (LoaderArchive kboot) progress) (\<lambda>archivePath.
      io_bind (io_wrap (\<lambda>e. Errorf ''create mfsBSD payload root: %w'' [W e]) (os_MkdirTemp stagingDir ''mfsbsd-root-'')) (\<lambda>payloadRoot.
      io_bind (reportProgress progress StageOperationExtract StageStateStarted ''mfsBSD ISO'') (\<lambda>_.
      io_bind (io_wrap (\<lambda>e. Errorf ''extract mfsBSD ISO: %w'' [W e]) (extract isoPath payloadRoot)) (\<lambda>_.
      io_bind (reportProgress progress StageOperationExtract StageStateCompleted ''mfsBSD ISO'') (\<lambda>_.
      io_bind (normalizeMemoryRoot K payloadRoot) (\<lambda>_.
      io_bind (io_wrap (\<lambda>e. Errorf ''create FreeBSD kboot staging dir: %w'' [W e]) (os_MkdirTemp stagingDir ''freebsd-kboot-'')) (\<lambda>loaderDir.
      io_bind (io_wrap (\<lambda>e. Errorf ''read FreeBSD loader archive: %w'' [W e]) (os_ReadFile archivePath)) (\<lambda>archiveData.
      io_bind (reportProgress progress StageOperationExtract StageStateStarted ''FreeBSD loader archive'') (\<lambda>_.
      io_bind (extractLoaderArchive K archiveData loaderDir) (\<lambda>(loader, loaderHelp).
      io_bind (reportProgress progress StageOperationExtract StageStateCompleted ''FreeBSD loader archive'') (\<lambda>_.
      io_return (plan\<lparr>FreeBSDKboot := kboot
        \<lparr>Payload := (Payload kboot)\<lparr>Path := isoPath\<rparr>, LoaderArchive := (LoaderArchive kboot)\<lparr>Path := archivePath\<rparr>,
         Loader := \<lparr>AName = ''loader.kboot'', URL = [], SHA256 = [], Path = loader\<rparr>,
         LoaderHelp := \<lparr>AName = ''loader.help.kboot'', URL = [], SHA256 = [], Path = loaderHelp\<rparr>,
         PayloadRoot := payloadRoot, Args := defaultLoaderArgs payloadRoot @ selectedArgs\<rparr>\<rparr>))))))))))))))))))"

definition mfs_unpack :: "codecs \<Rightarrow> MfsbsdProvider \<Rightarrow> string \<Rightarrow> string \<Rightarrow> unit io" where
  "mfs_unpack K p = (case mfs_extractor p of None \<Rightarrow> iso_Extract (unicode_ToLower K) | Some f \<Rightarrow> f)"

definition mfs_Stage :: "('k, 'b) crypto \<Rightarrow> codecs \<Rightarrow> MfsbsdProvider \<Rightarrow> StageConfig \<Rightarrow> BootPlan io" where
  "mfs_Stage C K p cfg =
     mfs_FetchAndStageArtifacts C K (mfs_unpack K p) (CPlan cfg) (StagingDir cfg) (Progress cfg)"

definition mfs_Provider :: "('k, 'b) crypto \<Rightarrow> codecs \<Rightarrow> MfsbsdProvider \<Rightarrow> Provider" where
  "mfs_Provider C K p = \<lparr>ProvID = mfs_providerID, ProvTargets = io_return (mfs_targets p),
     ProvPlan = (\<lambda>i. io_of (mfs_Plan p i)), ProvDiscoverer = None, ProvStager = Some (mfs_Stage C K p)\<rparr>"

section \<open>What a successful run did\<close>

lemma mfs_fetchStageVerify_Inr:
  assumes "mfs_fetchStageVerify C dir a progress w = (Inr p, w')" and "quiet progress" and "AName a \<noteq> []"
  shows "p = filepath_Join [dir, AName a] \<and>
    (\<exists>d m. sha256_hex C d = ToLower (SHA256 a) \<and> Fs w' = (Fs w)(path_Clean p \<mapsto> File d m))"
proof -
  from assms(1,3) obtain d w0 w1 w2 w3
    where "reportProgress progress StageOperationFetch StageStateStarted (AName a) w = (Inr (), w0)"
      "Fetch (URL a) w0 = (Inr d, w1)"
      "reportProgress progress StageOperationFetch StageStateCompleted (AName a) w1 = (Inr (), w2)"
    and v: "verifyWithProgress (verify_SHA256 C \<lparr>HArtifact = Some (Inr d), HExpectedSHA256 = SHA256 a, HName = AName a\<rparr>)
              (AName a) progress w2 = (Inr (), w3)"
    and wr: "writeWithProgress dir (AName a) d progress w3 = (Inr p, w')"
    by (auto simp: mfs_fetchStageVerify_def Let_def split: if_splits)
  then have "Fs w2 = Fs w"
    using fs_pureD [OF fs_pure_reportProgress [OF assms(2)]] fs_pureD [OF fs_pure_Fetch(2)] by metis
  moreover have "Fs w3 = Fs w2" using v fs_pureD [OF fs_pure_verifyWithProgress [OF assms(2)]] by blast
  moreover have "sha256_hex C d = ToLower (SHA256 a)" using verifyWithProgress_Inr [OF v] by (auto simp: verify_SHA256_iff)
  ultimately show ?thesis using writeWithProgress_Inr [OF wr assms(2)] by auto
qed

lemma os_MkdirTemp_Inr:
  assumes "os_MkdirTemp dir pre w = (Inr p, w')"
  shows "p = filepath_Join [dir, pre @ itoa (TempName w (Calls w))] \<and> Fs w (path_Clean p) = None \<and>
         Fs w' = (Fs w)(path_Clean p \<mapsto> Dir 448)"
  using assms by (auto simp: os_MkdirTemp_def os_call_Inr Let_def split: if_splits)

text \<open>The member an archive leaves on disk is the last regular one of that name.\<close>

definition member :: "string \<Rightarrow> TarEntry list \<Rightarrow> TarEntry option" where
  "member name hs = find (\<lambda>h. IsRegular h \<and> TrimPrefix (path_Clean (HeaderName h)) ''./'' = name) (rev hs)"

definition placed :: "string \<Rightarrow> TarEntry list \<Rightarrow> nat \<Rightarrow> node option \<Rightarrow> node option" where
  "placed name hs mode old = (case member name hs of None \<Rightarrow> old | Some h \<Rightarrow> Some (File (fst (TarData h)) mode))"

lemma find_snoc: "find P (xs @ [x]) = (case find P xs of None \<Rightarrow> if P x then Some x else None | Some y \<Rightarrow> Some y)"
  by (induction xs) auto

lemma member_Cons:
  "member name (h # hs) = (case member name hs of
     None \<Rightarrow> if IsRegular h \<and> TrimPrefix (path_Clean (HeaderName h)) ''./'' = name then Some h else None
   | Some x \<Rightarrow> Some x)"
  by (simp add: member_def find_snoc)

lemma extract_members_Inr:
  assumes "extract_members lp hp fl fh final hs w = (Inr (fl', fh'), w')" and "path_Clean lp \<noteq> path_Clean hp"
  shows "final = None \<and> (fl' \<longleftrightarrow> fl \<or> member ''boot/loader.kboot'' hs \<noteq> None) \<and>
    (fh' \<longleftrightarrow> fh \<or> member ''boot/loader.help.kboot'' hs \<noteq> None) \<and>
    Fs w' = (Fs w)(path_Clean lp := placed ''boot/loader.kboot'' hs 365 (Fs w (path_Clean lp)),
                   path_Clean hp := placed ''boot/loader.help.kboot'' hs 292 (Fs w (path_Clean hp)))"
  using assms(1)
proof (induction hs arbitrary: fl fh w)
  case Nil
  then show ?case by (auto simp: member_def placed_def split: option.splits)
next
  case (Cons h hs)
  let ?name = "TrimPrefix (path_Clean (HeaderName h)) ''./''"
  consider (skip) "\<not> IsRegular h \<or> ?name \<noteq> ''boot/loader.kboot'' \<and> ?name \<noteq> ''boot/loader.help.kboot''"
    | (loader) "IsRegular h" "?name = ''boot/loader.kboot''" | (helpfile) "IsRegular h" "?name = ''boot/loader.help.kboot''"
    by blast
  then show ?case
  proof cases
    case skip
    then have "extract_members lp hp fl fh final hs w = (Inr (fl', fh'), w')" using Cons.prems by (auto simp: Let_def split: if_splits)
    from Cons.IH [OF this] skip show ?thesis
      by (auto simp: member_Cons placed_def split: option.splits)
  next
    case loader
    then obtain w1 where wr: "writeArchiveMember lp (TarData h) 365 w = (Inr (), w1)"
      and rest: "extract_members lp hp True fh final hs w1 = (Inr (fl', fh'), w')"
      using Cons.prems by (auto simp: Let_def)
    have "Fs w1 = (Fs w)(path_Clean lp \<mapsto> File (fst (TarData h)) 365)"
      using replace_file_from_Inr [OF wr [unfolded writeArchiveMember_def]] by simp
    with Cons.IH [OF rest] loader assms(2) show ?thesis
      by (auto simp: member_Cons placed_def fun_upd_twist split: option.splits)
  next
    case helpfile
    then obtain w1 where wr: "writeArchiveMember hp (TarData h) 292 w = (Inr (), w1)"
      and rest: "extract_members lp hp fl True final hs w1 = (Inr (fl', fh'), w')"
      using Cons.prems by (auto simp: Let_def)
    have "Fs w1 = (Fs w)(path_Clean hp \<mapsto> File (fst (TarData h)) 292)"
      using replace_file_from_Inr [OF wr [unfolded writeArchiveMember_def]] by simp
    with Cons.IH [OF rest] helpfile assms(2) show ?thesis
      by (auto simp: member_Cons placed_def fun_upd_twist split: option.splits)
  qed
qed

text \<open>A file beside a fresh directory is out of reach of what unpacks into that directory.\<close>

lemma sibling_out_of_reach:
  assumes d: "d \<noteq> []" and n: "plain_elem n" and m: "plain_elem m" and "n \<noteq> m"
  shows "path_Clean (filepath_Join [d, n]) \<notin> reach (filepath_Join [d, m])"
proof -
  let ?r = "prefix ''/'' d" and ?E = "path_elems d"
  have cn: "path_Clean (filepath_Join [d, n]) = canon ?r (?E @ [n])"
    using filepath_Join_canon [OF d n] path_Clean_idem [of "d @ CHR ''/'' # n"] d n
    by (cases n) (auto simp: filepath_Join_def)
  have cm: "path_Clean (filepath_Join [d, m]) = canon ?r (?E @ [m])"
    using filepath_Join_canon [OF d m] path_Clean_idem [of "d @ CHR ''/'' # m"] d m
    by (cases m) (auto simp: filepath_Join_def)
  have els: "path_elems (canon ?r (?E @ [n])) = ?E @ [n]" using canon_below [OF d, of "[n]"] n by simp
  have "\<not> beneath (filepath_Join [d, m]) (canon ?r (?E @ [n]))"
    using filepath_Join_below [OF d m] \<open>n \<noteq> m\<close> by (auto simp: beneath_def els)
  moreover have "\<not> ancestor_or_self (canon ?r (?E @ [n])) (canon ?r (?E @ [m]))"
  proof
    assume "ancestor_or_self (canon ?r (?E @ [n])) (canon ?r (?E @ [m]))"
    then consider "canon ?r (?E @ [n]) = canon ?r (?E @ [m])" | "ancestor_or_self (canon ?r (?E @ [n])) (canon ?r ?E)"
      using ancestor_step [of m ?E] path_elems_nonempty m by (auto simp: plain_elem_def)
    then show False
    proof cases
      case 1
      with els canon_below [OF d, of "[m]"] m \<open>n \<noteq> m\<close> show ?thesis by simp
    next
      case 2
      then have "length (canon ?r (?E @ [n])) \<le> length (canon ?r ?E)"
        by (auto simp: ancestor_or_self_def dest: prefix_length_le)
      with n 2 show ?thesis
        by (auto simp: canon_def Join_snoc ancestor_or_self_def plain_elem_def prefix_def Cons_eq_append_conv split: if_splits)
    qed
  qed
  ultimately show ?thesis by (simp add: reach_def cn cm)
qed

text \<open>What the client of an ISO extractor relies on.\<close>

locale extractor =
  fixes unpack :: "string \<Rightarrow> string \<Rightarrow> unit io"
  assumes unpack_confined: "touches_within (reach dest) (unpack isoPath dest)"
begin

lemma sibling_kept:
  assumes "unpack isoPath (filepath_Join [d, m]) w = (r, w')"
    and "d \<noteq> []" "plain_elem n" "plain_elem m" "n \<noteq> m"
  shows "Fs w' (path_Clean (filepath_Join [d, n])) = Fs w (path_Clean (filepath_Join [d, n]))"
  using touches_withinD [OF unpack_confined assms(1) sibling_out_of_reach [OF assms(2-5)]] .

end

lemma gunzip_beside_Inr:
  assumes "gunzip_beside K p w = (Inr (), w')"
  shows "Fs w' (path_Clean p) \<noteq> None \<and> (\<forall>q. Fs w q \<noteq> None \<longrightarrow> q \<noteq> path_Clean p \<longrightarrow> Fs w' q = Fs w q)"
proof -
  from assms obtain msg src w1 w2 w3 d w4 where o: "os_Open (p @ ''.gz'') w = (Inr (), w1)"
    and r: "file_ReadAll (p @ ''.gz'') w1 = (Inr d, w2)" and mk: "os_MkdirAll (filepath_Dir p) 0x1ED w2 = (Inr (), w3)"
    and rep: "replace_file_from msg (filepath_Dir p) (''.'' @ path_Base p @ ''.'') src (Some 0x1A4) p w3 = (Inr (), w')"
    by (auto simp: gunzip_beside_def Let_def)
  have "Fs w2 = Fs w" using fs_pureD [OF fs_pure_reads(4) o] fs_pureD [OF fs_pure_reads(2) r] by simp
  with os_MkdirAll_Inr(1) [OF mk] replace_file_from_Inr [OF rep] show ?thesis by auto
qed

lemma normalizeGzipFile_Inr:
  assumes "normalizeGzipFile K p w = (Inr (), w')"
  shows "Fs w' (path_Clean p) \<noteq> None \<and> (\<forall>q. Fs w q \<noteq> None \<longrightarrow> q \<noteq> path_Clean p \<longrightarrow> Fs w' q = Fs w q)"
proof -
  obtain st w1 where st: "os_Stat p w = (st, w1)" by (cases "os_Stat p w")
  then have fs: "Fs w1 = Fs w" using fs_pureD [OF fs_pure_reads(3)] by blast
  show ?thesis
  proof (cases st)
    case (Inr n)
    with st assms os_Stat_Inr [of p w n w1] show ?thesis by (auto simp: normalizeGzipFile_def io_try_iff)
  next
    case (Inl e)
    with st assms have "gunzip_beside K p w1 = (Inr (), w')" by (auto simp: normalizeGzipFile_def io_try_iff split: if_splits)
    from gunzip_beside_Inr [OF this] fs show ?thesis by simp
  qed
qed

lemma path_elems_join_path:
  assumes "d \<noteq> []" and "plain_path x"
  shows "path_elems (filepath_Join [d, x]) = path_elems d @ Split x (CHR ''/'')"
proof -
  have "prefix ''/'' (d @ CHR ''/'' # x) = prefix ''/'' d" using assms(1) by (cases d) auto
  then have "path_elems (d @ CHR ''/'' # x) = path_elems d @ Split x (CHR ''/'')"
    using assms(2) fold_clean_plain by (simp add: path_elems_def Split_append plain_path_def)
  moreover have "filepath_Join [d, x] = path_Clean (d @ CHR ''/'' # x)"
    using assms by (simp add: filepath_Join_def)
  ultimately show ?thesis using path_elems_Clean [of "d @ CHR ''/'' # x"] by simp
qed

lemma beneath_join_path:
  assumes "d \<noteq> []" and "plain_path x"
  shows "beneath d (path_Clean (filepath_Join [d, x]))"
proof -
  have "filepath_Join [d, x] = path_Clean (d @ CHR ''/'' # x)" using assms by (simp add: filepath_Join_def)
  then have "prefix ''/'' (filepath_Join [d, x]) = prefix ''/'' d"
    using assms(1) rooted_Clean [of "d @ CHR ''/'' # x"] by (cases d) auto
  then have "beneath d (filepath_Join [d, x])"
    using path_elems_join_path [OF assms] filepath_Join_nonempty [OF assms(1)] assms(2)
    by (auto simp: beneath_def plain_path_def list_all_iff)
  then show ?thesis by (rule beneath_Clean)
qed

lemma memory_root_names: "plain_path (filepath_Join [''boot'', ''kernel'', ''kernel''])" "plain_path ''mfsroot''"
proof -
  have "filepath_Join [''boot'', ''kernel'', ''kernel''] = ''boot/kernel/kernel''" by code_simp
  then show "plain_path (filepath_Join [''boot'', ''kernel'', ''kernel''])" "plain_path ''mfsroot''"
    by (simp_all add: plain_path_def plain_elem_def)
qed

lemma normalizeMemoryRoot_Inr:
  assumes "normalizeMemoryRoot K root w = (Inr (), w')" and "root \<noteq> []"
  shows "Fs w' (path_Clean (filepath_Join [root, filepath_Join [''boot'', ''kernel'', ''kernel'']])) \<noteq> None \<and>
    Fs w' (path_Clean (filepath_Join [root, ''mfsroot''])) \<noteq> None \<and>
    (\<forall>q. Fs w q \<noteq> None \<longrightarrow> \<not> beneath root q \<longrightarrow> Fs w' q = Fs w q)"
proof -
  let ?a = "filepath_Join [root, filepath_Join [''boot'', ''kernel'', ''kernel'']]" and ?b = "filepath_Join [root, ''mfsroot'']"
  from assms(1) obtain w1 where k: "normalizeGzipFile K ?a w = (Inr (), w1)" and m: "normalizeGzipFile K ?b w1 = (Inr (), w')"
    by (auto simp: normalizeMemoryRoot_def)
  note out = beneath_join_path [OF assms(2) memory_root_names(1)] beneath_join_path [OF assms(2) memory_root_names(2)]
  from normalizeGzipFile_Inr [OF k] normalizeGzipFile_Inr [OF m] out show ?thesis by metis
qed

lemma temp_name_plain: "s \<noteq> [] \<Longrightarrow> hd s \<noteq> CHR ''.'' \<Longrightarrow> CHR ''/'' \<notin> set s \<Longrightarrow> plain_elem (s @ itoa n)"
  using itoa_no_slash [of n] by (cases s) (auto simp: plain_elem_def)

text \<open>A file of the staging directory survives the fresh directory made beside it and what is unpacked there.\<close>

context extractor
begin

lemma kept_by_payload:
  assumes dir: "dir \<noteq> []" and n: "plain_elem n" and f: "Fs w (path_Clean (filepath_Join [dir, n])) = Some x"
    and mk: "os_MkdirTemp dir ''mfsbsd-root-'' w = (Inr root, w1)"
    and fs: "Fs w2 = Fs w1" and ex: "unpack iso' root w2 = (Inr (), w3)" and fs': "Fs w4 = Fs w3"
    and nm: "normalizeMemoryRoot K root w4 = (Inr (), w5)"
  shows "Fs w5 (path_Clean (filepath_Join [dir, n])) = Some x"
proof -
  let ?q = "path_Clean (filepath_Join [dir, n])" and ?m = "''mfsbsd-root-'' @ itoa (TempName w (Calls w))"
  note t = os_MkdirTemp_Inr [OF mk]
  have m: "plain_elem ?m" by (rule temp_name_plain) simp_all
  have ne: "n \<noteq> ?m" and root: "root \<noteq> []" using t f filepath_Join_nonempty [OF dir] by auto
  have "Fs w1 ?q = Some x" using t f by auto
  then have q4: "Fs w4 ?q = Some x" using fs fs' sibling_kept [OF ex [unfolded conjunct1 [OF t]] dir n m ne] by simp
  have "\<not> beneath root ?q" using sibling_out_of_reach [OF dir n m ne] t by (auto simp: reach_def)
  with normalizeMemoryRoot_Inr [OF nm root] q4 show ?thesis by auto
qed

end

interpretation iso: extractor "iso_Extract uni" for uni
  by unfold_locales (rule iso_Extract_touches)

definition pinned :: "('k, 'b) crypto \<Rightarrow> Artifact \<Rightarrow> bytes \<Rightarrow> bool" where
  "pinned C a d \<longleftrightarrow> https_scheme (URL a) \<and> sha256_hex C d = ToLower (SHA256 a)"

lemma extractLoaderArchive_Inr:
  assumes "extractLoaderArchive K data dir w = (Inr (lp, hp), w')" and "dir \<noteq> []"
  shows "\<exists>hs l h. xz_tar_NewReader K data = Inr (hs, None) \<and>
    member ''boot/loader.kboot'' hs = Some l \<and> member ''boot/loader.help.kboot'' hs = Some h \<and>
    lp = filepath_Join [dir, ''loader.kboot''] \<and> hp = filepath_Join [dir, ''loader.help.kboot''] \<and>
    Fs w' = (Fs w)(path_Clean lp \<mapsto> File (fst (TarData l)) 365, path_Clean hp \<mapsto> File (fst (TarData h)) 292)"
proof -
  let ?lp = "filepath_Join [dir, ''loader.kboot'']" and ?hp = "filepath_Join [dir, ''loader.help.kboot'']"
  from assms(1) obtain hs final where x: "xz_tar_NewReader K data = Inr (hs, final)" and ps: "lp = ?lp" "hp = ?hp"
    and run: "extract_members ?lp ?hp False False final hs w = (Inr (True, True), w')"
    by (auto simp: extractLoaderArchive_def Let_def split: prod.splits if_splits)
  have "path_Clean ?lp \<noteq> path_Clean ?hp"
    by (rule staged_names_distinct [OF assms(2)]) (simp_all add: plain_elem_def)
  from extract_members_Inr [OF run this] obtain l h where "final = None" "member ''boot/loader.kboot'' hs = Some l"
    "member ''boot/loader.help.kboot'' hs = Some h"
    "Fs w' = (Fs w)(path_Clean ?lp \<mapsto> File (fst (TarData l)) 365, path_Clean ?hp \<mapsto> File (fst (TarData h)) 292)"
    by (auto simp: placed_def)
  with x ps show ?thesis by blast
qed

lemma mfs_Stage_same: "mfs_Stage C K p cfg w = (Inr q, w') \<Longrightarrow> same_boot q (CPlan cfg)"
  unfolding mfs_Stage_def mfs_FetchAndStageArtifacts_def by (auto simp: Let_def same_boot_def split: if_splits prod.splits)

lemma mfs_Stage_facts:
  assumes run: "mfs_Stage C K p cfg w = (Inr q, w')" 
    and ext: "\<forall>f i d. mfs_extractor p = Some f \<longrightarrow> touches_within (reach d) (f i d)" and quiet: "quiet (Progress cfg)"
    and names: "plain_elem (AName (Payload (FreeBSDKboot (CPlan cfg))))" "plain_elem (AName (LoaderArchive (FreeBSDKboot (CPlan cfg))))"
  defines "kb \<equiv> FreeBSDKboot (CPlan cfg)" and "kb' \<equiv> FreeBSDKboot q"
  shows "same_boot q (CPlan cfg) \<and> Args kb' = defaultLoaderArgs (PayloadRoot kb') @ Args kb \<and>
    (\<exists>image. pinned C (Payload kb) image) \<and>
    (\<exists>archive hs l h. pinned C (LoaderArchive kb) archive \<and> xz_tar_NewReader K archive = Inr (hs, None) \<and>
       member ''boot/loader.kboot'' hs = Some l \<and> member ''boot/loader.help.kboot'' hs = Some h \<and>
       file_at w' (Path (Loader kb')) (fst (TarData l)) \<and> file_at w' (Path (LoaderHelp kb')) (fst (TarData h))) \<and>
    Fs w' (path_Clean (filepath_Join [PayloadRoot kb', filepath_Join [''boot'', ''kernel'', ''kernel'']])) \<noteq> None \<and>
    Fs w' (path_Clean (filepath_Join [PayloadRoot kb', ''mfsroot''])) \<noteq> None"
proof -
  let ?dir = "StagingDir cfg" and ?pr = "Progress cfg"
  have "extractor (mfs_unpack K p)"
    using ext iso.unpack_confined by unfold_locales (auto simp: mfs_unpack_def split: option.splits)
  note kept = extractor.kept_by_payload [OF this]
  from run obtain w1 w2 w3 w4 w5 w6 w7 w8 w9 w10 w11 w12 ip ap root ld data lp hp where
    dir: "?dir \<noteq> []"
    and https: "requireHTTPS ''mfsBSD'' [URL (Payload kb), URL (LoaderArchive kb)] = Inr ()"
    and iso: "mfs_fetchStageVerify C ?dir (Payload kb) ?pr w1 = (Inr ip, w2)"
    and arc: "mfs_fetchStageVerify C ?dir (LoaderArchive kb) ?pr w2 = (Inr ap, w3)"
    and mk: "os_MkdirTemp ?dir ''mfsbsd-root-'' w3 = (Inr root, w4)"
    and r1: "reportProgress ?pr StageOperationExtract StageStateStarted ''mfsBSD ISO'' w4 = (Inr (), w5)"
    and ex: "mfs_unpack K p ip root w5 = (Inr (), w6)"
    and r2: "reportProgress ?pr StageOperationExtract StageStateCompleted ''mfsBSD ISO'' w6 = (Inr (), w7)"
    and nm: "normalizeMemoryRoot K root w7 = (Inr (), w8)"
    and mk2: "os_MkdirTemp ?dir ''freebsd-kboot-'' w8 = (Inr ld, w9)"
    and rd: "os_ReadFile ap w9 = (Inr data, w10)"
    and r3: "reportProgress ?pr StageOperationExtract StageStateStarted ''FreeBSD loader archive'' w10 = (Inr (), w11)"
    and la: "extractLoaderArchive K data ld w11 = (Inr (lp, hp), w12)"
    and r4: "reportProgress ?pr StageOperationExtract StageStateCompleted ''FreeBSD loader archive'' w12 = (Inr (), w')"
    and q: "q = (CPlan cfg)\<lparr>FreeBSDKboot := kb
        \<lparr>Payload := (Payload kb)\<lparr>Path := ip\<rparr>, LoaderArchive := (LoaderArchive kb)\<lparr>Path := ap\<rparr>,
         Loader := \<lparr>AName = ''loader.kboot'', URL = [], SHA256 = [], Path = lp\<rparr>,
         LoaderHelp := \<lparr>AName = ''loader.help.kboot'', URL = [], SHA256 = [], Path = hp\<rparr>,
         PayloadRoot := root, Args := defaultLoaderArgs root @ Args kb\<rparr>\<rparr>"
    unfolding mfs_Stage_def mfs_FetchAndStageArtifacts_def kb_def
    by (auto simp: Let_def split: if_splits prod.splits)
  note pure = fs_pureD [OF fs_pure_reportProgress [OF quiet]]
  have ne: "AName (Payload kb) \<noteq> []" "AName (LoaderArchive kb) \<noteq> []" using names by (auto simp: kb_def plain_elem_def)
  obtain image where image: "pinned C (Payload kb) image"
    using mfs_fetchStageVerify_Inr [OF iso quiet ne(1)] https by (auto simp: pinned_def requireHTTPS_iff)
  obtain archive m where ap: "ap = filepath_Join [?dir, AName (LoaderArchive kb)]" and pin: "pinned C (LoaderArchive kb) archive"
    and f3: "Fs w3 (path_Clean ap) = Some (File archive m)"
    using mfs_fetchStageVerify_Inr [OF arc quiet ne(2)] https by (auto simp: pinned_def requireHTTPS_iff)
  have "Fs w8 (path_Clean ap) = Some (File archive m)"
    using kept [OF dir names(2) f3 [unfolded ap kb_def] mk pure [OF r1] ex pure [OF r2] nm] by (simp add: ap kb_def)
  then have "data = archive" using conjunct2 [OF os_MkdirTemp_Inr [OF mk2]] os_ReadFile_Inr [OF rd] by (auto split: if_splits)
  have root: "root \<noteq> []" and ld: "ld \<noteq> []"
    using os_MkdirTemp_Inr [OF mk] os_MkdirTemp_Inr [OF mk2] filepath_Join_nonempty [OF dir] by auto
  have f11: "Fs w11 = (Fs w8)(path_Clean ld \<mapsto> Dir 448)"
    using conjunct2 [OF os_MkdirTemp_Inr [OF mk2]] os_ReadFile_Inr [OF rd] pure [OF r3] by simp
  from extractLoaderArchive_Inr [OF la ld] obtain hs l h where tar: "xz_tar_NewReader K data = Inr (hs, None)"
    and mem: "member ''boot/loader.kboot'' hs = Some l" "member ''boot/loader.help.kboot'' hs = Some h"
    and ps: "lp = filepath_Join [ld, ''loader.kboot'']" "hp = filepath_Join [ld, ''loader.help.kboot'']"
    and f12: "Fs w12 = (Fs w11)(path_Clean lp \<mapsto> File (fst (TarData l)) 365, path_Clean hp \<mapsto> File (fst (TarData h)) 292)"
    by blast
  have "path_Clean lp \<noteq> path_Clean hp"
    unfolding ps by (rule staged_names_distinct [OF ld]) (simp_all add: plain_elem_def)
  then have "file_at w' lp (fst (TarData l))" "file_at w' hp (fst (TarData h))"
    using f12 pure [OF r4] by (auto simp: file_at_def)
  moreover have "Fs w8 x \<noteq> None \<Longrightarrow> Fs w' x \<noteq> None" for x using f11 f12 pure [OF r4] by auto
  ultimately show ?thesis
    using normalizeMemoryRoot_Inr [OF nm root] image pin tar mem \<open>data = archive\<close>
    by (auto simp: q kb'_def kb_def same_boot_def)
qed

text \<open>C17: Staging mfsBSD hands over exactly the requested plan completed with its loader: both archives came over
  HTTPS and match their digests, the loader on disk is the member of the archive that was checked, although the
  archive is read back from disk after an image was unpacked beside it, and the payload root has the kernel and
  the memory file system.\<close>

theorem mfs_Stage_integrity:
  assumes run: "mfs_Stage C K p cfg w = (Inr q, w')" 
    and ext: "\<forall>f i d. mfs_extractor p = Some f \<longrightarrow> touches_within (reach d) (f i d)" and quiet: "quiet (Progress cfg)"
    and names: "plain_elem (AName (Payload (FreeBSDKboot (CPlan cfg))))" "plain_elem (AName (LoaderArchive (FreeBSDKboot (CPlan cfg))))"
  defines "kb \<equiv> FreeBSDKboot (CPlan cfg)" and "kb' \<equiv> FreeBSDKboot q"
  shows "same_boot q (CPlan cfg) \<and> Args kb' = defaultLoaderArgs (PayloadRoot kb') @ Args kb \<and>
    (\<exists>image. pinned C (Payload kb) image) \<and>
    (\<exists>archive hs l h. pinned C (LoaderArchive kb) archive \<and> xz_tar_NewReader K archive = Inr (hs, None) \<and>
       member ''boot/loader.kboot'' hs = Some l \<and> member ''boot/loader.help.kboot'' hs = Some h \<and>
       file_at w' (Path (Loader kb')) (fst (TarData l)) \<and> file_at w' (Path (LoaderHelp kb')) (fst (TarData h))) \<and>
    Fs w' (path_Clean (filepath_Join [PayloadRoot kb', filepath_Join [''boot'', ''kernel'', ''kernel'']])) \<noteq> None \<and>
    Fs w' (path_Clean (filepath_Join [PayloadRoot kb', ''mfsroot''])) \<noteq> None"
  using mfs_Stage_facts [OF run ext quiet names] unfolding kb_def kb'_def .

definition sample_members :: "TarEntry list" where
  "sample_members =
     [\<lparr>HeaderName = ''./boot/loader.kboot'', IsRegular = True, TarData = (''LOADER'', None)\<rparr>,
      \<lparr>HeaderName = ''boot/loader.help.kboot'', IsRegular = True, TarData = (''HELP'', None)\<rparr>]"

definition sample_codecs :: codecs where
  "sample_codecs = \<lparr>gzip_NewReader = (\<lambda>_. Inl (errors_New ''gzip'')), xz_tar_NewReader = (\<lambda>_. Inr (sample_members, None)),
     unicode_ToLower = id\<rparr>"

definition sample_unpack :: "string \<Rightarrow> string \<Rightarrow> unit io" where
  "sample_unpack i d =
     (if d = [] then io_fail (errors_New ''extract destination is required'')
      else io_bind (os_WriteFile (filepath_Join [d, filepath_Join [''boot'', ''kernel'', ''kernel'']]) ''K'' 420) (\<lambda>_.
        os_WriteFile (filepath_Join [d, ''mfsroot'']) ''M'' 420))"

definition sample_provider :: MfsbsdProvider where
  "sample_provider = \<lparr>mfs_targets = [], loaderArchiveURL = ''https://b.example/base.txz'',
     loaderArchiveSHA256 = ''415243'', mfs_extractor = Some sample_unpack\<rparr>"

definition sample_plan :: BootPlan where
  "sample_plan = mfs_plan sample_provider
     ((hd mfs_defaultTargets)\<lparr>Source := empty_SourceEntry\<lparr>ISOName := ''m.iso'', ISOSHA256 := ''49534f''\<rparr>\<rparr>) ''https://i.example''"

definition sample_net :: "nat \<Rightarrow> string \<Rightarrow> string \<Rightarrow> http_reply" where
  "sample_net n meth u = Reply 200 (Inr (if u = ''https://i.example/m.iso'' then ''ISO'' else ''ARC''))"

definition sample_cfg :: StageConfig where
  "sample_cfg = \<lparr>CPlan = sample_plan, StagingDir = ''/s'', CSecrets = None, CSecretRefs = [], Progress = None\<rparr>"

definition sample_run :: "BootPlan result \<times> world" where
  "sample_run = mfs_Stage plain_crypto sample_codecs sample_provider sample_cfg (quiet_world sample_net)"

theorem mfs_Stage_integrity_witness:
  "\<exists>q w'. sample_run = (Inr q, w') \<and> file_at w' (Path (Loader (FreeBSDKboot q))) ''LOADER''"
proof -
  have "\<not> isl (fst sample_run)" by code_simp
  then obtain q w' where run: "sample_run = (Inr q, w')" by (metis prod.collapse sum.collapse(2))
  have ext: "\<forall>f i d. mfs_extractor sample_provider = Some f \<longrightarrow> touches_within (reach d) (f i d)"
  proof (intro allI impI)
    fix f i d assume "mfs_extractor sample_provider = Some f"
    then have "f = sample_unpack" by (simp add: sample_provider_def)
    then show "touches_within (reach d) (f i d)"
      by (auto simp: sample_unpack_def reach_def intro!: within_intros within_touches_only [OF touches_os(4)]
          beneath_join_path memory_root_names)
  qed
  have names: "plain_elem (AName (Payload (FreeBSDKboot (CPlan sample_cfg))))"
    "plain_elem (AName (LoaderArchive (FreeBSDKboot (CPlan sample_cfg))))"
    unfolding plain_elem_def by code_simp+
  have q: "quiet (Progress sample_cfg)" by (simp add: quiet_def sample_cfg_def)
  have m: "member ''boot/loader.kboot'' sample_members = Some (hd sample_members)" by code_simp
  have hd: "fst (TarData (hd sample_members)) = ''LOADER''" by code_simp
  have x: "xz_tar_NewReader sample_codecs a = Inr (sample_members, None)" for a by (simp add: sample_codecs_def)
  from mfs_Stage_integrity [OF run [unfolded sample_run_def] ext q names]
  have "file_at w' (Path (Loader (FreeBSDKboot q))) ''LOADER''" using m hd x by auto
  with run show ?thesis by blast
qed

end
