(* ===== verification/Handoff.thy ===== *)
theory Handoff
  imports LinuxGeneric
begin

text \<open>
  The handoff to the chosen system (\<^verbatim>\<open>internal/handoff/kexec.go\<close>).  The system calls, the u-root loader and
  process execution are the parameters of \<open>kernel_calls\<close>; the loaders and runners an executor is configured
  with are the records \<open>Loader\<close>, \<open>LocalBooter\<close> and \<open>FreeBSDKbootRunner\<close>, with \<open>None\<close> for a nil interface.
  An open file is named by its path; \<open>None\<close> is the nil initrd.
\<close>

section \<open>Interfaces\<close>

record Loader =
  LLoad :: "string \<Rightarrow> string option \<Rightarrow> string \<Rightarrow> unit io"
  LExecute :: "unit io"

type_synonym LocalBooter = "string \<Rightarrow> unit io"
type_synonym FreeBSDKbootRunner = "string \<Rightarrow> string list \<Rightarrow> unit io"

record kernel_calls =
  kexec_file_load :: "string \<Rightarrow> string option \<Rightarrow> nat \<Rightarrow> bytes \<Rightarrow> nat \<Rightarrow> unit io"
  reboot_kexec :: "unit io"
  uroot_LinuxImage_Load :: "string \<Rightarrow> string option \<Rightarrow> string \<Rightarrow> unit io"
  uroot_Execute :: "unit io"
  cmd_Run :: "string \<Rightarrow> string list \<Rightarrow> unit io"

record KexecExecutor =
  ELoader :: "Loader option"
  ELoadSyscallLoader :: "Loader option"
  ELocalBooter :: "LocalBooter option"
  EFreeBSDKbootRunner :: "FreeBSDKbootRunner option"

text \<open>
  The arguments of \<open>kexec_file_load\<close> in order: kernel descriptor, initrd descriptor (\<open>None\<close> for \<open>^uintptr(0)\<close>), length
  of the command line with its terminating zero byte, that command line, flags.
\<close>

definition LinuxKexecFileLoader :: "kernel_calls \<Rightarrow> Loader" where
  "LinuxKexecFileLoader K =
     \<lparr>LLoad = (\<lambda>kern initrd cmdline. let cmdlineBytes = cmdline @ [CHR 0x00] in
        kexec_file_load K kern initrd (length cmdlineBytes) cmdlineBytes 0),
      LExecute = reboot_kexec K\<rparr>"

definition LinuxKexecLoadLoader :: "kernel_calls \<Rightarrow> Loader" where
  "LinuxKexecLoadLoader K = \<lparr>LLoad = uroot_LinuxImage_Load K, LExecute = uroot_Execute K\<rparr>"

text \<open>The arguments of a failed command are part of its error.\<close>

definition CommandLocalBooter :: "kernel_calls \<Rightarrow> string \<Rightarrow> string list \<Rightarrow> LocalBooter" where
  "CommandLocalBooter K configured cfg_args cmdline =
     (let command = (if configured = [] then ''boot'' else configured);
          args = cfg_args @ (if TrimSpace cmdline \<noteq> [] then [''-append'', cmdline] else []) in
      io_wrap (\<lambda>e. Errorf ''%s %v: %w'' ([S command] @ map S args @ [W e])) (cmd_Run K command args))"

definition CommandFreeBSDKbootRunner :: "kernel_calls \<Rightarrow> FreeBSDKbootRunner" where
  "CommandFreeBSDKbootRunner K loader args =
     io_wrap (\<lambda>e. Errorf ''%s %v: %w'' ([S loader] @ map S args @ [W e])) (cmd_Run K loader args)"

section \<open>Linux\<close>

definition file_Seek0 :: "string \<Rightarrow> unit io" where
  "file_Seek0 p = os_call refused (io_return ())"

definition rewindBootFiles :: "string \<Rightarrow> string option \<Rightarrow> unit io" where
  "rewindBootFiles kern initrd =
     io_each (\<lambda>p. io_wrap (\<lambda>e. Errorf ''seek %s: %w'' [S p, W e]) (file_Seek0 p))
       (kern # (case initrd of None \<Rightarrow> [] | Some i \<Rightarrow> [i]))"

definition errors_Join :: "go_error \<Rightarrow> go_error \<Rightarrow> go_error" where
  "errors_Join a b = Errorf (''%w'' @ [CHR 0x0A] @ ''%w'') [W a, W b]"

definition kexec_load_fallback :: "Loader \<Rightarrow> string \<Rightarrow> string option \<Rightarrow> string \<Rightarrow> go_error \<Rightarrow> unit io" where
  "kexec_load_fallback fallback kern initrd cmdline err =
     io_bind (io_wrap (\<lambda>e. Errorf ''prepare kexec_load fallback: %w'' [W e]) (rewindBootFiles kern initrd)) (\<lambda>_.
     io_bind (io_wrap (\<lambda>e. Errorf ''load kexec image with kexec_load fallback: %w''
                [W (errors_Join (Errorf ''kexec_file_load: %w'' [W err]) (Errorf ''kexec_load: %w'' [W e]))])
                (LLoad fallback kern initrd cmdline)) (\<lambda>_.
     io_wrap (\<lambda>e. Errorf ''execute kexec image with kexec_load fallback: %w'' [W e]) (LExecute fallback)))"

definition load_and_execute :: "Loader \<Rightarrow> Loader \<Rightarrow> string \<Rightarrow> string option \<Rightarrow> string \<Rightarrow> unit io" where
  "load_and_execute loader fallback kern initrd cmdline =
     io_try (LLoad loader kern initrd cmdline) (\<lambda>r. case r of
       Inl err \<Rightarrow>
         if \<not> errors_is err UnixENOEXEC then io_fail (Errorf ''load kexec image: %w'' [W err])
         else kexec_load_fallback fallback kern initrd cmdline err
     | Inr _ \<Rightarrow> io_wrap (\<lambda>e. Errorf ''execute kexec image: %w'' [W e]) (LExecute loader))"

definition executeLinuxKexec :: "kernel_calls \<Rightarrow> KexecExecutor \<Rightarrow> BootPlan \<Rightarrow> unit io" where
  "executeLinuxKexec K e plan =
     (let kern = Path (Kernel plan);
          loader = or_default (ELoader e) (LinuxKexecFileLoader K);
          fallback = or_default (ELoadSyscallLoader e) (LinuxKexecLoadLoader K) in
      io_bind (io_wrap (\<lambda>e. Errorf ''open kernel: %w'' [W e]) (os_Open kern)) (\<lambda>_.
      io_finally
        (if Path (Initrd plan) \<noteq> [] then
           io_bind (io_wrap (\<lambda>e. Errorf ''open initrd: %w'' [W e]) (os_Open (Path (Initrd plan)))) (\<lambda>_.
           io_finally (load_and_execute loader fallback kern (Some (Path (Initrd plan))) (BCmdline plan)) file_Close)
         else load_and_execute loader fallback kern None (BCmdline plan))
        file_Close))"

section \<open>Local disks and FreeBSD\<close>

definition executeLocalBoot :: "kernel_calls \<Rightarrow> KexecExecutor \<Rightarrow> BootPlan \<Rightarrow> unit io" where
  "executeLocalBoot K e plan =
     io_wrap (\<lambda>e. Errorf ''execute local boot: %w'' [W e])
       (or_default (ELocalBooter e) (CommandLocalBooter K [] []) (BCmdline plan))"

definition defaultFreeBSDKbootArgs :: "string \<Rightarrow> string list" where
  "defaultFreeBSDKbootArgs payloadRoot =
     [''hostfs_root='' @ payloadRoot, ''bootdev=host:/'', ''boot_serial=YES'', ''boot_multicons=YES'', ''boot_verbose=YES'',
      ''autoboot_delay=0'', ''beastie_disable=YES'']"

definition executeFreeBSDKboot :: "kernel_calls \<Rightarrow> KexecExecutor \<Rightarrow> BootPlan \<Rightarrow> unit io" where
  "executeFreeBSDKboot K e plan =
     (let kboot = FreeBSDKboot plan in
      if TrimSpace (Path (Loader kboot)) = [] then io_fail (errors_New ''freebsd kboot loader path is required'')
      else if TrimSpace (PayloadRoot kboot) = [] then io_fail (errors_New ''freebsd kboot payload root is required'')
      else let args = (if Args kboot = [] then defaultFreeBSDKbootArgs (PayloadRoot kboot) else Args kboot) in
      io_wrap (\<lambda>e. Errorf ''execute freebsd kboot: %w'' [W e])
        (or_default (EFreeBSDKbootRunner e) (CommandFreeBSDKbootRunner K) (Path (Loader kboot)) args))"

definition kexec_Execute :: "kernel_calls \<Rightarrow> KexecExecutor \<Rightarrow> BootPlan \<Rightarrow> unit io" where
  "kexec_Execute K e plan =
     io_bind ctx_Err (\<lambda>_.
       if ResolvedAction plan = BootActionLinuxKexec then executeLinuxKexec K e plan
       else if ResolvedAction plan = BootActionLocalBoot then executeLocalBoot K e plan
       else if ResolvedAction plan = BootActionFreeBSDKboot then executeFreeBSDKboot K e plan
       else io_fail (Errorf ''unsupported boot action %q'' [S (BAction plan)]))"

section \<open>No entry without an image\<close>

text \<open>A loader under observation: entering an image where \<open>loaded\<close> does not hold is turned into an error.\<close>

definition guard_loader :: "(world \<Rightarrow> bool) \<Rightarrow> Loader \<Rightarrow> Loader" where
  "guard_loader loaded ld = ld\<lparr>LExecute := (\<lambda>w. if loaded w then LExecute ld w
     else (Inl (errors_New ''no image loaded''), w))\<rparr>"

definition guard_executor :: "(world \<Rightarrow> bool) \<Rightarrow> kernel_calls \<Rightarrow> KexecExecutor \<Rightarrow> KexecExecutor" where
  "guard_executor loaded K e = e\<lparr>ELoader := Some (guard_loader loaded (or_default (ELoader e) (LinuxKexecFileLoader K))),
     ELoadSyscallLoader := Some (guard_loader loaded (or_default (ELoadSyscallLoader e) (LinuxKexecLoadLoader K)))\<rparr>"

definition load_establishes :: "(world \<Rightarrow> bool) \<Rightarrow> Loader \<Rightarrow> bool" where
  "load_establishes loaded ld \<longleftrightarrow> (\<forall>kern initrd cmdline w w'. LLoad ld kern initrd cmdline w = (Inr (), w') \<longrightarrow> loaded w')"

lemma guard_loader_simps [simp]:
  "LLoad (guard_loader loaded ld) = LLoad ld"
  "loaded w \<Longrightarrow> LExecute (guard_loader loaded ld) w = LExecute ld w"
  by (simp_all add: guard_loader_def)

lemma load_then_execute_guarded:
  assumes "load_establishes loaded ld"
  shows "io_bind (io_wrap f (LLoad ld kern initrd cmdline)) (\<lambda>_. io_wrap g (LExecute (guard_loader loaded ld))) =
         io_bind (io_wrap f (LLoad ld kern initrd cmdline)) (\<lambda>_. io_wrap g (LExecute ld))"
proof
  fix w
  show "io_bind (io_wrap f (LLoad ld kern initrd cmdline)) (\<lambda>_. io_wrap g (LExecute (guard_loader loaded ld))) w =
        io_bind (io_wrap f (LLoad ld kern initrd cmdline)) (\<lambda>_. io_wrap g (LExecute ld)) w"
  proof (cases "LLoad ld kern initrd cmdline w")
    case (Pair r w')
    then show ?thesis using assms by (cases r) (auto simp: io_bind_def io_wrap_def load_establishes_def)
  qed
qed

lemma load_and_execute_guarded:
  assumes "load_establishes loaded ld" "load_establishes loaded fb"
  shows "load_and_execute (guard_loader loaded ld) (guard_loader loaded fb) kern initrd cmdline =
         load_and_execute ld fb kern initrd cmdline"
proof
  fix w
  have fb: "kexec_load_fallback (guard_loader loaded fb) kern initrd cmdline = kexec_load_fallback fb kern initrd cmdline"
    using assms(2) by (intro ext) (simp add: kexec_load_fallback_def load_then_execute_guarded)
  show "load_and_execute (guard_loader loaded ld) (guard_loader loaded fb) kern initrd cmdline w =
        load_and_execute ld fb kern initrd cmdline w"
  proof (cases "LLoad ld kern initrd cmdline w")
    case (Pair r w')
    then show ?thesis using assms(1)
      by (cases r) (auto simp: load_and_execute_def io_try_def fb io_wrap_def load_establishes_def)
  qed
qed

text \<open>C24: Control is only ever transferred to an image that was loaded: when every successful \<open>Load\<close> of the two loaders
  establishes \<open>loaded\<close>, a run whose \<open>Execute\<close> calls are refused in any other state is the same as the real run, on
  every plan, every configuration and every schedule of system failures.\<close>

theorem kexec_enters_loaded_image:
  assumes "load_establishes loaded (or_default (ELoader e) (LinuxKexecFileLoader K))"
    and "load_establishes loaded (or_default (ELoadSyscallLoader e) (LinuxKexecLoadLoader K))"
  shows "kexec_Execute K (guard_executor loaded K e) plan w = kexec_Execute K e plan w"
  using assms by (simp add: kexec_Execute_def executeLinuxKexec_def executeLocalBoot_def executeFreeBSDKboot_def
      guard_executor_def load_and_execute_guarded Let_def cong: if_cong)

text \<open>Loaders that count system calls, for the witnesses.\<close>

definition counting_loader :: "go_error option \<Rightarrow> Loader" where
  "counting_loader err = \<lparr>LLoad = (\<lambda>_ _ _ w. case err of
       None \<Rightarrow> (Inr (), w\<lparr>Calls := Suc (Calls w)\<rparr>) | Some x \<Rightarrow> (Inl x, w)), LExecute = io_return ()\<rparr>"

definition sample_calls :: kernel_calls where
  "sample_calls = \<lparr>kexec_file_load = (\<lambda>_ initrd _ _ _. case initrd of
       None \<Rightarrow> io_fail (Errorf ''bad file descriptor'' []) | Some _ \<Rightarrow> io_return ()),
     reboot_kexec = io_return (), uroot_LinuxImage_Load = (\<lambda>_ _ _. io_return ()), uroot_Execute = io_return (),
     cmd_Run = (\<lambda>_ _. io_return ())\<rparr>"

definition sample_executor :: KexecExecutor where
  "sample_executor = \<lparr>ELoader = Some (counting_loader (Some (Sentinel UnixENOEXEC))),
     ELoadSyscallLoader = Some (counting_loader None), ELocalBooter = None, EFreeBSDKbootRunner = None\<rparr>"

definition sample_boot :: BootPlan where
  "sample_boot = (plan_for clash_target)\<lparr>Kernel := empty_Artifact\<lparr>Path := ''/s/linux''\<rparr>\<rparr>"

definition sample_boot_world :: world where
  "sample_boot_world = (quiet_world clash_net)\<lparr>Fs := [''/s/linux'' \<mapsto> File ''KERNEL'' 420]\<rparr>"

theorem kexec_enters_loaded_image_witness:
  "kexec_Execute sample_calls (guard_executor (\<lambda>w. 0 < Calls w) sample_calls sample_executor) sample_boot sample_boot_world =
   kexec_Execute sample_calls sample_executor sample_boot sample_boot_world"
  by (rule kexec_enters_loaded_image)
    (auto simp: load_establishes_def sample_executor_def counting_loader_def split: option.splits)



end
