(* ===== verification/PolicySign.thy ===== *)
theory PolicySign
  imports Policy UiText GoFlag
begin

text \<open>
  The signing tool (\<^verbatim>\<open>cmd/bootup-policy-sign/main.go\<close>): key generation and detached signatures for policies.
  Ed25519 is a parameter; the variables that the flags set are the record \<open>sign_flags\<close>.
\<close>

section \<open>Operations\<close>

record signer =
  ed25519_GenerateKey :: "(bytes \<times> bytes) io"
  ed25519_Sign :: "bytes \<Rightarrow> bytes \<Rightarrow> bytes"

text \<open>\<open>os.OpenFile\<close> with \<open>O_WRONLY|O_CREATE|O_EXCL\<close>.\<close>

definition os_OpenExcl :: "string \<Rightarrow> nat \<Rightarrow> unit io" where
  "os_OpenExcl path mode = os_call refused (\<lambda>w.
     if Fs w (path_Clean path) \<noteq> None then (Inl (errors_New ''file exists''), w)
     else set_node path (Some (File [] mode)) w)"

definition writeNewFile :: "string \<Rightarrow> bytes \<Rightarrow> nat \<Rightarrow> unit io" where
  "writeNewFile path data mode =
     io_bind (os_OpenExcl path mode) (\<lambda>_.
     io_bind (io_or_cleanup (file_Write path data) file_Close (\<lambda>e. e)) (\<lambda>_.
     io_bind (io_or_cleanup (os_Chmod path mode) file_Close (\<lambda>e. e)) (\<lambda>_.
     file_Close)))"

definition readHexOrRawFile :: "string \<Rightarrow> bytes io" where
  "readHexOrRawFile path =
     io_bind (os_ReadFile path) (\<lambda>data.
     case hex_DecodeString (TrimSpace data) of
       Some decoded \<Rightarrow> io_return (if length decoded > 0 then decoded else data)
     | None \<Rightarrow> io_return data)"

record generateKeyInput =
  GPrivateKeyPath :: string
  GPublicKeyPath :: string

definition generatePolicyKeyPair :: "signer \<Rightarrow> generateKeyInput \<Rightarrow> unit io" where
  "generatePolicyKeyPair E inp =
     (if GPrivateKeyPath inp = [] then io_fail (errors_New ''private key output path is required'')
      else if GPublicKeyPath inp = [] then io_fail (errors_New ''public key output path is required'')
      else io_bind (io_wrap (\<lambda>e. Errorf ''generate Ed25519 policy key: %w'' [W e]) (ed25519_GenerateKey E)) (\<lambda>(publicKey, privateKey).
      io_bind (io_wrap (\<lambda>e. Errorf ''write private key: %w'' [W e]) (writeNewFile (GPrivateKeyPath inp) privateKey 0x180)) (\<lambda>_.
      io_bind (io_wrap (\<lambda>e. Errorf ''write public key: %w'' [W e]) (writeNewFile (GPublicKeyPath inp) publicKey 0x1A4)) (\<lambda>_.
      fmt_Fprint (''wrote '' @ GPrivateKeyPath inp @ [CHR 0x0A] @ ''wrote '' @ GPublicKeyPath inp @ [CHR 0x0A])))))"

record signPolicyInput =
  SPolicyPath :: string
  SPrivateKeyPath :: string
  SSignaturePath :: string

definition signPolicy :: "signer \<Rightarrow> signPolicyInput \<Rightarrow> unit io" where
  "signPolicy E inp =
     (if SPolicyPath inp = [] then io_fail (errors_New ''policy path is required'')
      else if SPrivateKeyPath inp = [] then io_fail (errors_New ''private key path is required'')
      else if SSignaturePath inp = [] then io_fail (errors_New ''signature output path is required'')
      else io_bind (io_wrap (\<lambda>e. Errorf ''read policy: %w'' [W e]) (os_ReadFile (SPolicyPath inp))) (\<lambda>policyBytes.
      io_bind (io_wrap (\<lambda>e. Errorf ''read private key: %w'' [W e]) (readHexOrRawFile (SPrivateKeyPath inp))) (\<lambda>privateKey.
      if length privateKey \<noteq> 64 then
        io_fail (Errorf ''private key length is %d bytes, want %d'' [D (int (length privateKey)), D 64])
      else
        io_bind (io_wrap (\<lambda>e. Errorf ''write signature: %w'' [W e])
                   (writeNewFile (SSignaturePath inp) (ed25519_Sign E privateKey policyBytes) 0x1A4)) (\<lambda>_.
        fmt_Fprint (''wrote '' @ SSignaturePath inp @ [CHR 0x0A])))))"

record sign_flags =
  fl_generateKey :: bool
  fl_privateKeyPath :: string
  fl_publicKeyPath :: string
  fl_policyPath :: string
  fl_signaturePath :: string

definition sign_run :: "signer \<Rightarrow> sign_flags \<Rightarrow> unit io" where
  "sign_run E fl =
     (if fl_generateKey fl then
        if fl_policyPath fl \<noteq> [] \<or> fl_signaturePath fl \<noteq> [] then
          io_fail (errors_New ''--generate-key cannot be combined with --policy or --signature'')
        else generatePolicyKeyPair E \<lparr>GPrivateKeyPath = fl_privateKeyPath fl, GPublicKeyPath = fl_publicKeyPath fl\<rparr>
      else signPolicy E \<lparr>SPolicyPath = fl_policyPath fl, SPrivateKeyPath = fl_privateKeyPath fl, SSignaturePath = fl_signaturePath fl\<rparr>)"

definition sign_flagset :: "sign_flags FlagSet" where
  "sign_flagset = [(''generate-key'', BoolVar (\<lambda>b fl. fl\<lparr>fl_generateKey := b\<rparr>)), (''private-key'', StringVar (\<lambda>v fl. fl\<lparr>fl_privateKeyPath := v\<rparr>)),
     (''public-key'', StringVar (\<lambda>v fl. fl\<lparr>fl_publicKeyPath := v\<rparr>)), (''policy'', StringVar (\<lambda>v fl. fl\<lparr>fl_policyPath := v\<rparr>)),
     (''signature'', StringVar (\<lambda>v fl. fl\<lparr>fl_signaturePath := v\<rparr>))]"

definition sign_main :: "signer \<Rightarrow> string list \<Rightarrow> unit io" where
  "sign_main E args =
     io_bind (io_of (map_err (\<lambda>e. Errorf ''parse flags: %w'' [W e]) (flag_Parse sign_flagset args
       \<lparr>fl_generateKey = False, fl_privateKeyPath = [], fl_publicKeyPath = [], fl_policyPath = [], fl_signaturePath = []\<rparr>))) (\<lambda>(fl, _).
     sign_run E fl)"

section \<open>What is written\<close>

lemma os_OpenExcl_Inr:
  "os_OpenExcl path mode w = (Inr (), w') \<Longrightarrow>
     Fs w (path_Clean path) = None \<and> Fs w' = (Fs w)(path_Clean path \<mapsto> File [] mode)"
  by (auto simp: os_OpenExcl_def os_call_Inr split: if_splits)

text \<open>A file that was there is never touched.\<close>

lemma writeNewFile_Inr:
  assumes "writeNewFile path data mode w = (Inr (), w')"
  shows "Fs w (path_Clean path) = None \<and> Fs w' = (Fs w)(path_Clean path \<mapsto> File data mode)"
proof -
  obtain w1 w2 w3 where o: "os_OpenExcl path mode w = (Inr (), w1)" and wr: "file_Write path data w1 = (Inr (), w2)"
    and ch: "os_Chmod path mode w2 = (Inr (), w3)" and cl: "file_Close w3 = (Inr (), w')"
    using assms by (auto simp: writeNewFile_def)
  note o' = os_OpenExcl_Inr [OF o]
  have w2: "Fs w2 = (Fs w)(path_Clean path \<mapsto> File data mode)" using file_Write_Inr [OF wr] o' by auto
  with os_Chmod_Inr [OF ch] file_Close_Inr [OF cl] o' show ?thesis by auto
qed

lemma fmt_Fprint_Inr: "fmt_Fprint s w = (Inr (), w') \<Longrightarrow> Fs w' = Fs w"
  by (auto simp: fmt_Fprint_def os_call_Inr)

text \<open>Documented behaviour of Ed25519, for keys whose bytes do not read as hexadecimal text.\<close>

definition key_law :: "policy_env \<Rightarrow> signer \<Rightarrow> bool" where
  "key_law env E \<longleftrightarrow> (\<forall>w pub priv w'. ed25519_GenerateKey E w = (Inr (pub, priv), w') \<longrightarrow>
     Fs w' = Fs w \<and> length pub = 32 \<and> length priv = 64 \<and> hex_DecodeString (TrimSpace priv) = None \<and>
     (\<forall>m. length (ed25519_Sign E priv m) = 64 \<and> ed25519_Verify env pub m (ed25519_Sign E priv m)))"

definition holds :: "world \<Rightarrow> string \<Rightarrow> bytes \<Rightarrow> nat \<Rightarrow> bool" where
  "holds w path data mode \<longleftrightarrow> Fs w (path_Clean path) = Some (File data mode)"

lemma generatePolicyKeyPair_Inr:
  assumes "generatePolicyKeyPair E inp w = (Inr (), w')" and "key_law env E"
  obtains pub priv where "holds w' (GPrivateKeyPath inp) priv 0x180" "holds w' (GPublicKeyPath inp) pub 0x1A4"
    "\<forall>q. Fs w q \<noteq> None \<longrightarrow> Fs w' q = Fs w q" "length pub = 32" "length priv = 64" "hex_DecodeString (TrimSpace priv) = None"
    "\<forall>m. length (ed25519_Sign E priv m) = 64 \<and> ed25519_Verify env pub m (ed25519_Sign E priv m)"
proof -
  obtain pub priv w1 w2 w3 where g: "ed25519_GenerateKey E w = (Inr (pub, priv), w1)"
    and p: "writeNewFile (GPrivateKeyPath inp) priv 0x180 w1 = (Inr (), w2)"
    and q: "writeNewFile (GPublicKeyPath inp) pub 0x1A4 w2 = (Inr (), w3)"
    and o: "fmt_Fprint (''wrote '' @ GPrivateKeyPath inp @ [CHR 0x0A] @ ''wrote '' @ GPublicKeyPath inp @ [CHR 0x0A]) w3 = (Inr (), w')"
    using assms(1) by (auto simp: generatePolicyKeyPair_def split: if_splits)
  note fs = writeNewFile_Inr [OF p] writeNewFile_Inr [OF q] fmt_Fprint_Inr [OF o]
  have law: "Fs w1 = Fs w \<and> length pub = 32 \<and> length priv = 64 \<and> hex_DecodeString (TrimSpace priv) = None \<and>
     (\<forall>m. length (ed25519_Sign E priv m) = 64 \<and> ed25519_Verify env pub m (ed25519_Sign E priv m))"
    using assms(2) g unfolding key_law_def by blast
  show ?thesis by (rule that [of priv pub]) (use fs law in \<open>auto simp: holds_def\<close>)
qed

text \<open>C34: A signature made with a generated key verifies under the public key file beside it: after key generation and
  signing have both succeeded, the policy, signature and public key on disk pass \<open>verifyTrust\<close>, the private key is
  readable by its owner alone, and no file that existed before was changed.\<close>

theorem sign_then_verify:
  assumes "key_law env E" and "generatePolicyKeyPair E g w = (Inr (), w1)" and "signPolicy E s w1 = (Inr (), w2)"
    and "SPrivateKeyPath s = GPrivateKeyPath g"
  shows "\<exists>data sig pub priv m. holds w2 (SPolicyPath s) data m \<and> holds w2 (SSignaturePath s) sig 420 \<and>
    holds w2 (GPublicKeyPath g) pub 420 \<and> holds w2 (GPrivateKeyPath g) priv 384 \<and>
    verifyTrust env data \<lparr>Ed25519Signature = sig, Ed25519PublicKey = pub\<rparr> = Inr () \<and>
    (\<forall>q. Fs w q \<noteq> None \<longrightarrow> Fs w2 q = Fs w q)"
proof -
  obtain pub priv where g: "holds w1 (GPrivateKeyPath g) priv 0x180" "holds w1 (GPublicKeyPath g) pub 0x1A4"
      "\<forall>q. Fs w q \<noteq> None \<longrightarrow> Fs w1 q = Fs w q" and k: "length pub = 32" "length priv = 64" "hex_DecodeString (TrimSpace priv) = None"
      "\<forall>m. length (ed25519_Sign E priv m) = 64 \<and> ed25519_Verify env pub m (ed25519_Sign E priv m)"
    by (rule generatePolicyKeyPair_Inr [OF assms(2,1)])
  obtain data priv' v1 v2 v3 where r: "os_ReadFile (SPolicyPath s) w1 = (Inr data, v1)"
    and h: "readHexOrRawFile (SPrivateKeyPath s) v1 = (Inr priv', v2)"
    and wr: "writeNewFile (SSignaturePath s) (ed25519_Sign E priv' data) 0x1A4 v2 = (Inr (), v3)"
    and o: "fmt_Fprint (''wrote '' @ SSignaturePath s @ [CHR 0x0A]) v3 = (Inr (), w2)"
    using assms(3) by (auto simp: signPolicy_def split: if_splits)
  obtain m where d: "Fs w1 (path_Clean (SPolicyPath s)) = Some (File data m)" and v1: "Fs v1 = Fs w1"
    using os_ReadFile_Inr [OF r] by blast
  have "priv' = priv \<and> Fs v2 = Fs w1"
    using h g(1) k(3) v1 assms(4) by (auto simp: readHexOrRawFile_def holds_def dest!: os_ReadFile_Inr split: option.splits)
  with writeNewFile_Inr [OF wr] fmt_Fprint_Inr [OF o]
  have fs: "Fs w2 = (Fs w1)(path_Clean (SSignaturePath s) \<mapsto> File (ed25519_Sign E priv data) 0x1A4)"
    "Fs w1 (path_Clean (SSignaturePath s)) = None" by auto
  have "verifyTrust env data \<lparr>Ed25519Signature = ed25519_Sign E priv data, Ed25519PublicKey = pub\<rparr> = Inr ()"
    using k by (auto simp: verifyTrust_def trust_configured_def)
  with g d fs show ?thesis
    by (intro exI [of _ data] exI [of _ "ed25519_Sign E priv data"] exI [of _ pub] exI [of _ priv] exI [of _ m]) (auto simp: holds_def)
qed

definition sample_signer :: signer where
  "sample_signer = \<lparr>ed25519_GenerateKey = io_return (replicate 32 (CHR ''P''), replicate 64 (CHR ''K'')),
     ed25519_Sign = (\<lambda>priv m. replicate 64 (CHR ''S''))\<rparr>"

definition sample_policy_env :: policy_env where
  "sample_policy_env = \<lparr>ed25519_Verify = (\<lambda>pub m sig. sig = replicate 64 (CHR ''S'')), json_Decision = (\<lambda>_. Inl (errors_New ''no decision''))\<rparr>"

definition sample_signing :: "unit result \<times> world" where
  "sample_signing = io_bind (generatePolicyKeyPair sample_signer \<lparr>GPrivateKeyPath = ''/k'', GPublicKeyPath = ''/p''\<rparr>) (\<lambda>_.
     signPolicy sample_signer \<lparr>SPolicyPath = ''/d'', SPrivateKeyPath = ''/k'', SSignaturePath = ''/s''\<rparr>)
     ((quiet_world (\<lambda>_ _ _. Reply 404 (Inr [])))\<lparr>Fs := [''/d'' \<mapsto> File ''{}'' 420]\<rparr>)"

theorem sign_then_verify_witness:
  "\<exists>data sig pub m. holds (snd sample_signing) ''/d'' data m \<and> holds (snd sample_signing) ''/s'' sig 420 \<and>
    verifyTrust sample_policy_env data \<lparr>Ed25519Signature = sig, Ed25519PublicKey = pub\<rparr> = Inr ()"
proof -
  have ok: "\<not> isl (fst sample_signing)" by code_simp
  obtain r w2 where rw: "sample_signing = (r, w2)" by (cases sample_signing)
  from ok have run: "sample_signing = (Inr (), w2)" unfolding rw by (cases r) auto
  then obtain w1 where g: "generatePolicyKeyPair sample_signer \<lparr>GPrivateKeyPath = ''/k'', GPublicKeyPath = ''/p''\<rparr>
      ((quiet_world (\<lambda>_ _ _. Reply 404 (Inr [])))\<lparr>Fs := [''/d'' \<mapsto> File ''{}'' 420]\<rparr>) = (Inr (), w1)"
    and s: "signPolicy sample_signer \<lparr>SPolicyPath = ''/d'', SPrivateKeyPath = ''/k'', SSignaturePath = ''/s''\<rparr> w1 = (Inr (), w2)"
    unfolding sample_signing_def by auto
  have "hex_DecodeString (TrimSpace (replicate 64 (CHR ''K''))) = None" by code_simp
  then have "key_law sample_policy_env sample_signer" by (auto simp: key_law_def sample_signer_def sample_policy_env_def)
  from sign_then_verify [OF this g s] show ?thesis unfolding run by auto
qed

end
