(* ===== verification/MainCmd.thy ===== *)
theory MainCmd
  imports GoFlag AppFlow Diagnostics RuntimePrep ProviderConfig Mfsbsd Handoff PolicySign
begin

text \<open>
  The program (\<^verbatim>\<open>cmd/bootup/main.go\<close>, \<^verbatim>\<open>cmd/bootup/providers_default.go\<close>, \<^verbatim>\<open>internal/buildinfo/buildinfo.go\<close>): catalog and
  policy sources, the registration of the providers, the resolution of a policy into a selection, the run and its
  failure bundle.  The variables that the flags set are the record \<open>flags\<close>; \<open>main_env\<close> gathers the parameters of all parts.

  \<open>effective\<close> holds the variables that the resolution of a policy changes and a failure bundle reports.  What is captured
  of standard output is what was written to the console since the start; the log on standard error is a parameter.  A console
  mirror receives a copy of the output, which is not kept apart here; what the program can see of it is that standard output
  is no longer a file.
\<close>

section \<open>Build information\<close>

record Info =
  Version :: string
  Commit :: string
  BuildDate :: string
  Dirty :: string
  GoVersion :: string

definition fallback :: "string \<Rightarrow> string \<Rightarrow> string" where
  "fallback v defaultValue = (if v = [] then defaultValue else v)"

text \<open>The stamped variables and \<open>runtime.Version()\<close> are the arguments.\<close>

definition buildinfo_Current :: "Info \<Rightarrow> Info" where
  "buildinfo_Current stamped = \<lparr>Version = fallback (Version stamped) ''devel'', Commit = fallback (Commit stamped) ''unknown'',
     BuildDate = fallback (BuildDate stamped) ''unknown'', Dirty = fallback (Dirty stamped) ''unknown'', GoVersion = GoVersion stamped\<rparr>"

definition FormatText :: "Info \<Rightarrow> string" where
  "FormatText info = ''bootup version'' @ [CHR 0x0A] @
     concat (map (\<lambda>(k, v). k @ [CHR 0x09] @ v @ [CHR 0x0A])
       [(''version'', Version info), (''commit'', Commit info), (''date'', BuildDate info), (''dirty'', Dirty info), (''go'', GoVersion info)])"

section \<open>Flags\<close>

definition optionFlags_String :: "SelectedOption list \<Rightarrow> string" where
  "optionFlags_String f = Join (map (\<lambda>o'. SelID o' @ ''='' @ SelValue o') f) '',''"

definition optionFlags_Set :: "SelectedOption list \<Rightarrow> string \<Rightarrow> SelectedOption list result" where
  "optionFlags_Set f v =
     (case Cut v ''='' of
        None \<Rightarrow> Inl (errors_New ''target option must use id=value'')
      | Some (i, optionValue) \<Rightarrow>
          let i' = TrimSpace i in
          if i' = [] then Inl (errors_New ''target option ID is required'')
          else if optionValue = [] then Inl (Errorf ''target option %s value is required'' [S i'])
          else Inr (f @ [\<lparr>SelID = i', SelValue = optionValue\<rparr>]))"

definition secretFlags_String :: "Selection list \<Rightarrow> string" where
  "secretFlags_String f = Join (map (\<lambda>s. SelectionID s @ ''=<redacted>'') f) '',''"

definition secretFlags_Set :: "Selection list \<Rightarrow> string \<Rightarrow> Selection list result" where
  "secretFlags_Set f v =
     (case Cut v ''='' of
        None \<Rightarrow> Inl (errors_New ''secret input must use id=/absolute/path'')
      | Some (i, path) \<Rightarrow>
          let i' = TrimSpace i in
          if i' = [] then Inl (errors_New ''secret input ID is required'')
          else if path = [] then Inl (Errorf ''secret input %s path is required'' [S i'])
          else Inr (f @ [\<lparr>SelectionID = i', SelectionPath = path\<rparr>]))"

definition parseDNSServers :: "string \<Rightarrow> string list" where
  "parseDNSServers v =
     (if TrimSpace v = [] then [] else filter (\<lambda>s. s \<noteq> []) (map TrimSpace (Split v (CHR '',''))))"

definition hasNetworkConfig :: "NetworkConfig \<Rightarrow> bool" where
  "hasNetworkConfig c \<longleftrightarrow> NInterface c \<noteq> [] \<or> AddressCIDR c \<noteq> [] \<or> Gateway c \<noteq> [] \<or> DNSServers c \<noteq> []"

definition secretInputIDs :: "Selection list \<Rightarrow> string list" where
  "secretInputIDs ss = filter (\<lambda>i. i \<noteq> []) (map (\<lambda>s. TrimSpace (SelectionID s)) ss)"

definition secretRedactValues :: "Selection list \<Rightarrow> string list" where
  "secretRedactValues ss = filter (\<lambda>p. p \<noteq> []) (map (\<lambda>s. TrimSpace (SelectionPath s)) ss)"

definition secretRefIDs :: "SecretRef list \<Rightarrow> string list" where
  "secretRefIDs refs = filter (\<lambda>i. i \<noteq> []) (map RefID refs)"

section \<open>Sources\<close>

record catalogSource =
  CSPath :: string
  CSURL :: string
  CSSHA256 :: string
  CSSignaturePath :: string
  CSPublicKeyPath :: string
  CSMaxAge :: int
  CSRequireFreshness :: bool
  CSCachePath :: string
  CSCacheFallback :: bool
  CSMaxBytes :: int
  CSIncludeDefault :: bool
  CSCompiledProviders :: "string list option"

record policySource =
  PSPath :: string
  PSURL :: string
  PSSignaturePath :: string
  PSPublicKeyPath :: string
  PSMaxAge :: int
  PSTimeout :: int
  PSCachePath :: string
  PSCacheFallback :: bool
  PSMaxBytes :: int
  PSFallback :: string

definition policyFallbackNone :: string where "policyFallbackNone = ''none''"
definition policyFallbackManual :: string where "policyFallbackManual = ''manual''"
definition modePolicyTarget :: string where "modePolicyTarget = ''policy-target''"

definition policy_configured :: "policySource \<Rightarrow> bool" where
  "policy_configured s \<longleftrightarrow> PSPath s \<noteq> [] \<or> PSURL s \<noteq> [] \<or> PSSignaturePath s \<noteq> [] \<or> PSPublicKeyPath s \<noteq> [] \<or>
     PSMaxAge s > 0 \<or> PSCachePath s \<noteq> [] \<or> PSCacheFallback s \<or> PSMaxBytes s > 0"

definition manualFallback :: "policySource \<Rightarrow> string \<Rightarrow> go_error \<Rightarrow> bool" where
  "manualFallback s mode err \<longleftrightarrow> mode = ModeMenu \<and> PSFallback s = policyFallbackManual \<and> errors_is err ErrInvalidPolicy"

definition validatePolicyFallback :: "string \<Rightarrow> unit result" where
  "validatePolicyFallback fb =
     (if fb = [] \<or> fb = policyFallbackNone \<or> fb = policyFallbackManual then Inr ()
      else Inl (policy_error ''unsupported policy fallback %q'' [S fb]))"

record ('k, 'b, 's) main_env =
  m_crypto :: "('k, 'b) crypto"
  m_decoder :: config_decoder
  m_policy :: policy_env
  m_hosted :: hosted_env
  m_default_catalog :: bytes
  m_resolve :: "string \<Rightarrow> string \<Rightarrow> string \<times> string"
  m_codecs :: codecs
  m_terminal :: "'s terminal"
  m_host :: host
  m_kernel :: kernel_calls
  m_diag :: diag_env
  m_now :: int
  m_format_time :: "int \<Rightarrow> string"
  m_stderr :: bytes
  m_same_stdout :: "string \<Rightarrow> bool"
  m_same_stderr :: "string \<Rightarrow> bool"
  m_stamped :: Info

definition hostedTrust :: "catalogSource \<Rightarrow> HostedTrust io" where
  "hostedTrust s =
     (let sha = TrimSpace (CSSHA256 s) in
      if CSSignaturePath s = [] \<and> CSPublicKeyPath s = [] then
        if sha = [] then io_fail (errors_New ''hosted catalog trust configuration is required'')
        else io_return \<lparr>TrustSHA256 = sha, HEd25519Signature = [], HEd25519PublicKey = []\<rparr>
      else if CSSignaturePath s = [] \<or> CSPublicKeyPath s = [] then
        io_fail (errors_New ''hosted catalog Ed25519 signature and public key paths are both required'')
      else
        io_bind (io_wrap (\<lambda>e. Errorf ''read hosted catalog signature: %w'' [W e]) (readHexOrRawFile (CSSignaturePath s))) (\<lambda>signature.
        io_bind (io_wrap (\<lambda>e. Errorf ''read hosted catalog public key: %w'' [W e]) (readHexOrRawFile (CSPublicKeyPath s))) (\<lambda>publicKey.
        io_return \<lparr>TrustSHA256 = sha, HEd25519Signature = signature, HEd25519PublicKey = publicKey\<rparr>)))"

definition compiledProviderIDs :: "string list" where
  "compiledProviderIDs = [''debian'', ''fedora'', ''linux'', ''local'', ''mfsbsd'', ''ubuntu'']"

definition LoadDefault :: "('k, 'b, 's) main_env \<Rightarrow> string list \<Rightarrow> Document result" where
  "LoadDefault E providerIDs = catalog_Parse (h_json (m_hosted E)) (m_default_catalog E) providerIDs"

definition loadSelectedCatalog :: "('k, 'b, 's) main_env \<Rightarrow> catalogSource \<Rightarrow> string list \<Rightarrow> Document io" where
  "loadSelectedCatalog E s providerIDs =
     (if CSURL s = [] then catalog_LoadFile (h_json (m_hosted E)) (CSPath s) providerIDs
      else io_bind (hostedTrust s) (\<lambda>trust.
      LoadHosted (m_hosted E) \<lparr>HURL = CSURL s, HTrust = trust, HProviderIDs = providerIDs, HMaxBytes = CSMaxBytes s, HNow = m_now E,
        HMaxAge = CSMaxAge s, HRequireFreshness = CSRequireFreshness s, HCachePath = CSCachePath s, HCacheFallback = CSCacheFallback s\<rparr>))"

definition loadCatalog :: "('k, 'b, 's) main_env \<Rightarrow> catalogSource \<Rightarrow> Document io" where
  "loadCatalog E s =
     (if CSPath s \<noteq> [] \<and> CSURL s \<noteq> [] then io_fail (errors_New ''cannot use --catalog with --catalog-url'')
      else let providerIDs = or_default (CSCompiledProviders s) compiledProviderIDs in
      if CSPath s = [] \<and> CSURL s = [] then io_of (LoadDefault E providerIDs)
      else io_bind (loadSelectedCatalog E s providerIDs) (\<lambda>selected.
      if \<not> CSIncludeDefault s then io_return selected
      else io_bind (io_of (LoadDefault E providerIDs)) (\<lambda>defaultDoc. io_of (Compose [defaultDoc, selected]))))"

section \<open>Providers\<close>

definition main_debian :: "('k, 'b, 's) main_env \<Rightarrow> DebianRuntime \<Rightarrow> Document \<Rightarrow> Provider" where
  "main_debian E c doc = deb_Provider (m_crypto E) (deb_NewProvider
     \<lparr>DCMirrorURL = DRMirrorURL c, DCDiscoveryURL = DRDiscoveryURL c, DCDiscoveryFile = DRDiscoveryFile c, DCKeyring = DRKeyring c,
      DCTargets = Some (Document_Targets doc deb_providerID), DCLifecycle = DRLifecycle c\<rparr>)"

definition main_ubuntu :: "('k, 'b, 's) main_env \<Rightarrow> UbuntuRuntime \<Rightarrow> Document \<Rightarrow> Provider" where
  "main_ubuntu E c doc = ubu_Provider (m_crypto E) (m_resolve E) (ubu_NewProvider
     \<lparr>UCReleaseURL = URReleaseURL c, UCDiscoveryURL = URDiscoveryURL c, UCDiscoveryFile = URDiscoveryFile c, UCKeyring = URKeyring c,
      UCKernelSHA256 = URKernelSHA256 c, UCInitrdSHA256 = URInitrdSHA256 c, UCTargets = Some (Document_Targets doc ubu_providerID),
      UCLifecycle = URLifecycle c\<rparr>)"

definition main_fedora :: "('k, 'b, 's) main_env \<Rightarrow> FedoraRuntime \<Rightarrow> Document \<Rightarrow> Provider" where
  "main_fedora E c doc = fed_Provider (m_crypto E) (fed_NewProvider
     \<lparr>FCReleaseURL = FRReleaseURL c, FCDiscoveryURL = FRDiscoveryURL c, FCDiscoveryFile = FRDiscoveryFile c,
      FCKernelSHA256 = FRKernelSHA256 c, FCInitrdSHA256 = FRInitrdSHA256 c, FCTargets = Some (Document_Targets doc fed_providerID),
      FCLifecycle = FRLifecycle c\<rparr>)"

definition main_linux :: "('k, 'b, 's) main_env \<Rightarrow> Document \<Rightarrow> Provider" where
  "main_linux E doc = lin_Provider (m_crypto E) (lin_NewProvider (Document_Targets doc lin_providerID))"

definition main_local :: "Document \<Rightarrow> Provider" where
  "main_local doc = disk_Provider (disk_NewProvider (Some (Document_Targets doc disk_providerID)))"

definition main_mfsbsd :: "('k, 'b, 's) main_env \<Rightarrow> Document \<Rightarrow> Provider" where
  "main_mfsbsd E doc = mfs_Provider (m_crypto E) (m_codecs E) (mfs_NewProvider
     \<lparr>CfgTargets = Some (Document_Targets doc mfs_providerID), CfgLoaderArchiveURL = [], CfgLoaderArchiveSHA256 = [], CfgExtractor = None\<rparr>)"

definition main_providers :: "('k, 'b, 's) main_env \<Rightarrow> RuntimeConfig \<Rightarrow> Document \<Rightarrow> (string \<times> Provider) list" where
  "main_providers E c doc =
     [(''register Debian provider: %w'', main_debian E (RDebian c) doc), (''register Ubuntu provider: %w'', main_ubuntu E (RUbuntu c) doc),
      (''register Fedora provider: %w'', main_fedora E (RFedora c) doc), (''register Linux provider: %w'', main_linux E doc),
      (''register local disk provider: %w'', main_local doc), (''register mfsBSD provider: %w'', main_mfsbsd E doc)]"

fun register_all :: "(string \<times> Provider) list \<Rightarrow> Registry \<Rightarrow> Registry result" where
  "register_all [] r = Inr r"
| "register_all ((message, p) # ps) r = and_then (map_err (\<lambda>e. Errorf message [W e]) (Register r p)) (register_all ps)"

definition registerProviders :: "('k, 'b, 's) main_env \<Rightarrow> RuntimeConfig \<Rightarrow> Document \<Rightarrow> Registry \<Rightarrow> Registry result" where
  "registerProviders E c doc r = register_all (main_providers E c doc) r"

section \<open>Policies\<close>

definition policyAppMode :: "string \<Rightarrow> policySource \<Rightarrow> string result" where
  "policyAppMode mode s =
     (if mode = modePolicyTarget then
        if \<not> policy_configured s then Inl (policy_error ''policy source is required for policy-target mode'' [])
        else Inr ModePlanTarget
      else if \<not> policy_configured s then Inr mode
      else if mode = ModeMenu then Inr ModeBootTarget
      else if mode = ModePlanTarget \<or> mode = ModeStageTarget \<or> mode = ModeBootTarget then Inr mode
      else Inl (policy_error ''dynamic policy requires policy-target, menu, plan-target, stage-target, or boot-target mode'' []))"

definition policyTrust :: "policySource \<Rightarrow> Trust io" where
  "policyTrust s =
     (if PSSignaturePath s = [] \<or> PSPublicKeyPath s = [] then
        io_fail (policy_error ''policy Ed25519 signature and public key paths are both required'' [])
      else
        io_bind (io_wrap (\<lambda>e. policy_error ''read policy signature: %w'' [W e]) (readHexOrRawFile (PSSignaturePath s))) (\<lambda>signature.
        io_bind (io_wrap (\<lambda>e. policy_error ''read policy public key: %w'' [W e]) (readHexOrRawFile (PSPublicKeyPath s))) (\<lambda>publicKey.
        io_return \<lparr>Ed25519Signature = signature, Ed25519PublicKey = publicKey\<rparr>)))"

definition loadPolicyDecision :: "('k, 'b, 's) main_env \<Rightarrow> policySource \<Rightarrow> Trust \<Rightarrow> Decision io" where
  "loadPolicyDecision E s trust =
     (if PSURL s \<noteq> [] then
        policy_LoadURL (m_policy E) \<lparr>RURL = PSURL s, RTrust = trust, RMaxBytes = PSMaxBytes s, RNow = m_now E, RMaxAge = PSMaxAge s,
          RCachePath = PSCachePath s, RCacheFallback = PSCacheFallback s\<rparr>
      else
        policy_LoadFile (m_policy E) \<lparr>LPath = PSPath s, LTrust = trust, LMaxBytes = PSMaxBytes s, LNow = m_now E, LMaxAge = PSMaxAge s,
          LCachePath = PSCachePath s, LCacheFallback = PSCacheFallback s\<rparr>)"

record policySelectionInput =
  PIMode :: string
  PITargetID :: string
  PITargetOptions :: "SelectedOption list"
  PIDiscoveryFamilyID :: string
  PISecrets :: "SecretStore option"

definition check_policy_flags :: "policySource \<Rightarrow> policySelectionInput \<Rightarrow> unit result" where
  "check_policy_flags s inp =
     (if PSPath s \<noteq> [] \<and> PSURL s \<noteq> [] then Inl (policy_error ''cannot use --policy-file with --policy-url'' [])
      else if PSFallback s = policyFallbackManual \<and> PIMode inp \<noteq> ModeMenu then
        Inl (policy_error ''--policy-fallback=manual requires --mode=menu'' [])
      else if PITargetID inp \<noteq> [] then Inl (policy_error ''cannot combine --target with dynamic policy'' [])
      else if PITargetOptions inp \<noteq> [] then Inl (policy_error ''cannot combine --option with dynamic policy'' [])
      else if PIDiscoveryFamilyID inp \<noteq> [] then Inl (policy_error ''cannot combine --discovery-family with dynamic policy'' [])
      else Inr ())"

definition resolvePolicySelection ::
  "('k, 'b, 's) main_env \<Rightarrow> Registry \<Rightarrow> policySource \<Rightarrow> policySelectionInput \<Rightarrow> (PolicySelection \<times> Decision \<times> string) io" where
  "resolvePolicySelection E registry s inp =
     io_bind (io_of (policyAppMode (PIMode inp) s)) (\<lambda>selectedMode.
     io_bind (io_of (check_policy_flags s inp)) (\<lambda>_.
     io_bind (policyTrust s) (\<lambda>trust.
     io_bind (loadPolicyDecision E s trust) (\<lambda>decision.
     io_bind (io_wrap (\<lambda>e. policy_error ''list target inventory: %w'' [W e]) (Registry_Targets registry)) (\<lambda>targets.
     io_bind (io_of (policy_Validate decision targets (PISecrets inp))) (\<lambda>selection.
     io_return (selection, decision, selectedMode)))))))"

section \<open>Diagnostics\<close>

definition diagnosticsCatalogPosture :: "catalogSource \<Rightarrow> CatalogPosture" where
  "diagnosticsCatalogPosture s =
     \<lparr>CPSource = (if CSPath s \<noteq> [] \<and> CSURL s \<noteq> [] then ''multiple'' else if CSURL s \<noteq> [] then ''hosted''
        else if CSPath s \<noteq> [] then ''local'' else ''embedded''),
      CPLocalPathSet = (CSPath s \<noteq> []), CPHostedURLSet = (CSURL s \<noteq> []), CPSHA256 = (TrimSpace (CSSHA256 s) \<noteq> []),
      CPEd25519 = (CSSignaturePath s \<noteq> [] \<or> CSPublicKeyPath s \<noteq> []), CPSignatureFiles = (CSSignaturePath s \<noteq> [] \<or> CSPublicKeyPath s \<noteq> []),
      CPFreshness = (CSRequireFreshness s \<or> CSMaxAge s > 0), CPCache = (CSCachePath s \<noteq> []), CPCacheFallback = CSCacheFallback s,
      CPMaxBytes = (CSMaxBytes s > 0)\<rparr>"

definition nonblank :: "string list \<Rightarrow> string list" where
  "nonblank vs = filter (\<lambda>v. v \<noteq> []) (map TrimSpace vs)"

definition diagnosticsRedactValues :: "catalogSource \<Rightarrow> string \<Rightarrow> string list" where
  "diagnosticsRedactValues s providerConfigPath =
     nonblank [CSPath s, CSURL s, CSSignaturePath s, CSPublicKeyPath s, CSCachePath s, providerConfigPath]"

definition diagnosticsPolicyRedactValues :: "policySource \<Rightarrow> string list" where
  "diagnosticsPolicyRedactValues s = nonblank [PSPath s, PSURL s, PSSignaturePath s, PSPublicKeyPath s, PSCachePath s]"

definition diagnosticsPolicyPosture :: "policySource \<Rightarrow> PolicyPosture" where
  "diagnosticsPolicyPosture s =
     \<lparr>PPSource = (if PSPath s \<noteq> [] \<and> PSURL s \<noteq> [] then ''multiple'' else if PSURL s \<noteq> [] then ''remote''
        else if PSPath s \<noteq> [] then ''local'' else []),
      PPLocalPathSet = (PSPath s \<noteq> []), PPRemoteURLSet = (PSURL s \<noteq> []), PPEd25519 = (PSSignaturePath s \<noteq> [] \<or> PSPublicKeyPath s \<noteq> []),
      PPSignatureFiles = (PSSignaturePath s \<noteq> [] \<or> PSPublicKeyPath s \<noteq> []), PPFreshness = policy_configured s, PPCache = (PSCachePath s \<noteq> []),
      PPCacheFallback = PSCacheFallback s, PPMaxBytes = (PSMaxBytes s > 0),
      PPFallback = (if PSFallback s \<noteq> [] \<and> PSFallback s \<noteq> policyFallbackNone then PSFallback s else []),
      PPDecisionID = [], PPTargetID = [], PPPublishedAt = [], PPExpiresAt = []\<rparr>"

definition policyPostureWithFallback :: "PolicyPosture \<Rightarrow> string \<Rightarrow> PolicyPosture" where
  "policyPostureWithFallback p fb = p\<lparr>PPFallback := fb\<rparr>"

definition policyPostureWithDecision :: "('k, 'b, 's) main_env \<Rightarrow> PolicyPosture \<Rightarrow> Decision \<Rightarrow> PolicyPosture" where
  "policyPostureWithDecision E p d =
     p\<lparr>PPDecisionID := DecisionID d, PPTargetID := TargetID d,
       PPPublishedAt := (case PublishedAt d of None \<Rightarrow> PPPublishedAt p | Some t \<Rightarrow> m_format_time E t),
       PPExpiresAt := (case ExpiresAt d of None \<Rightarrow> PPExpiresAt p | Some t \<Rightarrow> m_format_time E t)\<rparr>"

section \<open>Running\<close>

record flags =
  f_version :: bool
  f_mode :: string
  f_ui :: string
  f_target :: string
  f_discovery_family :: string
  f_staging_dir :: string
  f_catalog :: catalogSource
  f_policy :: policySource
  f_provider_config :: string
  f_diagnostics_dir :: string
  f_console_mirror :: string
  f_append_cmdline :: string
  f_options :: "SelectedOption list"
  f_secrets :: "Selection list"
  f_net_iface :: string
  f_net_address :: string
  f_net_gateway :: string
  f_net_dns :: string
  f_hold :: bool
  f_prepare_runtime :: bool

definition default_flags :: flags where
  "default_flags = \<lparr>f_version = False, f_mode = ModeListTargets, f_ui = UIModeAuto, f_target = [], f_discovery_family = [],
     f_staging_dir = ''/tmp/bootup'',
     f_catalog = \<lparr>CSPath = [], CSURL = [], CSSHA256 = [], CSSignaturePath = [], CSPublicKeyPath = [], CSMaxAge = 0, CSRequireFreshness = False,
       CSCachePath = [], CSCacheFallback = False, CSMaxBytes = 0, CSIncludeDefault = False, CSCompiledProviders = Some compiledProviderIDs\<rparr>,
     f_policy = \<lparr>PSPath = [], PSURL = [], PSSignaturePath = [], PSPublicKeyPath = [], PSMaxAge = 0, PSTimeout = 30000000000, PSCachePath = [],
       PSCacheFallback = False, PSMaxBytes = 0, PSFallback = policyFallbackNone\<rparr>,
     f_provider_config = [], f_diagnostics_dir = [], f_console_mirror = [], f_append_cmdline = [], f_options = [], f_secrets = [],
     f_net_iface = [], f_net_address = [], f_net_gateway = [], f_net_dns = [], f_hold = False, f_prepare_runtime = False\<rparr>"

definition DurationVar :: "(int \<Rightarrow> 's \<Rightarrow> 's) \<Rightarrow> 's Flag" where
  "DurationVar put = \<lparr>IsBoolFlag = False, Set = (\<lambda>v s. case time_ParseDuration v of None \<Rightarrow> Inl errParse | Some d \<Rightarrow> Inr (put d s))\<rparr>"

definition on_catalog :: "(catalogSource \<Rightarrow> catalogSource) \<Rightarrow> flags \<Rightarrow> flags" where
  "on_catalog f fl = fl\<lparr>f_catalog := f (f_catalog fl)\<rparr>"

definition on_policy :: "(policySource \<Rightarrow> policySource) \<Rightarrow> flags \<Rightarrow> flags" where
  "on_policy f fl = fl\<lparr>f_policy := f (f_policy fl)\<rparr>"

definition main_flagset :: "flags FlagSet" where
  "main_flagset =
     [(''version'', BoolVar (\<lambda>b fl. fl\<lparr>f_version := b\<rparr>)),
      (''mode'', StringVar (\<lambda>v fl. fl\<lparr>f_mode := v\<rparr>)),
      (''ui'', StringVar (\<lambda>v fl. fl\<lparr>f_ui := v\<rparr>)),
      (''target'', StringVar (\<lambda>v fl. fl\<lparr>f_target := v\<rparr>)),
      (''discovery-family'', StringVar (\<lambda>v fl. fl\<lparr>f_discovery_family := v\<rparr>)),
      (''staging-dir'', StringVar (\<lambda>v fl. fl\<lparr>f_staging_dir := v\<rparr>)),
      (''catalog'', StringVar (\<lambda>v. on_catalog (\<lambda>s. s\<lparr>CSPath := v\<rparr>))),
      (''catalog-url'', StringVar (\<lambda>v. on_catalog (\<lambda>s. s\<lparr>CSURL := v\<rparr>))),
      (''catalog-sha256'', StringVar (\<lambda>v. on_catalog (\<lambda>s. s\<lparr>CSSHA256 := v\<rparr>))),
      (''catalog-signature'', StringVar (\<lambda>v. on_catalog (\<lambda>s. s\<lparr>CSSignaturePath := v\<rparr>))),
      (''catalog-public-key'', StringVar (\<lambda>v. on_catalog (\<lambda>s. s\<lparr>CSPublicKeyPath := v\<rparr>))),
      (''catalog-max-age'', DurationVar (\<lambda>d. on_catalog (\<lambda>s. s\<lparr>CSMaxAge := d\<rparr>))),
      (''catalog-require-freshness'', BoolVar (\<lambda>b. on_catalog (\<lambda>s. s\<lparr>CSRequireFreshness := b\<rparr>))),
      (''catalog-cache'', StringVar (\<lambda>v. on_catalog (\<lambda>s. s\<lparr>CSCachePath := v\<rparr>))),
      (''catalog-cache-fallback'', BoolVar (\<lambda>b. on_catalog (\<lambda>s. s\<lparr>CSCacheFallback := b\<rparr>))),
      (''catalog-max-bytes'', Int64Var (\<lambda>n. on_catalog (\<lambda>s. s\<lparr>CSMaxBytes := n\<rparr>))),
      (''catalog-include-default'', BoolVar (\<lambda>b. on_catalog (\<lambda>s. s\<lparr>CSIncludeDefault := b\<rparr>))),
      (''policy-file'', StringVar (\<lambda>v. on_policy (\<lambda>s. s\<lparr>PSPath := v\<rparr>))),
      (''policy-url'', StringVar (\<lambda>v. on_policy (\<lambda>s. s\<lparr>PSURL := v\<rparr>))),
      (''policy-signature'', StringVar (\<lambda>v. on_policy (\<lambda>s. s\<lparr>PSSignaturePath := v\<rparr>))),
      (''policy-public-key'', StringVar (\<lambda>v. on_policy (\<lambda>s. s\<lparr>PSPublicKeyPath := v\<rparr>))),
      (''policy-max-age'', DurationVar (\<lambda>d. on_policy (\<lambda>s. s\<lparr>PSMaxAge := d\<rparr>))),
      (''policy-timeout'', DurationVar (\<lambda>d. on_policy (\<lambda>s. s\<lparr>PSTimeout := d\<rparr>))),
      (''policy-cache'', StringVar (\<lambda>v. on_policy (\<lambda>s. s\<lparr>PSCachePath := v\<rparr>))),
      (''policy-cache-fallback'', BoolVar (\<lambda>b. on_policy (\<lambda>s. s\<lparr>PSCacheFallback := b\<rparr>))),
      (''policy-max-bytes'', Int64Var (\<lambda>n. on_policy (\<lambda>s. s\<lparr>PSMaxBytes := n\<rparr>))),
      (''policy-fallback'', StringVar (\<lambda>v. on_policy (\<lambda>s. s\<lparr>PSFallback := v\<rparr>))),
      (''provider-config'', StringVar (\<lambda>v fl. fl\<lparr>f_provider_config := v\<rparr>)),
      (''diagnostics-dir'', StringVar (\<lambda>v fl. fl\<lparr>f_diagnostics_dir := v\<rparr>)),
      (''console-mirror'', StringVar (\<lambda>v fl. fl\<lparr>f_console_mirror := v\<rparr>)),
      (''append-cmdline'', StringVar (\<lambda>v fl. fl\<lparr>f_append_cmdline := v\<rparr>)),
      (''option'', \<lparr>IsBoolFlag = False, Set = (\<lambda>v fl. and_then (optionFlags_Set (f_options fl) v) (\<lambda>os. Inr (fl\<lparr>f_options := os\<rparr>)))\<rparr>),
      (''secret'', \<lparr>IsBoolFlag = False, Set = (\<lambda>v fl. and_then (secretFlags_Set (f_secrets fl) v) (\<lambda>ss. Inr (fl\<lparr>f_secrets := ss\<rparr>)))\<rparr>),
      (''net-iface'', StringVar (\<lambda>v fl. fl\<lparr>f_net_iface := v\<rparr>)),
      (''net-address'', StringVar (\<lambda>v fl. fl\<lparr>f_net_address := v\<rparr>)),
      (''net-gateway'', StringVar (\<lambda>v fl. fl\<lparr>f_net_gateway := v\<rparr>)),
      (''net-dns'', StringVar (\<lambda>v fl. fl\<lparr>f_net_dns := v\<rparr>)),
      (''hold'', BoolVar (\<lambda>b fl. fl\<lparr>f_hold := b\<rparr>)),
      (''prepare-runtime'', BoolVar (\<lambda>b fl. fl\<lparr>f_prepare_runtime := b\<rparr>))]"

record effective =
  EMode :: string
  ETargetID :: string
  EOptions :: "SelectedOption list"
  ERefs :: "SecretRef list"
  EPosture :: PolicyPosture

text \<open>A failing step ends the run with the variables as they are.\<close>

definition with_eff :: "effective \<Rightarrow> 'a io \<Rightarrow> ('a \<Rightarrow> (unit result \<times> effective) io) \<Rightarrow> (unit result \<times> effective) io" where
  "with_eff eff m k = io_try m (\<lambda>r. case r of Inl e \<Rightarrow> io_return (Inl e, eff) | Inr x \<Rightarrow> k x)"

definition networkConfig :: "flags \<Rightarrow> NetworkConfig" where
  "networkConfig fl = \<lparr>NInterface = f_net_iface fl, AddressCIDR = f_net_address fl, Gateway = f_net_gateway fl,
     DNSServers = parseDNSServers (f_net_dns fl)\<rparr>"

definition main_preparers :: "('k, 'b, 's) main_env \<Rightarrow> flags \<Rightarrow> unit io list" where
  "main_preparers E fl =
     (let c = networkConfig fl in
      (if f_prepare_runtime fl \<or> hasNetworkConfig c then
         [net_Prepare (m_host E) \<lparr>NInterfaces = None, NReadFile = None, NWriteFile = None, NRunner = None, NConfig = c,
            ResolverPath = [], KernelPNPPath = []\<rparr>]
       else []) @
      (if f_prepare_runtime fl then
         [cert_Prepare (m_host E) \<lparr>LoadSystemPool = None\<rparr>,
          time_Prepare (m_host E) \<lparr>TRunner = None, TNow = None, Minimum = None\<rparr>]
       else []))"

definition apply_policy ::
  "('k, 'b, 's) main_env \<Rightarrow> flags \<Rightarrow> Registry \<Rightarrow> SecretStore \<Rightarrow> effective \<Rightarrow> (unit result \<times> effective) io" where
  "apply_policy E fl registry store eff =
     (let s = f_policy fl in
      if policy_configured s \<or> EMode eff = modePolicyTarget then
        io_try (resolvePolicySelection E registry s \<lparr>PIMode = EMode eff, PITargetID = ETargetID eff, PITargetOptions = EOptions eff,
                  PIDiscoveryFamilyID = f_discovery_family fl, PISecrets = Some store\<rparr>) (\<lambda>r. case r of
          Inr (selection, decision, selectedMode) \<Rightarrow>
            io_return (Inr (), eff\<lparr>EMode := selectedMode, ETargetID := TID (PSTarget selection), EOptions := PSOptions selection,
              ERefs := PSSecretRefs selection, EPosture := policyPostureWithDecision E (EPosture eff) decision\<rparr>)
        | Inl err \<Rightarrow>
            if manualFallback s (EMode eff) err then
              let eff' = eff\<lparr>EPosture := policyPostureWithFallback (EPosture eff) policyFallbackManual\<rparr> in
              with_eff eff' (io_wrap (\<lambda>e. Errorf ''write policy fallback notice: %w'' [W e])
                  (fmt_Fprintln ''policy failure; falling back to manual target selection'')) (\<lambda>_. io_return (Inr (), eff'))
            else io_return (Inl (Errorf ''resolve policy: %w'' [W err]), eff))
      else io_return (Inr (), eff))"

definition default_executor :: KexecExecutor where
  "default_executor = \<lparr>ELoader = None, ELoadSyscallLoader = None, ELocalBooter = None, EFreeBSDKbootRunner = None\<rparr>"

definition main_app :: "('k, 'b, 's) main_env \<Rightarrow> flags \<Rightarrow> stream \<Rightarrow> stream \<Rightarrow> Registry \<Rightarrow> SecretStore \<Rightarrow> effective \<Rightarrow> App" where
  "main_app E fl stdin stdout registry store eff =
     app_New (m_terminal E) (Some registry) (Some stdin) (Some stdout)
       \<lparr>ARegistry = registry, AStdin = stdin, AStdout = stdout, AMode = EMode eff, AUIMode = f_ui fl, ATargetID = ETargetID eff,
        ATargetOptions = EOptions eff, ASecretStore = Some store, ASecretRefs = ERefs eff, ADiscoveryFamilyID = f_discovery_family fl,
        AStagingDir = f_staging_dir fl, ACmdlineAppend = f_append_cmdline fl, AHold = f_hold fl,
        AExecutor = Some (kexec_Execute (m_kernel E) default_executor), APreparers = main_preparers E fl, AOnBeforeListTargets = None\<rparr>"

definition initial_effective :: "flags \<Rightarrow> effective" where
  "initial_effective fl = \<lparr>EMode = f_mode fl, ETargetID = f_target fl, EOptions = f_options fl, ERefs = [],
     EPosture = diagnosticsPolicyPosture (f_policy fl)\<rparr>"

text \<open>With a diagnostics directory, standard output is captured: the application then writes to a writer that is no file.\<close>

definition captured_stdout :: "flags \<Rightarrow> stream \<Rightarrow> stream" where
  "captured_stdout fl stdout = (if TrimSpace (f_diagnostics_dir fl) \<noteq> [] then stdout\<lparr>IsFile := False\<rparr> else stdout)"

text \<open>\<open>os.OpenFile\<close> with \<open>O_WRONLY|O_APPEND\<close>.\<close>

definition os_OpenAppend :: "string \<Rightarrow> unit io" where
  "os_OpenAppend p = os_call refused (\<lambda>w. case Fs w (path_Clean p) of
       None \<Rightarrow> (Inl (Sentinel OsErrNotExist), w)
     | Some (Dir _) \<Rightarrow> (Inl (errors_New ''is a directory''), w)
     | Some _ \<Rightarrow> (Inr (), w))"

definition outputAlreadyIncludes :: "('k, 'b, 's) main_env \<Rightarrow> string \<Rightarrow> bool \<Rightarrow> bool \<Rightarrow> bool" where
  "outputAlreadyIncludes E path stdoutIsFile stderrIsFile \<longleftrightarrow> stdoutIsFile \<and> m_same_stdout E path \<or> stderrIsFile \<and> m_same_stderr E path"

definition mirror_stdout :: "('k, 'b, 's) main_env \<Rightarrow> flags \<Rightarrow> stream \<Rightarrow> stream io" where
  "mirror_stdout E fl stdout =
     (if TrimSpace (f_console_mirror fl) = [] then io_return stdout
      else io_try (os_OpenAppend (f_console_mirror fl)) (\<lambda>r. io_return (case r of
          Inl _ \<Rightarrow> stdout
        | Inr _ \<Rightarrow> if outputAlreadyIncludes E (f_console_mirror fl) (IsFile stdout) (TrimSpace (f_diagnostics_dir fl) = []) then stdout
                    else stdout\<lparr>IsFile := False\<rparr>)))"

definition run_body :: "('k, 'b, 's) main_env \<Rightarrow> flags \<Rightarrow> stream \<Rightarrow> stream \<Rightarrow> (unit result \<times> effective) io" where
  "run_body E fl stdin stdout =
     (let eff = initial_effective fl in
      with_eff eff (io_of (validatePolicyFallback (PSFallback (f_policy fl)))) (\<lambda>_.
      with_eff eff (if f_provider_config fl \<noteq> [] then
            io_wrap (\<lambda>e. Errorf ''load provider config: %w'' [W e]) (config_LoadFile (m_crypto E) (m_decoder E) (f_provider_config fl))
          else io_return empty_RuntimeConfig) (\<lambda>providerConfig.
      with_eff eff (io_wrap (\<lambda>e. Errorf ''load catalog: %w'' [W e]) (loadCatalog E (f_catalog fl))) (\<lambda>catalogDoc.
      with_eff eff (io_of (registerProviders E providerConfig catalogDoc NewRegistry)) (\<lambda>registry.
      with_eff eff (io_wrap (\<lambda>e. Errorf ''load secret inputs: %w'' [W e]) (Load (f_secrets fl) 0)) (\<lambda>entries.
      let store = as_SecretStore entries in
      io_bind (apply_policy E fl registry store eff) (\<lambda>(r, eff').
      case r of
        Inl e \<Rightarrow> io_return (Inl e, eff')
      | Inr _ \<Rightarrow> with_eff eff' (app_Run (m_terminal E) (main_app E fl stdin stdout registry store eff')) (\<lambda>_.
                  io_return (Inr (), eff')))))))))"

definition summary_input :: "('k, 'b, 's) main_env \<Rightarrow> flags \<Rightarrow> go_error \<Rightarrow> effective \<Rightarrow> SummaryInput" where
  "summary_input E fl runErr eff =
     \<lparr>InMode = f_mode fl, InTargetID = ETargetID eff, InDiscoveryFamilyID = f_discovery_family fl, InSelectedOptions = EOptions eff,
      InSecretInputIDs = secretInputIDs (f_secrets fl), InSecretRefIDs = secretRefIDs (ERefs eff),
      InCatalog = diagnosticsCatalogPosture (f_catalog fl), InProviderConfig = \<lparr>PathSet = f_provider_config fl \<noteq> []\<rparr>, InPolicy = EPosture eff,
      InError = Some (err_Error (m_terminal E) runErr),
      InRedactValues = diagnosticsRedactValues (f_catalog fl) (f_provider_config fl) @ secretRedactValues (f_secrets fl) @
        diagnosticsPolicyRedactValues (f_policy fl)\<rparr>"

definition writeFailureDiagnostics :: "('k, 'b, 's) main_env \<Rightarrow> flags \<Rightarrow> bytes \<Rightarrow> go_error \<Rightarrow> effective \<Rightarrow> unit io" where
  "writeFailureDiagnostics E fl captured runErr eff =
     io_try (WriteBundle (m_diag E) \<lparr>RootDir = f_diagnostics_dir fl, CreatedAt = None,
         BSummary = BuildSummary (summary_input E fl runErr eff), Stdout = captured, Stderr = m_stderr E\<rparr>) (\<lambda>r. case r of
       Inl diagnosticsErr \<Rightarrow> io_fail (Errorf ''%w; write diagnostics: %w'' [W runErr, W diagnosticsErr])
     | Inr bundleDir \<Rightarrow> io_fail (Errorf ''%w; diagnostics: %s'' [W runErr, S bundleDir]))"

definition main_run :: "('k, 'b, 's) main_env \<Rightarrow> flags \<Rightarrow> stream \<Rightarrow> stream \<Rightarrow> unit io" where
  "main_run E fl stdin stdout w0 =
     (if f_version fl then fmt_Fprint (FormatText (buildinfo_Current (m_stamped E))) w0
      else io_bind (mirror_stdout E fl (captured_stdout fl stdout)) (\<lambda>output.
      io_bind (run_body E fl stdin output) (\<lambda>(r, eff). case r of
        Inr _ \<Rightarrow> io_return ()
      | Inl runErr \<Rightarrow>
          if TrimSpace (f_diagnostics_dir fl) \<noteq> [] then
            (\<lambda>w. writeFailureDiagnostics E fl (concat (drop (length (Console w0)) (Console w))) runErr eff w)
          else io_fail runErr)) w0)"

definition runWithIO :: "('k, 'b, 's) main_env \<Rightarrow> string list \<Rightarrow> stream \<Rightarrow> stream \<Rightarrow> unit io" where
  "runWithIO E args stdin stdout =
     io_bind (io_of (map_err (\<lambda>e. Errorf ''parse flags: %w'' [W e]) (flag_Parse main_flagset args default_flags))) (\<lambda>(fl, _).
     main_run E fl stdin stdout)"



end
