(* ===== verification/Assurance.thy ===== *)
theory Assurance
  imports MainCmd
begin

text \<open>
  What a boot rests on.  A locale states what the program relies on of a provider: its plans are its own, and what it
  stages from them satisfies the trust condition of the provider.  It is interpreted on the six providers as the program
  configures them; with \<open>app_executes_staged_only\<close> this bounds what a run can hand control to.
\<close>

section \<open>The contract of a provider\<close>

definition file_in :: "(string \<Rightarrow> node option) \<Rightarrow> string \<Rightarrow> bytes \<Rightarrow> bool" where
  "file_in fs p d \<longleftrightarrow> (\<exists>m. fs (path_Clean p) = Some (File d m))"

lemma file_at_in: "file_at w p d \<longleftrightarrow> file_in (Fs w) p d"
  by (simp add: file_at_def file_in_def)

text \<open>Which operation of which provider a successful call through the registry ran.\<close>

lemma Registry_Plan_Inr:
  assumes "Registry_Plan r input w = (Inr plan, w')" and "map_of r (ProviderID (PTarget input)) = Some P"
  shows "\<exists>refs q. ProvPlan P (input\<lparr>PSecretRefs := refs\<rparr>) w = (Inr q, w') \<and> (plan = q \<or> plan = q\<lparr>BSecretRefs := refs\<rparr>)"
  using assms by (auto simp: Registry_Plan_def split: if_splits)

lemma Registry_Stage_Inr:
  assumes "Registry_Stage r cfg w = (Inr q, w')" and "map_of r (ProviderID (BTarget (CPlan cfg))) = Some P"
  shows "\<exists>refs stage. ProvStager P = Some stage \<and> stage (cfg\<lparr>CSecretRefs := refs\<rparr>) w = (Inr q, w')"
  using assms by (auto simp: Registry_Stage_def Let_def split: option.splits)

lemma Registry_provider_known:
  "Registry_Plan r input w = (Inr plan, w') \<Longrightarrow> map_of r (ProviderID (PTarget input)) \<noteq> None"
  by (auto simp: Registry_Plan_def split: option.splits)

locale trusted_provider =
  fixes P :: Provider
    and planned :: "BootPlan \<Rightarrow> bool"
    and trusted :: "BootPlan \<Rightarrow> (string \<Rightarrow> node option) \<Rightarrow> bool"
  assumes plan_own: "ProvPlan P input w = (Inr plan, w') \<Longrightarrow> ProviderID (PTarget input) = ProvID P \<Longrightarrow>
        ProviderID (BTarget plan) = ProvID P \<and> planned plan"
    and planned_cmdline: "planned (plan\<lparr>BCmdline := c\<rparr>) \<longleftrightarrow> planned plan"
    and planned_refs: "planned (plan\<lparr>BSecretRefs := refs\<rparr>) \<longleftrightarrow> planned plan"
    and stage_trusted: "ProvStager P = Some stage \<Longrightarrow> stage cfg w = (Inr q, w') \<Longrightarrow> quiet (Progress cfg) \<Longrightarrow>
        planned (CPlan cfg) \<Longrightarrow> BTarget q = BTarget (CPlan cfg) \<and> trusted q (Fs w')"
begin

text \<open>Planned by the provider through the registry, whatever the command line becomes.\<close>

lemma registry_plan_own:
  assumes "map_of r (ProvID P) = Some P" and "Registry_Plan r input w = (Inr plan, w')" and "ProviderID (PTarget input) = ProvID P"
  shows "ProviderID (BTarget plan) = ProvID P \<and> planned (plan\<lparr>BCmdline := c\<rparr>)"
proof -
  from Registry_Plan_Inr [OF assms(2)] assms(1,3) obtain refs q where run: "ProvPlan P (input\<lparr>PSecretRefs := refs\<rparr>) w = (Inr q, w')"
    and "plan = q \<or> plan = q\<lparr>BSecretRefs := refs\<rparr>" by auto
  with plan_own [OF run] assms(3) show ?thesis by (auto simp: planned_cmdline planned_refs)
qed

lemma registry_stage_trusted:
  assumes "map_of r (ProvID P) = Some P" and "Registry_Stage r cfg w = (Inr q, w')" and "quiet (Progress cfg)"
    and "planned (CPlan cfg)" and "ProviderID (BTarget (CPlan cfg)) = ProvID P"
  shows "ProviderID (BTarget q) = ProvID P \<and> trusted q (Fs w')"
proof -
  from Registry_Stage_Inr [OF assms(2)] assms(1,5) obtain stage refs where "ProvStager P = Some stage"
    and "stage (cfg\<lparr>CSecretRefs := refs\<rparr>) w = (Inr q, w')" by auto
  from stage_trusted [OF this] assms(3-5) show ?thesis by simp
qed

end

section \<open>Conditions\<close>

definition both_in :: "BootPlan \<Rightarrow> (string \<Rightarrow> node option) \<Rightarrow> (bytes \<Rightarrow> bytes \<Rightarrow> bool) \<Rightarrow> bool" where
  "both_in p fs ok \<longleftrightarrow> (\<exists>k i. ok k i \<and> file_in fs (Path (Kernel p)) k \<and> (URL (Initrd p) \<noteq> [] \<longrightarrow> file_in fs (Path (Initrd p)) i))"

definition deb_boot :: "('k, 'b) crypto \<Rightarrow> bytes \<Rightarrow> BootPlan \<Rightarrow> (string \<Rightarrow> node option) \<Rightarrow> bool" where
  "deb_boot C keyring p fs \<longleftrightarrow> keyring \<noteq> [] \<and> both_in p fs (deb_trusted C keyring p)"

definition ubu_boot :: "('k, 'b) crypto \<Rightarrow> bytes \<Rightarrow> BootPlan \<Rightarrow> (string \<Rightarrow> node option) \<Rightarrow> bool" where
  "ubu_boot C keyring p fs \<longleftrightarrow> both_in p fs (ubu_trusted C keyring p)"

definition fed_boot :: "('k, 'b) crypto \<Rightarrow> BootPlan \<Rightarrow> (string \<Rightarrow> node option) \<Rightarrow> bool" where
  "fed_boot C p fs \<longleftrightarrow> both_in p fs (\<lambda>k i. sha256_hex C k = ToLower (SHA256 (Kernel p)) \<and> sha256_hex C i = ToLower (SHA256 (Initrd p)))"

definition lin_boot :: "('k, 'b) crypto \<Rightarrow> BootPlan \<Rightarrow> (string \<Rightarrow> node option) \<Rightarrow> bool" where
  "lin_boot C p fs \<longleftrightarrow> (lin_distinct_names p \<longrightarrow> both_in p fs (lin_trusted C p))"

definition disk_boot :: "BootPlan \<Rightarrow> bool" where
  "disk_boot p \<longleftrightarrow> BAction p = BootActionLocalBoot"

definition mfs_boot :: "('k, 'b) crypto \<Rightarrow> codecs \<Rightarrow> BootPlan \<Rightarrow> (string \<Rightarrow> node option) \<Rightarrow> bool" where
  "mfs_boot C K p fs \<longleftrightarrow> BAction p = BootActionFreeBSDKboot \<and>
     (plain_elem (AName (Payload (FreeBSDKboot p))) \<longrightarrow>
       (\<exists>image. pinned C (Payload (FreeBSDKboot p)) image) \<and>
       (\<exists>archive hs l. sha256_hex C archive = ToLower defaultLoaderArchiveSHA256 \<and> xz_tar_NewReader K archive = Inr (hs, None) \<and>
          member ''boot/loader.kboot'' hs = Some l \<and> file_in fs (Path (Loader (FreeBSDKboot p))) (fst (TarData l))))"

lemma same_boot_trusted:
  assumes "same_boot q p"
  shows "deb_trusted C keyring p = deb_trusted C keyring q" and "ubu_trusted C keyring p = ubu_trusted C keyring q"
    and "lin_trusted C p = lin_trusted C q" and "lin_distinct_names p = lin_distinct_names q"
  using assms unfolding same_boot_def same_artifact_def
  by (auto simp: deb_trusted_def ubu_trusted_def lin_trusted_def lin_distinct_names_def pin_ok_def stage_name_def fun_eq_iff)

section \<open>The providers\<close>

lemma find_target_in: "find_target ts i = Some t \<Longrightarrow> t \<in> set ts"
  by (auto simp: find_target_def find_Some_iff)

lemma ApplySelectedOptions_Inr:
  assumes "ApplySelectedOptions p sel = Inr q"
  shows "BTarget q = BTarget p \<and> BAction q = BAction p \<and> Kernel q = Kernel p \<and> Initrd q = Initrd p \<and>
    Payload (FreeBSDKboot q) = Payload (FreeBSDKboot p) \<and> LoaderArchive (FreeBSDKboot q) = LoaderArchive (FreeBSDKboot p)"
  using assms by (auto simp: ApplySelectedOptions_def)

definition own_targets :: "string \<Rightarrow> Target list \<Rightarrow> bool" where
  "own_targets i ts \<longleftrightarrow> (\<forall>t \<in> set ts. ProviderID t = i)"

lemma own_Document_Targets [simp]: "own_targets i (Document_Targets doc i)"
  by (simp add: own_targets_def Document_Targets_def)

lemma own_find: "own_targets i ts \<Longrightarrow> find_target ts j = Some t \<Longrightarrow> ProviderID t = i"
  by (auto simp: own_targets_def dest: find_target_in)

lemma deb_provider:
  assumes own: "own_targets deb_providerID (deb_targets p)" and keyring: "deb_keyring p = keyring"
  shows "trusted_provider (deb_Provider C p) (\<lambda>_. True) (deb_boot C keyring)"
  unfolding keyring [symmetric]
proof
  show "ProviderID (BTarget plan) = ProvID (deb_Provider C p) \<and> True"
    if "ProvPlan (deb_Provider C p) input w = (Inr plan, w')" for input w plan w'
    using that own_find [OF own] by (auto simp: deb_Provider_def deb_Plan_def deb_selectedTarget_def deb_plan_def plan_for_def Let_def res_simps
        wf_target_def dest!: ApplySelectedOptions_Inr split: option.splits if_splits)
  show "BTarget q = BTarget (CPlan cfg) \<and> deb_boot C (deb_keyring p) q (Fs w')"
    if "ProvStager (deb_Provider C p) = Some stage" "stage cfg w = (Inr q, w')" "quiet (Progress cfg)" for stage cfg w q w'
  proof -
    from that have run: "deb_Stage C p cfg w = (Inr q, w')" by (simp add: deb_Provider_def)
    from debian.stage_same [OF this] have "same_boot q (CPlan cfg)" .
    with run that(3) deb_FetchAndStageArtifacts_Inr(2) show ?thesis
      by (fastforce simp: deb_Stage_def deb_boot_def both_in_def file_at_in same_boot_trusted same_boot_def split: if_splits)
  qed
qed simp_all

lemma ubu_provider:
  assumes own: "own_targets ubu_providerID (ubu_targets p)" and keyring: "ubu_keyring p = keyring"
  shows "trusted_provider (ubu_Provider C R p) (\<lambda>q. AName (Kernel q) = ''linux'' \<and> AName (Initrd q) = ''initrd'') (ubu_boot C keyring)"
  unfolding keyring [symmetric]
proof
  show "ProviderID (BTarget plan) = ProvID (ubu_Provider C R p) \<and> AName (Kernel plan) = ''linux'' \<and> AName (Initrd plan) = ''initrd''"
    if "ProvPlan (ubu_Provider C R p) input w = (Inr plan, w')" for input w plan w'
    using that own_find [OF own] by (auto simp: ubu_Provider_def ubu_Plan_def ubu_selectedTarget_def ubu_plan_def plan_for_def Let_def res_simps
        wf_target_def dest!: ApplySelectedOptions_Inr split: option.splits if_splits)
  show "BTarget q = BTarget (CPlan cfg) \<and> ubu_boot C (ubu_keyring p) q (Fs w')"
    if "ProvStager (ubu_Provider C R p) = Some stage" "stage cfg w = (Inr q, w')" "quiet (Progress cfg)"
      "AName (Kernel (CPlan cfg)) = ''linux'' \<and> AName (Initrd (CPlan cfg)) = ''initrd''" for stage cfg w q w'
  proof -
    from that have run: "ubu_Stage C p cfg w = (Inr q, w')" by (simp add: ubu_Provider_def)
    from ubuntu.stage_same [OF this] have same: "same_boot q (CPlan cfg)" .
    from ubu_Stage_Inr(2) [OF run that(3)] that(4) obtain k i where "ubu_trusted C (ubu_keyring p) (CPlan cfg) k i"
      "file_at w' (Path (Kernel q)) k" "file_at w' (Path (Initrd q)) i" by (auto simp: plain_elem_def)
    with same show ?thesis by (auto simp: ubu_boot_def both_in_def file_at_in same_boot_trusted same_boot_def)
  qed
qed simp_all

definition fed_planned :: "BootPlan \<Rightarrow> bool" where
  "fed_planned q \<longleftrightarrow> AName (Kernel q) = ''vmlinuz'' \<and> AName (Initrd q) = ''initrd.img'' \<and> SHA256 (Kernel q) \<noteq> [] \<and> SHA256 (Initrd q) \<noteq> []"

lemma fed_provider:
  assumes "own_targets fed_providerID (fed_targets p)"
  shows "trusted_provider (fed_Provider C p) fed_planned (fed_boot C)"
proof
  show "ProviderID (BTarget plan) = ProvID (fed_Provider C p) \<and> fed_planned plan"
    if "ProvPlan (fed_Provider C p) input w = (Inr plan, w')" for input w plan w'
  proof -
    from that obtain t cs where t: "fed_selectedTarget p (PTarget input) = Inr t"
      and cs: "artifactChecksums p t (fed_targetBaseURL p t) (Offline input) w = (Inr cs, w')"
      and plan: "ApplySelectedOptions (fed_plan t (fed_targetBaseURL p t) cs) (POptions input) = Inr plan"
      by (auto simp: fed_Provider_def fed_Plan_def Let_def split: if_splits)
    from t own_find [OF assms] have "ProviderID t = fed_providerID"
      by (auto simp: fed_selectedTarget_def res_simps wf_target_def split: option.splits if_splits)
    with ApplySelectedOptions_Inr [OF plan] artifactChecksums_Inr [OF cs] show ?thesis
      by (simp add: fed_Provider_def fed_planned_def fed_plan_def plan_for_def)
  qed
  show "BTarget q = BTarget (CPlan cfg) \<and> fed_boot C q (Fs w')"
    if "ProvStager (fed_Provider C p) = Some stage" "stage cfg w = (Inr q, w')" "quiet (Progress cfg)" "fed_planned (CPlan cfg)"
    for stage cfg w q w'
  proof -
    from that have run: "fed_Stage C cfg w = (Inr q, w')" by (simp add: fed_Provider_def)
    from fedora.stage_same [OF this] have same: "same_boot q (CPlan cfg)" .
    from fed_Stage_Inr(2) [OF run that(3)] that(4) obtain k i where "fed_trusted C (CPlan cfg) k i"
      "file_at w' (Path (Kernel q)) k" "file_at w' (Path (Initrd q)) i" by (auto simp: plain_elem_def distinct_names_def fed_planned_def)
    with same that(4) show ?thesis
      by (auto simp: fed_boot_def both_in_def file_at_in same_boot_def same_artifact_def fed_trusted_def fed_planned_def pin_ok_def)
  qed
qed (simp_all add: fed_planned_def)

lemma lin_provider:
  assumes "own_targets lin_providerID (lin_targets p)"
  shows "trusted_provider (lin_Provider C p) (\<lambda>_. True) (lin_boot C)"
proof
  show "ProviderID (BTarget plan) = ProvID (lin_Provider C p) \<and> True"
    if "ProvPlan (lin_Provider C p) input w = (Inr plan, w')" for input w plan w'
    using that own_find [OF assms] by (auto simp: lin_Provider_def lin_Plan_def lin_selectedTarget_def lin_plan_def plan_for_def Let_def res_simps
        wf_target_def dest!: ApplySelectedOptions_Inr split: option.splits if_splits)
  show "BTarget q = BTarget (CPlan cfg) \<and> lin_boot C q (Fs w')"
    if "ProvStager (lin_Provider C p) = Some stage" "stage cfg w = (Inr q, w')" "quiet (Progress cfg)" for stage cfg w q w'
  proof -
    from that have run: "lin_Stage C cfg w = (Inr q, w')" by (simp add: lin_Provider_def)
    from linux.stage_same [OF this] have same: "same_boot q (CPlan cfg)" .
    with lin_Stage_Inr(2) [OF run that(3)] show ?thesis
      unfolding lin_boot_def both_in_def file_at_in by (auto simp: same_boot_trusted [OF same] same_boot_def)
  qed
qed simp_all

lemma disk_provider:
  assumes "own_targets disk_providerID (disk_targets p)"
  shows "trusted_provider (disk_Provider p) disk_boot (\<lambda>q _. disk_boot q)"
proof
  show "ProviderID (BTarget plan) = ProvID (disk_Provider p) \<and> disk_boot plan"
    if "ProvPlan (disk_Provider p) input w = (Inr plan, w')" for input w plan w'
    using that own_find [OF assms] by (auto simp: disk_Provider_def disk_Plan_def disk_selectedTarget_def disk_boot_def plan_for_def res_simps
        wf_target_def dest!: ApplySelectedOptions_Inr split: option.splits if_splits)
qed (auto simp: disk_boot_def disk_Provider_def disk_Stage_def)

definition mfs_planned :: "BootPlan \<Rightarrow> bool" where
  "mfs_planned q \<longleftrightarrow> BAction q = BootActionFreeBSDKboot \<and> AName (LoaderArchive (FreeBSDKboot q)) = ''base.txz'' \<and>
     SHA256 (LoaderArchive (FreeBSDKboot q)) = defaultLoaderArchiveSHA256"

lemma default_archive_name: "artifactNameFromURL defaultLoaderArchiveURL ''base.txz'' = ''base.txz''"
  by code_simp

lemma mfs_Stage_planned:
  assumes run: "mfs_Stage C K p cfg w = (Inr q, w')" and "mfs_extractor p = None" and "quiet (Progress cfg)" and plan: "mfs_planned (CPlan cfg)"
  shows "BTarget q = BTarget (CPlan cfg) \<and> mfs_boot C K q (Fs w')"
proof (cases "plain_elem (AName (Payload (FreeBSDKboot (CPlan cfg))))")
  case True
  have "plain_elem (AName (LoaderArchive (FreeBSDKboot (CPlan cfg))))" using plan by (simp add: mfs_planned_def plain_elem_def)
  note staged = mfs_Stage_facts [OF run _ assms(3) True this]
  show ?thesis
  proof (intro conjI)
    show "BTarget q = BTarget (CPlan cfg)" using staged assms(2) by (simp add: same_boot_def)
    obtain image where "pinned C (Payload (FreeBSDKboot (CPlan cfg))) image" using staged assms(2) by auto
    moreover obtain archive hs l where "pinned C (LoaderArchive (FreeBSDKboot (CPlan cfg))) archive"
      "xz_tar_NewReader K archive = Inr (hs, None)" "member ''boot/loader.kboot'' hs = Some l"
      "file_at w' (Path (Loader (FreeBSDKboot q))) (fst (TarData l))" using staged assms(2) by auto
    moreover have "same_boot q (CPlan cfg)" using staged assms(2) by simp
    ultimately show "mfs_boot C K q (Fs w')"
      using plan unfolding mfs_boot_def mfs_planned_def pinned_def same_boot_def same_artifact_def file_at_in by metis
  qed
next
  case False
  with mfs_Stage_same [OF run] plan show ?thesis by (auto simp: mfs_boot_def mfs_planned_def same_boot_def same_artifact_def)
qed

lemma mfs_provider:
  assumes "own_targets mfs_providerID ts"
  shows "trusted_provider (mfs_Provider C K (mfs_NewProvider \<lparr>CfgTargets = Some ts, CfgLoaderArchiveURL = [], CfgLoaderArchiveSHA256 = [],
           CfgExtractor = None\<rparr>)) mfs_planned (mfs_boot C K)" (is "trusted_provider ?P _ _")
proof
  let ?p = "mfs_NewProvider \<lparr>CfgTargets = Some ts, CfgLoaderArchiveURL = [], CfgLoaderArchiveSHA256 = [], CfgExtractor = None\<rparr>"
  have p: "mfs_targets ?p = ts" "loaderArchiveURL ?p = defaultLoaderArchiveURL" "loaderArchiveSHA256 ?p = defaultLoaderArchiveSHA256"
    "mfs_extractor ?p = None" by (simp_all add: mfs_NewProvider_def Let_def)
  show "ProviderID (BTarget plan) = ProvID ?P \<and> mfs_planned plan" if "ProvPlan ?P input w = (Inr plan, w')" for input w plan w'
    using that own_find [OF assms] by (auto simp: mfs_Provider_def mfs_Plan_def mfs_selectedTarget_def mfs_plan_def mfs_planned_def plan_for_def
        Let_def res_simps wf_target_def p default_archive_name dest!: ApplySelectedOptions_Inr split: option.splits if_splits)
  show "BTarget q = BTarget (CPlan cfg) \<and> mfs_boot C K q (Fs w')"
    if "ProvStager ?P = Some stage" "stage cfg w = (Inr q, w')" "quiet (Progress cfg)" "mfs_planned (CPlan cfg)" for stage cfg w q w'
  proof -
    from that(1,2) have "mfs_Stage C K ?p cfg w = (Inr q, w')" by (auto simp: mfs_Provider_def)
    from mfs_Stage_planned [OF this p(4) that(3,4)] show ?thesis .
  qed
qed (simp_all add: mfs_planned_def)

section \<open>The program\<close>

interpretation debian_boot: trusted_provider "main_debian E c doc" "\<lambda>_. True" "deb_boot (m_crypto E) (DRKeyring c)" for E :: "('k, 'b, 's) main_env" and c doc
  unfolding main_debian_def by (rule deb_provider) (simp_all add: deb_NewProvider_def Let_def)

interpretation ubuntu_boot: trusted_provider "main_ubuntu E c doc" "\<lambda>q. AName (Kernel q) = ''linux'' \<and> AName (Initrd q) = ''initrd''"
  "ubu_boot (m_crypto E) (URKeyring c)" for E :: "('k, 'b, 's) main_env" and c doc
  unfolding main_ubuntu_def by (rule ubu_provider) (simp_all add: ubu_NewProvider_def Let_def)

interpretation fedora_boot: trusted_provider "main_fedora E c doc" fed_planned "fed_boot (m_crypto E)" for E :: "('k, 'b, 's) main_env" and c doc
  unfolding main_fedora_def by (rule fed_provider) (simp add: fed_NewProvider_def Let_def)

interpretation linux_boot: trusted_provider "main_linux E doc" "\<lambda>_. True" "lin_boot (m_crypto E)" for E :: "('k, 'b, 's) main_env" and doc
  unfolding main_linux_def by (rule lin_provider) (simp add: lin_NewProvider_def)

interpretation local_boot: trusted_provider "main_local doc" disk_boot "\<lambda>q _. disk_boot q" for doc
  unfolding main_local_def by (rule disk_provider) (simp add: disk_NewProvider_def)

interpretation mfsbsd_boot: trusted_provider "main_mfsbsd E doc" mfs_planned "mfs_boot (m_crypto E) (m_codecs E)" for E :: "('k, 'b, 's) main_env" and doc
  unfolding main_mfsbsd_def by (rule mfs_provider) simp

definition main_registry :: "('k, 'b, 's) main_env \<Rightarrow> RuntimeConfig \<Rightarrow> Document \<Rightarrow> Registry" where
  "main_registry E c doc = map (\<lambda>(_, p). (ProvID p, p)) (main_providers E c doc)"

lemma main_ids:
  "ProvID (main_debian E d doc) = ''debian''" "ProvID (main_ubuntu E u doc) = ''ubuntu''" "ProvID (main_fedora E f doc) = ''fedora''"
  "ProvID (main_linux E doc) = ''linux''" "ProvID (main_local doc) = ''local''" "ProvID (main_mfsbsd E doc) = ''mfsbsd''"
  by (simp_all add: main_debian_def deb_Provider_def deb_providerID_def main_ubuntu_def ubu_Provider_def ubu_providerID_def
      main_fedora_def fed_Provider_def fed_providerID_def main_linux_def lin_Provider_def lin_providerID_def
      main_local_def disk_Provider_def disk_providerID_def main_mfsbsd_def mfs_Provider_def mfs_providerID_def)

lemma registerProviders_registry: "registerProviders E c doc NewRegistry = Inr (main_registry E c doc)"
  by (simp add: registerProviders_def main_providers_def Register_def main_registry_def NewRegistry_def main_ids)

lemma main_registry_at:
  "map_of (main_registry E c doc) i = Some p \<Longrightarrow>
     p = main_debian E (RDebian c) doc \<or> p = main_ubuntu E (RUbuntu c) doc \<or> p = main_fedora E (RFedora c) doc \<or>
     p = main_linux E doc \<or> p = main_local doc \<or> p = main_mfsbsd E doc"
  by (auto simp: main_registry_def main_providers_def split: if_splits)

lemma main_registry_own:
  "map_of (main_registry E c doc) i = Some p \<Longrightarrow> i = ProvID p"
  by (auto simp: main_registry_def main_providers_def split: if_splits)

text \<open>The condition under which the program hands over control, by the provider of the plan.\<close>

definition trusted_boot :: "('k, 'b, 's) main_env \<Rightarrow> RuntimeConfig \<Rightarrow> BootPlan \<Rightarrow> (string \<Rightarrow> node option) \<Rightarrow> bool" where
  "trusted_boot E c p fs \<longleftrightarrow>
     (let i = ProviderID (BTarget p) in
      if i = ''debian'' then deb_boot (m_crypto E) (DRKeyring (RDebian c)) p fs
      else if i = ''ubuntu'' then ubu_boot (m_crypto E) (URKeyring (RUbuntu c)) p fs
      else if i = ''fedora'' then fed_boot (m_crypto E) p fs
      else if i = ''linux'' then lin_boot (m_crypto E) p fs
      else if i = ''local'' then disk_boot p
      else i = ''mfsbsd'' \<and> mfs_boot (m_crypto E) (m_codecs E) p fs)"

lemma main_registry_stages:
  fixes E :: "('k, 'b, 's) main_env"
  shows "stages_ok (trusted_boot E c) (main_registry E c doc)"
  unfolding stages_ok_def
proof (intro allI impI)
  fix input u plan u' cmdline cfg w p w'
  assume plan: "Registry_Plan (main_registry E c doc) input u = (Inr plan, u')" and cfg: "CPlan cfg = plan\<lparr>BCmdline := cmdline\<rparr>"
    and quiet: "quiet (Progress cfg)" and stage: "Registry_Stage (main_registry E c doc) cfg w = (Inr p, w')"
  from Registry_provider_known [OF plan] obtain P where P: "map_of (main_registry E c doc) (ProviderID (PTarget input)) = Some P" by blast
  note i = main_registry_own [OF P]
  have done_by: "ProviderID (BTarget p) = ProvID P \<and> trusted p (Fs w')" if "trusted_provider P planned trusted" for planned trusted
  proof -
    note own = trusted_provider.registry_plan_own [OF that P [unfolded i] plan i]
    show ?thesis
      using trusted_provider.registry_stage_trusted [OF that P [unfolded i] stage quiet] own cfg by simp
  qed
  from main_registry_at [OF P] consider
      "P = main_debian E (RDebian c) doc" | "P = main_ubuntu E (RUbuntu c) doc" | "P = main_fedora E (RFedora c) doc"
    | "P = main_linux E doc" | "P = main_local doc" | "P = main_mfsbsd E doc" by blast
  then show "trusted_boot E c p (Fs w')"
  proof cases
    case 1
    with done_by debian_boot.trusted_provider_axioms [of E "RDebian c" doc] show ?thesis by (fastforce simp: trusted_boot_def main_ids)
  next
    case 2
    with done_by ubuntu_boot.trusted_provider_axioms [of E "RUbuntu c" doc] show ?thesis by (fastforce simp: trusted_boot_def main_ids)
  next
    case 3
    with done_by fedora_boot.trusted_provider_axioms [of E "RFedora c" doc] show ?thesis by (fastforce simp: trusted_boot_def main_ids)
  next
    case 4
    with done_by linux_boot.trusted_provider_axioms [of E doc] show ?thesis by (fastforce simp: trusted_boot_def main_ids)
  next
    case 5
    with done_by local_boot.trusted_provider_axioms [of doc] show ?thesis by (fastforce simp: trusted_boot_def main_ids)
  next
    case 6
    with done_by mfsbsd_boot.trusted_provider_axioms [of E doc] show ?thesis by (fastforce simp: trusted_boot_def main_ids)
  qed
qed

end
