(* ===== verification/RegistryMap.thy ===== *)
theory RegistryMap
  imports Registry "HOL-Library.Multiset"
begin

text \<open>
  The registry as an abstract data type.  The Go code keeps the providers in a map and sorts its keys before every
  traversal; the locale states what its clients rely on, a finite map from IDs to providers that is listed in the order of
  the IDs, and is interpreted on the association lists of \<open>Registry\<close>.
\<close>

section \<open>Registering one after the other\<close>

definition by_id :: "Provider list \<Rightarrow> string \<Rightarrow> Provider option" where
  "by_id ps = map_of (map (\<lambda>p. (ProvID p, p)) ps)"

lemma by_id_simps [simp]: "by_id [] = Map.empty" "by_id (p # ps) = (by_id ps)(ProvID p \<mapsto> p)"
  by (simp_all add: by_id_def)

lemma dom_by_id [simp]: "dom (by_id ps) = ProvID ` set ps"
  by (simp add: by_id_def dom_map_of_conv_image_fst image_image)

lemma by_id_mset:
  assumes "mset ps = mset qs" and "distinct (map ProvID ps)"
  shows "by_id ps = by_id qs"
proof -
  let ?f = "\<lambda>p. (ProvID p, p)"
  have "mset (map ProvID ps) = mset (map ProvID qs)" using assms(1) by (simp add: mset_map)
  then have "distinct (map ProvID qs)" using assms(2) mset_eq_imp_distinct_iff by blast
  moreover have "set (map ?f ps) = set (map ?f qs)" using mset_eq_setD [OF assms(1)] by simp
  ultimately show ?thesis
    using assms(2) unfolding by_id_def by (subst map_of_inject_set) (simp_all add: comp_def)
qed

section \<open>The abstract data type\<close>

locale provider_map =
  fixes abs :: "'r \<Rightarrow> string \<Rightarrow> Provider option"
    and inv :: "'r \<Rightarrow> bool"
    and empty :: 'r
    and register :: "'r \<Rightarrow> Provider \<Rightarrow> 'r result"
    and ids :: "'r \<Rightarrow> string list"
  assumes abs_empty: "abs empty = Map.empty"
    and inv_empty: "inv empty"
    and register_known: "inv r \<Longrightarrow> isl (register r p) \<longleftrightarrow> ProvID p \<in> dom (abs r)"
    and register_new: "inv r \<Longrightarrow> register r p = Inr r' \<Longrightarrow> inv r' \<and> abs r' = (abs r)(ProvID p \<mapsto> p)"
    and ids_abs: "inv r \<Longrightarrow> ids r = sorted_list_of_set (dom (abs r))"
begin

lemma try_fold_abs:
  "inv r \<Longrightarrow> try_fold register r ps = Inr r' \<Longrightarrow>
     inv r' \<and> abs r' = abs r ++ by_id ps \<and> distinct (map ProvID ps) \<and> ProvID ` set ps \<inter> dom (abs r) = {}"
proof (induction ps arbitrary: r)
  case (Cons p ps)
  from Cons.prems(2) obtain s where s: "register r p = Inr s" and rest: "try_fold register s ps = Inr r'" by auto
  note new = register_new [OF Cons.prems(1) s]
  then have upd: "abs s = (abs r)(ProvID p \<mapsto> p)" and "dom (abs s) = insert (ProvID p) (dom (abs r))" by simp_all
  with Cons.IH [OF conjunct1 [OF new] rest]
  have ih: "inv r'" "abs r' = abs s ++ by_id ps" "distinct (map ProvID ps)" "ProvID ` set ps \<inter> insert (ProvID p) (dom (abs r)) = {}"
    by metis+
  moreover have "ProvID p \<notin> dom (abs r)" using register_known [OF Cons.prems(1), of p] s by simp
  moreover have "by_id ps (ProvID p) = None" using ih(4) dom_by_id [of ps] by blast
  ultimately show ?case by (auto simp: upd map_add_def fun_eq_iff split: option.splits)
qed simp

lemma try_fold_succeeds:
  "inv r \<Longrightarrow> distinct (map ProvID ps) \<Longrightarrow> ProvID ` set ps \<inter> dom (abs r) = {} \<Longrightarrow> \<exists>r'. try_fold register r ps = Inr r'"
proof (induction ps arbitrary: r)
  case (Cons p ps)
  from Cons.prems register_known [OF Cons.prems(1), of p] obtain s where s: "register r p = Inr s"
    by (cases "register r p") auto
  have "dom (abs s) = insert (ProvID p) (dom (abs r))" using register_new [OF Cons.prems(1) s] by simp
  then have "ProvID ` set ps \<inter> dom (abs s) = {}" using Cons.prems(2,3) by auto
  with Cons.IH [of s] register_new [OF Cons.prems(1) s] Cons.prems(2) obtain r' where "try_fold register s ps = Inr r'"
    by (metis distinct.simps(2) list.simps(9))
  with s show ?case by simp
qed simp

text \<open>Any order of registration succeeds or fails alike and gives the same map.\<close>

lemma order_irrelevant:
  assumes "try_fold register empty ps = Inr r" and "mset qs = mset ps"
  shows "\<exists>r'. try_fold register empty qs = Inr r' \<and> inv r \<and> inv r' \<and> abs r = by_id ps \<and> abs r' = by_id ps"
proof -
  from try_fold_abs [OF inv_empty assms(1)] have r: "inv r" "abs r = by_id ps" "distinct (map ProvID ps)"
    by (simp_all add: abs_empty)
  have "mset (map ProvID qs) = mset (map ProvID ps)" using assms(2) by (simp add: mset_map)
  then have "distinct (map ProvID qs)" using r(3) mset_eq_imp_distinct_iff by blast
  then obtain r' where r': "try_fold register empty qs = Inr r'"
    using try_fold_succeeds [OF inv_empty] by (auto simp: abs_empty)
  from try_fold_abs [OF inv_empty this] have "inv r'" "abs r' = by_id qs" by (simp_all add: abs_empty)
  with r r' by_id_mset [OF assms(2) [symmetric] r(3)] show ?thesis by auto
qed

end

interpretation registry: provider_map map_of registry_ok NewRegistry Register sorted_ids
proof
  show "isl (Register r p) \<longleftrightarrow> ProvID p \<in> dom (map_of r)" for r p by (auto simp: Register_def)
  show "registry_ok r' \<and> map_of r' = (map_of r)(ProvID p \<mapsto> p)" if "registry_ok r" "Register r p = Inr r'" for r p r'
    using registry_ok_Register [OF that] that(2) by (auto simp: Register_def)
  show "sorted_ids r = sorted_list_of_set (dom (map_of r))" if "registry_ok r" for r
    using that by (simp add: sorted_ids_def registry_ok_def dom_map_of_conv_image_fst sorted_list_of_set_sort_remdups distinct_remdups_id
        flip: set_map)
qed (simp_all add: NewRegistry_def registry_ok_def)

section \<open>Every operation depends on the map alone\<close>

lemma traversals_cong:
  assumes "map_of r = map_of r'"
  shows "provider_at r = provider_at r'" and "list_provider r = list_provider r'"
    and "discovery_families r is = discovery_families r' is" and "discover_from r f is = discover_from r' f is"
proof -
  show at: "provider_at r = provider_at r'" using assms by (simp add: provider_at_def fun_eq_iff)
  show "list_provider r = list_provider r'" by (simp add: list_provider_def at fun_eq_iff)
  show "discovery_families r is = discovery_families r' is" by (induction "is") (simp_all add: at cong: option.case_cong)
  show "discover_from r f is = discover_from r' f is" by (induction "is") (simp_all add: at cong: option.case_cong if_cong)
qed

lemma operations_cong:
  assumes "map_of r = map_of r'" and "registry_ok r" and "registry_ok r'"
  shows "Registry_Targets r = Registry_Targets r'" and "DiscoveryFamilies r = DiscoveryFamilies r'"
    and "Registry_DiscoverTargets r f = Registry_DiscoverTargets r' f"
    and "Registry_Plan r i = Registry_Plan r' i" and "Registry_Stage r c = Registry_Stage r' c"
proof -
  have "sorted_ids r = sorted_ids r'" using assms by (simp add: registry.ids_abs)
  with traversals_cong [OF assms(1)]
  show "Registry_Targets r = Registry_Targets r'" "DiscoveryFamilies r = DiscoveryFamilies r'"
    "Registry_DiscoverTargets r f = Registry_DiscoverTargets r' f"
    by (simp_all add: Registry_Targets_def DiscoveryFamilies_def Registry_DiscoverTargets_def)
  show "Registry_Plan r i = Registry_Plan r' i" "Registry_Stage r c = Registry_Stage r' c"
    using assms(1) by (simp_all add: Registry_Plan_def Registry_Stage_def)
qed

text \<open>C10: The registry implements a finite map from provider IDs to providers.  Registering a list of providers gives exactly
  the map from their IDs; the order of registration is not observable: any other order succeeds as well, and listing,
  discovery, planning and staging are then the same functions.\<close>

theorem Registry_refines_map:
  assumes "try_fold Register NewRegistry ps = Inr r" and "mset qs = mset ps"
  shows "map_of r = by_id ps \<and> (\<exists>r'. try_fold Register NewRegistry qs = Inr r' \<and> Registry_Targets r' = Registry_Targets r \<and>
    DiscoveryFamilies r' = DiscoveryFamilies r \<and> Registry_DiscoverTargets r' = Registry_DiscoverTargets r \<and>
    Registry_Plan r' = Registry_Plan r \<and> Registry_Stage r' = Registry_Stage r)"
proof -
  from registry.order_irrelevant [OF assms] obtain r' where r': "try_fold Register NewRegistry qs = Inr r'"
    and eq: "map_of r' = map_of r" "registry_ok r'" "registry_ok r" "map_of r = by_id ps" by auto
  from operations_cong [OF eq(1-3)] r' eq(4) show ?thesis by (auto simp: fun_eq_iff)
qed

definition sample_provider_named :: "string \<Rightarrow> Provider" where
  "sample_provider_named i = \<lparr>ProvID = i, ProvTargets = io_return [], ProvPlan = (\<lambda>_. io_fail (errors_New ''no plan'')),
     ProvDiscoverer = None, ProvStager = None\<rparr>"

theorem Registry_refines_map_witness:
  "\<exists>r r'. try_fold Register NewRegistry [sample_provider_named ''a'', sample_provider_named ''b''] = Inr r \<and>
     try_fold Register NewRegistry [sample_provider_named ''b'', sample_provider_named ''a''] = Inr r' \<and> r \<noteq> r' \<and>
     Registry_Targets r' = Registry_Targets r"
proof -
  let ?a = "sample_provider_named ''a''" and ?b = "sample_provider_named ''b''"
  have ab: "try_fold Register NewRegistry [?a, ?b] = Inr [(''a'', ?a), (''b'', ?b)]"
    and ba: "try_fold Register NewRegistry [?b, ?a] = Inr [(''b'', ?b), (''a'', ?a)]"
    by (simp_all add: Register_def NewRegistry_def sample_provider_named_def)
  from Registry_refines_map [OF ab, of "[?b, ?a]"] ba show ?thesis using ab by auto
qed

end
