(* ===== verification/DebianFixture.thy ===== *)
theory DebianFixture
  imports MainCmd
begin

text \<open>
  The build for smoke tests (\<^verbatim>\<open>internal/providers/debianfixture/provider.go\<close>, \<^verbatim>\<open>cmd/bootup/providers_debian_fixture.go\<close>): a Debian
  provider whose client answers from memory with metadata signedRelease by a key made at start.

  The OpenPGP operations are the fields of \<open>pgp_signer\<close>; each step of the library that can fail is one field.  The client of
  the provider is its own, so its operations run with the network of the world exchanged.
\<close>

section \<open>The fixture\<close>

record 'e pgp_signer =
  NewEntity :: "'e result"
  armor_Encode :: "unit result"
  entity_Serialize :: "'e \<Rightarrow> unit result"
  armor_Close :: "'e \<Rightarrow> bytes result"
  clearsign_Encode :: "'e \<Rightarrow> unit result"
  clearsign_Write :: "'e \<Rightarrow> bytes \<Rightarrow> unit result"
  clearsign_Close :: "'e \<Rightarrow> bytes \<Rightarrow> bytes result"

definition fixture_mirrorURL :: string where "fixture_mirrorURL = ''https://fixture.invalid/debian''"

definition fixture_kernel :: bytes where "fixture_kernel = ''fixture kernel'' @ [CHR 0x0A]"
definition fixture_initrd :: bytes where "fixture_initrd = ''fixture initrd'' @ [CHR 0x0A]"

definition fixture_sums :: "('k, 'b) crypto \<Rightarrow> bytes" where
  "fixture_sums C =
     sha256_hex C fixture_kernel @ ''  ./netboot/debian-installer/amd64/linux'' @ [CHR 0x0A] @
     sha256_hex C fixture_initrd @ ''  ./netboot/debian-installer/amd64/initrd.gz'' @ [CHR 0x0A]"

definition fixture_release :: "('k, 'b) crypto \<Rightarrow> bytes" where
  "fixture_release C = ''SHA256:'' @ [CHR 0x0A] @ '' '' @ sha256_hex C (fixture_sums C) @ '' '' @ itoa (length (fixture_sums C)) @
     '' main/installer-amd64/current/images/SHA256SUMS'' @ [CHR 0x0A]"

definition fixtureData :: "('k, 'b) crypto \<Rightarrow> 'e pgp_signer \<Rightarrow> (bytes \<times> bytes \<times> bytes \<times> bytes \<times> bytes) result" where
  "fixtureData C G =
     and_then (map_err (\<lambda>e. Errorf ''create fixture signer: %w'' [W e]) (NewEntity G)) (\<lambda>entity.
     and_then (map_err (\<lambda>e. Errorf ''armor fixture keyring: %w'' [W e]) (armor_Encode G)) (\<lambda>_.
     and_then (map_err (\<lambda>e. Errorf ''serialize fixture keyring: %w'' [W e]) (entity_Serialize G entity)) (\<lambda>_.
     and_then (map_err (\<lambda>e. Errorf ''close fixture keyring: %w'' [W e]) (armor_Close G entity)) (\<lambda>keyring.
     and_then (map_err (\<lambda>e. Errorf ''clearsign fixture release: %w'' [W e]) (clearsign_Encode G entity)) (\<lambda>_.
     and_then (map_err (\<lambda>e. Errorf ''write fixture release: %w'' [W e]) (clearsign_Write G entity (fixture_release C))) (\<lambda>_.
     and_then (map_err (\<lambda>e. Errorf ''close fixture release: %w'' [W e]) (clearsign_Close G entity (fixture_release C))) (\<lambda>signedRelease.
     Inr (keyring, signedRelease, fixture_sums C, fixture_kernel, fixture_initrd))))))))"

type_synonym responseMap = "(string \<times> bytes) list"

definition RoundTrip :: "responseMap \<Rightarrow> string \<Rightarrow> http_reply" where
  "RoundTrip m u = (case map_of m u of
       None \<Rightarrow> NetError (Errorf ''fixture response not found for %s'' [S u])
     | Some data \<Rightarrow> Reply 200 (Inr data))"

definition fixture_responses :: "bytes \<Rightarrow> bytes \<Rightarrow> bytes \<Rightarrow> bytes \<Rightarrow> responseMap" where
  "fixture_responses signedRelease shaSums kernelData initrd =
     [(fixture_mirrorURL @ ''/dists/'', ''<a href='' @ [CHR 0x22] @ ''trixie/'' @ [CHR 0x22] @ ''>trixie/</a>''),
      (fixture_mirrorURL @ ''/dists/trixie/InRelease'', signedRelease),
      (fixture_mirrorURL @ ''/dists/trixie/main/installer-amd64/current/images/SHA256SUMS'', shaSums),
      (fixture_mirrorURL @ ''/dists/trixie/main/installer-amd64/current/images/netboot/debian-installer/amd64/linux'', kernelData),
      (fixture_mirrorURL @ ''/dists/trixie/main/installer-amd64/current/images/netboot/debian-installer/amd64/initrd.gz'', initrd)]"

definition with_client :: "responseMap \<Rightarrow> 'a io \<Rightarrow> 'a io" where
  "with_client m act w = (case act (w\<lparr>Net := (\<lambda>n meth u. RoundTrip m u)\<rparr>) of (r, w') \<Rightarrow> (r, w'\<lparr>Net := Net w\<rparr>))"

definition fixture_NewProvider :: "('k, 'b) crypto \<Rightarrow> 'e pgp_signer \<Rightarrow> Target list \<Rightarrow> Provider result" where
  "fixture_NewProvider C G targets =
     and_then (fixtureData C G) (\<lambda>(keyring, signedRelease, shaSums, kernelData, initrd).
     let m = fixture_responses signedRelease shaSums kernelData initrd;
         p = deb_NewProvider \<lparr>DCMirrorURL = fixture_mirrorURL, DCDiscoveryURL = [], DCDiscoveryFile = [], DCKeyring = keyring,
               DCTargets = Some targets, DCLifecycle = []\<rparr> in
     Inr ((deb_Provider C p)\<lparr>ProvDiscoverer := Some (deb_DiscoveryFamily, with_client m (deb_DiscoverTargets p)),
       ProvStager := Some (\<lambda>cfg. with_client m (deb_Stage C p cfg))\<rparr>))"

definition fixture_registerProviders ::
  "('k, 'b, 's) main_env \<Rightarrow> 'e pgp_signer \<Rightarrow> RuntimeConfig \<Rightarrow> Document \<Rightarrow> Registry \<Rightarrow> Registry result" where
  "fixture_registerProviders E G c doc r =
     and_then (map_err (\<lambda>e. Errorf ''create Debian fixture provider: %w'' [W e])
       (fixture_NewProvider (m_crypto E) G (Document_Targets doc deb_providerID))) (\<lambda>p.
     register_all ((''register Debian fixture provider: %w'', p) # tl (main_providers E c doc)) r)"

section \<open>The staging of the fixture\<close>

text \<open>What the OpenPGP library documents: the serialised entity is a keyring under which its signatures verify, and decoding gives
  back the message, up to the end of its last line.\<close>

definition pgp_law :: "('k, 'b) crypto \<Rightarrow> 'e pgp_signer \<Rightarrow> bool" where
  "pgp_law C G \<longleftrightarrow> (\<forall>e keyring message signedRelease. NewEntity G = Inr e \<longrightarrow> armor_Close G e = Inr keyring \<longrightarrow>
     clearsign_Close G e message = Inr signedRelease \<longrightarrow> keyring \<noteq> [] \<and> (\<exists>key block. ReadKeyring C (Some (Inr keyring)) = Inr key \<and>
       clearsign_Decode C signedRelease = Some block \<and> VerifySignature C block key = Inr () \<and>
       (Plaintext C block = message \<or> Plaintext C block @ [CHR 0x0A] = message)))"

definition digests_32 :: "('k, 'b) crypto \<Rightarrow> bool" where
  "digests_32 C \<longleftrightarrow> (\<forall>d. length (sha256_Sum C d) = 32)"

lemma fetch_answered:
  assumes "Net w = (\<lambda>n meth u. RoundTrip m u)" and "map_of m u = Some d" and "url_Parse u \<noteq> None"
  shows "fetchWithProgress u a None w = (Inr d, w\<lparr>Requests := Requests w @ [(''GET'', u)]\<rparr>)"
  using assms by (simp add: fetchWithProgress_def reportProgress_def ReportStageProgress_def http_fetch_def send_def http_do_def
      io_bind_def RoundTrip_def)

lemma WriteFile_answered:
  assumes "Faults w = (\<lambda>_. None)" and "\<forall>k. Fs w (path_Clean p) \<noteq> Some (Dir k)"
  shows "\<exists>w' k. os_WriteFile p d mode w = (Inr (), w') \<and> Net w' = Net w \<and> Faults w' = (\<lambda>_. None) \<and>
    Fs w' = (Fs w)(path_Clean p \<mapsto> File d k)"
proof (cases "Fs w (path_Clean p)")
  case None
  then show ?thesis using assms by (auto simp: os_WriteFile_def os_call_def set_node_def)
next
  case (Some n)
  then show ?thesis using assms by (cases n) (auto simp: os_WriteFile_def os_call_def set_node_def)
qed

lemma no_progress: "reportProgress None op st nm = io_return ()"
  by (simp add: reportProgress_def ReportStageProgress_def fun_eq_iff)

lemma deb_fetch_listed:
  assumes "Net w = (\<lambda>n meth u. RoundTrip m u)" and "map_of m u = Some d" and "url_Parse u \<noteq> None"
    and "listed_in C sums sumname d" and "Faults w = (\<lambda>_. None)" and "\<forall>k. Fs w (path_Clean (filepath_Join [dir, name])) \<noteq> Some (Dir k)"
  shows "\<exists>w' k. deb_fetchStageVerify C dir u name sumname sums None w = (Inr (filepath_Join [dir, name]), w') \<and>
    Net w' = Net w \<and> Faults w' = (\<lambda>_. None) \<and> Fs w' = (Fs w)(path_Clean (filepath_Join [dir, name]) \<mapsto> File d k)"
proof -
  let ?w = "w\<lparr>Requests := Requests w @ [(''GET'', u)]\<rparr>"
  obtain w' k where "os_WriteFile (filepath_Join [dir, name]) d 420 ?w = (Inr (), w')"
    "Net w' = Net w" "Faults w' = (\<lambda>_. None)" "Fs w' = (Fs w)(path_Clean (filepath_Join [dir, name]) \<mapsto> File d k)"
    using WriteFile_answered [of ?w "filepath_Join [dir, name]" d 420] assms(5,6) by auto
  moreover have "verify_Artifact C \<lparr>IArtifact = Some (Inr d), IName = sumname, IExpectedSHA256 = [],
      ISHA256Sums = Some (Inr sums), ISignature = None, IKeyring = None\<rparr> = Inr ()"
    using assms(4) verify_listed by blast
  ultimately show ?thesis
    using fetch_answered [OF assms(1-3), of name]
    by (auto simp: deb_fetchStageVerify_def verifyWithProgress_def writeWithProgress_def no_progress Let_def)
qed

text \<open>The two files of the metadata: the checksum file lists the artifacts, the release lists the checksum file.\<close>

lemma hex_of_digit: "is_digit c \<Longrightarrow> hex_value c \<noteq> None"
  by (auto simp: is_digit_def hex_value_def)

lemma fixture_sums_lines:
  "fixture_sums C = Join [print_sum_line (''./netboot/debian-installer/amd64/linux'', sha256_hex C fixture_kernel),
     print_sum_line (''./netboot/debian-installer/amd64/initrd.gz'', sha256_hex C fixture_initrd), []] [CHR 0x0A]"
  by (simp add: fixture_sums_def print_sum_line_def)

lemma fixture_names_spaceless:
  "\<not> containsSpace ''./netboot/debian-installer/amd64/linux''" "\<not> containsSpace ''./netboot/debian-installer/amd64/initrd.gz''"
  by code_simp+

lemma sha256_hex_digest: "digests_32 C \<Longrightarrow> is_digest (sha256_hex C d)"
  unfolding sha256_hex_def is_digest_def sha256_hex_iff digests_32_def
  using hex_Decode_Encode [of "sha256_Sum C d"] by auto

lemma fixture_sums_parsed:
  assumes "digests_32 C"
  shows "\<exists>cs. ParseSHA256Sums (Some (Inr (fixture_sums C))) = Inr cs \<and>
     map_of cs ''netboot/debian-installer/amd64/linux'' = Some (sha256_hex C fixture_kernel) \<and>
     map_of cs ''netboot/debian-installer/amd64/initrd.gz'' = Some (sha256_hex C fixture_initrd)"
proof -
  note digest = sha256_hex_digest [OF assms]
  have "Split (fixture_sums C) (CHR 0x0A) =
      [print_sum_line (''./netboot/debian-installer/amd64/linux'', sha256_hex C fixture_kernel),
       print_sum_line (''./netboot/debian-installer/amd64/initrd.gz'', sha256_hex C fixture_initrd), []]"
    unfolding fixture_sums_lines
    by (rule Split_Join) (auto simp: no_newline_line [OF digest fixture_names_spaceless(1)] no_newline_line [OF digest fixture_names_spaceless(2)])
  moreover have "parse_sum_line n [] cs = Inr cs" for n cs by (simp add: parse_sum_line_def)
  ultimately show ?thesis
    by (simp add: ParseSHA256Sums_def parse_print_line [OF digest _ fixture_names_spaceless(1)]
        parse_print_line [OF digest _ fixture_names_spaceless(2)] TrimPrefix_def)
qed

lemma fixture_listed:
  assumes "digests_32 C"
  shows "listed_in C (fixture_sums C) ''netboot/debian-installer/amd64/linux'' fixture_kernel"
    and "listed_in C (fixture_sums C) ''netboot/debian-installer/amd64/initrd.gz'' fixture_initrd"
  using fixture_sums_parsed [OF assms] by (auto simp: listed_in_def)

definition fixture_release_line :: "('k, 'b) crypto \<Rightarrow> string" where
  "fixture_release_line C = '' '' @ sha256_hex C (fixture_sums C) @ '' '' @ itoa (length (fixture_sums C)) @
     '' main/installer-amd64/current/images/SHA256SUMS''"

lemma fixture_release_lines: "fixture_release C = Join [''SHA256:'', fixture_release_line C, []] [CHR 0x0A]"
  by (simp add: fixture_release_def fixture_release_line_def)

lemma release_line_no_newline:
  assumes "digests_32 C"
  shows "CHR 0x0A \<notin> set (fixture_release_line C)"
proof -
  have "CHR 0x0A \<notin> set (sha256_hex C (fixture_sums C))"
    using sha256_hex_digest [OF assms, of "fixture_sums C"]
    by (auto simp: is_digest_def is_sha256_hex_def list_all_iff hex_value_def)
  moreover have "CHR 0x0A \<notin> set (itoa (length (fixture_sums C)))"
    using itoa_digits [of "length (fixture_sums C)"] by (auto simp: list_all_iff is_digit_def)
  ultimately show ?thesis by (simp add: fixture_release_line_def)
qed

lemma release_line_fields:
  assumes "digests_32 C"
  shows "Fields (fixture_release_line C) =
    [sha256_hex C (fixture_sums C), itoa (length (fixture_sums C)), ''main/installer-amd64/current/images/SHA256SUMS'']"
proof -
  have hex: "list_all (\<lambda>c. hex_value c \<noteq> None) (sha256_hex C (fixture_sums C))" "sha256_hex C (fixture_sums C) \<noteq> []"
    using sha256_hex_digest [OF assms, of "fixture_sums C"] by (auto simp: is_digest_def is_sha256_hex_def)
  have dec: "list_all (\<lambda>c. hex_value c \<noteq> None) (itoa (length (fixture_sums C)))" "itoa (length (fixture_sums C)) \<noteq> []"
    using itoa_digits [of "length (fixture_sums C)"] hex_of_digit by (auto simp: list_all_iff)
  have path: "\<not> containsSpace ''main/installer-amd64/current/images/SHA256SUMS''" by code_simp
  have "Fields (fixture_release_line C) = fields_from [] (CHR '' '' # sha256_hex C (fixture_sums C) @ CHR '' '' #
      itoa (length (fixture_sums C)) @ CHR '' '' # ''main/installer-amd64/current/images/SHA256SUMS'')"
    by (simp add: Fields_def fixture_release_line_def)
  then show ?thesis
    unfolding fields_from_blank fields_from_hex [OF hex(1)] fields_from_hex [OF dec(1)] fields_from_no_space [OF path]
    using hex(2) dec(2) by simp
qed

lemma fixture_release_parsed:
  assumes "digests_32 C" and "r = fixture_release C \<or> r @ [CHR 0x0A] = fixture_release C"
  shows "parseReleaseSHA256 r = Inr [(''main/installer-amd64/current/images/SHA256SUMS'', sha256_hex C (fixture_sums C))]"
proof -
  let ?l = "fixture_release_line C"
  have "\<exists>rest. set rest \<subseteq> {[]} \<and> r = Join (''SHA256:'' # ?l # rest) [CHR 0x0A]"
    using assms(2) by (auto simp: fixture_release_lines intro: exI [of _ "[]"] exI [of _ "[[]]"])
  then obtain rest where rest: "set rest \<subseteq> {[]}" "r = Join (''SHA256:'' # ?l # rest) [CHR 0x0A]" by blast
  then have "Split r (CHR 0x0A) = ''SHA256:'' # ?l # rest"
    using release_line_no_newline [OF assms(1)] by (auto intro!: Split_Join)
  moreover have "\<not> suffix '':'' ?l"
    by (simp add: fixture_release_line_def suffix_def)
  moreover have "TrimSpace ?l \<noteq> []"
    by (rule TrimSpace_nonblank [where c = "CHR ''m''"]) (auto simp: fixture_release_line_def space_runes_def)
  moreover have "release_lines b cs rest = Inr cs" for b cs
    using rest(1) by (induction rest) auto
  moreover have "suffix '':'' ''SHA256:''" by code_simp
  ultimately show ?thesis
    by (simp add: parseReleaseSHA256_def release_line_fields [OF assms(1)])
qed

lemma fixture_checksum_path:
  "releasePath (fixture_mirrorURL @ ''/dists/trixie/main/installer-amd64/current/images/SHA256SUMS'') ''trixie'' =
     Inr ''main/installer-amd64/current/images/SHA256SUMS''"
  by code_simp

lemma fixture_checksum_verified:
  assumes "digests_32 C" and "r = fixture_release C \<or> r @ [CHR 0x0A] = fixture_release C"
  shows "verifyReleaseFileChecksum C ''main/installer-amd64/current/images/SHA256SUMS'' (fixture_sums C) r = Inr ()"
proof -
  have "sha256_hex C (fixture_sums C) \<noteq> []" "ToLower (sha256_hex C (fixture_sums C)) = sha256_hex C (fixture_sums C)"
    using sha256_hex_digest [OF assms(1), of "fixture_sums C"] by (auto simp: is_digest_def is_sha256_hex_def)
  then show ?thesis
    by (simp add: verifyReleaseFileChecksum_def fixture_release_parsed [OF assms] VerifyArtifactChecksum_def verify_SHA256_iff)
qed

text \<open>The URLs of the plan are those the fixture answers.\<close>

lemma fixture_urls:
  "url_Parse (fixture_mirrorURL @ ''/dists/trixie/InRelease'') \<noteq> None"
  "url_Parse (fixture_mirrorURL @ ''/dists/trixie/main/installer-amd64/current/images/SHA256SUMS'') \<noteq> None"
  "url_Parse (fixture_mirrorURL @ ''/dists/trixie/main/installer-amd64/current/images/netboot/debian-installer/amd64/linux'') \<noteq> None"
  "url_Parse (fixture_mirrorURL @ ''/dists/trixie/main/installer-amd64/current/images/netboot/debian-installer/amd64/initrd.gz'') \<noteq> None"
  by code_simp+

lemma fixture_answers:
  fixes r sums k i :: bytes
  defines "m \<equiv> fixture_responses r sums k i"
  shows "map_of m (fixture_mirrorURL @ ''/dists/trixie/InRelease'') = Some r"
    and "map_of m (fixture_mirrorURL @ ''/dists/trixie/main/installer-amd64/current/images/SHA256SUMS'') = Some sums"
    and "map_of m (fixture_mirrorURL @ ''/dists/trixie/main/installer-amd64/current/images/netboot/debian-installer/amd64/linux'') = Some k"
    and "map_of m (fixture_mirrorURL @ ''/dists/trixie/main/installer-amd64/current/images/netboot/debian-installer/amd64/initrd.gz'') = Some i"
  by (simp_all add: m_def fixture_responses_def)

lemma fixture_plan:
  assumes "Release (Catalog t) = ''trixie''" and "Architecture (Catalog t) = ''amd64''"
  defines "plan \<equiv> deb_plan t fixture_mirrorURL"
  shows "MetadataURL (BVerification plan) = fixture_mirrorURL @ ''/dists/trixie/InRelease''"
    and "ChecksumURL (BVerification plan) = fixture_mirrorURL @ ''/dists/trixie/main/installer-amd64/current/images/SHA256SUMS''"
    and "URL (Kernel plan) = fixture_mirrorURL @ ''/dists/trixie/main/installer-amd64/current/images/netboot/debian-installer/amd64/linux''"
    and "URL (Initrd plan) = fixture_mirrorURL @ ''/dists/trixie/main/installer-amd64/current/images/netboot/debian-installer/amd64/initrd.gz''"
    and "BTarget plan = t"
  using assms(1,2) by (simp_all add: plan_def deb_plan_def Let_def plan_for_def)

definition fixture_net :: "('k, 'b) crypto \<Rightarrow> bytes \<Rightarrow> nat \<Rightarrow> string \<Rightarrow> string \<Rightarrow> http_reply" where
  "fixture_net C signedRelease = (\<lambda>n meth u.
     RoundTrip (fixture_responses signedRelease (fixture_sums C) fixture_kernel fixture_initrd) u)"

lemma fixture_staged:
  assumes digests: "digests_32 C"
    and r: "VerifyInRelease C signedRelease (Some (Inr keyring)) = Inr r" "r = fixture_release C \<or> r @ [CHR 0x0A] = fixture_release C"
    and t: "Release (Catalog t) = ''trixie''" "Architecture (Catalog t) = ''amd64''"
    and w: "Net w = fixture_net C signedRelease" "Faults w = (\<lambda>_. None)"
    and dir: "dir \<noteq> []" "\<forall>k. Fs w (path_Clean (filepath_Join [dir, ''linux''])) \<noteq> Some (Dir k)"
      "\<forall>k. Fs w (path_Clean (filepath_Join [dir, ''initrd.gz''])) \<noteq> Some (Dir k)"
  shows "\<exists>plan w' k i. deb_FetchAndStageArtifacts C (deb_plan t fixture_mirrorURL) (Some (Inr keyring)) dir None w = (Inr plan, w') \<and>
    Path (Kernel plan) = filepath_Join [dir, ''linux''] \<and> Path (Initrd plan) = filepath_Join [dir, ''initrd.gz''] \<and>
    Fs w' (path_Clean (Path (Kernel plan))) = Some (File fixture_kernel k) \<and>
    Fs w' (path_Clean (Path (Initrd plan))) = Some (File fixture_initrd i)"
proof -
  let ?m = "fixture_responses signedRelease (fixture_sums C) fixture_kernel fixture_initrd"
  let ?k = "filepath_Join [dir, ''linux'']" and ?i = "filepath_Join [dir, ''initrd.gz'']"
  have net: "Net w = (\<lambda>n meth u. RoundTrip ?m u)" using w(1) by (simp add: fixture_net_def)
  note fetched = fetch_answered [OF _ fixture_answers(1) fixture_urls(1)] fetch_answered [OF _ fixture_answers(2) fixture_urls(2)]
  note listed = fixture_listed [OF digests]
  have distinct: "path_Clean ?k \<noteq> path_Clean ?i"
    by (rule staged_names_distinct [OF dir(1)]) (auto simp: plain_elem_def)
  define w1 where "w1 = w\<lparr>Requests := Requests w @ [(''GET'', fixture_mirrorURL @ ''/dists/trixie/InRelease'')]\<rparr>"
  define w2 where "w2 = w1\<lparr>Requests := Requests w1 @
    [(''GET'', fixture_mirrorURL @ ''/dists/trixie/main/installer-amd64/current/images/SHA256SUMS'')]\<rparr>"
  have f1: "fetchWithProgress (fixture_mirrorURL @ ''/dists/trixie/InRelease'') ''InRelease'' None w = (Inr signedRelease, w1)"
    unfolding w1_def by (rule fetched(1) [OF net])
  have f2: "fetchWithProgress (fixture_mirrorURL @ ''/dists/trixie/main/installer-amd64/current/images/SHA256SUMS'') ''SHA256SUMS'' None w1 =
      (Inr (fixture_sums C), w2)"
    unfolding w2_def by (rule fetched(2)) (simp add: w1_def net)
  have w2: "Net w2 = (\<lambda>n meth u. RoundTrip ?m u)" "Faults w2 = (\<lambda>_. None)" "Fs w2 = Fs w"
    by (simp_all add: w1_def w2_def net w)
  obtain w3 k where f3: "deb_fetchStageVerify C dir (fixture_mirrorURL @ ''/dists/trixie/main/installer-amd64/current/images/netboot/debian-installer/amd64/linux'')
      ''linux'' ''netboot/debian-installer/amd64/linux'' (fixture_sums C) None w2 = (Inr ?k, w3)"
    and w3: "Net w3 = Net w2" "Faults w3 = (\<lambda>_. None)" "Fs w3 = (Fs w2)(path_Clean ?k \<mapsto> File fixture_kernel k)"
    using deb_fetch_listed [OF w2(1) fixture_answers(3) fixture_urls(3) listed(1) w2(2), of dir "''linux''"] dir(2) w2(3) by auto
  have "\<forall>k. Fs w3 (path_Clean ?i) \<noteq> Some (Dir k)" using dir(3) distinct w2(3) w3(3) by simp
  then obtain w4 i where f4: "deb_fetchStageVerify C dir (fixture_mirrorURL @ ''/dists/trixie/main/installer-amd64/current/images/netboot/debian-installer/amd64/initrd.gz'')
      ''initrd.gz'' ''netboot/debian-installer/amd64/initrd.gz'' (fixture_sums C) None w3 = (Inr ?i, w4)"
    and w4: "Fs w4 = (Fs w3)(path_Clean ?i \<mapsto> File fixture_initrd i)"
    using deb_fetch_listed [of w3 ?m, OF _ fixture_answers(4) fixture_urls(4) listed(2) w3(2), of dir "''initrd.gz''"] w2(1) w3(1) by auto
  have run: "deb_FetchAndStageArtifacts C (deb_plan t fixture_mirrorURL) (Some (Inr keyring)) dir None w =
      (Inr ((deb_plan t fixture_mirrorURL)\<lparr>Kernel := (Kernel (deb_plan t fixture_mirrorURL))\<lparr>Path := ?k\<rparr>,
         Initrd := (Initrd (deb_plan t fixture_mirrorURL))\<lparr>Path := ?i\<rparr>\<rparr>), w4)"
    using f1 f2 f3 f4 r(1) dir(1)
    by (simp add: deb_FetchAndStageArtifacts_def fixture_plan [OF t] t no_progress verifyWithProgress_def Let_def
        fixture_checksum_path fixture_checksum_verified [OF digests r(2)])
  show ?thesis
    unfolding run using distinct w3(3) w4 by auto
qed

text \<open>C18: A staging of the fixture, with the metadata it signs itself, succeeds and leaves the two fixture artifacts on disk.\<close>

theorem fixture_stages:
  assumes "pgp_law C G" and "digests_32 C"
    and "fixture_NewProvider C G targets = Inr p" and "ProvStager p = Some stage"
    and "Release (Catalog t) = ''trixie''" and "Architecture (Catalog t) = ''amd64''"
    and "CPlan cfg = deb_plan t fixture_mirrorURL" and "StagingDir cfg \<noteq> []" and "Progress cfg = None"
    and "Faults w = (\<lambda>_. None)"
    and "\<forall>k. Fs w (path_Clean (filepath_Join [StagingDir cfg, ''linux''])) \<noteq> Some (Dir k)"
    and "\<forall>k. Fs w (path_Clean (filepath_Join [StagingDir cfg, ''initrd.gz''])) \<noteq> Some (Dir k)"
  shows "\<exists>plan w' k i. stage cfg w = (Inr plan, w') \<and>
    Path (Kernel plan) = filepath_Join [StagingDir cfg, ''linux''] \<and> Path (Initrd plan) = filepath_Join [StagingDir cfg, ''initrd.gz''] \<and>
    Fs w' (path_Clean (Path (Kernel plan))) = Some (File fixture_kernel k) \<and>
    Fs w' (path_Clean (Path (Initrd plan))) = Some (File fixture_initrd i)"
proof -
  obtain e keyring signedRelease where made: "NewEntity G = Inr e" "armor_Close G e = Inr keyring"
      "clearsign_Close G e (fixture_release C) = Inr signedRelease"
    and data: "fixtureData C G = Inr (keyring, signedRelease, fixture_sums C, fixture_kernel, fixture_initrd)"
    using assms(3) by (auto simp: fixture_NewProvider_def fixtureData_def split: sum.splits)
  from assms(1) made obtain key block where kr: "keyring \<noteq> []" and "ReadKeyring C (Some (Inr keyring)) = Inr key"
      "clearsign_Decode C signedRelease = Some block" "VerifySignature C block key = Inr ()"
    and plain: "Plaintext C block = fixture_release C \<or> Plaintext C block @ [CHR 0x0A] = fixture_release C"
    unfolding pgp_law_def by blast
  then have "VerifyInRelease C signedRelease (Some (Inr keyring)) = Inr (Plaintext C block)"
    by (simp add: VerifyInRelease_def ClearSigned_def)
  then obtain plan w' k i where
    "deb_FetchAndStageArtifacts C (CPlan cfg) (Some (Inr keyring)) (StagingDir cfg) None (w\<lparr>Net := fixture_net C signedRelease\<rparr>) = (Inr plan, w')"
    "Path (Kernel plan) = filepath_Join [StagingDir cfg, ''linux'']" "Path (Initrd plan) = filepath_Join [StagingDir cfg, ''initrd.gz'']"
    "Fs w' (path_Clean (Path (Kernel plan))) = Some (File fixture_kernel k)"
    "Fs w' (path_Clean (Path (Initrd plan))) = Some (File fixture_initrd i)"
    using fixture_staged [OF assms(2) _ plain assms(5,6), of signedRelease keyring "w\<lparr>Net := fixture_net C signedRelease\<rparr>" "StagingDir cfg"]
      assms(7,8,10-12) by auto
  moreover have "stage cfg w = with_client (fixture_responses signedRelease (fixture_sums C) fixture_kernel fixture_initrd)
      (deb_FetchAndStageArtifacts C (CPlan cfg) (Some (Inr keyring)) (StagingDir cfg) None) w"
    using assms(3,4,9) data kr
    by (auto simp: fixture_NewProvider_def Let_def deb_Stage_def deb_NewProvider_def with_client_def)
  ultimately show ?thesis by (auto simp: with_client_def fixture_net_def)
qed

text \<open>An OpenPGP library for the example: a key is a name of seven letters, a signed message starts with the name of its
  key, and a keyring is the name in armor.\<close>

definition sample_pgp :: "bytes pgp_signer" where
  "sample_pgp = \<lparr>NewEntity = Inr ''fixture'', armor_Encode = Inr (), entity_Serialize = (\<lambda>e. Inr ()),
     armor_Close = (\<lambda>e. Inr (''KEY '' @ e)), clearsign_Encode = (\<lambda>e. Inr ()), clearsign_Write = (\<lambda>e m. Inr ()),
     clearsign_Close = (\<lambda>e m. Inr (''SIG '' @ e @ m))\<rparr>"

definition sample_pgp_crypto :: "(bytes, bytes \<times> bytes) crypto" where
  "sample_pgp_crypto = \<lparr>sha256_Sum = (\<lambda>d. take 32 (d @ replicate 32 (char_of (length d)))),
     ReadArmoredKeyRing = (\<lambda>d. if prefix ''KEY '' d then Inr (drop 4 d) else Inl (errors_New ''no armor'')),
     ReadBinaryKeyRing = (\<lambda>d. Inl (errors_New ''not binary'')),
     CheckArmoredDetachedSignature = (\<lambda>k d s. Inl (errors_New ''unsigned'')),
     CheckDetachedSignature = (\<lambda>k d s. Inl (errors_New ''unsigned'')),
     clearsign_Decode = (\<lambda>d. if prefix ''SIG '' d then Some (take 7 (drop 4 d), drop 11 d) else None),
     Plaintext = snd, VerifySignature = (\<lambda>b k. if fst b = k then Inr () else Inl (errors_New ''wrong key''))\<rparr>"

lemma sample_pgp_law: "pgp_law sample_pgp_crypto sample_pgp"
  by (auto simp: pgp_law_def sample_pgp_def sample_pgp_crypto_def ReadKeyring_def)

lemma sample_digests_32: "digests_32 sample_pgp_crypto"
  by (auto simp: digests_32_def sample_pgp_crypto_def)

theorem fixture_stages_witness:
  "\<exists>p stage plan w' k i. fixture_NewProvider sample_pgp_crypto sample_pgp deb_defaultTargets = Inr p \<and> ProvStager p = Some stage \<and>
     stage \<lparr>CPlan = deb_plan (hd deb_defaultTargets) fixture_mirrorURL, StagingDir = ''/stage'', CSecrets = None, CSecretRefs = [], Progress = None\<rparr>
       (quiet_world (\<lambda>n m u. NetError (errors_New ''offline''))) = (Inr plan, w') \<and>
     Fs w' (path_Clean (Path (Kernel plan))) = Some (File fixture_kernel k) \<and>
     Fs w' (path_Clean (Path (Initrd plan))) = Some (File fixture_initrd i)"
proof -
  let ?cfg = "\<lparr>CPlan = deb_plan (hd deb_defaultTargets) fixture_mirrorURL, StagingDir = ''/stage'', CSecrets = None, CSecretRefs = [], Progress = None\<rparr>"
  let ?w = "quiet_world (\<lambda>n m u. NetError (errors_New ''offline''))"
  obtain p stage where p: "fixture_NewProvider sample_pgp_crypto sample_pgp deb_defaultTargets = Inr p" "ProvStager p = Some stage"
    by (simp add: fixture_NewProvider_def fixtureData_def sample_pgp_def Let_def)
  have "Release (Catalog (hd deb_defaultTargets)) = ''trixie''" "Architecture (Catalog (hd deb_defaultTargets)) = ''amd64''"
    by (simp_all add: deb_defaultTargets_def)
  from fixture_stages [OF sample_pgp_law sample_digests_32 p this, of ?cfg ?w]
  show ?thesis using p by (auto simp: quiet_world_def)
qed

end
