(* ===== verification/LoopIso.thy ===== *)
theory LoopIso
  imports Iso9660
begin

text \<open>
  The loop-mount ISO extractor (\<^verbatim>\<open>LoopISOExtractor\<close>, \<^verbatim>\<open>copyTree\<close>, \<^verbatim>\<open>copyFile\<close> and \<^verbatim>\<open>copySymlink\<close> in
  \<^verbatim>\<open>internal/providers/mfsbsd/provider.go\<close>), the alternative to the ISO9660 reader.

  The loop device and the mount are calls of a third-party library, the record \<open>loop_calls\<close>.  What a walk over the mounted
  image visits is a list of \<open>mount_visit\<close>: the names below the mount point (no name for the root), the error
  \<open>filepath.WalkDir\<close> reports for it, and what \<open>entry.Info\<close> answers.  A mounted file carries what opening it gives, the bytes
  that could be read and the error after them; the relative path of a visited path always exists.
\<close>

section \<open>The mounted image\<close>

datatype mounted_node =
    MountedDir
  | MountedFile nat "unit result" bytes "go_error option"
  | MountedLink "string result"
  | MountedOther

record mount_visit =
  VNames :: "string list"
  VErr :: "go_error option"
  VInfo :: "mounted_node result"

record ('d, 'm) loop_calls =
  loop_New :: "string \<Rightarrow> 'd io"
  loop_Free :: "'d \<Rightarrow> unit io"
  loop_Mount :: "'d \<Rightarrow> string \<Rightarrow> 'm io"
  mount_Unmount :: "'m \<Rightarrow> unit io"
  mount_Walk :: "'m \<Rightarrow> mount_visit list"

section \<open>Copying\<close>

text \<open>\<open>os.Symlink\<close> refuses a path that exists; \<open>os.RemoveAll\<close> removes a path and everything below it.\<close>

definition os_Symlink :: "string \<Rightarrow> string \<Rightarrow> unit io" where
  "os_Symlink linkTarget p = os_call refused (\<lambda>w.
     if Fs w (path_Clean p) \<noteq> None then (Inl (errors_New ''file exists''), w) else set_node p (Some Irregular) w)"

definition os_RemoveAll :: "string \<Rightarrow> unit io" where
  "os_RemoveAll p = os_call refused (\<lambda>w.
     (Inr (), w\<lparr>Fs := (\<lambda>q. if ancestor_or_self (path_Clean p) q then None else Fs w q)\<rparr>))"

definition copyFile :: "string \<Rightarrow> string \<Rightarrow> nat \<Rightarrow> unit result \<Rightarrow> bytes \<Rightarrow> go_error option \<Rightarrow> unit io" where
  "copyFile sourcePath targetPath mode opened data readErr =
     io_bind (io_of (map_err (\<lambda>e. Errorf ''open %s: %w'' [S sourcePath, W e]) opened)) (\<lambda>_.
     io_bind (io_wrap (\<lambda>e. Errorf ''create %s parent: %w'' [S targetPath, W e]) (os_MkdirAll_max (filepath_Dir targetPath) 0x1ED)) (\<lambda>_.
     io_bind (io_wrap (\<lambda>e. Errorf ''create %s: %w'' [S targetPath, W e]) (os_OpenTrunc targetPath mode)) (\<lambda>_.
     io_bind (io_or_cleanup (io_Copy targetPath (data, readErr)) file_Close (\<lambda>e. Errorf ''copy %s: %w'' [S sourcePath, W e])) (\<lambda>_.
     io_wrap (\<lambda>e. Errorf ''close %s: %w'' [S targetPath, W e]) file_Close))))"

definition copySymlink :: "string \<Rightarrow> string \<Rightarrow> string result \<Rightarrow> unit io" where
  "copySymlink sourcePath targetPath link =
     io_bind (io_of (map_err (\<lambda>e. Errorf ''readlink %s: %w'' [S sourcePath, W e]) link)) (\<lambda>linkTarget.
     io_bind (io_wrap (\<lambda>e. Errorf ''create %s parent: %w'' [S targetPath, W e]) (os_MkdirAll_max (filepath_Dir targetPath) 0x1ED)) (\<lambda>_.
     io_wrap (\<lambda>e. Errorf ''symlink %s: %w'' [S targetPath, W e]) (os_Symlink linkTarget targetPath)))"

definition copy_visit :: "string \<Rightarrow> string \<Rightarrow> mount_visit \<Rightarrow> unit io" where
  "copy_visit source dest v =
     (case VErr v of
        Some walkErr \<Rightarrow> io_fail walkErr
      | None \<Rightarrow>
          io_bind ctx_Err (\<lambda>_.
          let rel = Join (VNames v) ''/''; sourcePath = filepath_Join [source, rel]; targetPath = filepath_Join [dest, rel] in
          if VNames v = [] then os_MkdirAll_max dest 0x1ED
          else
          io_bind (io_of (map_err (\<lambda>e. Errorf ''stat %s: %w'' [S sourcePath, W e]) (VInfo v))) (\<lambda>info.
          case info of
            MountedDir \<Rightarrow> os_MkdirAll_max targetPath 0x1ED
          | MountedFile perm opened data readErr \<Rightarrow> copyFile sourcePath targetPath perm opened data readErr
          | MountedLink link \<Rightarrow> copySymlink sourcePath targetPath link
          | MountedOther \<Rightarrow> io_return ())))"

definition copyTree :: "string \<Rightarrow> mount_visit list \<Rightarrow> string \<Rightarrow> unit io" where
  "copyTree source visits dest = io_each (copy_visit source dest) visits"

section \<open>Extraction\<close>

text \<open>\<open>defer func() { if e := cleanup(); err == nil && e != nil { err = f(e) } }()\<close>\<close>

definition io_defer :: "'a io \<Rightarrow> unit io \<Rightarrow> (go_error \<Rightarrow> go_error) \<Rightarrow> 'a io" where
  "io_defer m cleanup f = io_try m (\<lambda>r. io_try cleanup (\<lambda>c. case (r, c) of
     (Inr x, Inl e) \<Rightarrow> io_fail (f e)
   | _ \<Rightarrow> io_of r))"

definition loop_Extract :: "('d, 'm) loop_calls \<Rightarrow> string \<Rightarrow> string \<Rightarrow> unit io" where
  "loop_Extract L isoPath dest =
     (if TrimSpace isoPath = [] then io_fail (errors_New ''ISO path is required'')
      else if TrimSpace dest = [] then io_fail (errors_New ''extract destination is required'')
      else
      io_bind ctx_Err (\<lambda>_.
      io_bind (io_wrap (\<lambda>e. Errorf ''create ISO mount dir: %w'' [W e]) (os_MkdirTemp (filepath_Dir dest) ''.mfsbsd-iso-'')) (\<lambda>mountDir.
      io_defer
       (io_bind (io_wrap (\<lambda>e. Errorf ''create loop device: %w'' [W e]) (loop_New L isoPath)) (\<lambda>loopDevice.
        io_defer
         (io_bind (io_wrap (\<lambda>e. Errorf ''mount ISO: %w'' [W e]) (loop_Mount L loopDevice mountDir)) (\<lambda>mountPoint.
          io_defer
           (io_wrap (\<lambda>e. Errorf ''copy ISO contents: %w'' [W e]) (copyTree mountDir (mount_Walk L mountPoint) dest))
           (mount_Unmount L mountPoint) (\<lambda>e. Errorf ''unmount ISO: %w'' [W e])))
         (loop_Free L loopDevice) (\<lambda>e. Errorf ''free loop device: %w'' [W e])))
       (os_RemoveAll mountDir) (\<lambda>e. Errorf ''remove ISO mount dir: %w'' [W e]))))"

section \<open>Names below the destination\<close>

lemma path_elems_join_all:
  "d \<noteq> [] \<Longrightarrow> ns \<noteq> [] \<Longrightarrow> list_all plain_elem ns \<Longrightarrow> path_elems (d @ CHR ''/'' # Join ns ''/'') = path_elems d @ ns"
proof (induction ns rule: rev_induct)
  case (snoc n ns)
  show ?case
  proof (cases "ns = []")
    case True
    with snoc.prems show ?thesis by (simp add: path_elems_join)
  next
    case False
    then have "path_elems ((d @ CHR ''/'' # Join ns ''/'') @ CHR ''/'' # n) = path_elems d @ ns @ [n]"
      using snoc by (subst path_elems_join) auto
    with False show ?thesis by (simp add: Join_snoc)
  qed
qed simp

lemma filepath_Join_names:
  assumes "d \<noteq> []" and "ns \<noteq> []" and "list_all plain_elem ns"
  shows "filepath_Join [d, Join ns ''/''] = canon (prefix ''/'' d) (path_elems d @ ns)"
proof -
  have "[] \<notin> set ns" using assms(3) by (auto simp: list_all_iff)
  then have "filepath_Join [d, Join ns ''/''] = path_Clean (d @ CHR ''/'' # Join ns ''/'')"
    using assms(1,2) Join_nonempty by (simp add: filepath_Join_def)
  moreover have "prefix ''/'' (d @ CHR ''/'' # Join ns ''/'') = prefix ''/'' d" using assms(1) by (cases d) auto
  ultimately show ?thesis by (simp add: path_Clean_canon path_elems_join_all [OF assms])
qed

text \<open>A visited path is one name below a path that is itself below the destination.\<close>

lemma visited_below:
  assumes "d \<noteq> []" and "ns \<noteq> []" and "list_all plain_elem ns"
  shows "\<exists>d' n. filepath_Join [d, Join ns ''/''] = filepath_Join [d', n] \<and> beneath d d' \<and> plain_elem n"
proof -
  obtain ms n where ns: "ns = ms @ [n]" using assms(2) by (cases ns rule: rev_cases) auto
  let ?d = "canon (prefix ''/'' d) (path_elems d @ ms)"
  have below: "?d \<noteq> []" "prefix ''/'' ?d = prefix ''/'' d" "path_elems ?d = path_elems d @ ms"
    using canon_below [OF assms(1), of ms] assms(3) by (auto simp: ns)
  have n: "plain_elem n" and "list_all plain_elem ms" using assms(3) by (auto simp: ns)
  with below have "filepath_Join [?d, n] = canon (prefix ''/'' d) (path_elems d @ ns)" "beneath d ?d"
    by (simp_all only: filepath_Join_canon [OF below(1) n] ns append_assoc beneath_def) auto
  then show ?thesis using filepath_Join_names [OF assms] n by metis
qed

section \<open>The copy stays below the destination\<close>

lemma touches_os_Symlink: "touches_only (path_Clean p) (os_Symlink l p)"
  by (auto simp: touches_only_def os_Symlink_def os_call_def refused_def Let_def set_node_def split: option.splits if_splits)

lemma copies_within:
  assumes "d \<noteq> []" and "beneath d d'" and "plain_elem n"
  shows "touches_within (reach d) (copyFile s (filepath_Join [d', n]) mode opened data err)"
    and "touches_within (reach d) (copySymlink s (filepath_Join [d', n]) link)"
    and "touches_within (reach d) (os_MkdirAll_max (filepath_Join [d', n]) mode)"
proof -
  have d': "d' \<noteq> []" using assms(2) by (simp add: beneath_def)
  note here = reach_Join [OF assms]
  have up: "{q. ancestor_or_self q (path_Clean (filepath_Dir (filepath_Join [d', n])))} \<subseteq> reach d"
    using ancestor_reach [OF assms(1,2)] by (auto simp: filepath_Dir_Join [OF d' assms(3)])
  have self: "{q. ancestor_or_self q (path_Clean (filepath_Join [d', n]))} \<subseteq> reach d"
    using ancestor_reach [OF assms(1) beneath_Join [OF assms(2,3)]] by auto
  show "touches_within (reach d) (copyFile s (filepath_Join [d', n]) mode opened data err)"
    unfolding copyFile_def
    by (intro within_intros within_os_MkdirAll_max [OF up] within_touches_only [OF touches_os_OpenTrunc here]
        within_touches_only [OF touches_io_Copy here] within_fs_pure [OF fs_pure_reads(5)])
  show "touches_within (reach d) (copySymlink s (filepath_Join [d', n]) link)"
    unfolding copySymlink_def
    by (intro within_intros within_os_MkdirAll_max [OF up] within_touches_only [OF touches_os_Symlink here])
  show "touches_within (reach d) (os_MkdirAll_max (filepath_Join [d', n]) mode)"
    by (rule within_os_MkdirAll_max [OF self])
qed

lemma copy_visit_within:
  assumes "d \<noteq> []" and "list_all plain_elem (VNames v)"
  shows "touches_within (reach d) (copy_visit source d v)"
proof (cases "VNames v = []")
  case True
  have up: "{q. ancestor_or_self q (path_Clean d)} \<subseteq> reach d" by (auto simp: reach_def)
  show ?thesis
    using True unfolding copy_visit_def Let_def
    by (cases "VErr v") (auto intro!: within_intros within_os_MkdirAll_max [OF up] within_fs_pure [OF fs_pure_iso_reads(1)])
next
  case False
  then obtain d' n where t: "filepath_Join [d, Join (VNames v) ''/''] = filepath_Join [d', n]" "beneath d d'" "plain_elem n"
    using visited_below assms by blast
  note copies = copies_within [OF assms(1) t(2,3)]
  show ?thesis
    using False unfolding copy_visit_def Let_def t(1)
    by (auto intro!: within_intros copies within_fs_pure [OF fs_pure_iso_reads(1)] split: mounted_node.splits option.splits)
qed

lemma copyTree_within:
  assumes "dest \<noteq> []" and "\<forall>v \<in> set visits. list_all plain_elem (VNames v)"
  shows "touches_within (reach dest) (copyTree source visits dest)"
  unfolding copyTree_def using assms copy_visit_within by (intro within_each) blast

section \<open>What is copied\<close>

definition visit_files :: "string \<Rightarrow> mount_visit \<Rightarrow> (string \<times> bytes) list" where
  "visit_files dest v = (case VInfo v of
       Inr (MountedFile perm opened data readErr) \<Rightarrow>
         if VNames v = [] then [] else [(path_Clean (filepath_Join [dest, Join (VNames v) ''/'']), data)]
     | _ \<Rightarrow> [])"

definition tree_files :: "string \<Rightarrow> mount_visit list \<Rightarrow> (string \<times> bytes) list" where
  "tree_files dest visits = concat (map (visit_files dest) visits)"

lemma content_Symlink: "os_Symlink l p w = (Inr (), w') \<Longrightarrow> content w' = content w"
  by (auto simp: os_Symlink_def os_call_Inr set_node_def content_def fun_eq_iff split: if_splits option.splits)

lemma content_Copy:
  "io_Copy p (d, e) w = (Inr (), w') \<Longrightarrow> content w (path_Clean p) = Some old \<Longrightarrow> content w' = (content w)(path_Clean p \<mapsto> old @ d)"
  by (auto simp: io_Copy_def content_Write split: option.splits)

lemma copyFile_content:
  assumes "copyFile s p mode opened d e w = (Inr (), w')"
  shows "content w' = (content w)(path_Clean p \<mapsto> d)"
proof -
  from assms obtain w1 w2 w3 where mk: "os_MkdirAll_max (filepath_Dir p) 0x1ED w = (Inr (), w1)"
    and op: "os_OpenTrunc p mode w1 = (Inr (), w2)" and cp: "io_Copy p (d, e) w2 = (Inr (), w3)" and cl: "file_Close w3 = (Inr (), w')"
    by (auto simp: copyFile_def)
  have "content w2 = (content w)(path_Clean p \<mapsto> [])" using content_MkdirAll [OF mk] content_OpenTrunc [OF op] by simp
  with content_Copy [OF cp, of "[]"] content_fs [OF file_Close_Inr [OF cl]] show ?thesis by simp
qed

lemma copy_visit_content:
  assumes "copy_visit source dest v w = (Inr (), w')"
  shows "content w' = put_files (visit_files dest v) (content w)"
proof -
  let ?rel = "Join (VNames v) ''/''"
  from assms obtain w1 where "VErr v = None" and cx: "ctx_Err w = (Inr (), w1)"
    and rest: "(if VNames v = [] then os_MkdirAll_max dest 0x1ED
       else io_bind (io_of (map_err (\<lambda>e. Errorf ''stat %s: %w'' [S (filepath_Join [source, ?rel]), W e]) (VInfo v))) (\<lambda>info.
          case info of
            MountedDir \<Rightarrow> os_MkdirAll_max (filepath_Join [dest, ?rel]) 0x1ED
          | MountedFile perm opened data readErr \<Rightarrow> copyFile (filepath_Join [source, ?rel]) (filepath_Join [dest, ?rel]) perm opened data readErr
          | MountedLink link \<Rightarrow> copySymlink (filepath_Join [source, ?rel]) (filepath_Join [dest, ?rel]) link
          | MountedOther \<Rightarrow> io_return ())) w1 = (Inr (), w')"
    by (auto simp: copy_visit_def Let_def split: option.splits)
  have w1: "content w1 = content w" using content_fs fs_pureD [OF fs_pure_iso_reads(1) cx] by blast
  show ?thesis
  proof (cases "VNames v = []")
    case True
    with rest have "content w' = content w1" using content_MkdirAll by simp
    with w1 True show ?thesis by (simp add: visit_files_def put_files_def split: sum.splits mounted_node.splits)
  next
    case False
    with rest obtain info where info: "VInfo v = Inr info" by auto
    show ?thesis
    proof (cases info)
      case MountedDir
      with rest False info have "content w' = content w1" using content_MkdirAll by auto
      with w1 info MountedDir show ?thesis by (simp add: visit_files_def put_files_def)
    next
      case (MountedFile perm opened data readErr)
      with rest False info have "content w' = (content w1)(path_Clean (filepath_Join [dest, ?rel]) \<mapsto> data)"
        using copyFile_content by auto
      with w1 info MountedFile False show ?thesis by (simp add: visit_files_def put_files_def)
    next
      case (MountedLink link)
      with rest False info have "content w' = content w1"
        by (auto simp: copySymlink_def dest!: content_MkdirAll content_Symlink)
      with w1 info MountedLink show ?thesis by (simp add: visit_files_def put_files_def)
    next
      case MountedOther
      with rest False info w1 show ?thesis by (simp add: visit_files_def put_files_def)
    qed
  qed
qed

lemma copyTree_content:
  "copyTree source visits dest w = (Inr (), w') \<Longrightarrow> content w' = put_files (tree_files dest visits) (content w)"
  unfolding copyTree_def
proof (induction visits arbitrary: w)
  case (Cons v vs)
  then obtain w1 where "copy_visit source dest v w = (Inr (), w1)" "io_each (copy_visit source dest) vs w1 = (Inr (), w')"
    by (simp only: io_each_Inr_Cons) blast
  with Cons.IH show ?case by (simp add: tree_files_def put_files_append copy_visit_content)
qed (simp add: tree_files_def put_files_def)

section \<open>What is released\<close>

lemma io_defer_Inr [simp]:
  "io_defer m c f w = (Inr x, w') \<longleftrightarrow> (\<exists>w1. m w = (Inr x, w1) \<and> c w1 = (Inr (), w'))"
  by (auto simp: io_defer_def io_try_def io_of_def io_fail_def split: prod.splits sum.splits)

lemma io_defer_runs: "io_defer m c f w = (r, w') \<Longrightarrow> \<exists>r1 w1 c1. m w = (r1, w1) \<and> c w1 = (c1, w')"
  by (auto simp: io_defer_def io_try_def io_of_def io_fail_def split: prod.splits sum.splits)

text \<open>The kernel calls leave the files outside the mount alone, and a walk only meets plain names, as every directory listing.\<close>

definition loop_quiet :: "('d, 'm) loop_calls \<Rightarrow> bool" where
  "loop_quiet L \<longleftrightarrow> (\<forall>p. fs_pure (loop_New L p)) \<and> (\<forall>d. fs_pure (loop_Free L d)) \<and> (\<forall>d p. fs_pure (loop_Mount L d p)) \<and>
     (\<forall>m. fs_pure (mount_Unmount L m)) \<and> (\<forall>m. \<forall>v \<in> set (mount_Walk L m). list_all plain_elem (VNames v))"

definition mount_dir :: "string \<Rightarrow> nat \<Rightarrow> string" where
  "mount_dir dest k = filepath_Join [filepath_Dir dest, ''.mfsbsd-iso-'' @ itoa k]"

lemma MkdirTemp_mount_dir:
  "os_MkdirTemp (filepath_Dir dest) ''.mfsbsd-iso-'' w = (Inr p, w') \<Longrightarrow>
     (\<exists>k. p = mount_dir dest k) \<and> content w' = content w"
  by (auto simp: os_MkdirTemp_def os_call_def refused_def Let_def mount_dir_def io_bind_def set_node_def io_return_def io_fail_def
      content_def fun_eq_iff split: option.splits if_splits)

lemma within_defer [within_intros]:
  "touches_within A m \<Longrightarrow> touches_within A c \<Longrightarrow> touches_within A (io_defer m c f)"
  unfolding io_defer_def by (intro within_intros) (auto intro: within_intros split: sum.splits)

lemma within_RemoveAll: "{q. ancestor_or_self (path_Clean p) q} \<subseteq> A \<Longrightarrow> touches_within A (os_RemoveAll p)"
  by (auto simp: touches_within_def os_RemoveAll_def os_call_def refused_def Let_def split: option.splits)

lemma within_MkdirTemp:
  "(\<And>k. path_Clean (filepath_Join [dir, pre @ itoa k]) \<in> A) \<Longrightarrow> touches_within A (os_MkdirTemp dir pre)"
  by (auto simp: touches_within_def os_MkdirTemp_def os_call_def refused_def Let_def io_bind_def set_node_def
      split: option.splits if_splits)

definition loop_reach :: "string \<Rightarrow> string set" where
  "loop_reach dest = reach dest \<union> {q. \<exists>k. ancestor_or_self (path_Clean (mount_dir dest k)) q}"

text \<open>However an extraction ends, it changes nothing but the destination, its parents and the directory of the mount beside it.\<close>

theorem loop_Extract_confined:
  assumes "loop_quiet L"
  shows "touches_within (loop_reach dest) (loop_Extract L isoPath dest)"
proof (cases "dest = []")
  case True
  then show ?thesis by (auto simp: loop_Extract_def intro: within_intros)
next
  case False
  have copy: "touches_within (loop_reach dest) (copyTree source (mount_Walk L m) dest)" for source m
    using assms by (intro within_mono [OF copyTree_within [OF False]]) (auto simp: loop_quiet_def loop_reach_def)
  have tmp: "path_Clean (filepath_Join [filepath_Dir dest, ''.mfsbsd-iso-'' @ itoa k]) \<in> loop_reach dest" for k
    by (auto simp: loop_reach_def mount_dir_def ancestor_or_self_def)
  have made: "{q. ancestor_or_self (path_Clean p) q} \<subseteq> loop_reach dest"
    if "os_MkdirTemp (filepath_Dir dest) ''.mfsbsd-iso-'' w = (Inr p, w')" for p w w'
    using MkdirTemp_mount_dir [OF that] by (auto simp: loop_reach_def)
  have quiet: "touches_within A (loop_New L p)" "touches_within A (loop_Free L d)" "touches_within A (loop_Mount L d p)"
    "touches_within A (mount_Unmount L m)" for A p d m
    using assms by (auto simp: loop_quiet_def intro: within_fs_pure)
  show ?thesis
    unfolding loop_Extract_def
    by (intro within_if within_basic within_bind [OF within_fs_pure [OF fs_pure_iso_reads(1)]]
        within_bind_dep [OF within_wrap [OF within_MkdirTemp]] within_defer within_bind within_wrap quiet copy tmp
        within_RemoveAll) (auto dest: made)
qed

text \<open>A successful extraction has copied every file of the walk with its bytes, in the order of the walk, changed the content
  of no other file, and left nothing of the mount directory.\<close>

theorem loop_Extract_contents:
  assumes "loop_Extract L isoPath dest w = (Inr (), w')" and "loop_quiet L"
  shows "\<exists>k m. \<forall>q. if ancestor_or_self (path_Clean (mount_dir dest k)) q then Fs w' q = None
     else content w' q = put_files (tree_files dest (mount_Walk L m)) (content w) q"
proof -
  from assms(1) obtain w1 p w2 d w3 m w4 w5 w6 w7 where cx: "ctx_Err w = (Inr (), w1)"
    and mk: "os_MkdirTemp (filepath_Dir dest) ''.mfsbsd-iso-'' w1 = (Inr p, w2)"
    and new: "loop_New L isoPath w2 = (Inr d, w3)" and mnt: "loop_Mount L d p w3 = (Inr m, w4)"
    and cp: "copyTree p (mount_Walk L m) dest w4 = (Inr (), w5)" and um: "mount_Unmount L m w5 = (Inr (), w6)"
    and fr: "loop_Free L d w6 = (Inr (), w7)" and rm: "os_RemoveAll p w7 = (Inr (), w')"
    by (auto simp: loop_Extract_def split: if_splits)
  obtain k where k: "p = mount_dir dest k" "content w2 = content w1" using MkdirTemp_mount_dir [OF mk] by blast
  have pure: "fs_pure (loop_New L isoPath)" "fs_pure (loop_Mount L d p)" "fs_pure (mount_Unmount L m)" "fs_pure (loop_Free L d)"
    using assms(2) by (auto simp: loop_quiet_def)
  have "content w4 = content w"
    using k(2) content_fs fs_pureD [OF fs_pure_iso_reads(1) cx] fs_pureD [OF pure(1) new] fs_pureD [OF pure(2) mnt] by metis
  with copyTree_content [OF cp] have "content w5 = put_files (tree_files dest (mount_Walk L m)) (content w)" by simp
  then have w7: "content w7 = put_files (tree_files dest (mount_Walk L m)) (content w)"
    using content_fs fs_pureD [OF pure(3) um] fs_pureD [OF pure(4) fr] by metis
  have "Fs w' = (\<lambda>q. if ancestor_or_self (path_Clean p) q then None else Fs w7 q)"
    using rm by (auto simp: os_RemoveAll_def os_call_Inr)
  then show ?thesis
    using w7 k(1) by (intro exI [of _ k] exI [of _ m]) (auto simp: content_def fun_eq_iff)
qed

text \<open>C22: However an extraction ends, once the loop device exists it is freed and after it the mount directory is removed, and
  once the image is mounted it is unmounted before that.\<close>

theorem loop_Extract_releases:
  assumes "loop_Extract L isoPath dest w = (r, w')" and "ctx_Err w = (Inr (), w1)" and "TrimSpace isoPath \<noteq> []" and "TrimSpace dest \<noteq> []"
    and "os_MkdirTemp (filepath_Dir dest) ''.mfsbsd-iso-'' w1 = (Inr p, w2)" and "loop_New L isoPath w2 = (Inr d, w3)"
  shows "\<exists>v x y c1 c2. loop_Free L d v = (c1, x) \<and> os_RemoveAll p x = (c2, w') \<and>
     (\<forall>m w4. loop_Mount L d p w3 = (Inr m, w4) \<longrightarrow> (\<exists>c3. mount_Unmount L m y = (c3, v)))"
proof -
  let ?mounted = "io_bind (io_wrap (\<lambda>e. Errorf ''mount ISO: %w'' [W e]) (loop_Mount L d p)) (\<lambda>mountPoint.
          io_defer
           (io_wrap (\<lambda>e. Errorf ''copy ISO contents: %w'' [W e]) (copyTree p (mount_Walk L mountPoint) dest))
           (mount_Unmount L mountPoint) (\<lambda>e. Errorf ''unmount ISO: %w'' [W e]))"
  from assms obtain x c2 r1 where dev: "io_defer ?mounted (loop_Free L d) (\<lambda>e. Errorf ''free loop device: %w'' [W e]) w3 = (r1, x)"
    and rm: "os_RemoveAll p x = (c2, w')"
    by (auto simp: loop_Extract_def io_bind_def io_wrap_def dest!: io_defer_runs)
  from io_defer_runs [OF dev] obtain r2 v c1 where run: "?mounted w3 = (r2, v)" and fr: "loop_Free L d v = (c1, x)" by blast
  have "\<exists>y. \<forall>m w4. loop_Mount L d p w3 = (Inr m, w4) \<longrightarrow> (\<exists>c3. mount_Unmount L m y = (c3, v))"
    using run by (auto simp: io_bind_def io_wrap_def dest!: io_defer_runs split: prod.splits sum.splits)
  with fr rm show ?thesis by blast
qed

text \<open>An image that cannot be mounted: the device is freed and the directory of the mount removed.\<close>

definition unmountable :: "(nat, unit) loop_calls" where
  "unmountable = \<lparr>loop_New = (\<lambda>p. io_return 7), loop_Free = (\<lambda>d w. (Inr (), w\<lparr>Console := Console w @ [''free '' @ itoa d]\<rparr>)),
     loop_Mount = (\<lambda>d p. io_fail (errors_New ''invalid argument'')), mount_Unmount = (\<lambda>m. io_return ()), mount_Walk = (\<lambda>m. [])\<rparr>"

theorem loop_Extract_releases_witness:
  "\<exists>r w' v x c2. loop_Extract unmountable ''/i.iso'' ''/s/d'' tiny_world = (r, w') \<and>
     loop_Free unmountable 7 v = (Inr (), x) \<and> os_RemoveAll ''/s/.mfsbsd-iso-1'' x = (c2, w')"
proof -
  let ?run = "loop_Extract unmountable ''/i.iso'' ''/s/d'' tiny_world"
  have "TrimSpace ''/i.iso'' \<noteq> []" "TrimSpace ''/s/d'' \<noteq> []" by code_simp+
  moreover have cx: "ctx_Err tiny_world = (Inr (), tiny_world\<lparr>Calls := 1\<rparr>)"
    by (simp add: ctx_Err_def os_call_def tiny_world_def io_return_def)
  moreover have "fst (os_MkdirTemp (filepath_Dir ''/s/d'') ''.mfsbsd-iso-'' (tiny_world\<lparr>Calls := 1\<rparr>)) = Inr ''/s/.mfsbsd-iso-1''"
    by code_simp
  then obtain w2 where "os_MkdirTemp (filepath_Dir ''/s/d'') ''.mfsbsd-iso-'' (tiny_world\<lparr>Calls := 1\<rparr>) = (Inr ''/s/.mfsbsd-iso-1'', w2)"
    by (cases "os_MkdirTemp (filepath_Dir ''/s/d'') ''.mfsbsd-iso-'' (tiny_world\<lparr>Calls := 1\<rparr>)") simp
  moreover have "loop_New unmountable ''/i.iso'' w2 = (Inr 7, w2)" by (simp add: unmountable_def io_return_def)
  moreover have free: "loop_Free unmountable 7 v = (c, x) \<Longrightarrow> c = Inr ()" for v c x by (simp add: unmountable_def)
  ultimately show ?thesis
    using loop_Extract_releases [of unmountable "''/i.iso''" "''/s/d''" tiny_world "fst ?run" "snd ?run"]
    by (metis prod.collapse)
qed

end
