(* ===== verification/Commands.thy ===== *)
theory Commands
  imports MainCmd PolicySign
begin

text \<open>
  The \<open>main\<close> functions of the three commands (\<^verbatim>\<open>cmd/bootup/main.go\<close>, \<^verbatim>\<open>cmd/bootup-policy-sign/main.go\<close>,
  \<^verbatim>\<open>internal/catalog/generate/main.go\<close>): an operation gives the exit status of the process, after the message for a failure.

  \<open>err_text\<close> is the text of an error, \<open>source\<close> the embedded catalog source.  A failure to write the message is ignored, as
  in the code.
\<close>

section \<open>Exit status\<close>

definition os_Exit :: "(go_error \<Rightarrow> string) \<Rightarrow> string \<Rightarrow> go_error \<Rightarrow> nat io" where
  "os_Exit err_text label e = io_try (fmt_Fprint (label @ '': '' @ err_text e @ [CHR 0x0A])) (\<lambda>_. io_return 1)"

definition bootup_main :: "(go_error \<Rightarrow> string) \<Rightarrow> ('k, 'b, 's) main_env \<Rightarrow> string list \<Rightarrow> stream \<Rightarrow> stream \<Rightarrow> nat io" where
  "bootup_main err_text E args stdin stdout =
     io_try (runWithIO E args stdin stdout) (\<lambda>r. case r of Inl e \<Rightarrow> os_Exit err_text ''bootup'' e | Inr _ \<Rightarrow> io_return 0)"

definition policy_sign_main :: "(go_error \<Rightarrow> string) \<Rightarrow> signer \<Rightarrow> string list \<Rightarrow> nat io" where
  "policy_sign_main err_text E args =
     io_try (sign_main E args) (\<lambda>r. case r of Inl e \<Rightarrow> os_Exit err_text ''bootup-policy-sign'' e | Inr _ \<Rightarrow> io_return 0)"

section \<open>The catalog generator\<close>

definition GenerateDefault ::
  "(bytes \<Rightarrow> (sourceDocument \<times> bool) result) \<Rightarrow> (Document \<Rightarrow> bytes result) \<Rightarrow> bytes \<Rightarrow> bytes result" where
  "GenerateDefault json marshal source = Generate json marshal source"

definition generate_main ::
  "(go_error \<Rightarrow> string) \<Rightarrow> (bytes \<Rightarrow> (sourceDocument \<times> bool) result) \<Rightarrow> (Document \<Rightarrow> bytes result) \<Rightarrow> bytes \<Rightarrow> nat io" where
  "generate_main err_text json marshal source =
     (case GenerateDefault json marshal source of
        Inl e \<Rightarrow> os_Exit err_text ''generate default catalog'' e
      | Inr generated \<Rightarrow> io_try (os_WriteFile ''default.json'' generated 420) (\<lambda>r. case r of
          Inl e \<Rightarrow> os_Exit err_text ''write default catalog'' e
        | Inr _ \<Rightarrow> io_return 0))"

section \<open>What the exit status means\<close>

lemma os_Exit_fst [simp]: "fst (os_Exit err_text label e w) = Inr 1"
  by (simp add: os_Exit_def io_try_def io_return_def split: prod.splits)

lemma bootup_main_status:
  "fst (bootup_main err_text E args stdin stdout w) = Inr (if isl (fst (runWithIO E args stdin stdout w)) then 1 else 0)"
  by (cases "runWithIO E args stdin stdout w"; cases "fst (runWithIO E args stdin stdout w)")
     (auto simp: bootup_main_def io_try_def io_return_def)

lemma generate_main_status:
  assumes "generate_main err_text json marshal source w = (Inr n, w')"
  shows "n = 1 \<or> n = 0 \<and> (\<exists>out. Generate json marshal source = Inr out \<and> os_WriteFile ''default.json'' out 420 w = (Inr (), w'))"
proof (cases "Generate json marshal source")
  case (Inl e)
  then have "fst (generate_main err_text json marshal source w) = Inr 1" by (simp add: generate_main_def GenerateDefault_def)
  with assms show ?thesis by simp
next
  case (Inr out)
  obtain r u where wr: "os_WriteFile ''default.json'' out 420 w = (r, u)" by fastforce
  show ?thesis
  proof (cases r)
    case (Inl e)
    with Inr wr have "fst (generate_main err_text json marshal source w) = Inr 1"
      by (simp add: generate_main_def GenerateDefault_def io_try_def)
    with assms show ?thesis by simp
  next
    case r: (Inr x)
    with Inr wr assms show ?thesis by (simp add: generate_main_def GenerateDefault_def io_try_def io_return_def)
  qed
qed



end
