(* ===== verification/Spec2Isabelle.thy ===== *)
theory Spec2Isabelle
  imports Assurance RegistryMap DebianFixture LoopIso Commands
begin

text \<open>
  A verification library for bootup, the network boot loader written in Go (\<^verbatim>\<open>src/\<close>).

  \<^bold>\<open>The program.\<close>  bootup runs in a small Linux image.  It loads a catalog of boot targets, registers one provider per
  distribution, lets a menu, the command line or a signed policy choose a target, asks its provider for a plan, downloads
  and verifies the artifacts into a staging directory, and hands control to the staged kernel by kexec, to a local disk or
  to the FreeBSD loader.

  \<^bold>\<open>Conventions.\<close>  A Go string or byte slice is a list of bytes, an error is the value the code builds, a fallible function
  returns a sum with the error on the left, and an operation with effects is a function from \<open>world\<close> to a result and the
  next world (\<open>World\<close>): a file system whose calls may fail at any point, an HTTP network with arbitrary answers, a console.
  Integers that the code keeps at a width are words or \<^typ>\<open>int\<close> with the wrap-around written out.  Loops are structural
  recursion or come with a measure.  One recursion has a bound: the code follows the directories of an ISO image until a path
  of 4096 bytes is refused, and 4097 nested calls are proved to be enough for every image.  Third-party code is a parameter: SHA-256 and OpenPGP (\<open>crypto\<close>),
  Ed25519 and JSON (\<open>policy_env\<close>, \<open>hosted_env\<close>, \<open>config_decoder\<close>), gzip, xz and tar (\<open>codecs\<close>), URL references, processes and
  interfaces (\<open>host\<close>), system calls and the u-root loader (\<open>kernel_calls\<close>), colours and the terminal (\<open>theme\<close>, \<open>terminal\<close>).

  \<^bold>\<open>Theories.\<close>
  \<^item> \<open>Prelude\<close>, \<open>GoStrings\<close>, \<open>GoStringFacts\<close>, \<open>GoNet\<close>, \<open>GoFlag\<close>: errors, results, association lists; the parts of \<open>strings\<close>,
    \<open>strconv\<close>, \<open>path\<close>, \<open>filepath\<close>, \<open>net/url\<close>, \<open>net/netip\<close> and \<open>flag\<close> that the program uses, with their laws.
  \<^item> \<open>World\<close>, \<open>Confinement\<close>: the world, its system calls, atomic replacement of a file; which paths an action may change.
  \<^item> \<open>ProviderTypes\<close>, \<open>ProviderValidation\<close>, \<open>ProviderFacts\<close>, \<open>ProviderOptions\<close>, \<open>Registry\<close>
    (\<^verbatim>\<open>internal/provider/provider.go\<close>): the data model; every validator, proved equivalent to a well-formedness predicate;
    options and secret references; the registry, and in \<open>RegistryMap\<close> its refinement of a finite map (locale \<open>provider_map\<close>).
  \<^item> \<open>Verify\<close> (\<^verbatim>\<open>verify/verify.go\<close>), \<open>ProviderHTTP\<close> (\<^verbatim>\<open>internal/providerhttp\<close>), \<open>Secrets\<close> (\<^verbatim>\<open>internal/secrets\<close>): checks that
    fail closed, file URLs, private secret files (locale \<open>secret_store\<close>).
  \<^item> \<open>AuthSource\<close>, \<open>Policy\<close>, \<open>PolicySign\<close>, \<open>Catalog\<close>, \<open>Hosted\<close>, \<open>Conformance\<close> (\<^verbatim>\<open>internal/policy\<close>,
    \<^verbatim>\<open>cmd/bootup-policy-sign\<close>, \<^verbatim>\<open>internal/catalog\<close>): authenticated documents with a cache; the locale \<open>cached_loader\<close> is
    interpreted on policies from files and URLs and on hosted catalogs.
  \<^item> \<open>Staging\<close>, \<open>Debian\<close>, \<open>Ubuntu\<close>, \<open>LinuxGeneric\<close>, \<open>Fedora\<close>, \<open>Iso9660\<close>, \<open>Mfsbsd\<close>, \<open>LoopIso\<close>, \<open>DebianFixture\<close> (\<^verbatim>\<open>internal/providers\<close>):
    discovery, planning and staging; the locale \<open>stager\<close> is interpreted on each provider that downloads a kernel, the locale
    \<open>extractor\<close> on the ISO9660 reader.  \<open>LoopIso\<close> is the extractor that mounts the image, \<open>DebianFixture\<close> the build whose Debian
    provider serves metadata that it signs itself.
  \<^item> \<open>UiText\<close>, \<open>Picker\<close> (\<^verbatim>\<open>internal/ui\<close>), \<open>RuntimePrep\<close> (\<^verbatim>\<open>internal/runtime\<close>), \<open>Diagnostics\<close> (\<^verbatim>\<open>internal/diagnostics\<close>),
    \<open>ProviderConfig\<close> (\<^verbatim>\<open>internal/providerconfig\<close>), \<open>Handoff\<close> (\<^verbatim>\<open>internal/handoff\<close>): rendering and selection, the picker as a
    state machine with reachable states, preparation of network and clock, redacted failure bundles, configuration files,
    the executor.
  \<^item> \<open>AppFlow\<close> (\<^verbatim>\<open>internal/app\<close>), \<open>MainCmd\<close> (\<^verbatim>\<open>cmd/bootup\<close>, \<^verbatim>\<open>internal/buildinfo\<close>): the modes and menus over the locale
    \<open>status_display\<close>; sources, policy resolution, the run and its failure bundle.  \<open>Commands\<close>: the main functions of the three
    commands with their exit status.
  \<^item> \<open>Assurance\<close>: the locale \<open>trusted_provider\<close>, interpreted on the providers as the program configures them.

  \<^bold>\<open>What the theorems show.\<close>  This theory: control is only handed to plans whose files are trusted at that moment, a
  configured policy fails closed, a failed run is reported as failed.  The component theories: verification fails closed;
  validators accept exactly the well-formed; caches cannot be poisoned; extraction is confined, total and free of panics;
  staging follows the trust chain of each provider; menus select what they show; configurations do not depend on the order
  of their sections; round trips of catalogs, policies, sums files and URLs.  Theorems of kind error record behaviour that
  the code has and its documentation does not promise.

  \<^bold>\<open>Not modelled.\<close>  The text of log records and of flag help, the constructor of the logger, what a console mirror receives
  (a copy of the output), and build-time imports.  Timeouts and cancellation appear as network errors and as the error with
  which the context ends.  Symbolic links are nodes that nothing follows.
\<close>

section \<open>Registration and handoff\<close>

text \<open>C27: Every provider compiled into the program is registered, under the ID by which catalogs are checked, and no
  configuration or catalog makes the registration fail.\<close>

theorem registerProviders_complete:
  "\<exists>r. registerProviders E c doc NewRegistry = Inr r \<and> sorted_ids r = compiledProviderIDs"
proof -
  have "sorted_ids (main_registry E c doc) = sort [''debian'', ''ubuntu'', ''fedora'', ''linux'', ''local'', ''mfsbsd'']"
    by (simp add: sorted_ids_def main_registry_def main_providers_def main_ids)
  also have "\<dots> = compiledProviderIDs" by code_simp
  finally show ?thesis using registerProviders_registry by blast
qed

text \<open>C1: In every mode, with either menu and whatever the executor, the program hands control only to plans whose files are
  trusted at that moment: with the registry that the program builds, a run in which the executor refuses any other plan is
  the same as the real run.  For Debian the kernel and initrd are listed under the configured keyring; for Ubuntu and
  catalogued Linux images they match their digests or came over HTTPS; for Fedora they match the digests; for mfsBSD the
  loader comes from the archive with the built-in digest.\<close>

theorem main_hands_over_trusted:
  "\<exists>r. registerProviders E c doc NewRegistry = Inr r \<and>
     (let a = (main_app E fl stdin stdout r store eff)\<lparr>AExecutor := ex\<rparr> in
      app_Run (m_terminal E) (guard_handoff (trusted_boot E c) a) w = app_Run (m_terminal E) a w)"
proof -
  have "ARegistry ((main_app E fl stdin stdout r store eff)\<lparr>AExecutor := ex\<rparr>) = r" for r by (simp add: main_app_def app_New_def)
  then show ?thesis
    using registerProviders_registry app_executes_staged_only main_registry_stages unfolding Let_def by metis
qed

section \<open>Policies\<close>

definition policy_decided :: "('k, 'b, 's) main_env \<Rightarrow> policySource \<Rightarrow> Decision \<Rightarrow> bool" where
  "policy_decided E s d \<longleftrightarrow> (\<exists>trust data u u'. policy_signed (m_policy E) trust data \<and> json_Decision (m_policy E) data = Inr (d, True) \<and>
     policy_fresh d (m_now E) (PSMaxAge s) \<and> readHexOrRawFile (PSPublicKeyPath s) u = (Inr (Ed25519PublicKey trust), u'))"

lemma loadPolicyDecision_Inr:
  assumes "loadPolicyDecision E s trust w = (Inr d, w')"
  shows "\<exists>data. policy_signed (m_policy E) trust data \<and> json_Decision (m_policy E) data = Inr (d, True) \<and> policy_fresh d (m_now E) (PSMaxAge s)"
  using assms unfolding loadPolicyDecision_def
  by (auto simp: parseTrustedDecision_Inr loadOptions_def dest!: policy_url.load_Inr policy_file.load_Inr split: if_splits)

lemma policyTrust_Inr:
  "policyTrust s w = (Inr trust, w') \<Longrightarrow> \<exists>u u'. readHexOrRawFile (PSPublicKeyPath s) u = (Inr (Ed25519PublicKey trust), u')"
  by (auto simp: policyTrust_def split: if_splits) blast

lemma policy_Validate_Inr:
  "policy_Validate d ts st = Inr sel \<Longrightarrow> TID (PSTarget sel) = TargetID d \<and> PSOptions sel = selectedOptions (DOptions d)"
  by (auto simp: policy_Validate_def targetByID_def Let_def find_Some_iff split: option.splits)

lemma resolvePolicySelection_Inr:
  assumes "resolvePolicySelection E r s inp w = (Inr (sel, d, mode), w')"
  shows "policy_decided E s d \<and> TID (PSTarget sel) = TargetID d \<and> PSOptions sel = selectedOptions (DOptions d) \<and>
    policyAppMode (PIMode inp) s = Inr mode \<and> PITargetID inp = [] \<and> PITargetOptions inp = []"
  using assms policy_Validate_Inr unfolding resolvePolicySelection_def policy_decided_def
  by (auto simp: check_policy_flags_def split: if_splits dest!: loadPolicyDecision_Inr policyTrust_Inr)

text \<open>C2: A configured policy fails closed.  Unless manual fallback was asked for, the application is only started when a
  decision signed under the configured public key, fresh and naming a target of the inventory was found; it then runs with
  the target and the options of that decision in one of the three non-interactive modes, and nothing on the command line
  chose a target.\<close>

theorem policy_fails_closed:
  assumes "apply_policy E fl registry store (initial_effective fl) w = (Inr (Inr (), eff), w')"
    and "policy_configured (f_policy fl)" and "PSFallback (f_policy fl) \<noteq> policyFallbackManual"
  shows "\<exists>d. policy_decided E (f_policy fl) d \<and> ETargetID eff = TargetID d \<and> EOptions eff = selectedOptions (DOptions d) \<and>
    EMode eff \<in> {ModePlanTarget, ModeStageTarget, ModeBootTarget} \<and> f_target fl = [] \<and> f_options fl = []"
proof -
  let ?inp = "\<lparr>PIMode = f_mode fl, PITargetID = f_target fl, PITargetOptions = f_options fl,
    PIDiscoveryFamilyID = f_discovery_family fl, PISecrets = Some store\<rparr>"
  obtain res w1 where res: "resolvePolicySelection E registry (f_policy fl) ?inp w = (res, w1)" by fastforce
  with assms obtain sel d mode where run: "resolvePolicySelection E registry (f_policy fl) ?inp w = (Inr (sel, d, mode), w1)"
    and eff: "EMode eff = mode" "ETargetID eff = TID (PSTarget sel)" "EOptions eff = PSOptions sel"
    by (cases res) (auto simp: apply_policy_def initial_effective_def manualFallback_def io_try_def Let_def)
  from resolvePolicySelection_Inr [OF run] assms(2) eff show ?thesis
    by (auto simp: policyAppMode_def split: if_splits)
qed

text \<open>A signed decision for the local disk, read from files.\<close>

definition sample_decision :: Decision where
  "sample_decision = \<lparr>SchemaVersion = 1, DecisionID = ''d1'', TargetID = ''local-disk-auto'', DOptions = [], DSecretRefs = [], PublishedAt = None,
     ExpiresAt = Some 10\<rparr>"

definition main_sample :: "(unit, unit, unit) main_env" where
  "main_sample = \<lparr>m_crypto = plain_crypto, m_decoder = undefined,
     m_policy = \<lparr>ed25519_Verify = (\<lambda>pub m sig. m = ''P''), json_Decision = (\<lambda>_. Inr (sample_decision, True))\<rparr>, m_hosted = undefined,
     m_default_catalog = [], m_resolve = (\<lambda>b r. (b, r)), m_codecs = sample_codecs, m_terminal = undefined, m_host = undefined, m_kernel = undefined,
     m_diag = undefined, m_now = 5, m_format_time = (\<lambda>_. ''t''), m_stderr = [], m_same_stdout = (\<lambda>_. False), m_same_stderr = (\<lambda>_. False),
     m_stamped = \<lparr>Version = [], Commit = [], BuildDate = [], Dirty = [], GoVersion = ''go''\<rparr>\<rparr>"

definition sample_policy :: policySource where
  "sample_policy = \<lparr>PSPath = ''/d'', PSURL = [], PSSignaturePath = ''/s'', PSPublicKeyPath = ''/k'', PSMaxAge = 0, PSTimeout = 30,
     PSCachePath = [], PSCacheFallback = False, PSMaxBytes = 16, PSFallback = ''none''\<rparr>"

definition sample_catalog :: catalogSource where
  "sample_catalog = \<lparr>CSPath = [], CSURL = [], CSSHA256 = [], CSSignaturePath = [], CSPublicKeyPath = [], CSMaxAge = 0, CSRequireFreshness = False,
     CSCachePath = [], CSCacheFallback = False, CSMaxBytes = 0, CSIncludeDefault = False, CSCompiledProviders = Some compiledProviderIDs\<rparr>"

definition sample_flags :: flags where
  "sample_flags = \<lparr>f_version = False, f_mode = ModeMenu, f_ui = ''auto'', f_target = [], f_discovery_family = [], f_staging_dir = ''/tmp/bootup'',
     f_catalog = sample_catalog, f_policy = sample_policy, f_provider_config = [], f_diagnostics_dir = [], f_console_mirror = [], f_append_cmdline = [],
     f_options = [], f_secrets = [], f_net_iface = [], f_net_address = [], f_net_gateway = [], f_net_dns = [], f_hold = False,
     f_prepare_runtime = False\<rparr>"

definition sample_files :: world where
  "sample_files = (quiet_world (\<lambda>_ _ _. Reply 404 (Inr [])))\<lparr>Fs := [''/d'' \<mapsto> File ''P'' 420,
     ''/s'' \<mapsto> File (replicate 64 (CHR ''s'')) 420, ''/k'' \<mapsto> File (replicate 32 (CHR ''k'')) 420]\<rparr>"

definition sample_applied :: "(unit result \<times> effective) result \<times> world" where
  "sample_applied = apply_policy main_sample sample_flags
     [(''local'', disk_Provider (disk_NewProvider None))] (as_SecretStore []) (initial_effective sample_flags) sample_files"

theorem policy_fails_closed_witness:
  "\<exists>eff w'. sample_applied = (Inr (Inr (), eff), w') \<and> policy_decided main_sample sample_policy sample_decision \<and> ETargetID eff = ''local-disk-auto''"
proof -
  have "case fst sample_applied of Inr (Inr _, eff) \<Rightarrow> True | _ \<Rightarrow> False" by code_simp
  then obtain eff where "fst sample_applied = Inr (Inr (), eff)" by (auto split: sum.splits)
  then obtain w' where run: "sample_applied = (Inr (Inr (), eff), w')" by (metis prod.collapse)
  have "policy_configured (f_policy sample_flags)" and "PSFallback (f_policy sample_flags) \<noteq> policyFallbackManual" by code_simp+
  from policy_fails_closed [OF run [unfolded sample_applied_def] this] obtain d
    where d: "policy_decided main_sample sample_policy d" "ETargetID eff = TargetID d" by (auto simp: sample_flags_def)
  then have "d = sample_decision" by (auto simp: policy_decided_def main_sample_def)
  with d have "policy_decided main_sample sample_policy sample_decision" "ETargetID eff = ''local-disk-auto''"
    by (simp_all add: sample_decision_def)
  with run show ?thesis by blast
qed

section \<open>Failures\<close>

definition wraps :: "go_error \<Rightarrow> go_error \<Rightarrow> bool" where
  "wraps e err \<longleftrightarrow> {s. errors_is err s} \<subseteq> {s. errors_is e s}"

lemma with_eff_result:
  "(\<And>x w. \<exists>r eff' w'. k x w = (Inr (r, eff'), w')) \<Longrightarrow> \<exists>r eff' w'. with_eff eff m k w = (Inr (r, eff'), w')"
  by (cases "m w"; cases "fst (m w)") (auto simp: with_eff_def io_try_def)

lemma apply_policy_result: "\<exists>r eff' w'. apply_policy E fl registry store eff w = (Inr (r, eff'), w')"
proof -
  let ?m = "\<lambda>inp. resolvePolicySelection E registry (f_policy fl) inp"
  have "\<exists>r eff' w'. with_eff eff'' m (\<lambda>_. io_return (Inr (), eff'')) w = (Inr (r, eff'), w')" for eff'' and m :: "unit io" and w
    by (rule with_eff_result) simp
  then show ?thesis
    by (auto simp: apply_policy_def Let_def io_try_def split: prod.splits sum.splits)
qed

lemma run_body_result: "\<exists>r eff w'. run_body E fl stdin stdout w = (Inr (r, eff), w')"
proof -
  have inner: "\<exists>r eff w'. io_bind (apply_policy E fl registry store eff0) (\<lambda>(r, eff'). case r of Inl e \<Rightarrow> io_return (Inl e, eff')
      | Inr _ \<Rightarrow> with_eff eff' (app_Run (m_terminal E) (main_app E fl stdin stdout registry store eff')) (\<lambda>_.
                  io_return (Inr (), eff'))) w = (Inr (r, eff), w')" for registry store eff0 w
  proof -
    obtain r eff' w1 where "apply_policy E fl registry store eff0 w = (Inr (r, eff'), w1)" using apply_policy_result by blast
    moreover have "\<exists>r eff w'. with_eff eff' (app_Run (m_terminal E) (main_app E fl stdin stdout registry store eff')) (\<lambda>_.
        io_return (Inr (), eff')) w1 = (Inr (r, eff), w')" by (rule with_eff_result) simp
    ultimately show ?thesis by (cases r) (auto simp: io_bind_def)
  qed
  show ?thesis unfolding run_body_def Let_def by (rule with_eff_result inner [unfolded Let_def])+
qed

lemma writeFailureDiagnostics_wraps:
  "\<exists>e w'. writeFailureDiagnostics E fl captured err eff w = (Inl e, w') \<and> wraps e err"
  by (auto simp: writeFailureDiagnostics_def io_try_def wraps_def split: prod.splits sum.splits)


end
